(* ===== verification/Prelude.thy ===== *)
theory Prelude
  imports Main "HOL-Library.AList" "HOL-Library.Word"
begin

text \<open>
  The part of Go and of its standard library that the back end uses: 64-bit and 32-bit signed integers (held as
  \<open>int\<close>, with the wrap-around written out where the code computes), byte strings
  (\<open>string\<close>, one \<open>char\<close> per byte), \<open>strings.ToLower\<close> on ASCII,
  \<open>strings.Contains\<close>, \<open>strings.Split\<close>, \<open>strconv.Atoi\<close>,
  \<open>strconv.Itoa\<close>, \<open>big.Int.SetString\<close>, and run-time panics as values. Bytes above 127
  are outside the model of \<open>ToLower\<close>: the addresses, invite codes and contract addresses it is used
  on are ASCII.

  The list functions at the end (\<open>update_first\<close>, \<open>first_index\<close>) are shared by the
  components; their lemmas are the library's automation for them.
\<close>

named_theorems go_simps \<open>evaluation of the Go primitives on concrete values\<close>

section \<open>Integers\<close>

definition wrap64 :: "int \<Rightarrow> int" where
  "wrap64 x = (x + 2 ^ 63) mod 2 ^ 64 - 2 ^ 63"

definition wrap32 :: "int \<Rightarrow> int" where
  "wrap32 x = (x + 2 ^ 31) mod 2 ^ 32 - 2 ^ 31"

definition int64_range :: "int \<Rightarrow> bool" where
  "int64_range x \<longleftrightarrow> - (2 ^ 63) \<le> x \<and> x < 2 ^ 63"

definition int32_range :: "int \<Rightarrow> bool" where
  "int32_range x \<longleftrightarrow> - (2 ^ 31) \<le> x \<and> x < 2 ^ 31"

text \<open>Go's \<open>/\<close> truncates towards zero; a zero divisor panics and is checked by the caller.\<close>

definition go_quot :: "int \<Rightarrow> int \<Rightarrow> int" where
  "go_quot a b = sgn a * sgn b * (\<bar>a\<bar> div \<bar>b\<bar>)"

lemma wrap64_id [simp]: "int64_range x \<Longrightarrow> wrap64 x = x"
  by (simp add: wrap64_def int64_range_def)

lemma wrap64_range: "int64_range (wrap64 x)"
  by (simp add: wrap64_def int64_range_def)

lemma wrap32_id [simp]: "int32_range x \<Longrightarrow> wrap32 x = x"
  by (simp add: wrap32_def int32_range_def)

lemma wrap32_range: "int32_range (wrap32 x)"
  by (simp add: wrap32_def int32_range_def)

lemma go_quot_nonneg: "0 \<le> a \<Longrightarrow> 0 < b \<Longrightarrow> go_quot a b = a div b"
  by (cases "a = 0") (simp_all add: go_quot_def)

lemma wrap64_add_left [simp]: "wrap64 (wrap64 x + y) = wrap64 (x + y)"
proof -
  have "((x + 2 ^ 63) mod 2 ^ 64 - 2 ^ 63 + y + 2 ^ 63) mod 2 ^ 64 = (x + y + 2 ^ 63) mod (2 ^ 64 :: int)"
    by (simp add: mod_simps algebra_simps)
  then show ?thesis by (simp add: wrap64_def)
qed

lemma wrap64_add_right [simp]: "wrap64 (x + wrap64 y) = wrap64 (x + y)"
  using wrap64_add_left [of y x] by (simp add: add.commute)

text \<open>A sum accumulated in a 64-bit variable is the sum, wrapped once.\<close>

lemma fold_wrap64: "fold (\<lambda>x total. wrap64 (total + f x)) xs (wrap64 t) = wrap64 (t + sum_list (map f xs))"
  by (induction xs arbitrary: t) (simp_all add: add.assoc)

section \<open>Panics\<close>

text \<open>
  A run-time panic of Go, an exit of the process or a panic of the logger with its text, is a value of the sum
  type \<open>panic + 'a\<close>.
\<close>

datatype panic = IndexOutOfRange | NilDereference | TypeAssertion | DivideByZero | Exit int | Panicf string

definition index :: "'a list \<Rightarrow> int \<Rightarrow> panic + 'a" where
  "index xs i = (if 0 \<le> i \<and> i < int (length xs) then Inr (xs ! nat i) else Inl IndexOutOfRange)"

definition bind_p :: "('e + 'a) \<Rightarrow> ('a \<Rightarrow> 'e + 'b) \<Rightarrow> 'e + 'b" where
  "bind_p m f = (case m of Inl p \<Rightarrow> Inl p | Inr x \<Rightarrow> f x)"

lemma bind_p_simps [simp]: "bind_p (Inl p) f = Inl p" "bind_p (Inr x) f = f x"
  by (simp_all add: bind_p_def)

lemma bind_p_Inr: "bind_p m f = Inr y \<longleftrightarrow> (\<exists>x. m = Inr x \<and> f x = Inr y)"
  by (cases m) auto

lemma index_in [simp]: "0 \<le> i \<Longrightarrow> i < int (length xs) \<Longrightarrow> index xs i = Inr (xs ! nat i)"
  by (simp add: index_def)

lemma index_Inr: "index xs i = Inr x \<longleftrightarrow> 0 \<le> i \<and> i < int (length xs) \<and> x = xs ! nat i"
  by (auto simp: index_def)

section \<open>Strings\<close>

definition lower_char :: "char \<Rightarrow> char" where
  "lower_char c = (let n = (of_char c :: nat) in if 65 \<le> n \<and> n \<le> 90 then char_of (n + 32) else c)"

definition ToLower :: "string \<Rightarrow> string" where
  "ToLower s = map lower_char s"

lemma lower_char_idem [simp]: "lower_char (lower_char c) = lower_char c"
  by (auto simp: lower_char_def Let_def)

lemma ToLower_idem [simp]: "ToLower (ToLower s) = ToLower s"
  by (simp add: ToLower_def)

lemma length_ToLower [simp]: "length (ToLower s) = length s"
  by (simp add: ToLower_def)

lemma ToLower_append: "ToLower (s @ t) = ToLower s @ ToLower t"
  by (simp add: ToLower_def)

fun has_prefix :: "string \<Rightarrow> string \<Rightarrow> bool" where
  "has_prefix [] s = True"
| "has_prefix (c # cs) [] = False"
| "has_prefix (c # cs) (d # ds) = (c = d \<and> has_prefix cs ds)"

text \<open>\<open>Contains s sub\<close>: the first argument is searched for the second, as in Go.\<close>

fun Contains :: "string \<Rightarrow> string \<Rightarrow> bool" where
  "Contains [] sub = (sub = [])"
| "Contains (c # cs) sub = (has_prefix sub (c # cs) \<or> Contains cs sub)"

fun Split :: "char \<Rightarrow> string \<Rightarrow> string list" where
  "Split c [] = [[]]"
| "Split c (x # xs) =
     (if x = c then [] # Split c xs
      else (case Split c xs of [] \<Rightarrow> [[x]] | y # ys \<Rightarrow> (x # y) # ys))"

definition SplitN2 :: "char \<Rightarrow> string \<Rightarrow> string list" where
  "SplitN2 c s = (if c \<in> set s then [takeWhile (\<lambda>x. x \<noteq> c) s, tl (dropWhile (\<lambda>x. x \<noteq> c) s)] else [s])"

lemma has_prefix_iff: "has_prefix p s \<longleftrightarrow> (\<exists>t. s = p @ t)"
  by (induction p s rule: has_prefix.induct) auto

lemma Contains_iff: "Contains s sub \<longleftrightarrow> (\<exists>a b. s = a @ sub @ b)"
proof (induction s)
  case Nil
  then show ?case by auto
next
  case (Cons c cs)
  show ?case
  proof
    assume "Contains (c # cs) sub"
    then consider "\<exists>t. c # cs = sub @ t" | "\<exists>a b. cs = a @ sub @ b"
      using Cons.IH by (auto simp: has_prefix_iff)
    then show "\<exists>a b. c # cs = a @ sub @ b"
    proof cases
      case 1
      then show ?thesis by (metis append_Nil)
    next
      case 2
      then show ?thesis by (metis append_Cons)
    qed
  next
    assume "\<exists>a b. c # cs = a @ sub @ b"
    then show "Contains (c # cs) sub"
      using Cons.IH by (auto simp: has_prefix_iff Cons_eq_append_conv)
  qed
qed

lemma Contains_length: "Contains s sub \<Longrightarrow> length sub \<le> length s"
  by (auto simp: Contains_iff)

lemma Split_nonempty [simp]: "Split c s \<noteq> []"
  by (induction s) (auto split: list.splits)

lemma Split_none: "c \<notin> set s \<Longrightarrow> Split c s = [s]"
  by (induction s) auto

lemma Split_append: "c \<notin> set s \<Longrightarrow> Split c (s @ c # t) = s # Split c t"
  by (induction s) auto

lemma SplitN2_append [simp]: "c \<notin> set s \<Longrightarrow> SplitN2 c (s @ c # t) = [s, t]"
proof -
  assume "c \<notin> set s"
  then have "\<forall>x \<in> set s. x \<noteq> c" by auto
  then show ?thesis by (simp add: SplitN2_def)
qed


section \<open>Numbers and strings\<close>

definition digit_of :: "char \<Rightarrow> nat option" where
  "digit_of c =
     (let n = (of_char c :: nat) in
      if 48 \<le> n \<and> n \<le> 57 then Some (n - 48)
      else if 97 \<le> n \<and> n \<le> 122 then Some (n - 87)
      else if 65 \<le> n \<and> n \<le> 90 then Some (n - 55)
      else None)"

fun scan_nat :: "nat \<Rightarrow> nat \<Rightarrow> string \<Rightarrow> nat option" where
  "scan_nat b acc [] = Some acc"
| "scan_nat b acc (c # cs) =
     (case digit_of c of
        None \<Rightarrow> None
      | Some d \<Rightarrow> if d < b then scan_nat b (acc * b + d) cs else None)"

definition scan_unsigned :: "nat \<Rightarrow> string \<Rightarrow> nat option" where
  "scan_unsigned b s = (if s = [] then None else scan_nat b 0 s)"

text \<open>
  \<open>new(big.Int).SetString(s, b)\<close> for \<open>b > 0\<close>: an optional sign, then digits only;
  \<open>None\<close> is the nil result.
\<close>

definition SetString :: "nat \<Rightarrow> string \<Rightarrow> int option" where
  "SetString b s =
     (case s of
        [] \<Rightarrow> None
      | c # cs \<Rightarrow>
          if c = CHR ''-'' then map_option (\<lambda>n. - int n) (scan_unsigned b cs)
          else if c = CHR ''+'' then map_option int (scan_unsigned b cs)
          else map_option int (scan_unsigned b s))"

text \<open>\<open>big.Int.Int64\<close>: the low 64 bits.\<close>

definition Int64 :: "int \<Rightarrow> int" where
  "Int64 x = wrap64 x"

definition digit_char :: "nat \<Rightarrow> char" where
  "digit_char d = (if d < 10 then char_of (48 + d) else char_of (87 + d))"

fun dec_digits :: "nat \<Rightarrow> string" where
  "dec_digits n = (if n < 10 then [digit_char n] else dec_digits (n div 10) @ [digit_char (n mod 10)])"

declare dec_digits.simps [simp del]

text \<open>\<open>strconv.Itoa\<close>, and \<open>big.Int.String\<close>.\<close>

definition Itoa :: "int \<Rightarrow> string" where
  "Itoa x = (if x < 0 then CHR ''-'' # dec_digits (nat (- x)) else dec_digits (nat x))"

fun hex_digits :: "nat \<Rightarrow> nat \<Rightarrow> string" where
  "hex_digits 0 v = []"
| "hex_digits (Suc k) v = hex_digits k (v div 16) @ [digit_char (v mod 16)]"

datatype num_error = ErrSyntax | ErrRange

text \<open>The scanning loop of \<open>strconv.ParseUint(s, 10, 64)\<close>: overflow is reported where it happens.\<close>

fun scan_u64 :: "nat \<Rightarrow> string \<Rightarrow> num_error + nat" where
  "scan_u64 acc [] = Inr acc"
| "scan_u64 acc (c # cs) =
     (case digit_of c of
        None \<Rightarrow> Inl ErrSyntax
      | Some d \<Rightarrow>
          if 10 \<le> d then Inl ErrSyntax
          else if 2 ^ 64 \<le> acc * 10 + d then Inl ErrRange
          else scan_u64 (acc * 10 + d) cs)"

text \<open>
  \<open>strconv.Atoi\<close> on a 64-bit platform: the value returned beside the error is 0 for a syntax
  error and the nearest representable integer for a range error, and callers do use it.
\<close>

definition Atoi :: "string \<Rightarrow> int \<times> num_error option" where
  "Atoi s =
     (let neg = (case s of c # _ \<Rightarrow> c = CHR ''-'' | [] \<Rightarrow> False);
          ds = (case s of c # cs \<Rightarrow> if c = CHR ''-'' \<or> c = CHR ''+'' then cs else s | [] \<Rightarrow> [])
      in if ds = [] then (0, Some ErrSyntax)
         else case scan_u64 0 ds of
                Inl ErrSyntax \<Rightarrow> (0, Some ErrSyntax)
              | Inl ErrRange \<Rightarrow> (if neg then - (2 ^ 63) else 2 ^ 63 - 1, Some ErrRange)
              | Inr n \<Rightarrow>
                  if \<not> neg \<and> 2 ^ 63 \<le> n then (2 ^ 63 - 1, Some ErrRange)
                  else if neg \<and> 2 ^ 63 < n then (- (2 ^ 63), Some ErrRange)
                  else (if neg then - int n else int n, None))"

lemma digit_of_digit_char [simp]: "d < 36 \<Longrightarrow> digit_of (digit_char d) = Some d"
  by (auto simp: digit_of_def digit_char_def Let_def of_char_of)

lemma scan_nat_append:
  "scan_nat b acc (xs @ ys) = Option.bind (scan_nat b acc xs) (\<lambda>a. scan_nat b a ys)"
  by (induction xs arbitrary: acc) (auto split: option.split)

lemma scan_nat_hex: "v < 16 ^ k \<Longrightarrow> scan_nat 16 acc (hex_digits k v) = Some (acc * 16 ^ k + v)"
proof (induction k arbitrary: v)
  case 0
  then show ?case by simp
next
  case (Suc k)
  then have "v div 16 < 16 ^ k" by (simp add: less_mult_imp_div_less mult.commute)
  with Suc.IH show ?case
    by (simp add: scan_nat_append algebra_simps)
qed

lemma length_hex_digits [simp]: "length (hex_digits k v) = k"
  by (induction k arbitrary: v) auto

lemma dec_digits_nonempty [simp]: "dec_digits n \<noteq> []"
  by (subst dec_digits.simps) simp

lemma scan_nat_dec: "scan_nat 10 0 (dec_digits n) = Some n"
proof (induction n rule: dec_digits.induct)
  case (1 n)
  show ?case
  proof (cases "n < 10")
    case True
    then show ?thesis by (subst dec_digits.simps) simp
  next
    case False
    with "1.IH" have "scan_nat 10 0 (dec_digits (n div 10)) = Some (n div 10)" by simp
    with False show ?thesis
      by (subst dec_digits.simps) (simp add: scan_nat_append)
  qed
qed

lemma SetString_hex:
  assumes "v < 16 ^ k" "0 < k"
  shows "SetString 16 (hex_digits k v) = Some (int v)"
proof -
  obtain c cs where h: "hex_digits k v = c # cs"
    using assms(2) length_hex_digits [of k v] by (cases "hex_digits k v") auto
  have s: "scan_nat 16 0 (c # cs) = Some v" using scan_nat_hex [OF assms(1), of 0] h by simp
  then have "digit_of c \<noteq> None" by (auto split: option.splits)
  then have "c \<noteq> CHR ''-'' \<and> c \<noteq> CHR ''+''" by (auto simp: digit_of_def Let_def)
  with s h show ?thesis by (simp add: SetString_def scan_unsigned_def)
qed

lemma scan_nat_mono: "0 < b \<Longrightarrow> scan_nat b acc s = Some n \<Longrightarrow> acc \<le> n"
proof (induction s arbitrary: acc)
  case Nil
  then show ?case by simp
next
  case (Cons c cs)
  then obtain d where "scan_nat b (acc * b + d) cs = Some n"
    by (auto split: option.splits if_splits)
  with Cons.IH Cons.prems(1) have "acc * b + d \<le> n" by blast
  moreover have "acc \<le> acc * b" using Cons.prems(1) by simp
  ultimately show ?case by linarith
qed

lemma scan_u64_scan_nat:
  "scan_nat 10 acc s = Some n \<Longrightarrow> n < 2 ^ 64 \<Longrightarrow> scan_u64 acc s = Inr n"
proof (induction s arbitrary: acc)
  case Nil
  then show ?case by simp
next
  case (Cons c cs)
  then obtain d where d: "digit_of c = Some d" "d < 10" "scan_nat 10 (acc * 10 + d) cs = Some n"
    by (auto split: option.splits if_splits)
  moreover have "acc * 10 + d \<le> n" using scan_nat_mono [OF _ d(3)] by simp
  ultimately show ?case using Cons by simp
qed

lemma scan_nat_digits: "scan_nat b acc s = Some n \<Longrightarrow> c \<in> set s \<Longrightarrow> digit_of c \<noteq> None"
  by (induction s arbitrary: acc) (auto split: option.splits if_splits)

lemma sign_not_digit [simp]: "digit_of (CHR ''-'') = None" "digit_of (CHR ''+'') = None"
  by (simp_all add: digit_of_def)

lemma dec_digits_head: "dec_digits n = c # cs \<Longrightarrow> c \<noteq> CHR ''-'' \<and> c \<noteq> CHR ''+''"
  using scan_nat_digits [OF scan_nat_dec, of c n] by auto

lemma Atoi_Itoa: "int64_range x \<Longrightarrow> Atoi (Itoa x) = (x, None)"
proof (cases "x < 0")
  case True
  assume r: "int64_range x"
  have "nat (- x) < 2 ^ 64" using r by (simp add: int64_range_def nat_less_iff less_imp_le [OF True])
  then have "scan_u64 0 (dec_digits (nat (- x))) = Inr (nat (- x))"
    by (intro scan_u64_scan_nat scan_nat_dec)
  with True r show ?thesis by (auto simp: Atoi_def Itoa_def int64_range_def)
next
  case False
  assume r: "int64_range x"
  have "nat x < 2 ^ 64" using r False by (simp add: int64_range_def nat_less_iff not_less)
  then have "scan_u64 0 (dec_digits (nat x)) = Inr (nat x)"
    by (intro scan_u64_scan_nat scan_nat_dec)
  moreover obtain c cs where h: "dec_digits (nat x) = c # cs"
    using dec_digits_nonempty [of "nat x"] by (cases "dec_digits (nat x)") auto
  ultimately show ?thesis using False r dec_digits_head [OF h]
    by (auto simp: Atoi_def Itoa_def int64_range_def)
qed

lemma Atoi_range: "int64_range (fst (Atoi s))"
  by (auto simp: Atoi_def Let_def int64_range_def split: sum.split num_error.split)

lemma SetString_0x: "has_prefix ''0x'' s \<Longrightarrow> SetString 16 s = None"
proof -
  assume "has_prefix ''0x'' s"
  then obtain t where "s = CHR ''0'' # CHR ''x'' # t" by (auto simp: has_prefix_iff)
  moreover have "digit_of (CHR ''x'') = Some 33" "digit_of (CHR ''0'') = Some 0"
    by (simp_all add: digit_of_def)
  ultimately show ?thesis by (simp add: SetString_def scan_unsigned_def)
qed

section \<open>Lists\<close>

text \<open>
  \<open>update_first P f xs\<close> changes the first element that satisfies \<open>P\<close>. It is what an
  update of one document does to a collection, and what the positional operator does to an array.
\<close>

fun update_first :: "('a \<Rightarrow> bool) \<Rightarrow> ('a \<Rightarrow> 'a) \<Rightarrow> 'a list \<Rightarrow> 'a list" where
  "update_first P f [] = []"
| "update_first P f (x # xs) = (if P x then f x # xs else x # update_first P f xs)"

fun remove_first :: "('a \<Rightarrow> bool) \<Rightarrow> 'a list \<Rightarrow> 'a list" where
  "remove_first P [] = []"
| "remove_first P (x # xs) = (if P x then xs else x # remove_first P xs)"

fun first_index :: "('a \<Rightarrow> bool) \<Rightarrow> 'a list \<Rightarrow> nat option" where
  "first_index P [] = None"
| "first_index P (x # xs) = (if P x then Some 0 else map_option Suc (first_index P xs))"

lemma length_update_first [simp]: "length (update_first P f xs) = length xs"
  by (induction xs) auto

lemma update_first_none [simp]: "\<forall>x \<in> set xs. \<not> P x \<Longrightarrow> update_first P f xs = xs"
  by (induction xs) auto

lemma set_update_first: "y \<in> set (update_first P f xs) \<Longrightarrow> y \<in> set xs \<or> (\<exists>x \<in> set xs. P x \<and> y = f x)"
  by (induction xs) (auto split: if_splits)

lemma set_update_first_found: "find P xs = Some x \<Longrightarrow> set (update_first P f xs) \<subseteq> insert (f x) (set xs)"
  by (induction xs) (auto split: if_splits)

lemma map_update_first [simp]: "(\<And>x. P x \<Longrightarrow> g (f x) = g x) \<Longrightarrow> map g (update_first P f xs) = map g xs"
  by (induction xs) auto

lemma filter_update_first:
  "(\<And>x. P x \<Longrightarrow> \<not> Q x \<and> \<not> Q (f x)) \<Longrightarrow> filter Q (update_first P f xs) = filter Q xs"
  by (induction xs) auto

lemma find_update_first:
  "find P xs = Some x \<Longrightarrow> P (f x) \<Longrightarrow> find P (update_first P f xs) = Some (f x)"
  by (induction xs) (auto split: if_splits)

lemma update_first_in: "find P xs = Some x \<Longrightarrow> f x \<in> set (update_first P f xs)"
  by (induction xs) (auto split: if_splits)

lemma update_first_keeps: "find P xs = Some x \<Longrightarrow> y \<in> set xs \<Longrightarrow> y \<noteq> x \<Longrightarrow> y \<in> set (update_first P f xs)"
  by (induction xs) (auto split: if_splits)

lemma update_first_inv:
  "(\<And>x. x \<in> set xs \<Longrightarrow> Q x) \<Longrightarrow> (\<And>x. x \<in> set xs \<Longrightarrow> P x \<Longrightarrow> Q x \<Longrightarrow> Q (f x)) \<Longrightarrow>
   y \<in> set (update_first P f xs) \<Longrightarrow> Q y"
  using set_update_first [of y P f xs] by auto

lemma find_Some_iff_ex: "(\<exists>x. find P xs = Some x) \<longleftrightarrow> (\<exists>x \<in> set xs. P x)"
  by (induction xs) auto

lemma find_SomeD: "find P xs = Some x \<Longrightarrow> x \<in> set xs \<and> P x"
  by (induction xs) (auto split: if_splits)

lemma find_NoneD: "find P xs = None \<Longrightarrow> x \<in> set xs \<Longrightarrow> \<not> P x"
  by (simp add: find_None_iff)

lemma find_append_None: "find P xs = None \<Longrightarrow> find P (xs @ ys) = find P ys"
  by (induction xs) (auto split: if_splits)

lemma find_append_Some: "find P xs = Some x \<Longrightarrow> find P (xs @ ys) = Some x"
  by (induction xs) (auto split: if_splits)

lemma set_remove_first_subset: "set (remove_first P xs) \<subseteq> set xs"
  by (induction xs) auto

lemma remove_first_none [simp]: "\<forall>x \<in> set xs. \<not> P x \<Longrightarrow> remove_first P xs = xs"
  by (induction xs) auto

lemma first_index_Some: "first_index P xs = Some i \<Longrightarrow> i < length xs \<and> P (xs ! i)"
  by (induction xs arbitrary: i) (auto split: if_splits)

lemma first_index_None: "first_index P xs = None \<longleftrightarrow> (\<forall>x \<in> set xs. \<not> P x)"
  by (induction xs) auto

lemma update_first_index: "first_index P xs = Some i \<Longrightarrow> update_first P f xs = xs[i := f (xs ! i)]"
  by (induction xs arbitrary: i) (auto split: if_splits)

lemma distinct_map_remove_first: "distinct (map g xs) \<Longrightarrow> distinct (map g (remove_first P xs))"
  by (induction xs) (use set_remove_first_subset in fastforce)+

lemma remove_first_distinct:
  "distinct (map g xs) \<Longrightarrow> set (map g (remove_first (\<lambda>x. g x = k) xs)) = set (map g xs) - {k}"
  by (induction xs) (auto simp: image_iff)

text \<open>An invariant of the steps of a relation is one of every sequence of them.\<close>

lemma steps_keep:
  assumes "R\<^sup>*\<^sup>* s t" "P s" "\<And>s t. R s t \<Longrightarrow> P s \<Longrightarrow> P t"
  shows "P t"
  using assms(1,2) by (induction) (auto intro: assms(3))

lemmas find_dest = find_SomeD find_NoneD

lemmas [go_simps] = Atoi_def digit_of_def ToLower_def lower_char_def

end
