(* ===== verification/Mongo.thy ===== *)
theory Mongo
  imports Prelude
begin

text \<open>
  The interface to MongoDB. The server and the \<open>mgo\<close> driver are not part of the repository's
  own code, so every operation on a collection is a parameter of the model: a record of
  functions over the documents the collection holds, in natural order. A selector is a
  predicate on documents and an update document is a function on a document, both translated
  where the code writes them.

  What the code relies on is stated as laws in two locales: \<open>faulty_coll\<close> (every call either
  does what the driver documents or reports a database error, after which a write
  may or may not have been applied) and
  \<open>live_coll\<close> (no database error occurs). \<open>ref_ops\<close> is an instance of both, so that
  no law is vacuous.
\<close>

section \<open>Errors and the operations of a collection\<close>

text \<open>
  \<open>ErrNotFound\<close> is \<open>mgo.ErrNotFound\<close>; \<open>ErrDb\<close> is any other error of the
  driver, with its text.
\<close>

datatype mgo_error = ErrNotFound | ErrDb string

fun mgo_text :: "mgo_error \<Rightarrow> string" where
  "mgo_text ErrNotFound = ''not found''"
| "mgo_text (ErrDb s) = s"

text \<open>
  An error value of the back end: one that came from the driver, or one made by \<open>errors.New\<close> or
  \<open>fmt.Errorf\<close>.
\<close>

datatype go_error = EMgo mgo_error | EMsg string

fun Error :: "go_error \<Rightarrow> string" where
  "Error (EMgo e) = mgo_text e"
| "Error (EMsg s) = s"

text \<open>
  \<open>c_one\<close> is \<open>Find(q).One\<close>, \<open>c_newest\<close> is
  \<open>Find(q).Sort("-k").One\<close>, \<open>c_all\<close> is \<open>Find(q).All\<close> (whose errors come
  before the first document); the others return the collection after the call and the error. \<open>c_upsert q f
  d\<close> updates one matching document with \<open>f\<close> or inserts \<open>d\<close>.
\<close>

record 'd coll_ops =
  c_one :: "('d \<Rightarrow> bool) \<Rightarrow> 'd list \<Rightarrow> mgo_error + 'd"
  c_newest :: "('d \<Rightarrow> bool) \<Rightarrow> ('d \<Rightarrow> int) \<Rightarrow> 'd list \<Rightarrow> mgo_error + 'd"
  c_all :: "('d \<Rightarrow> bool) \<Rightarrow> 'd list \<Rightarrow> mgo_error + 'd list"
  c_insert :: "'d \<Rightarrow> 'd list \<Rightarrow> 'd list \<times> mgo_error option"
  c_update :: "('d \<Rightarrow> bool) \<Rightarrow> ('d \<Rightarrow> 'd) \<Rightarrow> 'd list \<Rightarrow> 'd list \<times> mgo_error option"
  c_update_all :: "('d \<Rightarrow> bool) \<Rightarrow> ('d \<Rightarrow> 'd) \<Rightarrow> 'd list \<Rightarrow> 'd list \<times> mgo_error option"
  c_remove :: "('d \<Rightarrow> bool) \<Rightarrow> 'd list \<Rightarrow> 'd list \<times> mgo_error option"
  c_remove_all :: "('d \<Rightarrow> bool) \<Rightarrow> 'd list \<Rightarrow> 'd list \<times> mgo_error option"
  c_upsert :: "('d \<Rightarrow> bool) \<Rightarrow> ('d \<Rightarrow> 'd) \<Rightarrow> 'd \<Rightarrow> 'd list \<Rightarrow> 'd list \<times> mgo_error option"

section \<open>The documented behaviour\<close>

definition doc_one :: "('d \<Rightarrow> bool) \<Rightarrow> 'd list \<Rightarrow> mgo_error + 'd" where
  "doc_one q c = (case find q c of None \<Rightarrow> Inl ErrNotFound | Some d \<Rightarrow> Inr d)"

fun newest :: "('d \<Rightarrow> int) \<Rightarrow> 'd list \<Rightarrow> 'd option" where
  "newest k [] = None"
| "newest k (d # ds) =
     (case newest k ds of None \<Rightarrow> Some d | Some e \<Rightarrow> if k e > k d then Some e else Some d)"

definition doc_newest :: "('d \<Rightarrow> bool) \<Rightarrow> ('d \<Rightarrow> int) \<Rightarrow> 'd list \<Rightarrow> mgo_error + 'd" where
  "doc_newest q k c = (case newest k (filter q c) of None \<Rightarrow> Inl ErrNotFound | Some d \<Rightarrow> Inr d)"

definition doc_update :: "('d \<Rightarrow> bool) \<Rightarrow> ('d \<Rightarrow> 'd) \<Rightarrow> 'd list \<Rightarrow> 'd list \<times> mgo_error option" where
  "doc_update q f c = (if list_ex q c then (update_first q f c, None) else (c, Some ErrNotFound))"

definition doc_update_all :: "('d \<Rightarrow> bool) \<Rightarrow> ('d \<Rightarrow> 'd) \<Rightarrow> 'd list \<Rightarrow> 'd list \<times> mgo_error option" where
  "doc_update_all q f c = (map (\<lambda>d. if q d then f d else d) c, None)"

definition doc_remove :: "('d \<Rightarrow> bool) \<Rightarrow> 'd list \<Rightarrow> 'd list \<times> mgo_error option" where
  "doc_remove q c = (if list_ex q c then (remove_first q c, None) else (c, Some ErrNotFound))"

definition doc_remove_all :: "('d \<Rightarrow> bool) \<Rightarrow> 'd list \<Rightarrow> 'd list \<times> mgo_error option" where
  "doc_remove_all q c = (filter (\<lambda>d. \<not> q d) c, None)"

definition doc_upsert :: "('d \<Rightarrow> bool) \<Rightarrow> ('d \<Rightarrow> 'd) \<Rightarrow> 'd \<Rightarrow> 'd list \<Rightarrow> 'd list \<times> mgo_error option" where
  "doc_upsert q f d c = (if list_ex q c then (update_first q f c, None) else (c @ [d], None))"

text \<open>
  A write that reports a database error was applied or was not: with a write concern (\<open>W: 1, WTimeout:
  100\<close> in \<open>InitUserStore\<close>) the driver may time out after the server applied it.
\<close>

definition db_failed :: "'d list \<Rightarrow> 'd list \<times> mgo_error option \<Rightarrow> 'd list \<times> mgo_error option \<Rightarrow> bool" where
  "db_failed c applied r \<longleftrightarrow>
     (fst r = c \<or> fst r = fst applied) \<and> (case snd r of Some (ErrDb s) \<Rightarrow> True | _ \<Rightarrow> False)"

definition is_db_error :: "mgo_error + 'a \<Rightarrow> bool" where
  "is_db_error r \<longleftrightarrow> (case r of Inl (ErrDb s) \<Rightarrow> True | _ \<Rightarrow> False)"

section \<open>The laws\<close>

locale faulty_coll =
  fixes ops :: "'d coll_ops"
  assumes one_law: "c_one ops q c = doc_one q c \<or> is_db_error (c_one ops q c)"
    and newest_law: "c_newest ops q k c = doc_newest q k c \<or> is_db_error (c_newest ops q k c)"
    and all_law: "c_all ops q c = Inr (filter q c) \<or> is_db_error (c_all ops q c)"
    and insert_law: "c_insert ops d c = (c @ [d], None) \<or> db_failed c (c @ [d], None) (c_insert ops d c)"
    and update_law: "c_update ops q f c = doc_update q f c \<or> db_failed c (doc_update q f c) (c_update ops q f c)"
    and update_all_law: "c_update_all ops q f c = doc_update_all q f c \<or> db_failed c (doc_update_all q f c) (c_update_all ops q f c)"
    and remove_law: "c_remove ops q c = doc_remove q c \<or> db_failed c (doc_remove q c) (c_remove ops q c)"
    and remove_all_law: "c_remove_all ops q c = doc_remove_all q c \<or> db_failed c (doc_remove_all q c) (c_remove_all ops q c)"
    and upsert_law: "c_upsert ops q f d c = doc_upsert q f d c \<or> db_failed c (doc_upsert q f d c) (c_upsert ops q f d c)"
begin

lemma one_found: "c_one ops q c = Inr d \<Longrightarrow> find q c = Some d"
  using one_law [of q c] by (auto simp: doc_one_def is_db_error_def split: option.splits)

lemma one_notfound: "c_one ops q c = Inl ErrNotFound \<Longrightarrow> find q c = None"
  using one_law [of q c] by (auto simp: doc_one_def is_db_error_def split: option.splits)

lemma one_found_mem: "c_one ops q c = Inr d \<Longrightarrow> d \<in> set c \<and> q d"
  by (rule find_SomeD [OF one_found])

lemma one_notfound_mem: "c_one ops q c = Inl ErrNotFound \<Longrightarrow> d \<in> set c \<Longrightarrow> \<not> q d"
  by (rule find_NoneD [OF one_notfound])

lemma insert_cases: "fst (c_insert ops d c) = c @ [d] \<or> fst (c_insert ops d c) = c"
  using insert_law [of d c] by (auto simp: db_failed_def)

lemma update_cases: "fst (c_update ops q f c) = update_first q f c \<or> fst (c_update ops q f c) = c"
  using update_law [of q f c] by (auto simp: db_failed_def doc_update_def)

lemma update_all_cases:
  "fst (c_update_all ops q f c) = map (\<lambda>d. if q d then f d else d) c \<or> fst (c_update_all ops q f c) = c"
  using update_all_law [of q f c] by (auto simp: db_failed_def doc_update_all_def)

lemma remove_cases: "fst (c_remove ops q c) = remove_first q c \<or> fst (c_remove ops q c) = c"
  using remove_law [of q c] by (auto simp: db_failed_def doc_remove_def)

lemma remove_ok: "snd (c_remove ops q c) = None \<Longrightarrow> fst (c_remove ops q c) = remove_first q c"
  using remove_law [of q c] by (auto simp: db_failed_def doc_remove_def split: if_splits)

lemma remove_all_cases: "fst (c_remove_all ops q c) = filter (\<lambda>d. \<not> q d) c \<or> fst (c_remove_all ops q c) = c"
  using remove_all_law [of q c] by (auto simp: db_failed_def doc_remove_all_def)

text \<open>A property of single documents survives an update if the update function keeps it, whatever fails.\<close>

lemma update_map: "(\<And>d. q d \<Longrightarrow> g (f d) = g d) \<Longrightarrow> map g (fst (c_update ops q f c)) = map g c"
  using update_cases [of q f c] by auto

lemma update_all_map: "(\<And>d. q d \<Longrightarrow> g (f d) = g d) \<Longrightarrow> map g (fst (c_update_all ops q f c)) = map g c"
  using update_all_cases [of q f c] by auto

end

locale live_coll =
  fixes ops :: "'d coll_ops"
  assumes live_one: "c_one ops q c = doc_one q c"
    and live_newest: "c_newest ops q k c = doc_newest q k c"
    and live_all: "c_all ops q c = Inr (filter q c)"
    and live_insert: "c_insert ops d c = (c @ [d], None)"
    and live_update: "c_update ops q f c = doc_update q f c"
    and live_update_all: "c_update_all ops q f c = doc_update_all q f c"
    and live_remove: "c_remove ops q c = doc_remove q c"
    and live_remove_all: "c_remove_all ops q c = doc_remove_all q c"
    and live_upsert: "c_upsert ops q f d c = doc_upsert q f d c"

sublocale live_coll \<subseteq> faulty_coll ops
  by unfold_locales
    (simp_all add: live_one live_newest live_all live_insert live_update live_update_all
       live_remove live_remove_all live_upsert)

section \<open>An instance\<close>

definition ref_ops :: "'d coll_ops" where
  "ref_ops = \<lparr>c_one = doc_one, c_newest = doc_newest, c_all = (\<lambda>q c. Inr (filter q c)),
     c_insert = (\<lambda>d c. (c @ [d], None)), c_update = doc_update, c_update_all = doc_update_all,
     c_remove = doc_remove, c_remove_all = doc_remove_all, c_upsert = doc_upsert\<rparr>"

interpretation ref: live_coll ref_ops
  by unfold_locales (simp_all add: ref_ops_def)

text \<open>An instance on which every call fails, for the error paths.\<close>

definition down_ops :: "string \<Rightarrow> 'd coll_ops" where
  "down_ops s = \<lparr>c_one = (\<lambda>q c. Inl (ErrDb s)), c_newest = (\<lambda>q k c. Inl (ErrDb s)),
     c_all = (\<lambda>q c. Inl (ErrDb s)), c_insert = (\<lambda>d c. (c, Some (ErrDb s))),
     c_update = (\<lambda>q f c. (c, Some (ErrDb s))), c_update_all = (\<lambda>q f c. (c, Some (ErrDb s))),
     c_remove = (\<lambda>q c. (c, Some (ErrDb s))), c_remove_all = (\<lambda>q c. (c, Some (ErrDb s))),
     c_upsert = (\<lambda>q f d c. (c, Some (ErrDb s)))\<rparr>"

interpretation down: faulty_coll "down_ops s"
  by unfold_locales (simp_all add: down_ops_def is_db_error_def db_failed_def)

lemmas ref_simps =
  ref.live_one ref.live_newest ref.live_all ref.live_insert ref.live_update ref.live_update_all
  ref.live_remove ref.live_remove_all ref.live_upsert

lemmas doc_defs =
  doc_one_def doc_newest_def doc_update_def doc_update_all_def doc_remove_def doc_remove_all_def
  doc_upsert_def

lemma doc_one_Inr: "doc_one q c = Inr d \<longleftrightarrow> find q c = Some d"
  by (auto simp: doc_one_def split: option.split)

lemma doc_one_Inl: "doc_one q c = Inl e \<longleftrightarrow> e = ErrNotFound \<and> find q c = None"
  by (auto simp: doc_one_def split: option.split)

lemma newest_in: "newest k ds = Some d \<Longrightarrow> d \<in> set ds"
  by (induction ds arbitrary: d) (auto split: option.splits if_splits)

lemma newest_None: "newest k ds = None \<longleftrightarrow> ds = []"
  by (cases ds) (auto split: option.splits)

lemma newest_max: "newest k ds = Some d \<Longrightarrow> e \<in> set ds \<Longrightarrow> k e \<le> k d"
proof (induction ds arbitrary: d)
  case Nil
  then show ?case by simp
next
  case (Cons a ds)
  then show ?case by (auto simp: newest_None split: option.splits if_splits)
qed

end
