(* ===== verification/Currencies.thy ===== *)
theory Currencies
  imports Prelude
begin

text \<open>
  The package \<open>currencies\<close>: the SLIP-44 style currency codes and their names
  (\<open>currencies.go\<close>), the sub-network identifiers (\<open>subnets.go\<close>), the dividers from
  base units (\<open>dividers.go\<close>) and the seed phrase types (\<open>seeds.go\<close>).
\<close>

section \<open>The codes the back end branches on\<close>

definition Bitcoin :: int where "Bitcoin = 0"
definition Litecoin :: int where "Litecoin = 2"
definition Ether :: int where "Ether = 60"

definition Main_net :: int where "Main_net = 0"
definition Test_net :: int where "Test_net = 1"
definition ETHMain :: int where "ETHMain = 1"
definition ETHTest :: int where "ETHTest = 4"

lemmas currency_ids = Bitcoin_def Litecoin_def Ether_def
lemmas network_ids = Main_net_def Test_net_def ETHMain_def ETHTest_def

lemma currency_ids_distinct [simp]:
  "Bitcoin \<noteq> Ether" "Ether \<noteq> Bitcoin" "Bitcoin \<noteq> Litecoin" "Litecoin \<noteq> Bitcoin"
  "Litecoin \<noteq> Ether" "Ether \<noteq> Litecoin"
  by (simp_all add: currency_ids)

lemma network_ids_distinct [simp]:
  "Main_net \<noteq> Test_net" "Test_net \<noteq> Main_net" "ETHMain \<noteq> ETHTest" "ETHTest \<noteq> ETHMain"
  by (simp_all add: network_ids)

section \<open>The table of codes and names\<close>

definition currency_codes_1 :: "(string \<times> int) list" where
  "currency_codes_1 = [
     (''Bitcoin'', 0), (''Testnet'', 1), (''Litecoin'', 2), (''Dogecoin'', 3), (''Reddcoin'', 4),
     (''Dash'', 5), (''Peercoin'', 6), (''Namecoin'', 7), (''Feathercoin'', 8),
     (''Counterparty'', 9), (''Blackcoin'', 10), (''NuShares'', 11), (''NuBits'', 12),
     (''Mazacoin'', 13), (''Viacoin'', 14), (''ClearingHouse'', 15), (''Rubycoin'', 16),
     (''Groestlcoin'', 17), (''Digitalcoin'', 18), (''Cannacoin'', 19), (''DigiByte'', 20),
     (''OpenAssets'', 21), (''Monacoin'', 22), (''Clams'', 23), (''Primecoin'', 24),
     (''Neoscoin'', 25), (''Jumbucks'', 26), (''ziftrCOIN'', 27), (''Vertcoin'', 28),
     (''NXT'', 29), (''Burst'', 30), (''MonetaryUnit'', 31), (''Zoom'', 32), (''Vpncoin'', 33),
     (''CanadaeCoin'', 34), (''ShadowCash'', 35), (''ParkByte'', 36), (''Pandacoin'', 37),
     (''StartCOIN'', 38), (''MOIN'', 39), (''Expanse'', 40), (''Einsteinium'', 41),
     (''Decred'', 42), (''NEM'', 43), (''Particl'', 44), (''Argentum'', 45), (''Libertas'', 46),
     (''Poswcoin'', 47), (''Shreeji'', 48), (''GlobalCurrencyReserve'', 49), (''Novacoin'', 50),
     (''Asiacoin'', 51), (''Bitcoindark'', 52), (''Dopecoin'', 53), (''Templecoin'', 54),
     (''AIB'', 55), (''EDRCoin'', 56), (''Syscoin'', 57), (''Solarcoin'', 58),
     (''Smileycoin'', 59), (''Ether'', 60), (''EtherClassic'', 61), (''Pesobit'', 62),
     (''Landcoin'', 63), (''OpenChain'', 64), (''Bitcoinplus'', 65), (''InternetofPeople'', 66),
     (''Nexus'', 67), (''InsaneCoin'', 68), (''OKCash'', 69), (''BritCoin'', 70),
     (''Compcoin'', 71), (''Crown'', 72), (''BelaCoin'', 73), (''Compcoin2'', 74),
     (''FujiCoin'', 75), (''MIX'', 76), (''Verge'', 77), (''ElectronicGulden'', 78),
     (''ClubCoin'', 79), (''RichCoin'', 80), (''Potcoin'', 81), (''Quarkcoin'', 82),
     (''Terracoin'', 83), (''Gridcoin'', 84), (''Auroracoin'', 85), (''IXCoin'', 86),
     (''Gulden'', 87), (''BitBeanv'', 88), (''Bata'', 89), (''Myriadcoin'', 90),
     (''BitSend'', 91), (''Unobtanium'', 92), (''MasterTrader'', 93), (''GoldBlocks'', 94),
     (''Saham'', 95), (''Chronos'', 96), (''Ubiquoin'', 97), (''Evotion'', 98),
     (''SaveTheOcean'', 99)]"

definition currency_codes_2 :: "(string \<times> int) list" where
  "currency_codes_2 = [
     (''BigUp'', 100), (''GameCredits'', 101), (''Dollarcoins'', 102), (''Zayedcoin'', 103),
     (''Dubaicoin'', 104), (''Stratis'', 105), (''Shilling'', 106), (''MarsCoin'', 107),
     (''Ubiq'', 108), (''Pesetacoin'', 109), (''Neurocoin'', 110), (''ARK'', 111),
     (''UltimateSecureCashMain'', 112), (''Hempcoin'', 113), (''Linx'', 114), (''Ecoin'', 115),
     (''Denarius'', 116), (''Pinkcoin'', 117), (''PiggyCoin'', 118), (''Pivx'', 119),
     (''Flashcoin'', 120), (''Zencash'', 121), (''Putincoin'', 122), (''BitZeny'', 123),
     (''Unify'', 124), (''StealthCoin'', 125), (''BreakoutCoin'', 126), (''Vcash'', 127),
     (''Monerov'', 128), (''Voxels'', 129), (''NavCoin'', 130), (''FactomFactoids'', 131),
     (''Factom'', 132), (''Zcash'', 133), (''Lisk'', 134), (''Steem'', 135), (''ZCoin'', 136),
     (''Rootstock'', 137), (''Giftblock'', 138), (''RealPointCoin'', 139), (''LBRY'', 140),
     (''Komodo'', 141), (''bisqToken'', 142), (''Riecoin'', 143), (''Ripple'', 144),
     (''BitcoinCash'', 145), (''Neblio'', 146), (''ZClassic'', 147), (''StellarLumens'', 148),
     (''NoLimitCoin2'', 149), (''WhaleCoin'', 150), (''EuropeCoin'', 151), (''Diamond'', 152),
     (''Bytom'', 153), (''Biocoin'', 154), (''Whitecoin'', 155), (''BitcoinGold'', 156),
     (''Bitcoin2x'', 157), (''SuperSkynet'', 158), (''TOACoin'', 159), (''Bitcore'', 160),
     (''Adcoin'', 161), (''Bridgecoin'', 162), (''Ellaism'', 163), (''Pirl'', 164),
     (''RaiBlocks'', 165), (''Vivo'', 166), (''Firstcoin'', 167), (''Helleniccoin'', 168),
     (''BUZZ'', 169), (''Ember'', 170), (''Hcash'', 171), (''HTMLCOIN'', 172),
     (''AskCoin'', 223), (''Smartcash'', 224), (''ZenProtocol'', 258), (''MemCoin'', 333),
     (''NEO'', 888), (''BitcoinDiamond'', 999), (''Defcoin'', 1337), (''Cardano'', 1815),
     (''RootstockTestnet'', 37310)]"

definition CurrencyNames_1 :: "(string \<times> string) list" where
  "CurrencyNames_1 = [
     (''Bitcoin'', ''Bitcoin''), (''Testnet'', ''Testnet''), (''Litecoin'', ''Litecoin''),
     (''Dogecoin'', ''Dogecoin''), (''Reddcoin'', ''Reddcoin''), (''Dash'', ''Dash''),
     (''Peercoin'', ''Peercoin''), (''Namecoin'', ''Namecoin''),
     (''Feathercoin'', ''Feathercoin''), (''Counterparty'', ''Counterparty''),
     (''Blackcoin'', ''Blackcoin''), (''NuShares'', ''NuShares''), (''NuBits'', ''NuBits''),
     (''Mazacoin'', ''Mazacoin''), (''Viacoin'', ''Viacoin''),
     (''ClearingHouse'', ''ClearingHouse''), (''Rubycoin'', ''Rubycoin''),
     (''Groestlcoin'', ''Groestlcoin''), (''Digitalcoin'', ''Digitalcoin''),
     (''Cannacoin'', ''Cannacoin''), (''DigiByte'', ''DigiByte''),
     (''OpenAssets'', ''OpenAssets''), (''Monacoin'', ''Monacoin''), (''Clams'', ''Clams''),
     (''Primecoin'', ''Primecoin''), (''Neoscoin'', ''Neoscoin''), (''Jumbucks'', ''Jumbucks''),
     (''ziftrCOIN'', ''ziftrCOIN''), (''Vertcoin'', ''Vertcoin''), (''NXT'', ''NXT''),
     (''Burst'', ''Burst''), (''MonetaryUnit'', ''MonetaryUnit''), (''Zoom'', ''Zoom''),
     (''Vpncoin'', ''Vpncoin''), (''CanadaeCoin'', ''CanadaeCoin''),
     (''ShadowCash'', ''ShadowCash''), (''ParkByte'', ''ParkByte''),
     (''Pandacoin'', ''Pandacoin''), (''StartCOIN'', ''StartCOIN''), (''MOIN'', ''MOIN''),
     (''Expanse'', ''Expanse''), (''Einsteinium'', ''Einsteinium''), (''Decred'', ''Decred''),
     (''NEM'', ''NEM''), (''Particl'', ''Particl''), (''Argentum'', ''Argentum''),
     (''Libertas'', ''Libertas''), (''Poswcoin'', ''Poswcoin''), (''Shreeji'', ''Shreeji''),
     (''GlobalCurrencyReserve'', ''GlobalCurrencyReserve''), (''Novacoin'', ''Novacoin''),
     (''Asiacoin'', ''Asiacoin''), (''Bitcoindark'', ''Bitcoindark''),
     (''Dopecoin'', ''Dopecoin''), (''Templecoin'', ''Templecoin''), (''AIB'', ''AIB''),
     (''EDRCoin'', ''EDRCoin''), (''Syscoin'', ''Syscoin''), (''Solarcoin'', ''Solarcoin''),
     (''Smileycoin'', ''Smileycoin''), (''Ether'', ''Ether''),
     (''EtherClassic'', ''EtherClassic''), (''Pesobit'', ''Pesobit''),
     (''Landcoin'', ''Landcoin''), (''OpenChain'', ''OpenChain''),
     (''Bitcoinplus'', ''Bitcoinplus''), (''InternetofPeople'', ''InternetofPeople''),
     (''Nexus'', ''Nexus''), (''InsaneCoin'', ''InsaneCoin''), (''OKCash'', ''OKCash''),
     (''BritCoin'', ''BritCoin''), (''Compcoin2'', ''Compcoin2''), (''Crown'', ''Crown''),
     (''BelaCoin'', ''BelaCoin''), (''Compcoin'', ''Compcoin''), (''FujiCoin'', ''FujiCoin''),
     (''MIX'', ''MIX''), (''Verge'', ''Verge''), (''ElectronicGulden'', ''ElectronicGulden''),
     (''ClubCoin'', ''ClubCoin''), (''RichCoin'', ''RichCoin''), (''Potcoin'', ''Potcoin''),
     (''Quarkcoin'', ''Quarkcoin''), (''Terracoin'', ''Terracoin''),
     (''Gridcoin'', ''Gridcoin''), (''Auroracoin'', ''Auroracoin''), (''IXCoin'', ''IXCoin''),
     (''Gulden'', ''Gulden''), (''BitBeanv'', ''BitBeanv''), (''Bata'', ''Bata''),
     (''Myriadcoin'', ''Myriadcoin''), (''BitSend'', ''BitSend''),
     (''Unobtanium'', ''Unobtanium''), (''MasterTrader'', ''MasterTrader''),
     (''GoldBlocks'', ''GoldBlocks''), (''Saham'', ''Saham''), (''Chronos'', ''Chronos''),
     (''Ubiquoin'', ''Ubiquoin''), (''Evotion'', ''Evotion''),
     (''SaveTheOcean'', ''SaveTheOcean'')]"

definition CurrencyNames_2 :: "(string \<times> string) list" where
  "CurrencyNames_2 = [
     (''BigUp'', ''BigUp''), (''GameCredits'', ''GameCredits''),
     (''Dollarcoins'', ''Dollarcoins''), (''Zayedcoin'', ''Zayedcoin''),
     (''Dubaicoin'', ''Dubaicoin''), (''Stratis'', ''Stratis''), (''Shilling'', ''Shilling''),
     (''MarsCoin'', ''MarsCoin''), (''Ubiq'', ''Ubiq''), (''Pesetacoin'', ''Pesetacoin''),
     (''Neurocoin'', ''Neurocoin''), (''ARK'', ''ARK''),
     (''UltimateSecureCashMain'', ''UltimateSecureCashMain''), (''Hempcoin'', ''Hempcoin''),
     (''Linx'', ''Linx''), (''Ecoin'', ''Ecoin''), (''Denarius'', ''Denarius''),
     (''Pinkcoin'', ''Pinkcoin''), (''PiggyCoin'', ''PiggyCoin''), (''Pivx'', ''Pivx''),
     (''Flashcoin'', ''Flashcoin''), (''Zencash'', ''Zencash''), (''Putincoin'', ''Putincoin''),
     (''BitZeny'', ''BitZeny''), (''Unify'', ''Unify''), (''StealthCoin'', ''StealthCoin''),
     (''BreakoutCoin'', ''BreakoutCoin''), (''Vcash'', ''Vcash''), (''Monerov'', ''Monerov''),
     (''Voxels'', ''Voxels''), (''NavCoin'', ''NavCoin''),
     (''FactomFactoids'', ''FactomFactoids''), (''Factom'', ''Factom''), (''Zcash'', ''Zcash''),
     (''Lisk'', ''Lisk''), (''Steem'', ''Steem''), (''ZCoin'', ''ZCoin''),
     (''Rootstock'', ''Rootstock''), (''Giftblock'', ''Giftblock''),
     (''RealPointCoin'', ''RealPointCoin''), (''LBRY'', ''LBRY''), (''Komodo'', ''Komodo''),
     (''bisqToken'', ''bisqToken''), (''Riecoin'', ''Riecoin''), (''Ripple'', ''Ripple''),
     (''BitcoinCash'', ''BitcoinCash''), (''Neblio'', ''Neblio''), (''ZClassic'', ''ZClassic''),
     (''StellarLumens'', ''StellarLumens''), (''NoLimitCoin2'', ''NoLimitCoin2''),
     (''WhaleCoin'', ''WhaleCoin''), (''EuropeCoin'', ''EuropeCoin''),
     (''Diamond'', ''Diamond''), (''Bytom'', ''Bytom''), (''Biocoin'', ''Biocoin''),
     (''Whitecoin'', ''Whitecoin''), (''BitcoinGold'', ''BitcoinGold''),
     (''Bitcoin2x'', ''Bitcoin2x''), (''SuperSkynet'', ''SuperSkynet''),
     (''TOACoin'', ''TOACoin''), (''Bitcore'', ''Bitcore''), (''Adcoin'', ''Adcoin''),
     (''Bridgecoin'', ''Bridgecoin''), (''Ellaism'', ''Ellaism''), (''Pirl'', ''Pirl''),
     (''RaiBlocks'', ''RaiBlocks''), (''Vivo'', ''Vivo''), (''Firstcoin'', ''Firstcoin''),
     (''Helleniccoin'', ''Helleniccoin''), (''BUZZ'', ''BUZZ''), (''Ember'', ''Ember''),
     (''Hcash'', ''Hcash''), (''HTMLCOIN'', ''HTMLCOIN''), (''AskCoin'', ''AskCoin''),
     (''Smartcash'', ''Smartcash''), (''ZenProtocol'', ''ZenProtocol''),
     (''MemCoin'', ''MemCoin''), (''NEO'', ''NEO''), (''BitcoinDiamond'', ''BitcoinDiamond''),
     (''Defcoin'', ''Defcoin''), (''Cardano'', ''Cardano''),
     (''RootstockTestnet'', ''RootstockTestnet'')]"

text \<open>
  The constants of \<open>currencies.go\<close> in source order, and the map literal with the constant's
  identifier as the key, so that a key takes its value from the constants, as in the source.
\<close>

definition currency_codes :: "(string \<times> int) list" where
  "currency_codes = currency_codes_1 @ currency_codes_2"

definition CurrencyNames :: "int \<rightharpoonup> string" where
  "CurrencyNames code =
     map_option snd
       (find (\<lambda>(ident, name). map_of currency_codes ident = Some code) (CurrencyNames_1 @ CurrencyNames_2))"

text \<open>A missing key of a Go map reads as the zero value.\<close>

definition String_of :: "int \<Rightarrow> string" where
  "String_of code = (case CurrencyNames code of None \<Rightarrow> [] | Some name \<Rightarrow> name)"

section \<open>Dividers and seed phrase types\<close>

definition Satoshi :: int where "Satoshi = 100000000"
definition Wei :: int where "Wei = 1000000000000000000"

definition Dividers :: "int \<rightharpoonup> int" where
  "Dividers code = (if code = Bitcoin then Some Satoshi else if code = Ether then Some Wei else None)"

definition MultySeed :: int where "MultySeed = 0"
definition MetamaskSeed :: int where "MetamaskSeed = 1"

definition IsSeedPhraseTypeValid :: "int \<Rightarrow> bool" where
  "IsSeedPhraseTypeValid t \<longleftrightarrow> t = MultySeed \<or> t = MetamaskSeed"

end
