(* ===== verification/Schemas.thy ===== *)
theory Schemas
  imports Prelude Currencies
begin

text \<open>
  The documents and messages of \<open>store/schemas.go\<close>: one record per struct, its fields in the
  source's order with a prefix naming the struct, a nil or missing pointer as \<open>None\<close>, and the
  constants of the file. Floating-point fields hold the raw 64 bits of the value: the
  back end stores and forwards them, and no definition here computes with them. The bson keys
  matter to the queries: a field without a bson tag is stored under its lower-case Go name.
\<close>

type_synonym f64 = "64 word"

section \<open>Constants\<close>

definition TxStatusAppearedInMempoolIncoming :: int where "TxStatusAppearedInMempoolIncoming = 1"
definition TxStatusAppearedInBlockIncoming :: int where "TxStatusAppearedInBlockIncoming = 2"
definition TxStatusAppearedInMempoolOutcoming :: int where "TxStatusAppearedInMempoolOutcoming = 3"
definition TxStatusAppearedInBlockOutcoming :: int where "TxStatusAppearedInBlockOutcoming = 4"
definition TxStatusInBlockConfirmedIncoming :: int where "TxStatusInBlockConfirmedIncoming = 5"
definition TxStatusInBlockConfirmedOutcoming :: int where "TxStatusInBlockConfirmedOutcoming = 6"
definition TxStatusInBlockMethodInvocationFail :: int where "TxStatusInBlockMethodInvocationFail = 7"
definition TxStatusTxRejectedIncoming :: int where "TxStatusTxRejectedIncoming = 8"
definition TxStatusTxRejectedOutgoing :: int where "TxStatusTxRejectedOutgoing = 9"

lemmas tx_status_defs =
  TxStatusAppearedInMempoolIncoming_def TxStatusAppearedInBlockIncoming_def
  TxStatusAppearedInMempoolOutcoming_def TxStatusAppearedInBlockOutcoming_def
  TxStatusInBlockConfirmedIncoming_def TxStatusInBlockConfirmedOutcoming_def
  TxStatusInBlockMethodInvocationFail_def TxStatusTxRejectedIncoming_def TxStatusTxRejectedOutgoing_def

definition MultisigStatusWaitingForJoin :: int where "MultisigStatusWaitingForJoin = 1"
definition MultisigStatusAllJoined :: int where "MultisigStatusAllJoined = 2"
definition MultisigStatusDeployPending :: int where "MultisigStatusDeployPending = 3"
definition MultisigStatusRejected :: int where "MultisigStatusRejected = 4"
definition MultisigStatusDeployed :: int where "MultisigStatusDeployed = 5"

lemmas multisig_status_defs =
  MultisigStatusWaitingForJoin_def MultisigStatusAllJoined_def MultisigStatusDeployPending_def
  MultisigStatusRejected_def MultisigStatusDeployed_def

definition MultisigOwnerStatusWaiting :: int where "MultisigOwnerStatusWaiting = 0"
definition MultisigOwnerStatusSeen :: int where "MultisigOwnerStatusSeen = 1"
definition MultisigOwnerStatusConfirmed :: int where "MultisigOwnerStatusConfirmed = 2"
definition MultisigOwnerStatusDeclined :: int where "MultisigOwnerStatusDeclined = 3"
definition MultisigOwnerStatusRevoked :: int where "MultisigOwnerStatusRevoked = 4"

lemmas owner_status_defs =
  MultisigOwnerStatusWaiting_def MultisigOwnerStatusSeen_def MultisigOwnerStatusConfirmed_def
  MultisigOwnerStatusDeclined_def MultisigOwnerStatusRevoked_def

definition JoinMultisig_msg :: int where "JoinMultisig_msg = 1"
definition LeaveMultisig_msg :: int where "LeaveMultisig_msg = 2"
definition DeleteMultisig_msg :: int where "DeleteMultisig_msg = 3"
definition KickMultisig_msg :: int where "KickMultisig_msg = 4"
definition CheckMultisig_msg :: int where "CheckMultisig_msg = 5"
definition ViewTransaction_msg :: int where "ViewTransaction_msg = 6"
definition DeclineTransaction_msg :: int where "DeclineTransaction_msg = 7"
definition NotifyDeploy :: int where "NotifyDeploy = 8"
definition NotifyPaymentReq :: int where "NotifyPaymentReq = 9"
definition NotifyIncomingTx :: int where "NotifyIncomingTx = 10"
definition NotifyConfirmTx :: int where "NotifyConfirmTx = 11"
definition NotifyRevokeTx :: int where "NotifyRevokeTx = 12"
definition NotifyResyncEnd :: int where "NotifyResyncEnd = 13"
definition NotifyTxSubmitted :: int where "NotifyTxSubmitted = 14"

lemmas msg_type_defs =
  JoinMultisig_msg_def LeaveMultisig_msg_def DeleteMultisig_msg_def KickMultisig_msg_def
  CheckMultisig_msg_def ViewTransaction_msg_def DeclineTransaction_msg_def NotifyDeploy_def
  NotifyPaymentReq_def NotifyIncomingTx_def NotifyConfirmTx_def NotifyRevokeTx_def
  NotifyResyncEnd_def NotifyTxSubmitted_def

definition AssetTypeMultyAddress :: int where "AssetTypeMultyAddress = 0"
definition AssetTypeMultisig :: int where "AssetTypeMultisig = 1"
definition AssetTypeImportedAddress :: int where "AssetTypeImportedAddress = 2"

lemmas asset_type_defs =
  AssetTypeMultyAddress_def AssetTypeMultisig_def AssetTypeImportedAddress_def

definition SubmitTransaction :: string where "SubmitTransaction = ''0xc6427474''"
definition ConfirmTransaction :: string where "ConfirmTransaction = ''0xc01a8c84''"
definition RevokeConfirmation :: string where "RevokeConfirmation = ''0x20ea8d86''"
definition ExecuteTransaction :: string where "ExecuteTransaction = ''0xee22610b''"

lemmas method_defs =
  SubmitTransaction_def ConfirmTransaction_def RevokeConfirmation_def ExecuteTransaction_def

definition MsgReceive :: string where "MsgReceive = ''message:recieve''"

definition MaximumAvalibeEmptyWallets :: int where "MaximumAvalibeEmptyWallets = 20"

definition WalletStatusOK :: string where "WalletStatusOK = ''ok''"
definition WalletStatusDeleted :: string where "WalletStatusDeleted = ''deleted''"

lemma wallet_status_distinct [simp]:
  "WalletStatusOK \<noteq> WalletStatusDeleted" "WalletStatusDeleted \<noteq> WalletStatusOK"
  by (simp_all add: WalletStatusOK_def WalletStatusDeleted_def)

section \<open>Users, devices, wallets and multisigs\<close>

record Device =
  dev_DeviceID :: string
  dev_PushToken :: string
  dev_JWT :: string
  dev_LastActionTime :: int
  dev_LastActionIP :: string
  dev_AppVersion :: string
  dev_DeviceType :: int

record Address =
  adr_AddressIndex :: int
  adr_Address :: string
  adr_LastActionTime :: int

record Wallet =
  wal_CurrencyID :: int
  wal_NetworkID :: int
  wal_WalletIndex :: int
  wal_WalletName :: string
  wal_LastActionTime :: int
  wal_DateOfCreation :: int
  wal_Adresses :: "Address list"
  wal_Status :: string
  wal_IsImported :: bool
  wal_BrokenStatus :: int

record AddressExtended =
  ae_UserID :: string
  ae_Address :: string
  ae_Associated :: bool
  ae_Creator :: bool
  ae_WalletIndex :: int
  ae_AddressIndex :: int

record Multisig =
  ms_CurrencyID :: int
  ms_NetworkID :: int
  ms_Confirmations :: int
  ms_WalletName :: string
  ms_FactoryAddress :: string
  ms_ContractAddress :: string
  ms_TxOfCreation :: string
  ms_LastActionTime :: int
  ms_DateOfCreation :: int
  ms_Owners :: "AddressExtended list"
  ms_DeployStatus :: int
  ms_Status :: string
  ms_InviteCode :: string
  ms_OwnersCount :: int
  ms_Imported :: bool

record User =
  usr_UserID :: string
  usr_SeedPhraseType :: int
  usr_Devices :: "Device list"
  usr_Wallets :: "Wallet list"
  usr_Multisigs :: "Multisig list"

definition zero_wallet :: Wallet where
  "zero_wallet = \<lparr>wal_CurrencyID = 0, wal_NetworkID = 0, wal_WalletIndex = 0, wal_WalletName = [],
     wal_LastActionTime = 0, wal_DateOfCreation = 0, wal_Adresses = [], wal_Status = [],
     wal_IsImported = False, wal_BrokenStatus = 0\<rparr>"

definition zero_ae :: AddressExtended where
  "zero_ae = \<lparr>ae_UserID = [], ae_Address = [], ae_Associated = False, ae_Creator = False,
     ae_WalletIndex = 0, ae_AddressIndex = 0\<rparr>"

definition zero_multisig :: Multisig where
  "zero_multisig = \<lparr>ms_CurrencyID = 0, ms_NetworkID = 0, ms_Confirmations = 0, ms_WalletName = [],
     ms_FactoryAddress = [], ms_ContractAddress = [], ms_TxOfCreation = [], ms_LastActionTime = 0,
     ms_DateOfCreation = 0, ms_Owners = [], ms_DeployStatus = 0, ms_Status = [], ms_InviteCode = [],
     ms_OwnersCount = 0, ms_Imported = False\<rparr>"

definition zero_user :: User where
  "zero_user = \<lparr>usr_UserID = [], usr_SeedPhraseType = 0, usr_Devices = [], usr_Wallets = [],
     usr_Multisigs = []\<rparr>"

section \<open>Rates, Bitcoin transactions and outputs\<close>

record ExchangeRates =
  er_EURtoBTC :: f64
  er_USDtoBTC :: f64
  er_ETHtoBTC :: f64
  er_ETHtoUSD :: f64
  er_ETHtoEUR :: f64
  er_BTCtoUSD :: f64

record ExchangeRatesRecord =
  err_Exchanges :: ExchangeRates
  err_Timestamp :: int
  err_StockExchange :: string

record AddressForWallet =
  afw_AddressIndex :: int
  afw_AddressOutIndex :: int
  afw_Address :: string
  afw_Amount :: int

record WalletForTx =
  wft_UserId :: string
  wft_WalletIndex :: int
  wft_Address :: AddressForWallet

record AddresAmount =
  aa_Address :: string
  aa_Amount :: int

record MultyTX =
  mtx_UserId :: string
  mtx_TxID :: string
  mtx_TxHash :: string
  mtx_TxOutScript :: string
  mtx_TxAddress :: "string list"
  mtx_TxStatus :: int
  mtx_TxOutAmount :: int
  mtx_BlockTime :: int
  mtx_BlockHeight :: int
  mtx_Confirmations :: int
  mtx_TxFee :: int
  mtx_MempoolTime :: int
  mtx_StockExchangeRate :: "ExchangeRatesRecord list"
  mtx_TxInputs :: "AddresAmount list"
  mtx_TxOutputs :: "AddresAmount list"
  mtx_WalletsInput :: "WalletForTx list"
  mtx_WalletsOutput :: "WalletForTx list"

record SpendableOutputs =
  so_TxID :: string
  so_TxOutID :: int
  so_TxOutAmount :: int
  so_TxOutScript :: string
  so_Address :: string
  so_UserID :: string
  so_WalletIndex :: int
  so_AddressIndex :: int
  so_TxStatus :: int
  so_StockExchangeRate :: "ExchangeRatesRecord list"

record DeleteSpendableOutput =
  dso_UserID :: string
  dso_TxID :: string
  dso_Address :: string

record WsTxNotify =
  wtn_CurrencyID :: int
  wtn_NetworkID :: int
  wtn_Address :: string
  wtn_Amount :: string
  wtn_TxID :: string
  wtn_TransactionType :: int
  wtn_WalletIndex :: int
  wtn_From :: string
  wtn_To :: string
  wtn_Multisig :: string

record TransactionWithUserID =
  twu_NotificationMsg :: WsTxNotify
  twu_UserID :: string

record MempoolRecord =
  mpr_Category :: int
  mpr_HashTX :: string

record LastState =
  ls_BlockHeight :: int
  ls_CurrencyID :: int
  ls_NetworkID :: int

section \<open>Ethereum transactions\<close>

record OwnerHistory =
  oh_Address :: string
  oh_ConfirmationTX :: string
  oh_ConfirmationStatus :: int
  oh_ConfirmationTime :: int
  oh_SeenTime :: int

record MultisigTx =
  mst_Contract :: string
  mst_MethodInvoked :: string
  mst_Input :: string
  mst_InvocationStatus :: bool
  mst_RequestID :: int
  mst_Return :: string
  mst_Owners :: "OwnerHistory list"
  mst_Confirmed :: bool

record ERC20Tx =
  erc_From :: string
  erc_To :: string
  erc_ContractAddress :: string
  erc_Value :: string

record TransactionETH =
  etx_UserID :: string
  etx_WalletIndex :: int
  etx_AddressIndex :: int
  etx_Hash :: string
  etx_From :: string
  etx_To :: string
  etx_Amount :: string
  etx_GasPrice :: int
  etx_GasLimit :: int
  etx_Nonce :: int
  etx_Status :: int
  etx_BlockTime :: int
  etx_PoolTime :: int
  etx_BlockHeight :: int
  etx_Confirmations :: int
  etx_IsInternal :: bool
  etx_Multisig :: "MultisigTx option"
  etx_ERC20Token :: "ERC20Tx option"
  etx_StockExchangeRate :: "ExchangeRatesRecord list"

section \<open>Configuration and client messages\<close>

record CoinType =
  ct_CurrencyID :: int
  ct_NetworkID :: int
  ct_AccuracyRange :: int
  ct_GRPCUrl :: string

record MultisigWallet =
  mw_IsMultisig :: bool
  mw_SignaturesRequired :: int
  mw_OwnersCount :: int
  mw_InviteCode :: string
  mw_IsImported :: bool
  mw_ContractAddress :: string

record WalletParams =
  wp_CurrencyID :: int
  wp_NetworkID :: int
  wp_Address :: string
  wp_AddressIndex :: int
  wp_WalletIndex :: int
  wp_WalletName :: string
  wp_IsImported :: bool
  wp_Multisig :: MultisigWallet

record SupportedAddress =
  sa_CurrencyID :: int
  sa_NetworkID :: int
  sa_Address :: string

record StartupReceiver =
  sr_ID :: string
  sr_UserCode :: string
  sr_SupportedAddresses :: "SupportedAddress list"

record MultisigMsg =
  mm_UserID :: string
  mm_Address :: string
  mm_InviteCode :: string
  mm_AddressToKick :: string
  mm_WalletIndex :: int
  mm_CurrencyID :: int
  mm_NetworkID :: int
  mm_TxID :: string

record InviteCodeInfo =
  ic_CurrencyID :: int
  ic_NetworkID :: int
  ic_Exists :: bool

section \<open>Filling a struct by reflection\<close>

text \<open>
  \<open>SetField\<close> on a \<open>MultisigMsg\<close>: the fields are found by their Go name and set only when the
  value's type is the field's type. \<open>FillStruct\<close> ranges over a map, so it goes through the
  entries in an order the language leaves open: here the entries come as a list.
\<close>

datatype go_value = VString string | VInt int | VOther | VNil

datatype field_type = TString | TInt

fun value_type :: "go_value \<Rightarrow> field_type option" where
  "value_type (VString s) = Some TString"
| "value_type (VInt i) = Some TInt"
| "value_type VOther = None"
| "value_type VNil = None"

definition field_of :: "string \<Rightarrow> field_type option" where
  "field_of name =
     (if name \<in> {''UserID'', ''Address'', ''InviteCode'', ''AddressToKick'', ''TxID''} then Some TString
      else if name \<in> {''WalletIndex'', ''CurrencyID'', ''NetworkID''} then Some TInt
      else None)"

fun set_value :: "MultisigMsg \<Rightarrow> string \<Rightarrow> go_value \<Rightarrow> MultisigMsg" where
  "set_value s name (VString v) =
     (if name = ''UserID'' then s\<lparr>mm_UserID := v\<rparr>
      else if name = ''Address'' then s\<lparr>mm_Address := v\<rparr>
      else if name = ''InviteCode'' then s\<lparr>mm_InviteCode := v\<rparr>
      else if name = ''AddressToKick'' then s\<lparr>mm_AddressToKick := v\<rparr>
      else if name = ''TxID'' then s\<lparr>mm_TxID := v\<rparr> else s)"
| "set_value s name (VInt v) =
     (if name = ''WalletIndex'' then s\<lparr>mm_WalletIndex := v\<rparr>
      else if name = ''CurrencyID'' then s\<lparr>mm_CurrencyID := v\<rparr>
      else if name = ''NetworkID'' then s\<lparr>mm_NetworkID := v\<rparr> else s)"
| "set_value s name VOther = s"
| "set_value s name VNil = s"

text \<open>The type of a nil interface value does not exist: asking for it panics.\<close>

definition SetField :: "MultisigMsg \<Rightarrow> string \<Rightarrow> go_value \<Rightarrow> panic + (string + MultisigMsg)" where
  "SetField s name v =
     (case field_of name of
        None \<Rightarrow> Inr (Inl (''No such field: '' @ name @ '' in obj''))
      | Some t \<Rightarrow>
          if v = VNil then Inl NilDereference
          else if value_type v = Some t then Inr (Inr (set_value s name v))
          else Inr (Inl ''Provided value type didn't match obj field type''))"

text \<open>The struct after the call and the error: fields set before the failing entry stay set.\<close>

fun FillStruct :: "MultisigMsg \<Rightarrow> (string \<times> go_value) list \<Rightarrow> panic + (MultisigMsg \<times> string option)" where
  "FillStruct s [] = Inr (s, None)"
| "FillStruct s ((k, v) # kvs) =
     (case SetField s k v of
        Inl p \<Rightarrow> Inl p
      | Inr (Inl e) \<Rightarrow> Inr (s, Some e)
      | Inr (Inr s') \<Rightarrow> FillStruct s' kvs)"

section \<open>Versions and settings for the clients\<close>

record ServerConfig =
  sc_BranchName :: string
  sc_CommitHash :: string
  sc_Build :: string
  sc_Tag :: string

record MobileVersions =
  mv_AndroidHard :: int
  mv_AndroidSoft :: int
  mv_IosHard :: int
  mv_IosSoft :: int

record BrowserDefault =
  bd_URL :: string
  bd_CurrencyID :: int
  bd_NetworkID :: int

record VerifiedToken =
  vt_ContractAddress :: string
  vt_Ticker :: string
  vt_Name :: string

end
