(* ===== verification/Store.thy ===== *)
theory Store
  imports Mongo Schemas
begin

text \<open>
  The user store (\<open>store/store.go\<close>, type \<open>MongoUserStore\<close>) and \<open>FetchCoinType\<close>. The state
  is \<open>db\<close>, the documents of every collection; the packages \<open>btc\<close> and \<open>eth\<close> open the
  same collections under their own variables. Each operation takes the database interface
  \<open>M\<close>, and a mutating operation returns the new \<open>db\<close> with its error. \<open>time.Now().Unix()\<close>
  is an argument.
\<close>

section \<open>State and interface\<close>

record db =
  db_users :: "User list"
  db_rates :: "ExchangeRatesRecord list"
  db_btcMain :: "MultyTX list"
  db_btcTest :: "MultyTX list"
  db_spMain :: "SpendableOutputs list"
  db_spTest :: "SpendableOutputs list"
  db_spentMain :: "DeleteSpendableOutput list"
  db_spentTest :: "DeleteSpendableOutput list"
  db_ethMain :: "TransactionETH list"
  db_ethTest :: "TransactionETH list"
  db_msMain :: "TransactionETH list"
  db_msTest :: "TransactionETH list"
  db_restore :: "LastState list"

definition empty_db :: db where
  "empty_db = \<lparr>db_users = [], db_rates = [], db_btcMain = [], db_btcTest = [], db_spMain = [],
     db_spTest = [], db_spentMain = [], db_spentTest = [], db_ethMain = [], db_ethTest = [],
     db_msMain = [], db_msTest = [], db_restore = []\<rparr>"

text \<open>
  \<open>M_pos\<close> is the array position the positional operator \<open>$\<close> stands for when a selector
  puts several conditions on the array \<open>wallets\<close>: the manual only promises the position
  of an element that matches the query.
\<close>

record mongo =
  M_users :: "User coll_ops"
  M_rates :: "ExchangeRatesRecord coll_ops"
  M_btc :: "MultyTX coll_ops"
  M_sp :: "SpendableOutputs coll_ops"
  M_spent :: "DeleteSpendableOutput coll_ops"
  M_eth :: "TransactionETH coll_ops"
  M_state :: "LastState coll_ops"
  M_pos :: "(Wallet \<Rightarrow> bool) list \<Rightarrow> Wallet list \<Rightarrow> nat"

definition pos_law :: "mongo \<Rightarrow> bool" where
  "pos_law M \<longleftrightarrow>
     (\<forall>cs ws. cs \<noteq> [] \<and> (\<forall>c \<in> set cs. \<exists>w \<in> set ws. c w) \<longrightarrow>
        M_pos M cs ws < length ws \<and> (\<exists>c \<in> set cs. c (ws ! M_pos M cs ws)))"

locale mongo_srv =
  users: faulty_coll "M_users M" + rates: faulty_coll "M_rates M" + btc: faulty_coll "M_btc M" +
  sp: faulty_coll "M_sp M" + spent: faulty_coll "M_spent M" + eth: faulty_coll "M_eth M" +
  state: faulty_coll "M_state M" for M +
  assumes pos: "pos_law M"

locale mongo_live =
  users: live_coll "M_users M" + rates: live_coll "M_rates M" + btc: live_coll "M_btc M" +
  sp: live_coll "M_sp M" + spent: live_coll "M_spent M" + eth: live_coll "M_eth M" +
  state: live_coll "M_state M" for M +
  assumes live_pos: "pos_law M"
begin

lemmas live_simps =
  users.live_one users.live_all users.live_insert users.live_update users.live_update_all
  users.live_remove users.live_remove_all
  rates.live_newest rates.live_insert
  btc.live_one btc.live_all btc.live_insert btc.live_update btc.live_update_all btc.live_remove
  btc.live_remove_all
  sp.live_one sp.live_all sp.live_insert sp.live_update sp.live_remove sp.live_remove_all
  spent.live_one spent.live_insert spent.live_remove_all
  eth.live_one eth.live_all eth.live_insert eth.live_update eth.live_update_all
  state.live_one state.live_upsert

end

sublocale mongo_live \<subseteq> mongo_srv M
  by unfold_locales (rule live_pos)

definition ref_mongo :: mongo where
  "ref_mongo = \<lparr>M_users = ref_ops, M_rates = ref_ops, M_btc = ref_ops, M_sp = ref_ops,
     M_spent = ref_ops, M_eth = ref_ops, M_state = ref_ops,
     M_pos = (\<lambda>cs ws. case first_index (\<lambda>w. list_all (\<lambda>c. c w) cs) ws of
        Some i \<Rightarrow> i
      | None \<Rightarrow> (case first_index (\<lambda>w. list_ex (\<lambda>c. c w) cs) ws of Some i \<Rightarrow> i | None \<Rightarrow> 0))\<rparr>"

lemma pos_law_ref: "pos_law ref_mongo"
proof -
  have "M_pos ref_mongo cs ws < length ws \<and> (\<exists>c \<in> set cs. c (ws ! M_pos ref_mongo cs ws))"
    if "cs \<noteq> []" "\<forall>c \<in> set cs. \<exists>w \<in> set ws. c w" for cs ws
  proof -
    let ?all = "\<lambda>w. list_all (\<lambda>c. c w) cs" and ?ex = "\<lambda>w. list_ex (\<lambda>c. c w) cs"
    have "first_index ?ex ws \<noteq> None"
      using that unfolding first_index_None by (cases cs) (auto simp: list_ex_iff)
    then obtain j where j: "first_index ?ex ws = Some j" by auto
    show ?thesis
    proof (cases "first_index ?all ws")
      case None
      then show ?thesis using first_index_Some [OF j] j by (simp add: ref_mongo_def list_ex_iff)
    next
      case (Some i)
      with first_index_Some [OF Some] that(1) show ?thesis
        by (cases cs) (simp_all add: ref_mongo_def)
    qed
  qed
  then show ?thesis by (auto simp: pos_law_def)
qed

lemma ref_mongo_sel [simp]:
  "M_users ref_mongo = ref_ops" "M_rates ref_mongo = ref_ops" "M_btc ref_mongo = ref_ops"
  "M_sp ref_mongo = ref_ops" "M_spent ref_mongo = ref_ops" "M_eth ref_mongo = ref_ops"
  "M_state ref_mongo = ref_ops"
  by (simp_all add: ref_mongo_def)

interpretation refm: mongo_live ref_mongo
  by (unfold_locales) (simp_all add: ref_simps pos_law_ref)


section \<open>Selectors\<close>

definition by_userID :: "string \<Rightarrow> User \<Rightarrow> bool" where
  "by_userID uid u \<longleftrightarrow> usr_UserID u = uid"

definition has_addr :: "string \<Rightarrow> Wallet \<Rightarrow> bool" where
  "has_addr a w \<longleftrightarrow> list_ex (\<lambda>ad. adr_Address ad = a) (wal_Adresses w)"

definition user_has_addr :: "string \<Rightarrow> User \<Rightarrow> bool" where
  "user_has_addr a u \<longleftrightarrow> list_ex (has_addr a) (usr_Wallets u)"

definition by_jwt :: "string \<Rightarrow> User \<Rightarrow> bool" where
  "by_jwt t u \<longleftrightarrow> list_ex (\<lambda>d. dev_JWT d = t) (usr_Devices u)"

definition has_invite :: "string \<Rightarrow> User \<Rightarrow> bool" where
  "has_invite code u \<longleftrightarrow> list_ex (\<lambda>m. ms_InviteCode m = code) (usr_Multisigs u)"

definition has_contract :: "string \<Rightarrow> User \<Rightarrow> bool" where
  "has_contract a u \<longleftrightarrow> list_ex (\<lambda>m. ms_ContractAddress m = a) (usr_Multisigs u)"

definition has_tx_owner :: "string \<Rightarrow> string \<Rightarrow> TransactionETH \<Rightarrow> bool" where
  "has_tx_owner hash a tx \<longleftrightarrow>
     etx_Hash tx = hash \<and>
     (case etx_Multisig tx of None \<Rightarrow> False
      | Some m \<Rightarrow> list_ex (\<lambda>oh. oh_Address oh = a) (mst_Owners m))"

lemmas sel_defs = by_userID_def has_addr_def user_has_addr_def by_jwt_def has_invite_def has_contract_def

text \<open>
  Update documents: a \<open>$set\<close> on \<open>wallets.i\<close>, on \<open>wallets.$\<close> and on
  \<open>multisig.$\<close>. The position \<open>i\<close> was read from an account of the same identity; only
  where two accounts share an identity can it lie past the end of the list, and there the filling of the list
  with nulls is left out.
\<close>

definition at_wallet :: "nat \<Rightarrow> (Wallet \<Rightarrow> Wallet) \<Rightarrow> User \<Rightarrow> User" where
  "at_wallet i f u = u\<lparr>usr_Wallets := (usr_Wallets u)[i := f (usr_Wallets u ! i)]\<rparr>"

definition at_first_wallet :: "(Wallet \<Rightarrow> bool) \<Rightarrow> (Wallet \<Rightarrow> Wallet) \<Rightarrow> User \<Rightarrow> User" where
  "at_first_wallet P f u = u\<lparr>usr_Wallets := update_first P f (usr_Wallets u)\<rparr>"

definition at_first_multisig :: "(Multisig \<Rightarrow> bool) \<Rightarrow> (Multisig \<Rightarrow> Multisig) \<Rightarrow> User \<Rightarrow> User" where
  "at_first_multisig P f u = u\<lparr>usr_Multisigs := update_first P f (usr_Multisigs u)\<rparr>"

definition set_multisigs :: "Multisig list \<Rightarrow> User \<Rightarrow> User" where
  "set_multisigs ms u = u\<lparr>usr_Multisigs := ms\<rparr>"

definition at_owner :: "string \<Rightarrow> (OwnerHistory \<Rightarrow> OwnerHistory) \<Rightarrow> TransactionETH \<Rightarrow> TransactionETH" where
  "at_owner a f tx =
     tx\<lparr>etx_Multisig := map_option
          (\<lambda>m. m\<lparr>mst_Owners := update_first (\<lambda>oh. oh_Address oh = a) f (mst_Owners m)\<rparr>)
          (etx_Multisig tx)\<rparr>"

lemma update_doc_UserID [simp]:
  "usr_UserID (at_wallet i f u) = usr_UserID u"
  "usr_UserID (at_first_wallet P f u) = usr_UserID u"
  "usr_UserID (at_first_multisig Q g u) = usr_UserID u"
  "usr_UserID (set_multisigs ms u) = usr_UserID u"
  by (simp_all add: at_wallet_def at_first_wallet_def at_first_multisig_def set_multisigs_def)

lemma update_doc_Devices [simp]:
  "usr_Devices (at_wallet i f u) = usr_Devices u"
  "usr_Devices (at_first_wallet P f u) = usr_Devices u"
  "usr_Devices (at_first_multisig Q g u) = usr_Devices u"
  "usr_Devices (set_multisigs ms u) = usr_Devices u"
  by (simp_all add: at_wallet_def at_first_wallet_def at_first_multisig_def set_multisigs_def)

section \<open>Reading and updating users\<close>

definition mgo_err :: "mgo_error option \<Rightarrow> go_error option" where
  "mgo_err e = map_option EMgo e"

definition users_update :: "mongo \<Rightarrow> (User \<Rightarrow> bool) \<Rightarrow> (User \<Rightarrow> User) \<Rightarrow> db \<Rightarrow> db \<times> mgo_error option" where
  "users_update M sel upd d =
     (let (us, e) = c_update (M_users M) sel upd (db_users d) in (d\<lparr>db_users := us\<rparr>, e))"

text \<open>\<open>Find(sel).One(&user)\<close> with the error dropped leaves \<open>user\<close> as it was.\<close>

definition one_or :: "'d coll_ops \<Rightarrow> ('d \<Rightarrow> bool) \<Rightarrow> 'd list \<Rightarrow> 'd \<Rightarrow> 'd" where
  "one_or ops q c old = (case c_one ops q c of Inl e \<Rightarrow> old | Inr x \<Rightarrow> x)"

definition all_or :: "'d coll_ops \<Rightarrow> ('d \<Rightarrow> bool) \<Rightarrow> 'd list \<Rightarrow> 'd list" where
  "all_or ops q c = (case c_all ops q c of Inl e \<Rightarrow> [] | Inr xs \<Rightarrow> xs)"

definition FindUser :: "mongo \<Rightarrow> (User \<Rightarrow> bool) \<Rightarrow> db \<Rightarrow> mgo_error + User" where
  "FindUser M sel d = c_one (M_users M) sel (db_users d)"

definition Insert :: "mongo \<Rightarrow> User \<Rightarrow> db \<Rightarrow> db \<times> mgo_error option" where
  "Insert M user d =
     (let (us, e) = c_insert (M_users M) user (db_users d) in (d\<lparr>db_users := us\<rparr>, e))"

text \<open>\<open>Update(sel, user)\<close> with a whole document replaces the matching one.\<close>

definition UpdateUser :: "mongo \<Rightarrow> (User \<Rightarrow> bool) \<Rightarrow> User \<Rightarrow> db \<Rightarrow> db \<times> mgo_error option" where
  "UpdateUser M sel user d = users_update M sel (\<lambda>_. user) d"

text \<open>The selector asks user documents for a key \<open>txid\<close>, which they do not have.\<close>

definition CheckTx :: "mongo \<Rightarrow> string \<Rightarrow> db \<Rightarrow> bool" where
  "CheckTx M tx d = (case c_one (M_users M) (\<lambda>u. False) (db_users d) of Inl e \<Rightarrow> True | Inr u \<Rightarrow> False)"

definition FindUserDataChain ::
  "mongo \<Rightarrow> int \<Rightarrow> int \<Rightarrow> db \<Rightarrow> (string \<rightharpoonup> AddressExtended) \<times> mgo_error option" where
  "FindUserDataChain M CurrencyID NetworkID d =
     (case c_all (M_users M) (\<lambda>_. True) (db_users d) of
        Inl e \<Rightarrow> (Map.empty, Some e)
      | Inr users \<Rightarrow>
          (fold (\<lambda>user m.
             fold (\<lambda>wallet m.
               if wal_CurrencyID wallet = CurrencyID \<and> wal_NetworkID wallet = NetworkID
               then fold (\<lambda>address m.
                      m(adr_Address address \<mapsto>
                          zero_ae\<lparr>ae_UserID := usr_UserID user,
                                  ae_WalletIndex := wal_WalletIndex wallet,
                                  ae_AddressIndex := adr_AddressIndex address\<rparr>))
                    (wal_Adresses wallet) m
               else m)
             (usr_Wallets user) m)
           users Map.empty, None))"

definition FindUsersContractsChain ::
  "mongo \<Rightarrow> int \<Rightarrow> int \<Rightarrow> db \<Rightarrow> (string \<rightharpoonup> string) \<times> mgo_error option" where
  "FindUsersContractsChain M CurrencyID NetworkID d =
     (case c_all (M_users M) (\<lambda>_. True) (db_users d) of
        Inl e \<Rightarrow> (Map.empty, Some e)
      | Inr users \<Rightarrow>
          (fold (\<lambda>user m.
             fold (\<lambda>multisig m.
               if ms_CurrencyID multisig = CurrencyID \<and> ms_NetworkID multisig = NetworkID
               then m(ms_ContractAddress multisig \<mapsto> ms_FactoryAddress multisig) else m)
             (usr_Multisigs user) m)
           users Map.empty, None))"

text \<open>The loop collects \<open>addresses\<close> and the function returns the zero value.\<close>

definition FetchUserAddresses ::
  "mongo \<Rightarrow> int \<Rightarrow> int \<Rightarrow> string \<Rightarrow> string list \<Rightarrow> db \<Rightarrow> AddressExtended \<times> mgo_error option" where
  "FetchUserAddresses M currencyID networkID userid addreses d =
     (case c_one (M_users M) (by_userID userid) (db_users d) of
        Inl e \<Rightarrow> (zero_ae, Some e)
      | Inr user \<Rightarrow>
          (let addresses = concat (map (\<lambda>wallet. concat (map (\<lambda>addres.
                 if wal_CurrencyID wallet = currencyID \<and> wal_NetworkID wallet = networkID
                 then map (\<lambda>fetchAddr.
                        if fetchAddr = adr_Address addres
                        then zero_ae\<lparr>ae_Address := fetchAddr, ae_Associated := True,
                               ae_WalletIndex := wal_WalletIndex wallet,
                               ae_AddressIndex := adr_AddressIndex addres, ae_UserID := userid\<rparr>
                        else zero_ae\<lparr>ae_Address := fetchAddr\<rparr>) addreses
                 else []) (wal_Adresses wallet))) (usr_Wallets user))
           in (zero_ae, None)))"

definition GetUsersReceiverAddressesByUserIds ::
  "mongo \<Rightarrow> string list \<Rightarrow> db \<Rightarrow> StartupReceiver list \<times> mgo_error option" where
  "GetUsersReceiverAddressesByUserIds M userIds d =
     (case c_all (M_users M) (\<lambda>u. usr_UserID u \<in> set userIds) (db_users d) of
        Inl e \<Rightarrow> ([], Some e)
      | Inr users \<Rightarrow>
          (map (\<lambda>user.
             \<lparr>sr_ID = usr_UserID user, sr_UserCode = [],
              sr_SupportedAddresses = concat (map (\<lambda>wallet.
                if wal_Status wallet = WalletStatusOK
                then map (\<lambda>address.
                       \<lparr>sa_CurrencyID = wal_CurrencyID wallet, sa_NetworkID = wal_NetworkID wallet,
                        sa_Address = adr_Address address\<rparr>) (wal_Adresses wallet)
                else []) (usr_Wallets user))\<rparr>) users, None))"

fun ConvertToBroken :: "mongo \<Rightarrow> string list \<Rightarrow> string \<Rightarrow> db \<Rightarrow> db" where
  "ConvertToBroken M [] userid d = d"
| "ConvertToBroken M (address # addresses) userid d =
     ConvertToBroken M addresses userid
       (fst (users_update M (\<lambda>u. by_userID userid u \<and> user_has_addr address u)
          (at_first_wallet (has_addr address) (\<lambda>w. w\<lparr>wal_BrokenStatus := 1\<rparr>)) d))"

text \<open>The errors of the removals are dropped. On the main net one transaction is removed, on the test net all.\<close>

definition DeleteHistory :: "mongo \<Rightarrow> int \<Rightarrow> int \<Rightarrow> string \<Rightarrow> db \<Rightarrow> db" where
  "DeleteHistory M CurrencyID NetworkID address d =
     (if CurrencyID = Bitcoin then
        if NetworkID = Main_net then
          d\<lparr>db_btcMain := fst (c_remove (M_btc M) (\<lambda>t. address \<in> set (mtx_TxAddress t)) (db_btcMain d)),
            db_spMain := fst (c_remove_all (M_sp M) (\<lambda>s. so_Address s = address) (db_spMain d)),
            db_spentMain := fst (c_remove_all (M_spent M) (\<lambda>s. dso_Address s = address) (db_spentMain d))\<rparr>
        else if NetworkID = Test_net then
          d\<lparr>db_btcTest := fst (c_remove_all (M_btc M) (\<lambda>t. address \<in> set (mtx_TxAddress t)) (db_btcTest d)),
            db_spTest := fst (c_remove_all (M_sp M) (\<lambda>s. so_Address s = address) (db_spTest d)),
            db_spentTest := fst (c_remove_all (M_spent M) (\<lambda>s. dso_Address s = address) (db_spentTest d))\<rparr>
        else d
      else d)"

definition FetchLastSyncBlockState :: "mongo \<Rightarrow> int \<Rightarrow> int \<Rightarrow> db \<Rightarrow> int \<times> mgo_error option" where
  "FetchLastSyncBlockState M networkid currencyid d =
     (case c_one (M_state M) (\<lambda>s. ls_NetworkID s = networkid \<and> ls_CurrencyID s = currencyid) (db_restore d) of
        Inl e \<Rightarrow> (0, Some e)
      | Inr ls \<Rightarrow> (ls_BlockHeight ls, None))"


section \<open>Wallets\<close>

definition wallet_key :: "int \<Rightarrow> int \<Rightarrow> int \<Rightarrow> Wallet \<Rightarrow> bool" where
  "wallet_key currencyID networkID walletindex w \<longleftrightarrow>
     wal_NetworkID w = networkID \<and> wal_WalletIndex w = walletindex \<and> wal_CurrencyID w = currencyID"

text \<open>Three conditions on \<open>wallets.*\<close>, each of which any wallet may satisfy.\<close>

definition wallet_sel :: "int \<Rightarrow> int \<Rightarrow> int \<Rightarrow> User \<Rightarrow> bool" where
  "wallet_sel currencyID networkID walletindex u \<longleftrightarrow>
     list_ex (\<lambda>w. wal_NetworkID w = networkID) (usr_Wallets u) \<and>
     list_ex (\<lambda>w. wal_CurrencyID w = currencyID) (usr_Wallets u) \<and>
     list_ex (\<lambda>w. wal_WalletIndex w = walletindex) (usr_Wallets u)"

definition imported_conds :: "string \<Rightarrow> (Wallet \<Rightarrow> bool) list" where
  "imported_conds address = [has_addr address, wal_IsImported]"

text \<open>\<open>position\<close>: the index of the first wallet with the key, 0 when there is none.\<close>

definition wallet_position :: "int \<Rightarrow> int \<Rightarrow> int \<Rightarrow> User \<Rightarrow> nat" where
  "wallet_position currencyID networkID walletindex u =
     (case first_index (wallet_key currencyID networkID walletindex) (usr_Wallets u) of
        None \<Rightarrow> 0 | Some i \<Rightarrow> i)"

definition DeleteWallet ::
  "mongo \<Rightarrow> string \<Rightarrow> string \<Rightarrow> int \<Rightarrow> int \<Rightarrow> int \<Rightarrow> int \<Rightarrow> db \<Rightarrow> db \<times> go_error option" where
  "DeleteWallet M userid address walletindex currencyID networkID assetType d =
     (if assetType = AssetTypeMultyAddress then
        (case c_one (M_users M) (by_userID userid) (db_users d) of
           Inl e \<Rightarrow> (d, Some (EMgo e))
         | Inr user \<Rightarrow>
             (let (d', e) = users_update M
                    (\<lambda>u. by_userID userid u \<and> wallet_sel currencyID networkID walletindex u)
                    (at_wallet (wallet_position currencyID networkID walletindex user)
                       (\<lambda>w. w\<lparr>wal_Status := WalletStatusDeleted\<rparr>)) d
              in (d', mgo_err e)))
      else if assetType = AssetTypeImportedAddress then
        (let (d', e) = users_update M
               (\<lambda>u. by_userID userid u \<and> (\<forall>c \<in> set (imported_conds address). list_ex c (usr_Wallets u)))
               (\<lambda>u. at_wallet (M_pos M (imported_conds address) (usr_Wallets u))
                      (\<lambda>w. w\<lparr>wal_Status := WalletStatusDeleted\<rparr>) u) d
         in case e of
              None \<Rightarrow> (d', None)
            | Some e \<Rightarrow> (d', Some (EMsg (''DeleteWallet:restClient.userStore.Update:AssetTypeImportedAddress '' @ mgo_text e))))
      else (d, None))"

definition same_chain :: "int \<Rightarrow> int \<Rightarrow> Wallet \<Rightarrow> bool" where
  "same_chain CurrencyID NetworkID w \<longleftrightarrow> wal_CurrencyID w = CurrencyID \<and> wal_NetworkID w = NetworkID"

definition CheckAddWallet :: "mongo \<Rightarrow> WalletParams \<Rightarrow> string \<Rightarrow> db \<Rightarrow> go_error option" where
  "CheckAddWallet M wp jwt d =
     (case c_one (M_users M) (by_jwt jwt) (db_users d) of
        Inl e \<Rightarrow> Some (EMgo e)
      | Inr user \<Rightarrow>
          (let count = length (filter (same_chain (wp_CurrencyID wp) (wp_NetworkID wp)) (usr_Wallets user)) in
           if int count < MaximumAvalibeEmptyWallets then None
           else if wp_CurrencyID wp = Ether then
             (let txs = (if wp_NetworkID wp = ETHMain then
                           all_or (M_eth M) (\<lambda>t. etx_UserID t = usr_UserID user) (db_ethMain d)
                         else if wp_NetworkID wp = ETHTest then
                           all_or (M_eth M) (\<lambda>t. etx_UserID t = usr_UserID user) (db_ethTest d)
                         else [])
              in if txs = [] then Some (EMsg ''maximum available wallets count'') else None)
           else if wp_CurrencyID wp = Bitcoin then
             (let txs = (if wp_NetworkID wp = Main_net then
                           all_or (M_btc M) (\<lambda>t. mtx_UserId t = usr_UserID user) (db_btcMain d)
                         else if wp_NetworkID wp = Test_net then
                           all_or (M_btc M) (\<lambda>t. mtx_UserId t = usr_UserID user) (db_btcTest d)
                         else [])
              in if txs = [] then Some (EMsg ''maximum available wallets count'') else None)
           else None))"

definition IsRelatedAddress :: "mongo \<Rightarrow> string \<Rightarrow> string \<Rightarrow> db \<Rightarrow> bool" where
  "IsRelatedAddress M userid address d =
     (case c_one (M_users M) (\<lambda>u. by_userID userid u \<and> user_has_addr address u) (db_users d) of
        Inl ErrNotFound \<Rightarrow> False | _ \<Rightarrow> True)"

section \<open>Rates and transactions\<close>

definition InsertExchangeRate :: "mongo \<Rightarrow> int \<Rightarrow> ExchangeRates \<Rightarrow> string \<Rightarrow> db \<Rightarrow> db \<times> mgo_error option" where
  "InsertExchangeRate M now eRate exchangeStock d =
     (let (rs, e) = c_insert (M_rates M)
            \<lparr>err_Exchanges = eRate, err_Timestamp = now, err_StockExchange = exchangeStock\<rparr> (db_rates d)
      in (d\<lparr>db_rates := rs\<rparr>, e))"

definition all_res :: "'d coll_ops \<Rightarrow> ('d \<Rightarrow> bool) \<Rightarrow> 'd list \<Rightarrow> 'd list \<times> mgo_error option" where
  "all_res ops q c = (case c_all ops q c of Inl e \<Rightarrow> ([], Some e) | Inr xs \<Rightarrow> (xs, None))"

definition GetAddressSpendableOutputs ::
  "mongo \<Rightarrow> string \<Rightarrow> int \<Rightarrow> int \<Rightarrow> db \<Rightarrow> SpendableOutputs list \<times> mgo_error option" where
  "GetAddressSpendableOutputs M address currencyID networkID d =
     (if currencyID = Bitcoin then
        if networkID = Main_net then all_res (M_sp M) (\<lambda>s. so_Address s = address) (db_spMain d)
        else if networkID = Test_net then all_res (M_sp M) (\<lambda>s. so_Address s = address) (db_spTest d)
        else ([], None)
      else ([], None))"

definition GetAllWalletTransactions ::
  "mongo \<Rightarrow> string \<Rightarrow> int \<Rightarrow> int \<Rightarrow> db \<Rightarrow> MultyTX list \<times> mgo_error option" where
  "GetAllWalletTransactions M userid currencyID networkID d =
     (if currencyID = Bitcoin then
        if networkID = Main_net then all_res (M_btc M) (\<lambda>t. mtx_UserId t = userid) (db_btcMain d)
        else if networkID = Test_net then all_res (M_btc M) (\<lambda>t. mtx_UserId t = userid) (db_btcTest d)
        else ([], None)
      else ([], None))"

definition GetAllWalletEthTransactions ::
  "mongo \<Rightarrow> string \<Rightarrow> int \<Rightarrow> int \<Rightarrow> db \<Rightarrow> TransactionETH list \<times> mgo_error option" where
  "GetAllWalletEthTransactions M userid currencyID networkID d =
     (if currencyID = Ether then
        if networkID = ETHMain then all_res (M_eth M) (\<lambda>t. etx_UserID t = userid) (db_ethMain d)
        else if networkID = ETHTest then all_res (M_eth M) (\<lambda>t. etx_UserID t = userid) (db_ethTest d)
        else ([], None)
      else ([], None))"

definition to_or_from :: "string \<Rightarrow> TransactionETH \<Rightarrow> bool" where
  "to_or_from address t \<longleftrightarrow> etx_To t = address \<or> etx_From t = address"

definition GetAllAddressTransactions ::
  "mongo \<Rightarrow> string \<Rightarrow> int \<Rightarrow> int \<Rightarrow> db \<Rightarrow> TransactionETH list \<times> mgo_error option" where
  "GetAllAddressTransactions M address currencyID networkID d =
     (if currencyID = Ether then
        if networkID = ETHMain then all_res (M_eth M) (to_or_from address) (db_ethMain d)
        else if networkID = ETHTest then all_res (M_eth M) (to_or_from address) (db_ethTest d)
        else ([], None)
      else ([], None))"

definition GetAllMultisigEthTransactions ::
  "mongo \<Rightarrow> string \<Rightarrow> int \<Rightarrow> int \<Rightarrow> db \<Rightarrow> TransactionETH list \<times> mgo_error option" where
  "GetAllMultisigEthTransactions M contractAddress currencyID networkID d =
     (if currencyID = Ether then
        if networkID = ETHMain then all_res (M_eth M) (to_or_from contractAddress) (db_msMain d)
        else if networkID = ETHTest then all_res (M_eth M) (to_or_from contractAddress) (db_msTest d)
        else ([], None)
      else ([], None))"

section \<open>Multisigs\<close>

definition FindMultisig :: "mongo \<Rightarrow> string \<Rightarrow> string \<Rightarrow> db \<Rightarrow> Multisig \<times> go_error option" where
  "FindMultisig M userid invitecode d =
     (case c_all (M_users M) (has_invite invitecode) (db_users d) of
        Inl e \<Rightarrow> (zero_multisig, Some (EMsg ''No such multisigs with this invite code''))
      | Inr [] \<Rightarrow> (zero_multisig, Some (EMsg ''No such multisigs with this invite code''))
      | Inr (user # _) \<Rightarrow>
          (case find (\<lambda>mu. ms_InviteCode mu = invitecode) (usr_Multisigs user) of
             Some mu \<Rightarrow> (mu, None)
           | None \<Rightarrow> (zero_multisig, None)))"

definition JoinMultisig :: "mongo \<Rightarrow> string \<Rightarrow> Multisig \<Rightarrow> db \<Rightarrow> db \<times> mgo_error option" where
  "JoinMultisig M userid multisig d =
     users_update M (by_userID userid) (\<lambda>u. set_multisigs (usr_Multisigs u @ [multisig]) u) d"

definition without_invite :: "string \<Rightarrow> User \<Rightarrow> Multisig list" where
  "without_invite invitecode user = filter (\<lambda>m. ms_InviteCode m \<noteq> invitecode) (usr_Multisigs user)"

definition LeaveMultisig :: "mongo \<Rightarrow> string \<Rightarrow> string \<Rightarrow> db \<Rightarrow> db \<times> mgo_error option" where
  "LeaveMultisig M userid invitecode d =
     (case c_one (M_users M) (by_userID userid) (db_users d) of
        Inl e \<Rightarrow> (d, Some e)
      | Inr user \<Rightarrow> users_update M (by_userID userid) (set_multisigs (without_invite invitecode user)) d)"

definition KickMultisig :: "mongo \<Rightarrow> string \<Rightarrow> string \<Rightarrow> db \<Rightarrow> db \<times> mgo_error option" where
  "KickMultisig M address invitecode d =
     (case c_one (M_users M) (user_has_addr address) (db_users d) of
        Inl e \<Rightarrow> (d, Some e)
      | Inr user \<Rightarrow> users_update M (user_has_addr address) (set_multisigs (without_invite invitecode user)) d)"

fun DeleteMultisig_loop :: "mongo \<Rightarrow> string \<Rightarrow> User list \<Rightarrow> db \<times> mgo_error option \<Rightarrow> db \<times> mgo_error option" where
  "DeleteMultisig_loop M invitecode [] r = r"
| "DeleteMultisig_loop M invitecode (user # users) (d, e) =
     DeleteMultisig_loop M invitecode users
       (users_update M (by_userID (usr_UserID user)) (set_multisigs (without_invite invitecode user)) d)"

definition DeleteMultisig :: "mongo \<Rightarrow> string \<Rightarrow> db \<Rightarrow> db \<times> mgo_error option" where
  "DeleteMultisig M invitecode d =
     DeleteMultisig_loop M invitecode (all_or (M_users M) (has_invite invitecode) (db_users d)) (d, None)"

definition CheckInviteCode :: "mongo \<Rightarrow> string \<Rightarrow> db \<Rightarrow> bool" where
  "CheckInviteCode M invitecode d =
     (case c_one (M_users M) (has_invite invitecode) (db_users d) of
        Inl ErrNotFound \<Rightarrow> True | _ \<Rightarrow> False)"

definition no_invite_info :: InviteCodeInfo where
  "no_invite_info = \<lparr>ic_CurrencyID = 0, ic_NetworkID = 0, ic_Exists = False\<rparr>"

text \<open>The loop has no \<open>break\<close>: the last multisig with the code wins.\<close>

definition InviteCodeInfo :: "mongo \<Rightarrow> string \<Rightarrow> db \<Rightarrow> InviteCodeInfo" where
  "InviteCodeInfo M invitecode d =
     (let user = one_or (M_users M) (has_invite invitecode) (db_users d) zero_user in
      fold (\<lambda>multisig info.
          if ms_InviteCode multisig = invitecode
          then \<lparr>ic_CurrencyID = ms_CurrencyID multisig, ic_NetworkID = ms_NetworkID multisig, ic_Exists = True\<rparr>
          else info)
        (usr_Multisigs user) no_invite_info)"

definition CheckMultisigCurrency :: "mongo \<Rightarrow> string \<Rightarrow> int \<Rightarrow> int \<Rightarrow> db \<Rightarrow> bool" where
  "CheckMultisigCurrency M invitecode currencyid networkid d =
     (let user = one_or (M_users M) (has_invite invitecode) (db_users d) zero_user;
          info = fold (\<lambda>multisig info.
              if ms_InviteCode multisig = invitecode
              then \<lparr>ic_CurrencyID = ms_CurrencyID multisig, ic_NetworkID = ms_NetworkID multisig, ic_Exists = True\<rparr>
              else info)
            (usr_Multisigs user) no_invite_info
      in ic_Exists info \<and> ic_NetworkID info = networkid \<and> ic_CurrencyID info = currencyid)"

definition FindMultisigUsers :: "mongo \<Rightarrow> string \<Rightarrow> db \<Rightarrow> User list" where
  "FindMultisigUsers M invitecode d = all_or (M_users M) (has_invite invitecode) (db_users d)"

definition UpdateMultisigOwners ::
  "mongo \<Rightarrow> string \<Rightarrow> string \<Rightarrow> AddressExtended list \<Rightarrow> int \<Rightarrow> db \<Rightarrow> db \<times> mgo_error option" where
  "UpdateMultisigOwners M userid invitecode owners deployStatus d =
     users_update M (\<lambda>u. by_userID userid u \<and> has_invite invitecode u)
       (at_first_multisig (\<lambda>m. ms_InviteCode m = invitecode)
          (\<lambda>m. m\<lparr>ms_Owners := owners, ms_DeployStatus := deployStatus\<rparr>)) d"

section \<open>Multisig transactions\<close>

definition ms_update_main ::
  "mongo \<Rightarrow> (TransactionETH \<Rightarrow> bool) \<Rightarrow> (TransactionETH \<Rightarrow> TransactionETH) \<Rightarrow> db \<Rightarrow> db \<times> go_error option" where
  "ms_update_main M sel upd d =
     (let (ts, e) = c_update (M_eth M) sel upd (db_msMain d) in (d\<lparr>db_msMain := ts\<rparr>, mgo_err e))"

definition ms_update_test ::
  "mongo \<Rightarrow> (TransactionETH \<Rightarrow> bool) \<Rightarrow> (TransactionETH \<Rightarrow> TransactionETH) \<Rightarrow> db \<Rightarrow> db \<times> go_error option" where
  "ms_update_test M sel upd d =
     (let (ts, e) = c_update (M_eth M) sel upd (db_msTest d) in (d\<lparr>db_msTest := ts\<rparr>, mgo_err e))"

definition already_seen :: "string \<Rightarrow> OwnerHistory list \<Rightarrow> bool" where
  "already_seen address owners \<longleftrightarrow>
     list_ex (\<lambda>owner. oh_Address owner = address \<and> oh_ConfirmationTime owner \<noteq> 0) owners"

definition seen_owner :: "int \<Rightarrow> OwnerHistory \<Rightarrow> OwnerHistory" where
  "seen_owner now oh = oh\<lparr>oh_ConfirmationStatus := MultisigOwnerStatusSeen, oh_SeenTime := now\<rparr>"

text \<open>On the test net the multisig of a transaction that was not found is dereferenced.\<close>

definition ViewTransaction ::
  "mongo \<Rightarrow> int \<Rightarrow> string \<Rightarrow> string \<Rightarrow> int \<Rightarrow> int \<Rightarrow> db \<Rightarrow> panic + (db \<times> go_error option)" where
  "ViewTransaction M now txid address currencyid networkid d =
     (if currencyid = Ether then
        if networkid = ETHMain then
          (if (case c_one (M_eth M) (has_tx_owner txid address) (db_msMain d) of
                 Inl e \<Rightarrow> False
               | Inr ms \<Rightarrow> (case etx_Multisig ms of None \<Rightarrow> False | Some m \<Rightarrow> already_seen address (mst_Owners m)))
           then Inr (d, Some (EMsg ''transaction already seen''))
           else Inr (ms_update_main M (has_tx_owner txid address) (at_owner address (seen_owner now)) d))
        else if networkid = ETHTest then
          (case (case c_one (M_eth M) (has_tx_owner txid address) (db_msTest d) of
                   Inl e \<Rightarrow> None | Inr ms \<Rightarrow> etx_Multisig ms) of
             None \<Rightarrow> Inl NilDereference
           | Some m \<Rightarrow>
               if already_seen address (mst_Owners m)
               then Inr (d, Some (EMsg ''transaction already seen''))
               else Inr (ms_update_test M (has_tx_owner txid address) (at_owner address (seen_owner now)) d))
        else Inr (d, None)
      else Inr (d, None))"

definition declined_owner :: "OwnerHistory \<Rightarrow> OwnerHistory" where
  "declined_owner oh = oh\<lparr>oh_ConfirmationStatus := MultisigOwnerStatusDeclined\<rparr>"

definition DeclineTransaction ::
  "mongo \<Rightarrow> string \<Rightarrow> string \<Rightarrow> int \<Rightarrow> int \<Rightarrow> db \<Rightarrow> db \<times> go_error option" where
  "DeclineTransaction M txid address currencyid networkid d =
     (if currencyid = Ether then
        if networkid = ETHMain then
          ms_update_main M (has_tx_owner txid address) (at_owner address declined_owner) d
        else if networkid = ETHTest then
          ms_update_test M (has_tx_owner txid address) (at_owner address declined_owner) d
        else (d, None)
      else (d, None))"

section \<open>Configured coins\<close>

definition zero_coin :: CoinType where
  "zero_coin = \<lparr>ct_CurrencyID = 0, ct_NetworkID = 0, ct_AccuracyRange = 0, ct_GRPCUrl = []\<rparr>"

definition FetchCoinType :: "CoinType list \<Rightarrow> int \<Rightarrow> int \<Rightarrow> CoinType \<times> go_error option" where
  "FetchCoinType coinTypes currencyID networkID =
     (case find (\<lambda>ct. ct_CurrencyID ct = currencyID \<and> ct_NetworkID ct = networkID) coinTypes of
        Some ct \<Rightarrow> (ct, None)
      | None \<Rightarrow> (zero_coin, Some (EMsg ''fetchCoinType: no such coin in config'')))"

end
