(* ===== verification/Btc.thy ===== *)
theory Btc
  imports Store
begin

text \<open>
  The Bitcoin package (\<open>btc/utils.go\<close>, \<open>btc/handlers.go\<close>).
  \<open>setGRPCHandlers\<close> starts one goroutine per event stream of the node service; each received
  message is one step here, a function from the state to the state, written with the handler's own checks. The
  messages are generated code: a record holds the fields the handlers read. A handler that leaves its receive
  loop reports it in its result. Messages are taken in one at a time; a receive that fails is not modelled.
\<close>

section \<open>Messages of the node service\<close>

record pb_Amount =
  pa_Address :: string
  pa_Amount :: int

record pb_WalletTx =
  pw_Userid :: string
  pw_Address :: string
  pw_Amount :: int
  pw_TxOutIndex :: int

record pb_BTCTransaction =
  pt_UserID :: string
  pt_TxID :: string
  pt_TxHash :: string
  pt_TxOutScript :: string
  pt_TxAddress :: "string list"
  pt_TxStatus :: int
  pt_TxOutAmount :: int
  pt_BlockTime :: int
  pt_BlockHeight :: int
  pt_Confirmations :: int
  pt_TxFee :: int
  pt_MempoolTime :: int
  pt_TxInputs :: "pb_Amount list"
  pt_TxOutputs :: "pb_Amount list"
  pt_WalletsInput :: "pb_WalletTx list"
  pt_WalletsOutput :: "pb_WalletTx list"
  pt_Resync :: bool

record pb_AddSpOut =
  ps_TxID :: string
  ps_TxOutID :: int
  ps_TxOutAmount :: int
  ps_TxOutScript :: string
  ps_Address :: string
  ps_UserID :: string
  ps_TxStatus :: int
  ps_WalletIndex :: int
  ps_AddressIndex :: int

record pb_Resync =
  pr_DeleteFromQueue :: string
  pr_Txs :: "pb_BTCTransaction list"
  pr_SpOuts :: "pb_AddSpOut list"
  pr_SpOutDelete :: "DeleteSpendableOutput list"

section \<open>The collections of a network\<close>

definition btc_txs :: "int \<Rightarrow> db \<Rightarrow> MultyTX list" where
  "btc_txs net d = (if net = Main_net then db_btcMain d else db_btcTest d)"

definition set_btc_txs :: "int \<Rightarrow> MultyTX list \<Rightarrow> db \<Rightarrow> db" where
  "set_btc_txs net ts d = (if net = Main_net then d\<lparr>db_btcMain := ts\<rparr> else d\<lparr>db_btcTest := ts\<rparr>)"

definition btc_sp :: "int \<Rightarrow> db \<Rightarrow> SpendableOutputs list" where
  "btc_sp net d = (if net = Main_net then db_spMain d else db_spTest d)"

definition set_btc_sp :: "int \<Rightarrow> SpendableOutputs list \<Rightarrow> db \<Rightarrow> db" where
  "set_btc_sp net xs d = (if net = Main_net then d\<lparr>db_spMain := xs\<rparr> else d\<lparr>db_spTest := xs\<rparr>)"

definition btc_spent :: "int \<Rightarrow> db \<Rightarrow> DeleteSpendableOutput list" where
  "btc_spent net d = (if net = Main_net then db_spentMain d else db_spentTest d)"

definition set_btc_spent :: "int \<Rightarrow> DeleteSpendableOutput list \<Rightarrow> db \<Rightarrow> db" where
  "set_btc_spent net xs d = (if net = Main_net then d\<lparr>db_spentMain := xs\<rparr> else d\<lparr>db_spentTest := xs\<rparr>)"

lemma btc_coll_simps [simp]:
  "btc_txs net (set_btc_txs net ts d) = ts" "btc_sp net (set_btc_txs net ts d) = btc_sp net d"
  "btc_spent net (set_btc_txs net ts d) = btc_spent net d" "db_users (set_btc_txs net ts d) = db_users d"
  "btc_sp net (set_btc_sp net xs d) = xs" "btc_txs net (set_btc_sp net xs d) = btc_txs net d"
  "btc_spent net (set_btc_sp net xs d) = btc_spent net d" "db_users (set_btc_sp net xs d) = db_users d"
  "btc_spent net (set_btc_spent net ys d) = ys" "btc_txs net (set_btc_spent net ys d) = btc_txs net d"
  "btc_sp net (set_btc_spent net ys d) = btc_sp net d" "db_users (set_btc_spent net ys d) = db_users d"
  by (simp_all add: btc_txs_def set_btc_txs_def btc_sp_def set_btc_sp_def btc_spent_def set_btc_spent_def)

lemma btc_set_set [simp]:
  "set_btc_txs net ts (set_btc_txs net us d) = set_btc_txs net ts d"
  "set_btc_txs net (btc_txs net d) d = d"
  by (simp_all add: btc_txs_def set_btc_txs_def)

lemma btc_rates [simp]:
  "db_rates (set_btc_txs net ts d) = db_rates d" "db_rates (set_btc_sp net xs d) = db_rates d"
  "db_rates (set_btc_spent net ys d) = db_rates d"
  by (simp_all add: set_btc_txs_def set_btc_sp_def set_btc_spent_def)

lemma db_users_update_btc [simp]:
  "btc_txs net (d\<lparr>db_users := us\<rparr>) = btc_txs net d" "btc_sp net (d\<lparr>db_users := us\<rparr>) = btc_sp net d"
  "btc_spent net (d\<lparr>db_users := us\<rparr>) = btc_spent net d"
  by (simp_all add: btc_txs_def btc_sp_def btc_spent_def)

section \<open>Exchange rates\<close>

definition GetReSyncExchangeRate :: "mongo \<Rightarrow> int \<Rightarrow> db \<Rightarrow> mgo_error + ExchangeRatesRecord list" where
  "GetReSyncExchangeRate M time d =
     (case c_newest (M_rates M) (\<lambda>r. err_StockExchange r = ''CCCAGG'' \<and> err_Timestamp r < time)
             err_Timestamp (db_rates d) of
        Inl e \<Rightarrow> Inl e | Inr stocksCCCAGG \<Rightarrow> Inr [stocksCCCAGG])"

definition GetLatestExchangeRate :: "mongo \<Rightarrow> db \<Rightarrow> mgo_error + ExchangeRatesRecord list" where
  "GetLatestExchangeRate M d =
     (case c_newest (M_rates M) (\<lambda>r. err_StockExchange r = ''Gdax'') err_Timestamp (db_rates d) of
        Inl e \<Rightarrow> Inl e
      | Inr stocksGdax \<Rightarrow>
          (case c_newest (M_rates M) (\<lambda>r. err_StockExchange r = ''Poloniex'') err_Timestamp (db_rates d) of
             Inl e \<Rightarrow> Inl e
           | Inr stocksPoloniex \<Rightarrow> Inr [stocksPoloniex, stocksGdax]))"

definition rates_or_nil :: "mgo_error + ExchangeRatesRecord list \<Rightarrow> ExchangeRatesRecord list" where
  "rates_or_nil r = (case r of Inl e \<Rightarrow> [] | Inr rs \<Rightarrow> rs)"

definition setExchangeRates :: "mongo \<Rightarrow> bool \<Rightarrow> int \<Rightarrow> db \<Rightarrow> MultyTX \<Rightarrow> MultyTX" where
  "setExchangeRates M isReSync TxTime d tx =
     (if isReSync then tx\<lparr>mtx_StockExchangeRate := rates_or_nil (GetReSyncExchangeRate M TxTime d)\<rparr>
      else tx\<lparr>mtx_StockExchangeRate := rates_or_nil (GetLatestExchangeRate M d)\<rparr>)"

section \<open>From messages to documents\<close>

definition wallet_for_tx :: "pb_WalletTx \<Rightarrow> WalletForTx" where
  "wallet_for_tx w =
     \<lparr>wft_UserId = pw_Userid w, wft_WalletIndex = 0,
      wft_Address = \<lparr>afw_AddressIndex = 0, afw_AddressOutIndex = pw_TxOutIndex w,
                     afw_Address = pw_Address w, afw_Amount = pw_Amount w\<rparr>\<rparr>"

text \<open>The inputs of the document come from the message's \<open>WalletsOutput\<close>, and the other way round.\<close>

definition generatedTxDataToStore :: "pb_BTCTransaction \<Rightarrow> MultyTX" where
  "generatedTxDataToStore g =
     \<lparr>mtx_UserId = pt_UserID g, mtx_TxID = pt_TxID g, mtx_TxHash = pt_TxHash g,
      mtx_TxOutScript = pt_TxOutScript g, mtx_TxAddress = pt_TxAddress g, mtx_TxStatus = pt_TxStatus g,
      mtx_TxOutAmount = pt_TxOutAmount g, mtx_BlockTime = pt_BlockTime g,
      mtx_BlockHeight = pt_BlockHeight g, mtx_Confirmations = pt_Confirmations g, mtx_TxFee = pt_TxFee g,
      mtx_MempoolTime = pt_MempoolTime g, mtx_StockExchangeRate = [],
      mtx_TxInputs = map (\<lambda>a. \<lparr>aa_Address = pa_Address a, aa_Amount = pa_Amount a\<rparr>) (pt_TxInputs g),
      mtx_TxOutputs = map (\<lambda>a. \<lparr>aa_Address = pa_Address a, aa_Amount = pa_Amount a\<rparr>) (pt_TxOutputs g),
      mtx_WalletsInput = map wallet_for_tx (pt_WalletsOutput g),
      mtx_WalletsOutput = map wallet_for_tx (pt_WalletsInput g)\<rparr>"

definition generatedSpOutsToStore :: "pb_AddSpOut \<Rightarrow> SpendableOutputs" where
  "generatedSpOutsToStore g =
     \<lparr>so_TxID = ps_TxID g, so_TxOutID = ps_TxOutID g, so_TxOutAmount = ps_TxOutAmount g,
      so_TxOutScript = ps_TxOutScript g, so_Address = ps_Address g, so_UserID = ps_UserID g,
      so_WalletIndex = ps_WalletIndex g, so_AddressIndex = ps_AddressIndex g,
      so_TxStatus = ps_TxStatus g, so_StockExchangeRate = []\<rparr>"

section \<open>Transactions\<close>

text \<open>\<open>One(multyTX)\<close> with a struct instead of a pointer: a document that is found cannot be decoded.\<close>

definition one_struct :: "'d coll_ops \<Rightarrow> ('d \<Rightarrow> bool) \<Rightarrow> 'd list \<Rightarrow> mgo_error option" where
  "one_struct ops q c =
     (case c_one ops q c of
        Inl e \<Rightarrow> Some e
      | Inr x \<Rightarrow> Some (ErrDb ''Unmarshal can't deal with struct values. Use a pointer.''))"

definition out_index_is :: "int \<Rightarrow> MultyTX \<Rightarrow> bool" where
  "out_index_is i t \<longleftrightarrow> list_ex (\<lambda>w. wft_WalletIndex w = i) (mtx_WalletsOutput t)"

text \<open>The two guards before the split; \<open>h\<close> is the block height of the zero value of \<open>multyTX\<close>.\<close>

definition seen_unconfirmed :: "mongo \<Rightarrow> MultyTX \<Rightarrow> MultyTX list \<Rightarrow> bool" where
  "seen_unconfirmed M tx c =
     (let h = (0 :: int);
          stored = (\<lambda>ws. case ws of [] \<Rightarrow> False
            | w # _ \<Rightarrow> one_struct (M_btc M) (\<lambda>t. mtx_UserId t = wft_UserId w \<and> mtx_TxID t = mtx_TxID tx \<and>
                 out_index_is (wft_WalletIndex w) t) c = None \<and> h > - 1)
      in mtx_BlockHeight tx = - 1 \<and> (stored (mtx_WalletsInput tx) \<or> stored (mtx_WalletsOutput tx)))"

definition seen_async :: "mongo \<Rightarrow> MultyTX \<Rightarrow> WalletForTx list \<Rightarrow> MultyTX list \<Rightarrow> bool" where
  "seen_async M tx ws c =
     (case ws of [] \<Rightarrow> False
      | w # _ \<Rightarrow> (case c_one (M_btc M) (\<lambda>t. mtx_UserId t = mtx_UserId tx \<and> mtx_TxID t = mtx_TxID tx \<and>
                      out_index_is (wft_WalletIndex w) t \<and> mtx_MempoolTime t = mtx_MempoolTime tx) c of
                    Inl e \<Rightarrow> False | Inr t \<Rightarrow> True))"

definition tx_update :: "MultyTX \<Rightarrow> MultyTX \<Rightarrow> MultyTX" where
  "tx_update tx t = t\<lparr>mtx_TxStatus := mtx_TxStatus tx, mtx_BlockHeight := mtx_BlockHeight tx,
     mtx_Confirmations := mtx_Confirmations tx, mtx_BlockTime := mtx_BlockTime tx,
     mtx_WalletsOutput := mtx_WalletsOutput tx, mtx_WalletsInput := mtx_WalletsInput tx\<rparr>"

definition tx_key :: "string \<Rightarrow> string \<Rightarrow> string \<Rightarrow> MultyTX \<Rightarrow> bool" where
  "tx_key user txid addr t \<longleftrightarrow> mtx_UserId t = user \<and> mtx_TxID t = txid \<and> addr \<in> set (mtx_TxAddress t)"

text \<open>
  The two branches of the split are the same code over \<open>WalletsInput\<close> and \<open>WalletsOutput\<close>;
  the first holds a second copy behind a \<open>return\<close>, which never runs.
\<close>

definition save_split ::
  "mongo \<Rightarrow> MultyTX \<Rightarrow> WalletForTx \<Rightarrow> MultyTX list \<Rightarrow> panic + (MultyTX list \<times> go_error option)" where
  "save_split M tx w c =
     bind_p (index (mtx_TxAddress tx) 0) (\<lambda>addr.
       let sel = tx_key (wft_UserId w) (mtx_TxID tx) addr in
       case c_one (M_btc M) sel c of
         Inl ErrNotFound \<Rightarrow> (let (c', e) = c_insert (M_btc M) tx c in Inr (c', mgo_err e))
       | Inl e \<Rightarrow> Inr (c, Some (EMgo e))
       | Inr t \<Rightarrow> (let (c', e) = c_update (M_btc M) sel (tx_update tx) c in Inr (c', mgo_err e)))"

definition save_in :: "mongo \<Rightarrow> MultyTX \<Rightarrow> MultyTX list \<Rightarrow> panic + (MultyTX list \<times> go_error option)" where
  "save_in M tx c =
     (if seen_unconfirmed M tx c then Inr (c, None)
      else if seen_async M tx (mtx_WalletsInput tx) c then Inr (c, None)
      else if seen_async M tx (mtx_WalletsOutput tx) c then Inr (c, None)
      else case mtx_WalletsInput tx of
             w # _ \<Rightarrow> save_split M tx w c
           | [] \<Rightarrow> (case mtx_WalletsOutput tx of
                      w # _ \<Rightarrow> save_split M tx w c
                    | [] \<Rightarrow> Inr (c, None)))"

definition saveMultyTransaction :: "mongo \<Rightarrow> MultyTX \<Rightarrow> int \<Rightarrow> db \<Rightarrow> panic + (db \<times> go_error option)" where
  "saveMultyTransaction M tx networkID d =
     (if networkID = Main_net \<or> networkID = Test_net then
        bind_p (save_in M tx (btc_txs networkID d))
          (\<lambda>(c, e). Inr (set_btc_txs networkID c d, e))
      else Inr (d, Some (EMsg ''saveMultyTransaction: wrong networkID'')))"

section \<open>Users and wallets of a transaction\<close>

text \<open>\<open>user\<close> is declared outside the loop: an address nobody has leaves the previous user.\<close>

fun setUserID_loop :: "mongo \<Rightarrow> db \<Rightarrow> string list \<Rightarrow> User \<Rightarrow> MultyTX \<Rightarrow> MultyTX" where
  "setUserID_loop M d [] user tx = tx"
| "setUserID_loop M d (address # as) user tx =
     (let user = one_or (M_users M) (user_has_addr address) (db_users d) user
      in setUserID_loop M d as user (tx\<lparr>mtx_UserId := usr_UserID user\<rparr>))"

definition setUserID :: "mongo \<Rightarrow> db \<Rightarrow> MultyTX \<Rightarrow> MultyTX" where
  "setUserID M d tx = setUserID_loop M d (mtx_TxAddress tx) zero_user tx"

text \<open>The wallet and address index of the last matching address of the user.\<close>

definition set_indexes :: "User \<Rightarrow> WalletForTx \<Rightarrow> WalletForTx" where
  "set_indexes user w0 =
     fold (\<lambda>wallet w. fold (\<lambda>addr w.
         if adr_Address addr = afw_Address (wft_Address w)
         then w\<lparr>wft_WalletIndex := wal_WalletIndex wallet,
                wft_Address := (wft_Address w)\<lparr>afw_AddressIndex := adr_AddressIndex addr\<rparr>\<rparr>
         else w) (wal_Adresses wallet) w) (usr_Wallets user) w0"

fun set_wallet_indexes :: "mongo \<Rightarrow> db \<Rightarrow> User \<Rightarrow> WalletForTx list \<Rightarrow> WalletForTx list \<times> User" where
  "set_wallet_indexes M d user [] = ([], user)"
| "set_wallet_indexes M d user (w # ws) =
     (case c_one (M_users M) (user_has_addr (afw_Address (wft_Address w))) (db_users d) of
        Inl ErrNotFound \<Rightarrow> (let (ws', u) = set_wallet_indexes M d user ws in (w # ws', u))
      | Inl (ErrDb s) \<Rightarrow> (let (ws', u) = set_wallet_indexes M d user ws in (set_indexes user w # ws', u))
      | Inr user' \<Rightarrow> (let (ws', u) = set_wallet_indexes M d user' ws in (set_indexes user' w # ws', u)))"

definition set_tx_indexes :: "mongo \<Rightarrow> db \<Rightarrow> MultyTX \<Rightarrow> MultyTX" where
  "set_tx_indexes M d tx =
     (let (ins, user) = set_wallet_indexes M d zero_user (mtx_WalletsInput tx);
          (outs, _) = set_wallet_indexes M d user (mtx_WalletsOutput tx)
      in tx\<lparr>mtx_WalletsInput := ins, mtx_WalletsOutput := outs\<rparr>)"

text \<open>
  \<open>setTxInfo\<close> ranges over copies of the wallets: it assigns to the loop variable and the
  transaction stays as it was.
\<close>

definition setTxInfo :: "mongo \<Rightarrow> db \<Rightarrow> MultyTX \<Rightarrow> MultyTX" where
  "setTxInfo M d tx = (let (ins, user) = set_wallet_indexes M d zero_user (mtx_WalletsInput tx);
                           (outs, _) = set_wallet_indexes M d user (mtx_WalletsOutput tx) in tx)"

text \<open>
  \<open>positions\<close>: \<open>break\<close> leaves the inner loop only, so the last wallet that holds the address
  counts, with the first position of the address in it.
\<close>

definition positions :: "string \<Rightarrow> Wallet list \<Rightarrow> (nat \<times> nat) option" where
  "positions a ws =
     fold (\<lambda>(i, w) r. case first_index (\<lambda>ad. adr_Address ad = a) (wal_Adresses w) of
               None \<Rightarrow> r | Some j \<Rightarrow> Some (i, j)) (enumerate 0 ws) None"

definition touch_wallet :: "int \<Rightarrow> nat \<Rightarrow> Wallet \<Rightarrow> Wallet" where
  "touch_wallet now j w =
     w\<lparr>wal_LastActionTime := now, wal_Status := WalletStatusOK,
       wal_Adresses := (wal_Adresses w)[j := (wal_Adresses w ! j)\<lparr>adr_LastActionTime := now\<rparr>]\<rparr>"

fun update_dates :: "mongo \<Rightarrow> int \<Rightarrow> WalletForTx list \<Rightarrow> db \<Rightarrow> db \<times> go_error option" where
  "update_dates M now [] d = (d, None)"
| "update_dates M now (w # ws) d =
     (let a = afw_Address (wft_Address w);
          sel = (\<lambda>u. by_userID (wft_UserId w) u \<and> user_has_addr a u);
          user = one_or (M_users M) sel (db_users d) zero_user
      in case positions a (usr_Wallets user) of
           None \<Rightarrow> update_dates M now ws d
         | Some (i, j) \<Rightarrow>
             (case users_update M sel (at_wallet i (touch_wallet now j)) d of
                (d', None) \<Rightarrow> update_dates M now ws d'
              | (d', Some e) \<Rightarrow>
                  (d', Some (EMsg (''updateWalletAndAddressDate:usersData.Update: '' @ mgo_text e)))))"

definition updateWalletAndAddressDate :: "mongo \<Rightarrow> int \<Rightarrow> MultyTX \<Rightarrow> db \<Rightarrow> db \<times> go_error option" where
  "updateWalletAndAddressDate M now tx d =
     (case update_dates M now (mtx_WalletsInput tx) d of
        (d', Some e) \<Rightarrow> (d', Some e)
      | (d', None) \<Rightarrow> update_dates M now (mtx_WalletsOutput tx) d')"

section \<open>Notifications\<close>

definition wallet_notice :: "MultyTX \<Rightarrow> int \<Rightarrow> string \<Rightarrow> WalletForTx \<Rightarrow> TransactionWithUserID list" where
  "wallet_notice tx netid to w =
     (let a = afw_Address (wft_Address w) in
      if a \<noteq> to then
        [\<lparr>twu_NotificationMsg =
            \<lparr>wtn_CurrencyID = Bitcoin, wtn_NetworkID = netid, wtn_Address = a,
             wtn_Amount = Itoa (mtx_TxOutAmount tx), wtn_TxID = mtx_TxID tx,
             wtn_TransactionType = mtx_TxStatus tx, wtn_WalletIndex = wft_WalletIndex w,
             wtn_From = a, wtn_To = to, wtn_Multisig = []\<rparr>,
          twu_UserID = wft_UserId w\<rparr>]
      else [])"

definition input_notice :: "MultyTX \<Rightarrow> int \<Rightarrow> string \<Rightarrow> AddresAmount \<Rightarrow> TransactionWithUserID list" where
  "input_notice tx netid to i =
     (if to \<noteq> aa_Address i then
        [\<lparr>twu_NotificationMsg =
            \<lparr>wtn_CurrencyID = Bitcoin, wtn_NetworkID = netid, wtn_Address = to,
             wtn_Amount = Itoa (mtx_TxOutAmount tx), wtn_TxID = mtx_TxID tx,
             wtn_TransactionType = mtx_TxStatus tx, wtn_WalletIndex = 100,
             wtn_From = aa_Address i, wtn_To = to, wtn_Multisig = []\<rparr>,
          twu_UserID = mtx_UserId tx\<rparr>]
      else [])"

text \<open>The notices published to the queue, in order. \<open>tx.TxAddress[0]\<close> is read inside the loops.\<close>

definition sendNotifyToClients :: "MultyTX \<Rightarrow> int \<Rightarrow> panic + TransactionWithUserID list" where
  "sendNotifyToClients tx netid =
     (if mtx_WalletsOutput tx = [] \<and> mtx_WalletsInput tx = [] \<and> mtx_TxInputs tx = [] then Inr []
      else bind_p (index (mtx_TxAddress tx) 0) (\<lambda>to.
        Inr (concat (map (wallet_notice tx netid to) (mtx_WalletsOutput tx)) @
             concat (map (wallet_notice tx netid to) (mtx_WalletsInput tx)) @
             concat (map (input_notice tx netid to) (mtx_TxInputs tx)))))"

end
