(* ===== verification/Btc_Handlers.thy ===== *)
theory Btc_Handlers
  imports Btc
begin

text \<open>
  The event streams of \<open>setGRPCHandlers\<close> (\<open>btc/handlers.go\<close>): the state of a network is the
  database, the mempool (\<open>sync.Map\<close> from hashes to fee categories, an association list), the
  resync queue and the messages sent so far. \<open>CheckRejectTxs\<close>, a call to the node
  service, is a parameter, as is the time of the call.
\<close>

record btc_state =
  bs_db :: db
  bs_mempool :: "(string \<times> int) list"
  bs_resync :: "string list"
  bs_notices :: "TransactionWithUserID list"
  bs_broadcasts :: "(string \<times> int) list"

text \<open>What a handler does after a message: goes on, leaves its loop, or panics; what was written stays written.\<close>

datatype 'a outcome = Goes 'a | Leaves 'a | Dies panic 'a

fun outcome_state :: "'a outcome \<Rightarrow> 'a" where
  "outcome_state (Goes s) = s"
| "outcome_state (Leaves s) = s"
| "outcome_state (Dies p s) = s"

section \<open>Mempool\<close>

definition mempool_store :: "MempoolRecord \<Rightarrow> btc_state \<Rightarrow> btc_state" where
  "mempool_store v s = s\<lparr>bs_mempool := AList.update (mpr_HashTX v) (mpr_Category v) (bs_mempool s)\<rparr>"

definition mempool_delete :: "string \<Rightarrow> btc_state \<Rightarrow> btc_state" where
  "mempool_delete h s = s\<lparr>bs_mempool := AList.delete h (bs_mempool s)\<rparr>"

section \<open>New blocks\<close>

definition state_key :: "int \<Rightarrow> int \<Rightarrow> LastState \<Rightarrow> bool" where
  "state_key cur net l \<longleftrightarrow> ls_CurrencyID l = cur \<and> ls_NetworkID l = net"

definition save_height :: "mongo \<Rightarrow> int \<Rightarrow> int \<Rightarrow> int \<Rightarrow> db \<Rightarrow> db" where
  "save_height M cur net height d =
     d\<lparr>db_restore := fst (c_upsert (M_state M) (state_key cur net) (\<lambda>l. l\<lparr>ls_BlockHeight := height\<rparr>)
         \<lparr>ls_BlockHeight = height, ls_CurrencyID = cur, ls_NetworkID = net\<rparr> (db_restore d))\<rparr>"

definition unsettled :: "int \<Rightarrow> int \<Rightarrow> MultyTX \<Rightarrow> bool" where
  "unsettled height accuracyRange t \<longleftrightarrow>
     mtx_BlockHeight t = 0 \<and> mtx_TxStatus t \<notin> {TxStatusTxRejectedOutgoing, TxStatusTxRejectedIncoming} \<or>
     mtx_BlockHeight t < height \<and> wrap64 (height - accuracyRange) < mtx_BlockHeight t"

definition incoming :: "int \<Rightarrow> bool" where
  "incoming st \<longleftrightarrow> st \<in> {TxStatusAppearedInMempoolIncoming, TxStatusAppearedInBlockIncoming,
     TxStatusInBlockConfirmedIncoming}"

definition outgoing :: "int \<Rightarrow> bool" where
  "outgoing st \<longleftrightarrow> st \<in> {TxStatusAppearedInMempoolOutcoming, TxStatusAppearedInBlockOutcoming,
     TxStatusInBlockConfirmedOutcoming}"

text \<open>
  The documents of the Bitcoin collections are \<open>MultyTX\<close>, and a \<open>MultyTX\<close> has no key
  \<open>hash\<close>: decoded as a \<open>TransactionETH\<close> its hash is empty, and a selector on \<open>hash\<close>
  selects none.
\<close>

definition hash_key :: "MultyTX \<Rightarrow> string option" where
  "hash_key t = None"

definition decoded_hash :: "MultyTX \<Rightarrow> string" where
  "decoded_hash t = (case hash_key t of None \<Rightarrow> [] | Some h \<Rightarrow> h)"

fun reject_btc :: "mongo \<Rightarrow> string list \<Rightarrow> MultyTX list \<Rightarrow> MultyTX list" where
  "reject_btc M [] c = c"
| "reject_btc M (hash # hashes) c =
     (let c1 = fst (c_update_all (M_btc M) (\<lambda>t. hash_key t = Some hash \<and> incoming (mtx_TxStatus t))
                 (\<lambda>t. t\<lparr>mtx_TxStatus := TxStatusTxRejectedIncoming\<rparr>) c);
          c2 = fst (c_update_all (M_btc M) (\<lambda>t. hash_key t = Some hash \<and> outgoing (mtx_TxStatus t))
                 (\<lambda>t. t\<lparr>mtx_TxStatus := TxStatusTxRejectedOutgoing\<rparr>) c1)
      in reject_btc M hashes c2)"

text \<open>\<open>CheckRejectTxs\<close> answers \<open>None\<close> for an error, and the nil reply then has no rejected hashes.\<close>

definition EventNewBlock ::
  "mongo \<Rightarrow> (string list \<Rightarrow> string list option) \<Rightarrow> int \<Rightarrow> int \<Rightarrow> int \<Rightarrow> btc_state \<Rightarrow> btc_state" where
  "EventNewBlock M CheckRejectTxs net accuracyRange height s =
     (let d = save_height M Bitcoin net height (bs_db s);
          txs = all_or (M_btc M) (unsettled height accuracyRange) (btc_txs net d);
          rejected = (case CheckRejectTxs (map decoded_hash txs) of None \<Rightarrow> [] | Some hs \<Rightarrow> hs)
      in s\<lparr>bs_db := set_btc_txs net (reject_btc M rejected (btc_txs net d)) d\<rparr>)"

section \<open>Spendable outputs\<close>

definition sp_key :: "string \<Rightarrow> string \<Rightarrow> string \<Rightarrow> SpendableOutputs \<Rightarrow> bool" where
  "sp_key user txid addr s \<longleftrightarrow> so_UserID s = user \<and> so_TxID s = txid \<and> so_Address s = addr"

definition spent_key :: "string \<Rightarrow> string \<Rightarrow> string \<Rightarrow> DeleteSpendableOutput \<Rightarrow> bool" where
  "spent_key user txid addr s \<longleftrightarrow> dso_UserID s = user \<and> dso_TxID s = txid \<and> dso_Address s = addr"

text \<open>
  The body shared by \<open>EventAddSpendableOut\<close> and the resync handler, from the point where the output
  was not found among the spent ones, and as a whole; \<open>True\<close>: go on with the next message.
\<close>

definition add_unspent :: "mongo \<Rightarrow> int \<Rightarrow> pb_AddSpOut \<Rightarrow> db \<Rightarrow> db \<times> bool" where
  "add_unspent M net g d =
     (case c_one (M_users M) (user_has_addr (ps_Address g)) (db_users d) of
        Inl (ErrDb e) \<Rightarrow> (d, False)
      | _ \<Rightarrow>
          (let spOut = (generatedSpOutsToStore g)
                         \<lparr>so_StockExchangeRate := rates_or_nil (GetLatestExchangeRate M d)\<rparr>;
               key = sp_key (so_UserID spOut) (so_TxID spOut) (so_Address spOut)
           in case c_one (M_sp M) key (btc_sp net d) of
                Inl ErrNotFound \<Rightarrow> (set_btc_sp net (fst (c_insert (M_sp M) spOut (btc_sp net d))) d, True)
              | Inl (ErrDb e) \<Rightarrow> (d, True)
              | Inr old \<Rightarrow>
                  (set_btc_sp net (fst (c_update (M_sp M) key
                     (\<lambda>s. s\<lparr>so_TxStatus := so_TxStatus spOut\<rparr>) (btc_sp net d))) d, True)))"

definition add_spendable :: "mongo \<Rightarrow> int \<Rightarrow> pb_AddSpOut \<Rightarrow> db \<Rightarrow> db \<times> bool" where
  "add_spendable M net g d =
     (case c_one (M_spent M) (spent_key (ps_UserID g) (ps_TxID g) (ps_Address g)) (btc_spent net d) of
        Inl ErrNotFound \<Rightarrow> add_unspent M net g d
      | _ \<Rightarrow> (d, True))"

text \<open>
  One pass of the deletion loop: \<open>True\<close> when the removal succeeded. \<open>sync.Once\<close> is
  declared inside the loop.
\<close>

definition delete_attempt :: "mongo \<Rightarrow> int \<Rightarrow> DeleteSpendableOutput \<Rightarrow> db \<Rightarrow> db \<times> bool" where
  "delete_attempt M net del d =
     (let d1 = set_btc_spent net (fst (c_insert (M_spent M) del (btc_spent net d))) d;
          (sp, e) = c_remove (M_sp M) (sp_key (dso_UserID del) (dso_TxID del) (dso_Address del)) (btc_sp net d1)
      in (set_btc_sp net sp d1, e = None))"

fun delete_loop :: "nat \<Rightarrow> mongo \<Rightarrow> int \<Rightarrow> DeleteSpendableOutput \<Rightarrow> db \<Rightarrow> db" where
  "delete_loop 0 M net del d = d"
| "delete_loop (Suc k) M net del d =
     (case delete_attempt M net del d of
        (d', True) \<Rightarrow> d'
      | (d', False) \<Rightarrow> delete_loop k M net del d')"

definition EventAddSpendableOut :: "mongo \<Rightarrow> int \<Rightarrow> pb_AddSpOut \<Rightarrow> btc_state \<Rightarrow> btc_state outcome" where
  "EventAddSpendableOut M net g s =
     (case add_spendable M net g (bs_db s) of
        (d, True) \<Rightarrow> Goes (s\<lparr>bs_db := d\<rparr>) | (d, False) \<Rightarrow> Leaves (s\<lparr>bs_db := d\<rparr>))"

definition EventDeleteSpendableOut :: "mongo \<Rightarrow> int \<Rightarrow> DeleteSpendableOutput \<Rightarrow> btc_state \<Rightarrow> btc_state" where
  "EventDeleteSpendableOut M net del s = s\<lparr>bs_db := delete_loop 4 M net del (bs_db s)\<rparr>"

section \<open>Transactions\<close>

definition prepare_tx :: "mongo \<Rightarrow> db \<Rightarrow> pb_BTCTransaction \<Rightarrow> MultyTX" where
  "prepare_tx M d g =
     (let tx = generatedTxDataToStore g in
      set_tx_indexes M d (setUserID M d (setExchangeRates M (pt_Resync g) (mtx_MempoolTime tx) d tx)))"

text \<open>Saving, dating the wallets; the errors are logged and dropped.\<close>

definition record_tx :: "mongo \<Rightarrow> int \<Rightarrow> int \<Rightarrow> MultyTX \<Rightarrow> db \<Rightarrow> panic + db" where
  "record_tx M now net tx d =
     bind_p (saveMultyTransaction M tx net d)
       (\<lambda>(d', e). Inr (fst (updateWalletAndAddressDate M now tx d')))"

definition NewTx :: "mongo \<Rightarrow> int \<Rightarrow> int \<Rightarrow> pb_BTCTransaction \<Rightarrow> btc_state \<Rightarrow> btc_state outcome" where
  "NewTx M now net g s =
     (let tx = prepare_tx M (bs_db s) g in
      case record_tx M now net tx (bs_db s) of
        Inl p \<Rightarrow> Dies p s
      | Inr d \<Rightarrow>
          if pt_Resync g then Goes (s\<lparr>bs_db := d\<rparr>)
          else (case sendNotifyToClients tx net of
                  Inl p \<Rightarrow> Dies p (s\<lparr>bs_db := d\<rparr>)
                | Inr msgs \<Rightarrow> Goes (s\<lparr>bs_db := d, bs_notices := bs_notices s @ msgs\<rparr>)))"

section \<open>Resynchronisation of an address\<close>

fun resync_txs :: "mongo \<Rightarrow> int \<Rightarrow> int \<Rightarrow> pb_BTCTransaction list \<Rightarrow> db \<Rightarrow> db \<times> panic option" where
  "resync_txs M now net [] d = (d, None)"
| "resync_txs M now net (g # gs) d =
     (case record_tx M now net (prepare_tx M d g) d of
        Inl p \<Rightarrow> (d, Some p) | Inr d' \<Rightarrow> resync_txs M now net gs d')"

fun resync_spouts :: "mongo \<Rightarrow> int \<Rightarrow> pb_AddSpOut list \<Rightarrow> db \<Rightarrow> db \<times> bool" where
  "resync_spouts M net [] d = (d, True)"
| "resync_spouts M net (g # gs) d =
     (case add_spendable M net g d of
        (d', True) \<Rightarrow> resync_spouts M net gs d' | (d', False) \<Rightarrow> (d', False))"

fun resync_dels :: "mongo \<Rightarrow> int \<Rightarrow> DeleteSpendableOutput list \<Rightarrow> db \<Rightarrow> db" where
  "resync_dels M net [] d = d"
| "resync_dels M net (del # dels) d = resync_dels M net dels (delete_loop 4 M net del d)"

definition unqueue :: "string \<Rightarrow> btc_state \<Rightarrow> btc_state" where
  "unqueue a s = s\<lparr>bs_resync := filter (\<lambda>x. x \<noteq> a) (bs_resync s)\<rparr>"

definition ResyncAddress :: "mongo \<Rightarrow> int \<Rightarrow> int \<Rightarrow> pb_Resync \<Rightarrow> btc_state \<Rightarrow> btc_state outcome" where
  "ResyncAddress M now net r s =
     (let s1 = (if pr_DeleteFromQueue r \<noteq> [] then unqueue (pr_DeleteFromQueue r) s else s) in
      case resync_txs M now net (pr_Txs r) (bs_db s1) of
        (d1, Some p) \<Rightarrow> Dies p (s1\<lparr>bs_db := d1\<rparr>)
      | (d1, None) \<Rightarrow>
          (case resync_spouts M net (pr_SpOuts r) d1 of
             (d2, False) \<Rightarrow> Leaves (s1\<lparr>bs_db := d2\<rparr>)
           | (d2, True) \<Rightarrow>
               (let s2 = s1\<lparr>bs_db := resync_dels M net (pr_SpOutDelete r) d2\<rparr> in
                if pr_Txs r = [] then Goes s2
                else
                  (let s3 = fold (\<lambda>spout. unqueue (ps_Address spout)) (pr_SpOuts r) s2 in
                   case pr_SpOuts r of
                     [] \<Rightarrow> Goes s3
                   | o1 # _ \<Rightarrow> Goes (s3\<lparr>bs_broadcasts := bs_broadcasts s3 @ [(ps_UserID o1, NotifyResyncEnd)]\<rparr>)))))"

section \<open>Watching addresses\<close>

record pb_WatchAddress =
  pwa_Address :: string
  pwa_UserID :: string
  pwa_WalletIndex :: int
  pwa_AddressIndex :: int

record pb_AddressToResync =
  par_Address :: string
  par_UserID :: string
  par_WalletIndex :: int
  par_AddressIndex :: int

text \<open>The two calls to the node for one watched address. The address index sent is the wallet index.\<close>

definition watch_calls :: "pb_WatchAddress \<Rightarrow> pb_WatchAddress \<times> pb_AddressToResync" where
  "watch_calls addr =
     (addr, \<lparr>par_Address = pwa_Address addr, par_UserID = pwa_UserID addr,
             par_WalletIndex = pwa_WalletIndex addr, par_AddressIndex = pwa_WalletIndex addr\<rparr>)"

section \<open>The package as a transition system\<close>

text \<open>One message of one stream of network \<open>net\<close>, taken in by its handler.\<close>

inductive btc_step :: "mongo \<Rightarrow> int \<Rightarrow> btc_state \<Rightarrow> btc_state \<Rightarrow> bool" for M net where
  MempoolAdd: "btc_step M net s (mempool_store v s)"
| MempoolDelete: "btc_step M net s (mempool_delete h s)"
| NewBlock: "btc_step M net s (EventNewBlock M check net acc height s)"
| AddSpendable: "btc_step M net s (outcome_state (EventAddSpendableOut M net g s))"
| DeleteSpendable: "btc_step M net s (EventDeleteSpendableOut M net del s)"
| NewTx: "btc_step M net s (outcome_state (NewTx M now net g s))"
| Resync: "btc_step M net s (outcome_state (ResyncAddress M now net r s))"

end
