(* ===== verification/Store_Facts.thy ===== *)
theory Store_Facts
  imports Store
begin

text \<open>
  Correctness of the user store. First what every operation keeps, whatever the database
  reports (context \<open>mongo_srv\<close>), then what each operation does when the database answers
  (context \<open>mongo_live\<close>), and the properties of the store stated over \<open>db\<close>.
\<close>

section \<open>What every operation keeps\<close>

text \<open>The part of a user document that only registration and login may write.\<close>

definition account :: "User \<Rightarrow> string \<times> int \<times> Device list \<times> (int \<times> int \<times> int \<times> Address list) list" where
  "account u = (usr_UserID u, usr_SeedPhraseType u, usr_Devices u,
     map (\<lambda>w. (wal_CurrencyID w, wal_NetworkID w, wal_WalletIndex w, wal_Adresses w)) (usr_Wallets u))"

definition accounts :: "db \<Rightarrow> (string \<times> int \<times> Device list \<times> (int \<times> int \<times> int \<times> Address list) list) list" where
  "accounts d = map account (db_users d)"

lemma map_nth_update: "g (f (xs ! i)) = g (xs ! i) \<Longrightarrow> map g (xs[i := f (xs ! i)]) = map g xs"
  by (cases "i < length xs") (simp_all add: map_update list_update_same_conv list_update_beyond)

lemma account_set_multisigs [simp]: "account (set_multisigs ms u) = account u"
  by (simp add: account_def set_multisigs_def)

lemma account_at_first_multisig [simp]: "account (at_first_multisig P f u) = account u"
  by (simp add: account_def at_first_multisig_def)

lemma account_status [simp]: "account (at_wallet i (\<lambda>w. w\<lparr>wal_Status := s\<rparr>) u) = account u"
  by (simp add: account_def at_wallet_def map_nth_update)

lemma account_broken [simp]: "account (at_first_wallet P (\<lambda>w. w\<lparr>wal_BrokenStatus := b\<rparr>) u) = account u"
  by (simp add: account_def at_first_wallet_def)

context mongo_srv
begin

lemma users_update_accounts:
  assumes "\<And>u. sel u \<Longrightarrow> account (f u) = account u"
  shows "accounts (fst (users_update M sel f d)) = accounts d"
  using users.update_map [of sel account f "db_users d"] assms
  by (simp add: users_update_def accounts_def case_prod_beta)

lemma DeleteWallet_accounts: "accounts (fst (DeleteWallet M uid a i c n t d)) = accounts d"
  by (auto simp: DeleteWallet_def users_update_accounts case_prod_beta split: sum.split option.split)

lemma ConvertToBroken_accounts: "accounts (ConvertToBroken M as uid d) = accounts d"
  by (induction as arbitrary: d) (simp_all add: users_update_accounts)

lemma DeleteHistory_accounts: "accounts (DeleteHistory M c n a d) = accounts d"
  by (simp add: DeleteHistory_def accounts_def)

lemma JoinMultisig_accounts: "accounts (fst (JoinMultisig M uid m d)) = accounts d"
  by (simp add: JoinMultisig_def users_update_accounts)

lemma LeaveMultisig_accounts: "accounts (fst (LeaveMultisig M uid code d)) = accounts d"
  by (simp add: LeaveMultisig_def users_update_accounts split: sum.split)

lemma KickMultisig_accounts: "accounts (fst (KickMultisig M a code d)) = accounts d"
  by (simp add: KickMultisig_def users_update_accounts split: sum.split)

lemma DeleteMultisig_loop_accounts: "accounts (fst (DeleteMultisig_loop M code us r)) = accounts (fst r)"
proof (induction us arbitrary: r)
  case Nil
  then show ?case by simp
next
  case (Cons u us)
  then show ?case by (cases r) (simp add: users_update_accounts)
qed

lemma DeleteMultisig_accounts: "accounts (fst (DeleteMultisig M code d)) = accounts d"
  by (simp add: DeleteMultisig_def DeleteMultisig_loop_accounts)

lemma UpdateMultisigOwners_accounts: "accounts (fst (UpdateMultisigOwners M uid code os s d)) = accounts d"
  by (simp add: UpdateMultisigOwners_def users_update_accounts)

lemma ViewTransaction_accounts: "ViewTransaction M now tx a c n d = Inr r \<Longrightarrow> accounts (fst r) = accounts d"
  by (auto simp: ViewTransaction_def ms_update_main_def ms_update_test_def accounts_def case_prod_beta
      split: if_splits option.splits)

lemma DeclineTransaction_accounts: "accounts (fst (DeclineTransaction M tx a c n d)) = accounts d"
  by (simp add: DeclineTransaction_def ms_update_main_def ms_update_test_def accounts_def case_prod_beta)

lemma InsertExchangeRate_accounts: "accounts (fst (InsertExchangeRate M now r s d)) = accounts d"
  by (simp add: InsertExchangeRate_def accounts_def case_prod_beta)

lemmas keeps_accounts =
  DeleteWallet_accounts ConvertToBroken_accounts DeleteHistory_accounts JoinMultisig_accounts
  LeaveMultisig_accounts KickMultisig_accounts DeleteMultisig_accounts UpdateMultisigOwners_accounts
  DeclineTransaction_accounts InsertExchangeRate_accounts

end

text \<open>One call of a mutating operation of the store, with any arguments.\<close>

inductive store_step :: "mongo \<Rightarrow> db \<Rightarrow> db \<Rightarrow> bool" for M where
  DeleteWallet: "store_step M d (fst (DeleteWallet M uid a i c n t d))"
| ConvertToBroken: "store_step M d (ConvertToBroken M as uid d)"
| DeleteHistory: "store_step M d (DeleteHistory M c n a d)"
| JoinMultisig: "store_step M d (fst (JoinMultisig M uid m d))"
| LeaveMultisig: "store_step M d (fst (LeaveMultisig M uid code d))"
| KickMultisig: "store_step M d (fst (KickMultisig M a code d))"
| DeleteMultisig: "store_step M d (fst (DeleteMultisig M code d))"
| UpdateMultisigOwners: "store_step M d (fst (UpdateMultisigOwners M uid code os s d))"
| ViewTransaction: "ViewTransaction M now tx a c n d = Inr r \<Longrightarrow> store_step M d (fst r)"
| DeclineTransaction: "store_step M d (fst (DeclineTransaction M tx a c n d))"
| InsertExchangeRate: "store_step M d (fst (InsertExchangeRate M now er s d))"

lemma store_step_accounts: "mongo_srv M \<Longrightarrow> store_step M d d' \<Longrightarrow> accounts d' = accounts d"
  by (erule store_step.cases)
    (simp_all add: mongo_srv.keeps_accounts mongo_srv.ViewTransaction_accounts)

lemma store_steps_accounts:
  assumes "mongo_srv M" "(store_step M)\<^sup>*\<^sup>* d d'"
  shows "accounts d' = accounts d"
  using assms(2) by (induction) (simp_all add: store_step_accounts [OF assms(1)])

section \<open>Functional behaviour\<close>

lemma update_first_key:
  "distinct (map g xs) \<Longrightarrow> x \<in> set xs \<Longrightarrow>
   update_first (\<lambda>y. g y = g x) f xs = map (\<lambda>y. if y = x then f x else y) xs"
proof (induction xs)
  case Nil
  then show ?case by simp
next
  case (Cons a xs)
  show ?case
  proof (cases "a = x")
    case True
    with Cons.prems have "x \<notin> set xs" by auto
    with True show ?thesis by (auto intro: map_idI [symmetric])
  next
    case False
    with Cons.prems have "x \<in> set xs" "g a \<noteq> g x" by auto
    with False Cons show ?thesis by simp
  qed
qed

lemma update_first_find:
  "find P xs = Some x \<Longrightarrow> (\<And>y. y \<in> set xs \<Longrightarrow> Q y \<Longrightarrow> P y) \<Longrightarrow> Q x \<Longrightarrow> update_first Q f xs = update_first P f xs"
  by (induction xs) (auto split: if_splits)

lemma update_first_cong: "(\<And>x. x \<in> set xs \<Longrightarrow> P x = Q x) \<Longrightarrow> update_first P f xs = update_first Q f xs"
  by (induction xs) auto

lemma update_first_undo:
  "find P xs = Some x \<Longrightarrow> P (f x) \<Longrightarrow> g (f x) = x \<Longrightarrow> update_first P g (update_first P f xs) = xs"
  by (induction xs) (auto split: if_splits)

definition strip :: "string \<Rightarrow> User \<Rightarrow> User" where
  "strip code u = set_multisigs (without_invite code u) u"

lemma strip_UserID [simp]: "usr_UserID (strip code u) = usr_UserID u"
  by (simp add: strip_def)

lemma strip_no_invite [simp]: "\<not> has_invite code (strip code u)"
  by (auto simp: strip_def set_multisigs_def without_invite_def has_invite_def list_ex_iff)

lemma strip_idle: "\<not> has_invite code u \<Longrightarrow> strip code u = u"
  by (auto simp: strip_def set_multisigs_def without_invite_def has_invite_def list_ex_iff filter_id_conv)

context mongo_live
begin

lemma users_update_live:
  "users_update M sel f d =
     (if list_ex sel (db_users d) then (d\<lparr>db_users := update_first sel f (db_users d)\<rparr>, None)
      else (d, Some ErrNotFound))"
  by (simp add: users_update_def live_simps doc_update_def)

lemma find_list_ex: "find P xs = Some x \<Longrightarrow> list_ex P xs"
  by (drule find_SomeD) (auto simp: list_ex_iff)

lemma DeleteMultisig_loop_users:
  assumes "distinct (map usr_UserID (db_users d))" "set us \<subseteq> set (db_users d)" "distinct (map usr_UserID us)"
  shows "db_users (fst (DeleteMultisig_loop M code us (d, e))) =
           map (\<lambda>x. if x \<in> set us then strip code x else x) (db_users d)"
  using assms
proof (induction us arbitrary: d e)
  case Nil
  then show ?case by simp
next
  case (Cons u us)
  let ?d = "fst (users_update M (by_userID (usr_UserID u)) (set_multisigs (without_invite code u)) d)"
  have ex: "list_ex (by_userID (usr_UserID u)) (db_users d)"
    using Cons.prems(2) by (auto simp: list_ex_iff by_userID_def)
  have "by_userID (usr_UserID u) = (\<lambda>y. usr_UserID y = usr_UserID u)"
    by (simp add: by_userID_def fun_eq_iff)
  then have us: "db_users ?d = map (\<lambda>y. if y = u then strip code u else y) (db_users d)"
    using Cons.prems ex update_first_key [of usr_UserID "db_users d" u]
    by (simp add: users_update_live strip_def)
  have ids: "map usr_UserID (db_users ?d) = map usr_UserID (db_users d)"
    by (simp add: us)
  have new: "usr_UserID u \<notin> usr_UserID ` set us" using Cons.prems(3) by auto
  then have sub: "set us \<subseteq> set (db_users ?d)"
    using Cons.prems(2) by (auto simp: us)
  have "strip code u \<notin> set us" using new by (metis strip_UserID image_eqI)
  moreover have "u \<notin> set us" using new by auto
  ultimately have "map (\<lambda>x. if x \<in> set us then strip code x else x) (db_users ?d) =
      map (\<lambda>x. if x \<in> set (u # us) then strip code x else x) (db_users d)"
    by (auto simp: us)
  moreover obtain e' where "users_update M (by_userID (usr_UserID u)) (set_multisigs (without_invite code u)) d = (?d, e')"
    by (metis surjective_pairing)
  ultimately show ?case
    using Cons.IH [of ?d e'] Cons.prems(1,3) ids sub by simp
qed

lemma distinct_map_filter_key: "distinct (map g xs) \<Longrightarrow> distinct (map g (filter P xs))"
  by (induction xs) auto

lemma DeleteMultisig_users:
  assumes "distinct (map usr_UserID (db_users d))"
  shows "db_users (fst (DeleteMultisig M code d)) = map (strip code) (db_users d)"
proof -
  have "all_or (M_users M) (has_invite code) (db_users d) = filter (has_invite code) (db_users d)"
    by (simp add: all_or_def live_simps)
  then have "db_users (fst (DeleteMultisig M code d)) =
      map (\<lambda>x. if x \<in> set (filter (has_invite code) (db_users d)) then strip code x else x) (db_users d)"
    using DeleteMultisig_loop_users [OF assms, of "filter (has_invite code) (db_users d)" code None]
      distinct_map_filter_key [OF assms]
    by (simp add: DeleteMultisig_def)
  also have "\<dots> = map (strip code) (db_users d)"
    by (auto simp: strip_idle)
  finally show ?thesis .
qed

lemma CheckInviteCode_iff: "CheckInviteCode M code d \<longleftrightarrow> (\<forall>u \<in> set (db_users d). \<not> has_invite code u)"
  using find_None_iff [of "has_invite code" "db_users d"]
  by (auto simp: CheckInviteCode_def live_simps doc_one_def split: option.splits)

lemma FindMultisig_spec:
  "snd (FindMultisig M uid code d) = None \<longleftrightarrow> \<not> CheckInviteCode M code d"
  "snd (FindMultisig M uid code d) = None \<Longrightarrow> ms_InviteCode (fst (FindMultisig M uid code d)) = code"
proof -
  let ?us = "filter (has_invite code) (db_users d)"
  have all: "c_all (M_users M) (has_invite code) (db_users d) = Inr ?us" by (simp add: live_simps)
  have "ms_InviteCode (fst (FindMultisig M uid code d)) = code \<and> snd (FindMultisig M uid code d) = None"
    if "?us = u # us" for u us
  proof -
    have "has_invite code u" using that by (metis filter_eq_Cons_iff)
    then obtain m where m: "find (\<lambda>mu. ms_InviteCode mu = code) (usr_Multisigs u) = Some m"
      using find_Some_iff_ex [of "\<lambda>mu. ms_InviteCode mu = code" "usr_Multisigs u"]
      by (auto simp: has_invite_def list_ex_iff)
    then show ?thesis using find_SomeD [OF m] that all by (simp add: FindMultisig_def)
  qed
  note some = this
  have none: "snd (FindMultisig M uid code d) \<noteq> None" if "?us = []"
    using that all by (simp add: FindMultisig_def)
  show "snd (FindMultisig M uid code d) = None \<longleftrightarrow> \<not> CheckInviteCode M code d"
    using some none by (cases ?us) (auto simp: CheckInviteCode_iff filter_empty_conv filter_eq_Cons_iff)
  show "snd (FindMultisig M uid code d) = None \<Longrightarrow> ms_InviteCode (fst (FindMultisig M uid code d)) = code"
    using some none by (cases ?us) auto
qed

lemma Join_Leave:
  assumes "find (by_userID uid) (db_users d) = Some u" "\<not> has_invite (ms_InviteCode m) u"
  shows "LeaveMultisig M uid (ms_InviteCode m) (fst (JoinMultisig M uid m d)) = (d, None)"
proof -
  let ?f = "\<lambda>u. set_multisigs (usr_Multisigs u @ [m]) u"
  let ?us = "update_first (by_userID uid) ?f (db_users d)"
  have j: "JoinMultisig M uid m d = (d\<lparr>db_users := ?us\<rparr>, None)"
    by (simp add: JoinMultisig_def users_update_live find_list_ex [OF assms(1)])
  have uid: "by_userID uid u" using find_SomeD [OF assms(1)] by simp
  have f: "find (by_userID uid) ?us = Some (?f u)"
    by (rule find_update_first [OF assms(1)]) (use uid in \<open>simp add: by_userID_def\<close>)
  have w: "without_invite (ms_InviteCode m) (?f u) = usr_Multisigs u"
    using assms(2) by (auto simp: without_invite_def set_multisigs_def has_invite_def list_ex_iff filter_id_conv)
  have "update_first (by_userID uid) (set_multisigs (usr_Multisigs u)) ?us = db_users d"
    by (rule update_first_undo [OF assms(1)]) (use uid in \<open>auto simp: set_multisigs_def by_userID_def\<close>)
  then show ?thesis
    using w by (simp add: j LeaveMultisig_def live_simps doc_one_def f users_update_live find_list_ex [OF f])
qed

lemma DeleteWallet_found:
  assumes u: "find (by_userID uid) (db_users d) = Some u"
    and k: "first_index (wallet_key c n i) (usr_Wallets u) = Some k"
  shows "DeleteWallet M uid a i c n AssetTypeMultyAddress d =
     (d\<lparr>db_users := update_first (by_userID uid)
          (at_wallet k (\<lambda>w. w\<lparr>wal_Status := WalletStatusDeleted\<rparr>)) (db_users d)\<rparr>, None)"
proof -
  let ?sel = "\<lambda>u. by_userID uid u \<and> wallet_sel c n i u"
  have uP: "u \<in> set (db_users d)" "by_userID uid u" using find_SomeD [OF u] by auto
  have "wallet_sel c n i u"
    using first_index_Some [OF k] by (auto simp: wallet_sel_def wallet_key_def list_ex_iff intro: nth_mem)
  then have s: "?sel u" using uP by simp
  then have ex: "list_ex ?sel (db_users d)" using uP by (auto simp: list_ex_iff)
  have "update_first ?sel f (db_users d) = update_first (by_userID uid) f (db_users d)" for f
    by (rule update_first_find [OF u]) (use s in auto)
  with ex show ?thesis
    by (simp add: DeleteWallet_def asset_type_defs live_simps doc_one_def u users_update_live
        wallet_position_def k mgo_err_def)
qed

lemma DeleteWallet_mixed:
  assumes u: "find (by_userID uid) (db_users d) = Some u"
    and k: "first_index (wallet_key c n i) (usr_Wallets u) = None" and s: "wallet_sel c n i u"
  shows "DeleteWallet M uid a i c n AssetTypeMultyAddress d =
     (d\<lparr>db_users := update_first (by_userID uid)
          (at_wallet 0 (\<lambda>w. w\<lparr>wal_Status := WalletStatusDeleted\<rparr>)) (db_users d)\<rparr>, None)"
proof -
  let ?sel = "\<lambda>u. by_userID uid u \<and> wallet_sel c n i u"
  have uP: "u \<in> set (db_users d)" "by_userID uid u" using find_SomeD [OF u] by auto
  then have ex: "list_ex ?sel (db_users d)" using s by (auto simp: list_ex_iff)
  have "update_first ?sel f (db_users d) = update_first (by_userID uid) f (db_users d)" for f
    by (rule update_first_find [OF u]) (use s uP in auto)
  with ex show ?thesis
    by (simp add: DeleteWallet_def asset_type_defs live_simps doc_one_def u users_update_live
        wallet_position_def k mgo_err_def)
qed

lemma ViewTransaction_panic:
  "(\<exists>p. ViewTransaction M now tx a c n d = Inl p) \<longleftrightarrow>
     c = Ether \<and> n = ETHTest \<and> (\<forall>t \<in> set (db_msTest d). \<not> has_tx_owner tx a t)"
proof (cases "find (has_tx_owner tx a) (db_msTest d)")
  case None
  moreover from None have "\<forall>t \<in> set (db_msTest d). \<not> has_tx_owner tx a t"
    by (simp add: find_None_iff)
  ultimately show ?thesis
    by (simp add: ViewTransaction_def live_simps doc_one_def ETHMain_def ETHTest_def)
next
  case (Some t)
  then have t: "t \<in> set (db_msTest d)" "has_tx_owner tx a t" using find_SomeD by fast+
  then obtain m where "etx_Multisig t = Some m" by (auto simp: has_tx_owner_def split: option.splits)
  with Some t show ?thesis by (auto simp: ViewTransaction_def live_simps doc_one_def)
qed

end

section \<open>Addresses of a chain\<close>

definition upd_entry :: "'a \<times> 'b \<Rightarrow> ('a \<rightharpoonup> 'b) \<Rightarrow> ('a \<rightharpoonup> 'b)" where
  "upd_entry e m = m(fst e \<mapsto> snd e)"

definition wallet_entries :: "User \<Rightarrow> Wallet \<Rightarrow> (string \<times> AddressExtended) list" where
  "wallet_entries u w = map (\<lambda>ad. (adr_Address ad,
     zero_ae\<lparr>ae_UserID := usr_UserID u, ae_WalletIndex := wal_WalletIndex w,
             ae_AddressIndex := adr_AddressIndex ad\<rparr>)) (wal_Adresses w)"

definition chain_entries :: "int \<Rightarrow> int \<Rightarrow> User list \<Rightarrow> (string \<times> AddressExtended) list" where
  "chain_entries c n us =
     concat (map (\<lambda>u. concat (map (wallet_entries u) (filter (same_chain c n) (usr_Wallets u)))) us)"

lemma upd_entry_fun: "upd_entry e = (\<lambda>m. m(fst e \<mapsto> snd e))"
  by (simp add: fun_eq_iff upd_entry_def)

lemma fold_concat: "fold f (concat xss) = fold (fold f) xss"
  by (induction xss) (simp_all add: fun_eq_iff)

lemma fold_upd_Some: "fold upd_entry es m a = Some e \<Longrightarrow> (a, e) \<in> set es \<or> m a = Some e"
  by (induction es arbitrary: m) (fastforce simp: upd_entry_def split: if_splits)+

lemma fold_upd_None: "fold upd_entry es m a = None \<longleftrightarrow> a \<notin> fst ` set es \<and> m a = None"
  by (induction es arbitrary: m) (auto simp: upd_entry_def)

lemma fold_map_comp: "fold f (map g xs) = fold (\<lambda>x. f (g x)) xs"
  by (induction xs) (simp_all add: fun_eq_iff)

lemma fold_filter: "fold f (filter P xs) = fold (\<lambda>x m. if P x then f x m else m) xs"
  by (induction xs) (auto simp: fun_eq_iff)

lemma wallet_entries_fold:
  "fold (\<lambda>address m. m(adr_Address address \<mapsto>
       zero_ae\<lparr>ae_UserID := usr_UserID u, ae_WalletIndex := wal_WalletIndex w,
               ae_AddressIndex := adr_AddressIndex address\<rparr>)) (wal_Adresses w) =
   fold upd_entry (wallet_entries u w)"
  by (simp add: wallet_entries_def fold_map_comp upd_entry_fun)

lemma FindUserDataChain_entries:
  "mongo_live M \<Longrightarrow>
   FindUserDataChain M c n d = (fold upd_entry (chain_entries c n (db_users d)) Map.empty, None)"
  by (simp add: FindUserDataChain_def mongo_live.live_simps chain_entries_def fold_concat
      fold_map_comp fold_filter wallet_entries_fold same_chain_def cong: if_cong)

lemma chain_entries_iff:
  "(a, e) \<in> set (chain_entries c n us) \<longleftrightarrow>
     (\<exists>u \<in> set us. \<exists>w \<in> set (usr_Wallets u). \<exists>ad \<in> set (wal_Adresses w).
        same_chain c n w \<and> adr_Address ad = a \<and>
        e = zero_ae\<lparr>ae_UserID := usr_UserID u, ae_WalletIndex := wal_WalletIndex w,
                    ae_AddressIndex := adr_AddressIndex ad\<rparr>)"
  by (auto simp: chain_entries_def wallet_entries_def)

section \<open>A small database for the witnesses\<close>

definition ex_wallet :: "int \<Rightarrow> int \<Rightarrow> int \<Rightarrow> string \<Rightarrow> Wallet" where
  "ex_wallet c n i a = zero_wallet\<lparr>wal_CurrencyID := c, wal_NetworkID := n, wal_WalletIndex := i,
     wal_Status := WalletStatusOK, wal_Adresses := [\<lparr>adr_AddressIndex = 0, adr_Address = a, adr_LastActionTime = 0\<rparr>]\<rparr>"

definition ex_multisig :: Multisig where
  "ex_multisig = zero_multisig\<lparr>ms_CurrencyID := 60, ms_NetworkID := 1, ms_InviteCode := ''inv'', ms_OwnersCount := 2\<rparr>"

definition ex_user :: User where
  "ex_user = \<lparr>usr_UserID = ''u1'', usr_SeedPhraseType = 0,
     usr_Devices = [\<lparr>dev_DeviceID = ''d'', dev_PushToken = ''p'', dev_JWT = ''jwt'', dev_LastActionTime = 0,
       dev_LastActionIP = ''ip'', dev_AppVersion = ''1'', dev_DeviceType = 1\<rparr>],
     usr_Wallets = [ex_wallet 60 1 0 ''a0'', ex_wallet 0 1 1 ''a1''], usr_Multisigs = [ex_multisig]\<rparr>"

definition ex_user2 :: User where
  "ex_user2 = \<lparr>usr_UserID = ''u2'', usr_SeedPhraseType = 0, usr_Devices = [],
     usr_Wallets = [ex_wallet 60 1 0 ''b0''], usr_Multisigs = [ex_multisig]\<rparr>"

definition ex_multisig_tx :: TransactionETH where
  "ex_multisig_tx = \<lparr>etx_UserID = [], etx_WalletIndex = 0, etx_AddressIndex = 0, etx_Hash = ''h'',
     etx_From = ''a0'', etx_To = ''contract'', etx_Amount = ''0'', etx_GasPrice = 0, etx_GasLimit = 0,
     etx_Nonce = 0, etx_Status = 3, etx_BlockTime = 0, etx_PoolTime = 0, etx_BlockHeight = 0,
     etx_Confirmations = 0, etx_IsInternal = False,
     etx_Multisig = Some \<lparr>mst_Contract = ''contract'', mst_MethodInvoked = SubmitTransaction, mst_Input = [],
       mst_InvocationStatus = True, mst_RequestID = 0, mst_Return = [],
       mst_Owners = [\<lparr>oh_Address = ''a0'', oh_ConfirmationTX = [], oh_ConfirmationStatus = 0,
         oh_ConfirmationTime = 0, oh_SeenTime = 0\<rparr>], mst_Confirmed = False\<rparr>,
     etx_ERC20Token = None, etx_StockExchangeRate = []\<rparr>"

definition ex_db :: db where
  "ex_db = empty_db\<lparr>db_users := [ex_user, ex_user2], db_msMain := [ex_multisig_tx]\<rparr>"

definition ex_ms_params :: MultisigWallet where
  "ex_ms_params = \<lparr>mw_IsMultisig = False, mw_SignaturesRequired = 0, mw_OwnersCount = 0,
     mw_InviteCode = [], mw_IsImported = False, mw_ContractAddress = []\<rparr>"

lemmas ex_defs = ex_db_def ex_user_def ex_user2_def ex_wallet_def ex_multisig_def ex_multisig_tx_def
  zero_wallet_def zero_multisig_def empty_db_def

section \<open>Properties\<close>

text \<open>
  Whatever the database answers or fails to answer, no sequence of store operations
  adds, drops or reorders users, or changes their devices and sessions, or drops a wallet or
  changes its currency, network, index or addresses.
\<close>

theorem store_keeps_accounts:
  assumes "mongo_srv M" "(store_step M)\<^sup>*\<^sup>* d d'"
  shows "map account (db_users d') = map account (db_users d)"
  using store_steps_accounts [OF assms] by (simp add: accounts_def)

theorem store_keeps_accounts_witness:
  "map account (db_users (fst (DeleteMultisig ref_mongo ''inv''
      (fst (DeleteWallet ref_mongo ''u1'' [] 0 60 1 0 ex_db))))) = map account (db_users ex_db)"
  by (rule store_keeps_accounts [OF refm.mongo_srv_axioms])
    (rule rtranclp_trans [OF r_into_rtranclp r_into_rtranclp], rule store_step.DeleteWallet,
     rule store_step.DeleteMultisig)

text \<open>
  C12: on a database without errors in which no two accounts have the same user identity, deleting a multisig
  takes it, and only it, from every user that holds it, in one pass: afterwards its invite code is free again
  and every other field of every user is as before. (The update selects by the identity, so of two accounts with
  the same identity the second would keep it.)
\<close>

theorem DeleteMultisig_complete:
  assumes "mongo_live M" "distinct (map usr_UserID (db_users d))"
  shows "CheckInviteCode M code (fst (DeleteMultisig M code d)) \<and>
     db_users (fst (DeleteMultisig M code d)) =
       map (\<lambda>u. u\<lparr>usr_Multisigs := filter (\<lambda>m. ms_InviteCode m \<noteq> code) (usr_Multisigs u)\<rparr>) (db_users d)"
  by (simp add: mongo_live.CheckInviteCode_iff [OF assms(1)] mongo_live.DeleteMultisig_users [OF assms])
    (simp add: strip_def without_invite_def set_multisigs_def)

theorem DeleteMultisig_complete_witness:
  "\<not> CheckInviteCode ref_mongo ''inv'' ex_db \<and>
   CheckInviteCode ref_mongo ''inv'' (fst (DeleteMultisig ref_mongo ''inv'' ex_db))"
proof -
  have "distinct (map usr_UserID (db_users ex_db))" by (simp add: ex_defs)
  from DeleteMultisig_complete [OF refm.mongo_live_axioms this, of "''inv''"]
  show ?thesis by (simp add: refm.CheckInviteCode_iff ex_defs has_invite_def)
qed

text \<open>
  C17: \<open>FindMultisig\<close> succeeds exactly for the invite codes that \<open>CheckInviteCode\<close> reports
  as taken, and the multisig it returns carries the code.
\<close>

theorem FindMultisig_consistent:
  assumes "mongo_live M"
  shows "(snd (FindMultisig M userid code d) = None) = (\<not> CheckInviteCode M code d) \<and>
     (snd (FindMultisig M userid code d) = None \<longrightarrow> ms_InviteCode (fst (FindMultisig M userid code d)) = code)"
  using mongo_live.FindMultisig_spec [OF assms, of userid code d] by simp

theorem FindMultisig_consistent_witness: "ms_InviteCode (fst (FindMultisig ref_mongo ''u1'' ''inv'' ex_db)) = ''inv''"
  using FindMultisig_consistent [OF refm.mongo_live_axioms, of "''u1''" "''inv''" ex_db]
  by (simp add: refm.CheckInviteCode_iff) (simp add: ex_defs has_invite_def)

text \<open>
  C15: leaving undoes joining. A user who joins a multisig they are not in and leaves it again
  has the whole database as it was, and neither call reports an error.
\<close>

theorem Join_Leave_roundtrip:
  assumes "mongo_live M" "find (by_userID uid) (db_users d) = Some u"
    and "\<not> has_invite (ms_InviteCode m) u"
  shows "LeaveMultisig M uid (ms_InviteCode m) (fst (JoinMultisig M uid m d)) = (d, None)"
  by (rule mongo_live.Join_Leave [OF assms])

theorem Join_Leave_roundtrip_witness:
  "LeaveMultisig ref_mongo ''u2'' ''new'' (fst (JoinMultisig ref_mongo ''u2'' (ex_multisig\<lparr>ms_InviteCode := ''new''\<rparr>) ex_db))
     = (ex_db, None)"
  using Join_Leave_roundtrip [OF refm.mongo_live_axioms, of "''u2''" ex_db ex_user2 "ex_multisig\<lparr>ms_InviteCode := ''new''\<rparr>"]
  by (simp add: ex_defs by_userID_def has_invite_def)

text \<open>
  C13: deleting an existing wallet succeeds and marks as deleted exactly the wallet with the
  requested currency, network and index; the other wallets, users and collections stay.
\<close>

theorem DeleteWallet_exact:
  assumes "mongo_live M" "find (by_userID uid) (db_users d) = Some u"
    and "first_index (\<lambda>w. wal_NetworkID w = n \<and> wal_WalletIndex w = i \<and> wal_CurrencyID w = c) (usr_Wallets u) = Some k"
  shows "DeleteWallet M uid a i c n AssetTypeMultyAddress d =
     (d\<lparr>db_users := update_first (by_userID uid)
          (\<lambda>v. v\<lparr>usr_Wallets := (usr_Wallets v)[k := (usr_Wallets v ! k)\<lparr>wal_Status := WalletStatusDeleted\<rparr>]\<rparr>)
          (db_users d)\<rparr>, None)"
proof -
  have "wallet_key c n i = (\<lambda>w. wal_NetworkID w = n \<and> wal_WalletIndex w = i \<and> wal_CurrencyID w = c)"
    by (simp add: wallet_key_def fun_eq_iff)
  with mongo_live.DeleteWallet_found [OF assms(1,2), of c n i k a] assms(3)
  show ?thesis by (simp add: at_wallet_def [abs_def])
qed

theorem DeleteWallet_exact_witness:
  "map (map wal_Status \<circ> usr_Wallets) (db_users (fst (DeleteWallet ref_mongo ''u1'' [] 1 0 1 0 ex_db))) =
     [[''ok'', ''deleted''], [''ok'']]"
  using DeleteWallet_exact [OF refm.mongo_live_axioms, of "''u1''" ex_db ex_user 1 1 0 1 "[]"]
  by (simp add: ex_defs by_userID_def asset_type_defs WalletStatusOK_def WalletStatusDeleted_def)

text \<open>
  A request to delete a wallet that does not exist is not refused when the user's wallets
  match its currency, network and index one by one: it succeeds and marks the user's first
  wallet, whatever it is, as deleted.
\<close>

theorem DeleteWallet_wrong_wallet:
  assumes "mongo_live M" "find (by_userID uid) (db_users d) = Some u"
    and "first_index (wallet_key c n i) (usr_Wallets u) = None" "wallet_sel c n i u"
  shows "snd (DeleteWallet M uid a i c n AssetTypeMultyAddress d) = None \<and>
     (\<exists>v. find (by_userID uid) (db_users (fst (DeleteWallet M uid a i c n AssetTypeMultyAddress d))) = Some v \<and>
          wal_Status (hd (usr_Wallets v)) = WalletStatusDeleted)"
proof -
  let ?f = "at_wallet 0 (\<lambda>w. w\<lparr>wal_Status := WalletStatusDeleted\<rparr>)"
  have ne: "usr_Wallets u \<noteq> []" using assms(4) by (auto simp: wallet_sel_def)
  have "find (by_userID uid) (update_first (by_userID uid) ?f (db_users d)) = Some (?f u)"
    by (rule find_update_first [OF assms(2)]) (use find_SomeD [OF assms(2)] in \<open>simp add: by_userID_def\<close>)
  with ne show ?thesis
    by (simp add: mongo_live.DeleteWallet_mixed [OF assms] at_wallet_def)
      (cases "usr_Wallets u", simp_all)
qed

theorem DeleteWallet_wrong_wallet_witness:
  "first_index (wallet_key 60 1 1) (usr_Wallets ex_user) = None \<and>
   snd (DeleteWallet ref_mongo ''u1'' [] 1 60 1 AssetTypeMultyAddress ex_db) = None"
  using DeleteWallet_wrong_wallet [OF refm.mongo_live_axioms, of "''u1''" ex_db ex_user 60 1 1 "[]"]
  by (simp add: ex_defs by_userID_def wallet_key_def wallet_sel_def)

text \<open>
  Viewing a multisig transaction brings the process down exactly when it is on the test
  net and no transaction with the given hash has the given owner.
\<close>

theorem ViewTransaction_panics:
  assumes "mongo_live M"
  shows "(\<exists>p. ViewTransaction M now txid address c n d = Inl p) =
     (c = Ether \<and> n = ETHTest \<and> (\<forall>t \<in> set (db_msTest d). \<not> has_tx_owner txid address t))"
  by (rule mongo_live.ViewTransaction_panic [OF assms])

theorem ViewTransaction_panics_witness: "\<exists>p. ViewTransaction ref_mongo 7 ''nope'' ''a0'' 60 4 ex_db = Inl p"
  using ViewTransaction_panics [OF refm.mongo_live_axioms, of 7 "''nope''" "''a0''" 60 4 ex_db]
  by (simp add: ex_defs Ether_def ETHTest_def)

text \<open>
  C14: the index of a chain's addresses has exactly the addresses of the users' wallets on
  that chain, and what it stores for an address is the user, wallet index and address index
  of one of the wallets that hold it.
\<close>

theorem FindUserDataChain_spec:
  assumes "mongo_live M"
  shows "(fst (FindUserDataChain M c n d) a = None) =
       (\<forall>u \<in> set (db_users d). \<forall>w \<in> set (usr_Wallets u). same_chain c n w \<longrightarrow> a \<notin> adr_Address ` set (wal_Adresses w)) \<and>
     (\<forall>e. fst (FindUserDataChain M c n d) a = Some e \<longrightarrow>
       (\<exists>u \<in> set (db_users d). \<exists>w \<in> set (usr_Wallets u). \<exists>ad \<in> set (wal_Adresses w).
         same_chain c n w \<and> adr_Address ad = a \<and> ae_UserID e = usr_UserID u \<and>
         ae_WalletIndex e = wal_WalletIndex w \<and> ae_AddressIndex e = adr_AddressIndex ad))"
proof (intro conjI allI impI)
  note es = FindUserDataChain_entries [OF assms, of c n d]
  have "a \<notin> fst ` set (chain_entries c n (db_users d)) \<longleftrightarrow> (\<forall>e. (a, e) \<notin> set (chain_entries c n (db_users d)))"
    by force
  then show "(fst (FindUserDataChain M c n d) a = None) =
       (\<forall>u \<in> set (db_users d). \<forall>w \<in> set (usr_Wallets u). same_chain c n w \<longrightarrow> a \<notin> adr_Address ` set (wal_Adresses w))"
    by (simp add: es fold_upd_None chain_entries_iff) blast
  fix e
  assume "fst (FindUserDataChain M c n d) a = Some e"
  then have "(a, e) \<in> set (chain_entries c n (db_users d))"
    using fold_upd_Some by (force simp: es)
  then obtain u w ad where h: "u \<in> set (db_users d)" "w \<in> set (usr_Wallets u)" "ad \<in> set (wal_Adresses w)"
    "same_chain c n w" "adr_Address ad = a"
    "e = zero_ae\<lparr>ae_UserID := usr_UserID u, ae_WalletIndex := wal_WalletIndex w, ae_AddressIndex := adr_AddressIndex ad\<rparr>"
    by (auto simp: chain_entries_iff)
  show "\<exists>u \<in> set (db_users d). \<exists>w \<in> set (usr_Wallets u). \<exists>ad \<in> set (wal_Adresses w).
         same_chain c n w \<and> adr_Address ad = a \<and> ae_UserID e = usr_UserID u \<and>
         ae_WalletIndex e = wal_WalletIndex w \<and> ae_AddressIndex e = adr_AddressIndex ad"
    by (rule bexI [OF _ h(1)], rule bexI [OF _ h(2)], rule bexI [OF _ h(3)]) (use h in simp)
qed

theorem FindUserDataChain_spec_witness: "fst (FindUserDataChain ref_mongo 0 1 ex_db) ''a1'' \<noteq> None"
  using FindUserDataChain_spec [OF refm.mongo_live_axioms, of 0 1 ex_db "''a1''"]
  by (simp add: ex_defs same_chain_def)

text \<open>
  A Bitcoin wallet may be added while the user has fewer than twenty wallets on its
  network; from twenty on, the user must have a stored transaction there.
\<close>

theorem CheckAddWallet_limit:
  assumes "mongo_live M" "find (by_jwt jwt) (db_users d) = Some u"
    and "wp_CurrencyID wp = Bitcoin \<and> wp_NetworkID wp \<in> {Main_net, Test_net}"
  shows "(CheckAddWallet M wp jwt d = None) =
     (length (filter (same_chain (wp_CurrencyID wp) (wp_NetworkID wp)) (usr_Wallets u)) < 20 \<or>
      (\<exists>t \<in> set (if wp_NetworkID wp = Main_net then db_btcMain d else db_btcTest d). mtx_UserId t = usr_UserID u))"
  using assms(3)
  by (auto simp: CheckAddWallet_def mongo_live.live_simps [OF assms(1)] doc_one_def assms(2) Let_def
      MaximumAvalibeEmptyWallets_def Bitcoin_def Ether_def Main_net_def Test_net_def all_or_def filter_empty_conv)

theorem CheckAddWallet_limit_witness:
  "CheckAddWallet ref_mongo (\<lparr>wp_CurrencyID = 0, wp_NetworkID = 1, wp_Address = [], wp_AddressIndex = 0,
     wp_WalletIndex = 2, wp_WalletName = [], wp_IsImported = False, wp_Multisig = ex_ms_params\<rparr>) ''jwt'' ex_db = None"
  using CheckAddWallet_limit [OF refm.mongo_live_axioms, of "''jwt''" ex_db ex_user
      "\<lparr>wp_CurrencyID = 0, wp_NetworkID = 1, wp_Address = [], wp_AddressIndex = 0,
     wp_WalletIndex = 2, wp_WalletName = [], wp_IsImported = False, wp_Multisig = ex_ms_params\<rparr>"]
  by (simp add: ex_defs by_jwt_def Bitcoin_def Main_net_def Test_net_def same_chain_def)

end
