(* ===== verification/Btc_Facts.thy ===== *)
theory Btc_Facts
  imports Btc_Handlers Store_Facts
begin

text \<open>
  Correctness of the Bitcoin handlers: the spendable and spent outputs over any sequence of
  messages, the saving of transactions, the rejection of transactions on a new block, the
  dates of wallets and the mempool.
\<close>

section \<open>Spendable and spent outputs\<close>

definition so_id :: "SpendableOutputs \<Rightarrow> string \<times> string \<times> string" where
  "so_id s = (so_UserID s, so_TxID s, so_Address s)"

definition dso_id :: "DeleteSpendableOutput \<Rightarrow> string \<times> string \<times> string" where
  "dso_id s = (dso_UserID s, dso_TxID s, dso_Address s)"

definition sp_inv :: "int \<Rightarrow> db \<Rightarrow> bool" where
  "sp_inv net d \<longleftrightarrow>
     distinct (map so_id (btc_sp net d)) \<and>
     set (map so_id (btc_sp net d)) \<inter> set (map dso_id (btc_spent net d)) = {}"

lemma sp_key_id: "sp_key u t a = (\<lambda>s. so_id s = (u, t, a))"
  by (auto simp: sp_key_def so_id_def fun_eq_iff)

lemma spent_key_id: "spent_key u t a = (\<lambda>s. dso_id s = (u, t, a))"
  by (auto simp: spent_key_def dso_id_def fun_eq_iff)

lemma so_id_stored:
  "so_id ((generatedSpOutsToStore g)\<lparr>so_StockExchangeRate := r\<rparr>) = (ps_UserID g, ps_TxID g, ps_Address g)"
  by (simp add: so_id_def generatedSpOutsToStore_def)

lemma so_id_status [simp]: "so_id (s\<lparr>so_TxStatus := x\<rparr>) = so_id s"
  by (simp add: so_id_def)

lemma so_ids_status: "map so_id (fst (doc_update q (\<lambda>s. s\<lparr>so_TxStatus := x\<rparr>) c)) = map so_id c"
  by (simp add: doc_update_def)

lemma sp_inv_cong:
  "btc_sp net d' = btc_sp net d \<Longrightarrow> btc_spent net d' = btc_spent net d \<Longrightarrow> sp_inv net d' = sp_inv net d"
  by (simp add: sp_inv_def)

text \<open>Spent records are only added, and a spent output that is not listed stays so.\<close>

definition spends :: "int \<Rightarrow> db \<Rightarrow> db \<Rightarrow> bool" where
  "spends net d d' \<longleftrightarrow> set (btc_spent net d) \<subseteq> set (btc_spent net d') \<and>
     (\<forall>k \<in> dso_id ` set (btc_spent net d). k \<notin> so_id ` set (btc_sp net d) \<longrightarrow> k \<notin> so_id ` set (btc_sp net d'))"

lemma spends_refl [simp]: "spends net d d"
  by (simp add: spends_def)

lemma spends_trans: "spends net d d' \<Longrightarrow> spends net d' d'' \<Longrightarrow> spends net d d''"
  unfolding spends_def by (meson image_mono subset_eq)

lemma spends_same: "btc_sp net d' = btc_sp net d \<Longrightarrow> btc_spent net d' = btc_spent net d \<Longrightarrow> spends net d d'"
  by (simp add: spends_def)

lemma ids_set: "so_id ` set xs = set (map so_id xs)"
  by simp

context mongo_live
begin

lemma add_spendable_inv:
  assumes "sp_inv net d"
  shows "sp_inv net (fst (add_spendable M net g d))"
proof -
  let ?k = "(ps_UserID g, ps_TxID g, ps_Address g)"
  let ?o = "(generatedSpOutsToStore g)\<lparr>so_StockExchangeRate := rates_or_nil (GetLatestExchangeRate M d)\<rparr>"
  have o: "so_id ?o = ?k" by (rule so_id_stored)
  have stored: "so_UserID ?o = ps_UserID g" "so_TxID ?o = ps_TxID g" "so_Address ?o = ps_Address g"
    by (simp_all add: generatedSpOutsToStore_def)
  show ?thesis
  proof (cases "find (\<lambda>s. dso_id s = ?k) (btc_spent net d)")
    case (Some x)
    then show ?thesis using assms by (simp add: add_spendable_def add_unspent_def live_simps doc_one_def spent_key_id)
  next
    case None
    then have new: "?k \<notin> set (map dso_id (btc_spent net d))" by (auto simp: find_None_iff)
    show ?thesis
    proof (cases "find (\<lambda>s. so_id s = ?k) (btc_sp net d)")
      case None2: None
      then have "?k \<notin> set (map so_id (btc_sp net d))" by (auto simp: find_None_iff)
      with assms new o show ?thesis
        by (auto simp: add_spendable_def add_unspent_def live_simps doc_one_def spent_key_id sp_key_id None None2 stored
            sp_inv_def Let_def split: option.split)
    next
      case (Some s)
      with assms show ?thesis
        by (simp add: add_spendable_def add_unspent_def live_simps doc_one_def spent_key_id sp_key_id
            None stored sp_inv_def Let_def so_ids_status del: set_map split: option.split)
    qed
  qed
qed

lemma delete_attempt_inv:
  assumes "sp_inv net d"
  shows "sp_inv net (fst (delete_attempt M net del d))"
proof -
  let ?k = "dso_id del"
  have k: "sp_key (dso_UserID del) (dso_TxID del) (dso_Address del) = (\<lambda>s. so_id s = ?k)"
    by (simp add: sp_key_id dso_id_def)
  let ?sp = "fst (doc_remove (\<lambda>s. so_id s = ?k) (btc_sp net d))"
  let ?d = "fst (delete_attempt M net del d)"
  have d: "distinct (map so_id (btc_sp net d))" using assms by (simp add: sp_inv_def)
  have ex: "list_ex (\<lambda>s. so_id s = ?k) (btc_sp net d) \<longleftrightarrow> ?k \<in> set (map so_id (btc_sp net d))"
    by (simp add: list_ex_iff image_iff) metis
  have sp: "distinct (map so_id ?sp)" "set (map so_id ?sp) = set (map so_id (btc_sp net d)) - {?k}"
    unfolding doc_remove_def ex
    using distinct_map_remove_first [OF d, of "\<lambda>s. so_id s = ?k"] remove_first_distinct [OF d, of ?k] d
    by (simp_all del: set_map)
  have "btc_sp net ?d = ?sp" "btc_spent net ?d = btc_spent net d @ [del]"
    by (simp_all add: delete_attempt_def live_simps k Let_def case_prod_beta)
  then show ?thesis using assms sp unfolding sp_inv_def by (simp del: set_map) blast
qed

lemma delete_loop_inv: "sp_inv net d \<Longrightarrow> sp_inv net (delete_loop k M net del d)"
proof (induction k arbitrary: d)
  case 0
  then show ?case by simp
next
  case (Suc k)
  from delete_attempt_inv [OF Suc.prems, of del] Suc.IH show ?case
    by (cases "delete_attempt M net del d") (simp split: bool.split)
qed

lemma users_update_coll [simp]:
  "btc_sp net (fst (users_update M sel f d)) = btc_sp net d"
  "btc_spent net (fst (users_update M sel f d)) = btc_spent net d"
  "btc_txs net (fst (users_update M sel f d)) = btc_txs net d"
  by (simp_all add: users_update_def case_prod_beta)

lemma update_dates_coll:
  "btc_sp net (fst (update_dates M now ws d)) = btc_sp net d \<and>
   btc_spent net (fst (update_dates M now ws d)) = btc_spent net d"
proof (induction ws arbitrary: d)
  case Nil
  then show ?case by simp
next
  case (Cons w ws)
  have "btc_sp net d' = btc_sp net d \<and> btc_spent net d' = btc_spent net d"
    if "users_update M sel f d = (d', e)" for sel f d' e
    using users_update_coll(1,2) [of net sel f d] that by simp
  with Cons show ?case
    by (auto simp: Let_def split: option.split prod.split)
qed

lemma updateWalletAndAddressDate_coll:
  "btc_sp net (fst (updateWalletAndAddressDate M now tx d)) = btc_sp net d \<and>
   btc_spent net (fst (updateWalletAndAddressDate M now tx d)) = btc_spent net d"
  using update_dates_coll [of net now "mtx_WalletsInput tx" d]
  by (cases "update_dates M now (mtx_WalletsInput tx) d"; cases "snd (update_dates M now (mtx_WalletsInput tx) d)")
    (simp_all add: updateWalletAndAddressDate_def update_dates_coll)

lemma record_tx_coll:
  "record_tx M now net tx d = Inr d' \<Longrightarrow> btc_sp net d' = btc_sp net d \<and> btc_spent net d' = btc_spent net d"
  by (auto simp: record_tx_def bind_p_Inr saveMultyTransaction_def updateWalletAndAddressDate_coll split: if_splits)

lemma record_tx_inv: "record_tx M now net tx d = Inr d' \<Longrightarrow> sp_inv net d' = sp_inv net d"
  by (rule sp_inv_cong) (simp_all add: record_tx_coll)

lemma resync_txs_inv: "sp_inv net d \<Longrightarrow> sp_inv net (fst (resync_txs M now net gs d))"
  by (induction gs arbitrary: d) (auto simp: record_tx_inv split: sum.split)

lemma resync_spouts_inv: "sp_inv net d \<Longrightarrow> sp_inv net (fst (resync_spouts M net gs d))"
proof (induction gs arbitrary: d)
  case Nil
  then show ?case by simp
next
  case (Cons g gs)
  from add_spendable_inv [OF Cons.prems, of g] Cons.IH show ?case
    by (cases "add_spendable M net g d") (simp split: bool.split)
qed

lemma resync_dels_inv: "sp_inv net d \<Longrightarrow> sp_inv net (resync_dels M net dels d)"
  by (induction dels arbitrary: d) (simp_all add: delete_loop_inv)

lemma save_height_coll [simp]:
  "btc_sp net (save_height M c n h d) = btc_sp net d" "btc_spent net (save_height M c n h d) = btc_spent net d"
  "btc_txs net (save_height M c n h d) = btc_txs net d"
  by (simp_all add: save_height_def btc_sp_def btc_spent_def btc_txs_def)

lemma bs_db_unqueue_fold [simp]: "bs_db (fold (\<lambda>spout. unqueue (f spout)) gs s) = bs_db s"
  by (induction gs arbitrary: s) (simp_all add: unqueue_def)

lemma NewTx_inv: "sp_inv net (bs_db s) \<Longrightarrow> sp_inv net (bs_db (outcome_state (NewTx M now net g s)))"
  by (auto simp: NewTx_def Let_def record_tx_inv split: sum.split)

lemma ResyncAddress_inv:
  assumes "sp_inv net (bs_db s)"
  shows "sp_inv net (bs_db (outcome_state (ResyncAddress M now net r s)))"
proof -
  obtain d1 p where t: "resync_txs M now net (pr_Txs r) (bs_db s) = (d1, p)" by fastforce
  with resync_txs_inv [OF assms, of now "pr_Txs r"] have d1: "sp_inv net d1" by simp
  obtain d2 b where u: "resync_spouts M net (pr_SpOuts r) d1 = (d2, b)" by fastforce
  with resync_spouts_inv [OF d1, of "pr_SpOuts r"] have d2: "sp_inv net d2" by simp
  show ?thesis
    using d1 d2 resync_dels_inv [OF d2, of "pr_SpOutDelete r"] t u
    by (cases p; cases b; cases "pr_SpOuts r") (auto simp: ResyncAddress_def Let_def unqueue_def)
qed

lemma btc_step_inv: "btc_step M net s s' \<Longrightarrow> sp_inv net (bs_db s) \<Longrightarrow> sp_inv net (bs_db s')"
proof (induction rule: btc_step.cases)
  case (NewBlock s check acc height)
  then show ?case
    by (simp add: EventNewBlock_def Let_def sp_inv_def)
next
  case (AddSpendable s g)
  with add_spendable_inv [of net "bs_db s" g] show ?case
    by (cases "add_spendable M net g (bs_db s)"; cases "snd (add_spendable M net g (bs_db s))")
      (simp_all add: EventAddSpendableOut_def)
qed (simp_all add: mempool_store_def mempool_delete_def EventDeleteSpendableOut_def delete_loop_inv
       NewTx_inv ResyncAddress_inv)

lemma sp_id_pos: "sp_inv net d \<Longrightarrow> s \<in> set (btc_sp net d) \<Longrightarrow> x \<in> set (btc_spent net d) \<Longrightarrow> so_id s \<noteq> dso_id x"
  by (auto simp: sp_inv_def)

section \<open>Spent outputs stay spent\<close>

lemma add_unspent_ids: "so_id ` set (btc_sp net (fst (add_unspent M net g d))) \<subseteq> so_id ` set (btc_sp net d) \<union> {(ps_UserID g, ps_TxID g, ps_Address g)}"
  "btc_spent net (fst (add_unspent M net g d)) = btc_spent net d"
proof -
  have "so_id ` set (fst (c_update (M_sp M) q (\<lambda>s. s\<lparr>so_TxStatus := x\<rparr>) c)) = so_id ` set c" for q x c
    unfolding ids_set live_simps so_ids_status ..
  then show "so_id ` set (btc_sp net (fst (add_unspent M net g d))) \<subseteq> so_id ` set (btc_sp net d) \<union> {(ps_UserID g, ps_TxID g, ps_Address g)}"
    by (auto simp: add_unspent_def Let_def live_simps(3) sp.live_insert so_id_stored split: sum.split mgo_error.split)
  show "btc_spent net (fst (add_unspent M net g d)) = btc_spent net d"
    by (simp add: add_unspent_def Let_def split: sum.split mgo_error.split)
qed

lemma add_spendable_spends: "spends net d (fst (add_spendable M net g d))"
proof (cases "c_one (M_spent M) (spent_key (ps_UserID g) (ps_TxID g) (ps_Address g)) (btc_spent net d)")
  case (Inl e)
  show ?thesis
  proof (cases e)
    case ErrNotFound
    with Inl have new: "(ps_UserID g, ps_TxID g, ps_Address g) \<notin> dso_id ` set (btc_spent net d)"
      by (auto simp: spent_key_id dest: spent.one_notfound_mem)
    have a: "add_spendable M net g d = add_unspent M net g d" using Inl ErrNotFound by (simp add: add_spendable_def)
    show ?thesis
      unfolding a spends_def add_unspent_ids(2)
    proof (intro conjI ballI impI)
      fix k
      assume k: "k \<in> dso_id ` set (btc_spent net d)" "k \<notin> so_id ` set (btc_sp net d)"
      with new have "k \<noteq> (ps_UserID g, ps_TxID g, ps_Address g)" by metis
      with k(2) subsetD [OF add_unspent_ids(1) [of net g d]] show "k \<notin> so_id ` set (btc_sp net (fst (add_unspent M net g d)))"
        by (metis Un_iff singletonD)
    qed simp
  qed (simp add: add_spendable_def Inl)
qed (simp add: add_spendable_def)

lemma delete_attempt_spends: "spends net d (fst (delete_attempt M net del d))"
proof -
  have "set (fst (c_remove (M_sp M) q c)) \<subseteq> set c" for q c
    using sp.remove_cases [of q c] set_remove_first_subset [of q c] by auto
  then show ?thesis
    by (auto simp: delete_attempt_def Let_def case_prod_beta spends_def spent.live_insert)
qed

lemma delete_loop_spends: "spends net d (delete_loop k M net del d)"
proof (induction k arbitrary: d)
  case (Suc k)
  from delete_attempt_spends [of net d del] spends_trans [OF _ Suc.IH] show ?case
    by (cases "delete_attempt M net del d") (auto split: bool.split)
qed simp

lemma resync_spouts_spends: "spends net d (fst (resync_spouts M net gs d))"
proof (induction gs arbitrary: d)
  case (Cons g gs)
  from add_spendable_spends [of net d g] spends_trans [OF _ Cons.IH] show ?case
    by (cases "add_spendable M net g d") (auto split: bool.split)
qed simp

lemma resync_dels_spends: "spends net d (resync_dels M net dels d)"
  by (induction dels arbitrary: d) (auto intro: spends_trans delete_loop_spends)

lemma resync_txs_coll:
  "btc_sp net (fst (resync_txs M now net gs d)) = btc_sp net d \<and> btc_spent net (fst (resync_txs M now net gs d)) = btc_spent net d"
  by (induction gs arbitrary: d) (auto simp: record_tx_coll split: sum.split)

lemma ResyncAddress_spends: "spends net (bs_db s) (bs_db (outcome_state (ResyncAddress M now net r s)))"
proof -
  obtain d1 p where t: "resync_txs M now net (pr_Txs r) (bs_db s) = (d1, p)" by fastforce
  with resync_txs_coll [of net now "pr_Txs r" "bs_db s"] have d1: "spends net (bs_db s) d1" by (simp add: spends_same)
  obtain d2 b where u: "resync_spouts M net (pr_SpOuts r) d1 = (d2, b)" by fastforce
  with resync_spouts_spends [of net d1 "pr_SpOuts r"] d1 have d2: "spends net (bs_db s) d2" by (auto intro: spends_trans)
  show ?thesis
    using d1 d2 spends_trans [OF d2 resync_dels_spends [of net d2 "pr_SpOutDelete r"]] t u
    by (cases p; cases b; cases "pr_SpOuts r") (auto simp: ResyncAddress_def Let_def unqueue_def)
qed

lemma btc_step_spends: "btc_step M net s s' \<Longrightarrow> spends net (bs_db s) (bs_db s')"
proof (induction rule: btc_step.cases)
  case (NewBlock s check acc height)
  then show ?case by (simp add: EventNewBlock_def Let_def spends_def)
next
  case (AddSpendable s g)
  with add_spendable_spends [of net "bs_db s" g] show ?case
    by (cases "add_spendable M net g (bs_db s)"; cases "snd (add_spendable M net g (bs_db s))")
      (simp_all add: EventAddSpendableOut_def)
next
  case (NewTx s now g)
  then show ?case by (auto simp: NewTx_def Let_def record_tx_coll intro: spends_same split: sum.split)
qed (simp_all add: mempool_store_def mempool_delete_def EventDeleteSpendableOut_def delete_loop_spends ResyncAddress_spends)

section \<open>Deleting an output that is not there\<close>

lemma delete_attempt_absent:
  assumes "so_id ` set (btc_sp net d) \<inter> {dso_id del} = {}"
  shows "delete_attempt M net del d = (set_btc_spent net (btc_spent net d @ [del]) d, False)"
proof -
  have k: "sp_key (dso_UserID del) (dso_TxID del) (dso_Address del) = (\<lambda>s. so_id s = dso_id del)"
    by (simp add: sp_key_id dso_id_def)
  have "\<not> list_ex (\<lambda>s. so_id s = dso_id del) (btc_sp net d)"
    using assms by (auto simp: list_ex_iff) (metis imageI)
  then show ?thesis
    by (simp add: delete_attempt_def live_simps k doc_remove_def Let_def)
      (simp add: set_btc_sp_def btc_sp_def set_btc_spent_def)
qed

lemma delete_loop_absent:
  "so_id ` set (btc_sp net d) \<inter> {dso_id del} = {} \<Longrightarrow>
   delete_loop k M net del d = set_btc_spent net (btc_spent net d @ replicate k del) d"
proof (induction k arbitrary: d)
  case 0
  then show ?case by (simp add: set_btc_spent_def btc_spent_def)
next
  case (Suc k)
  then show ?case
    by (simp add: delete_attempt_absent)
      (simp add: set_btc_spent_def btc_spent_def replicate_append_same [symmetric])
qed

text \<open>A deletion of an output that is listed at most once removes it and records it.\<close>

lemma delete_loop_deletes:
  assumes "length (filter (\<lambda>s. so_id s = dso_id del) (btc_sp net d)) \<le> 1"
  shows "dso_id del \<notin> so_id ` set (btc_sp net (delete_loop (Suc k) M net del d)) \<and> del \<in> set (btc_spent net (delete_loop (Suc k) M net del d))"
proof (cases "dso_id del \<in> so_id ` set (btc_sp net d)")
  case False
  then have "so_id ` set (btc_sp net d) \<inter> {dso_id del} = {}" by simp
  from delete_loop_absent [OF this, of "Suc k"] False show ?thesis by simp
next
  case True
  have k: "sp_key (dso_UserID del) (dso_TxID del) (dso_Address del) = (\<lambda>s. so_id s = dso_id del)"
    by (simp add: sp_key_id dso_id_def)
  from True have ex: "list_ex (\<lambda>s. so_id s = dso_id del) (btc_sp net d)" by (auto simp: list_ex_iff dest: sym)
  have gone: "dso_id del \<notin> so_id ` set (remove_first (\<lambda>s. so_id s = dso_id del) xs)"
    if "length (filter (\<lambda>s. so_id s = dso_id del) xs) \<le> 1" for xs
    using that by (induction xs) (auto simp: filter_empty_conv dest: sym)
  show ?thesis
    using ex gone [OF assms] by (simp add: delete_attempt_def live_simps k doc_remove_def Let_def)
qed

section \<open>Saving transactions\<close>

lemma seen_unconfirmed_False [simp]: "\<not> seen_unconfirmed M tx c"
  by (auto simp: seen_unconfirmed_def one_struct_def Let_def split: list.splits sum.splits)

lemma tx_update_twice [simp]: "tx_update tx (tx_update tx t) = tx_update tx t"
  by (simp add: tx_update_def)

lemma tx_update_self [simp]: "tx_update tx tx = tx"
  by (simp add: tx_update_def)

lemma tx_key_update [simp]: "tx_key u i a (tx_update tx t) = tx_key u i a t"
  by (simp add: tx_key_def tx_update_def)

lemma update_first_twice:
  "find P xs = Some x \<Longrightarrow> P (f x) \<Longrightarrow> f (f x) = f x \<Longrightarrow>
   update_first P f (update_first P f xs) = update_first P f xs"
  by (induction xs) (auto split: if_splits)

lemma save_split_twice:
  assumes "save_split M tx w c = Inr (c', e)" "wft_UserId w = mtx_UserId tx"
  shows "e = None \<and> save_split M tx w c' = Inr (c', None)"
proof -
  obtain addr where a: "index (mtx_TxAddress tx) 0 = Inr addr" "mtx_TxAddress tx \<noteq> []" "addr = mtx_TxAddress tx ! 0"
    using assms(1) by (auto simp: save_split_def bind_p_Inr index_Inr)
  let ?sel = "tx_key (mtx_UserId tx) (mtx_TxID tx) addr"
  have tx: "?sel tx" using a by (simp add: tx_key_def)
  show ?thesis
  proof (cases "find ?sel c")
    case None
    then have "c' = c @ [tx]" "e = None"
      using assms a(1) by (auto simp: save_split_def live_simps doc_one_def mgo_err_def Let_def)
    moreover have "find ?sel (c @ [tx]) = Some tx" using None tx by (induction c) (auto split: if_splits)
    moreover have "update_first ?sel (tx_update tx) (c @ [tx]) = c @ [tx]"
      using None tx by (induction c) (auto split: if_splits)
    ultimately show ?thesis
      using a(1) assms(2) find_list_ex [of ?sel "c @ [tx]" tx]
      by (simp add: save_split_def live_simps doc_one_def doc_update_def mgo_err_def Let_def del: list_ex_append)
  next
    case (Some t)
    then have sel: "?sel t" by (rule find_SomeD [THEN conjunct2])
    have "c' = update_first ?sel (tx_update tx) c" "e = None"
      using assms a(1) Some find_list_ex [OF Some]
      by (auto simp: save_split_def live_simps doc_one_def doc_update_def mgo_err_def Let_def)
    moreover have f: "find ?sel (update_first ?sel (tx_update tx) c) = Some (tx_update tx t)"
      by (rule find_update_first [OF Some]) (use sel in simp)
    moreover have "update_first ?sel (tx_update tx) (update_first ?sel (tx_update tx) c) =
        update_first ?sel (tx_update tx) c"
      by (rule update_first_twice [OF Some]) (use sel in simp_all)
    ultimately show ?thesis
      using a(1) assms(2) find_list_ex [OF f]
      by (simp add: save_split_def live_simps doc_one_def doc_update_def mgo_err_def Let_def)
  qed
qed

lemma save_in_cases:
  "save_in M tx c =
     (if seen_async M tx (mtx_WalletsInput tx) c \<or> seen_async M tx (mtx_WalletsOutput tx) c then Inr (c, None)
      else case mtx_WalletsInput tx @ mtx_WalletsOutput tx of [] \<Rightarrow> Inr (c, None) | w # ws \<Rightarrow> save_split M tx w c)"
  by (cases "mtx_WalletsInput tx") (simp_all add: save_in_def)

lemma save_in_twice:
  assumes "save_in M tx c = Inr (c', e)"
    and "list_all (\<lambda>w. wft_UserId w = mtx_UserId tx) (take 1 (mtx_WalletsInput tx @ mtx_WalletsOutput tx))"
  shows "e = None \<and> save_in M tx c' = Inr (c', None)"
proof (cases "seen_async M tx (mtx_WalletsInput tx) c \<or> seen_async M tx (mtx_WalletsOutput tx) c")
  case True
  with assms(1) show ?thesis by (auto simp: save_in_cases)
next
  case False
  show ?thesis
  proof (cases "mtx_WalletsInput tx @ mtx_WalletsOutput tx")
    case Nil
    with False assms(1) show ?thesis by (simp add: save_in_cases)
  next
    case (Cons w ws)
    with False assms(1) have "save_split M tx w c = Inr (c', e)" by (simp add: save_in_cases)
    from save_split_twice [OF this] assms(2) Cons show ?thesis by (simp add: save_in_cases)
  qed
qed

end

section \<open>Rejection on a new block\<close>

context mongo_srv
begin

lemma update_all_none: "fst (c_update_all (M_btc M) (\<lambda>t. False) f c) = c"
  using btc.update_all_cases [of "\<lambda>t. False" f c] by auto

lemma reject_btc_id: "reject_btc M hashes c = c"
  by (induction hashes arbitrary: c) (simp_all add: hash_key_def update_all_none)

lemma EventNewBlock_txs: "btc_txs net (bs_db (EventNewBlock M check net acc height s)) = btc_txs net (bs_db s)"
  by (simp add: EventNewBlock_def Let_def reject_btc_id) (simp add: save_height_def btc_txs_def)

end

section \<open>Dates of wallets\<close>

lemma positions_fold_inv:
  assumes "case r of None \<Rightarrow> True | Some (i, j) \<Rightarrow> P i j"
    and "\<And>i w j. (i, w) \<in> set es \<Longrightarrow> first_index (\<lambda>ad. adr_Address ad = a) (wal_Adresses w) = Some j \<Longrightarrow> P i j"
  shows "case fold (\<lambda>(i, w) r. case first_index (\<lambda>ad. adr_Address ad = a) (wal_Adresses w) of
               None \<Rightarrow> r | Some j \<Rightarrow> Some (i, j)) es r of None \<Rightarrow> True | Some (i, j) \<Rightarrow> P i j"
  using assms
proof (induction es arbitrary: r)
  case Nil
  then show ?case by simp
next
  case (Cons e es)
  obtain i w where e: "e = (i, w)" by fastforce
  have es: "P i j" if "(i, w) \<in> set es"
      "first_index (\<lambda>ad. adr_Address ad = a) (wal_Adresses w) = Some j" for i w j
    using Cons.prems(2) [of i w j] that by simp
  show ?case
  proof (cases "first_index (\<lambda>ad. adr_Address ad = a) (wal_Adresses w)")
    case None
    with e Cons.IH [OF Cons.prems(1) es] show ?thesis by simp
  next
    case (Some j)
    with e Cons.prems(2) [of i w j] have "P i j" by simp
    then have "case Some (i, j) of None \<Rightarrow> True | Some (i, j) \<Rightarrow> P i j" by simp
    from Cons.IH [OF this es] e Some show ?thesis by simp
  qed
qed

lemma positions_holds:
  assumes "positions a ws = Some (i, j)"
  shows "i < length ws \<and> j < length (wal_Adresses (ws ! i)) \<and> adr_Address (wal_Adresses (ws ! i) ! j) = a"
proof -
  have "case positions a ws of None \<Rightarrow> True
      | Some (i, j) \<Rightarrow> i < length ws \<and> j < length (wal_Adresses (ws ! i)) \<and> adr_Address (wal_Adresses (ws ! i) ! j) = a"
    unfolding positions_def
    by (rule positions_fold_inv) (auto simp: in_set_enumerate_eq dest: first_index_Some)
  with assms show ?thesis by simp
qed

lemma positions_None: "positions a ws = None \<Longrightarrow> w \<in> set ws \<Longrightarrow> \<not> has_addr a w"
proof -
  have keep: "fold (\<lambda>(i, w) r. case first_index (\<lambda>ad. adr_Address ad = a) (wal_Adresses w) of
               None \<Rightarrow> r | Some j \<Rightarrow> Some (i, j)) es r = None \<Longrightarrow>
      r = None \<and> (\<forall>(i, w) \<in> set es. \<not> has_addr a w)" for es :: "(nat \<times> Wallet) list" and r
  proof (induction es arbitrary: r)
    case Nil
    then show ?case by simp
  next
    case (Cons e es)
    obtain i w where e: "e = (i, w)" by fastforce
    show ?case
    proof (cases "first_index (\<lambda>ad. adr_Address ad = a) (wal_Adresses w)")
      case None
      then have "\<not> has_addr a w" by (simp add: first_index_None has_addr_def list_ex_iff)
      with e None Cons.IH [of r] Cons.prems show ?thesis by simp
    next
      case (Some j)
      with e Cons.IH [of "Some (i, j)"] Cons.prems show ?thesis by simp
    qed
  qed
  assume p: "positions a ws = None" and "w \<in> set ws"
  then obtain i where "i < length ws" "w = ws ! i" by (auto simp: in_set_conv_nth)
  then have "(i, w) \<in> set (enumerate 0 ws)" by (simp add: in_set_enumerate_eq)
  with keep [of "enumerate 0 ws" None] p show ?thesis unfolding positions_def by auto
qed

lemma update_dates_one:
  assumes "mongo_live M" "find (\<lambda>u. by_userID (wft_UserId w) u \<and> user_has_addr (afw_Address (wft_Address w)) u) (db_users d) = Some u"
    and "positions (afw_Address (wft_Address w)) (usr_Wallets u) = Some (i, j)"
  shows "update_dates M now [w] d =
     (d\<lparr>db_users := update_first (\<lambda>u. by_userID (wft_UserId w) u \<and> user_has_addr (afw_Address (wft_Address w)) u)
          (at_wallet i (touch_wallet now j)) (db_users d)\<rparr>, None)"
  using assms(2,3) mongo_live.find_list_ex [OF assms(1,2)]
  by (simp add: Let_def one_or_def mongo_live.live_simps [OF assms(1)] doc_one_def
      mongo_live.users_update_live [OF assms(1)])

section \<open>The mempool\<close>

lemma mempool_store_map:
  "map_of (bs_mempool (mempool_store v s)) = (map_of (bs_mempool s))(mpr_HashTX v \<mapsto> mpr_Category v)"
  by (simp add: mempool_store_def update_conv')

lemma mempool_delete_map: "map_of (bs_mempool (mempool_delete h s)) = (map_of (bs_mempool s))(h := None)"
  by (simp add: mempool_delete_def delete_conv')

lemma mempool_distinct:
  "distinct (map fst (bs_mempool s)) \<Longrightarrow> distinct (map fst (bs_mempool (mempool_store v s)))"
  "distinct (map fst (bs_mempool s)) \<Longrightarrow> distinct (map fst (bs_mempool (mempool_delete h s)))"
  by (simp_all add: mempool_store_def mempool_delete_def distinct_update distinct_delete)

section \<open>Properties\<close>

definition ex_spout :: "int \<Rightarrow> pb_AddSpOut" where
  "ex_spout n = \<lparr>ps_TxID = ''t1'', ps_TxOutID = n, ps_TxOutAmount = 5000, ps_TxOutScript = ''s'',
     ps_Address = ''a1'', ps_UserID = ''u1'', ps_TxStatus = 1, ps_WalletIndex = 1, ps_AddressIndex = 0\<rparr>"

definition ex_del :: DeleteSpendableOutput where
  "ex_del = \<lparr>dso_UserID = ''u1'', dso_TxID = ''t1'', dso_Address = ''a1''\<rparr>"

definition ex_state :: btc_state where
  "ex_state = \<lparr>bs_db = ex_db, bs_mempool = [], bs_resync = [], bs_notices = [], bs_broadcasts = []\<rparr>"

text \<open>
  The deletion loop does not stop at one record. For an output that is not in the
  collection it writes the spent record four times, because the \<open>sync.Once\<close> that guards the
  write is declared inside the loop.
\<close>

theorem delete_absent_four_records:
  assumes "mongo_live M"
    and "\<forall>o1 \<in> set (btc_sp net (bs_db s)). \<not> sp_key (dso_UserID del) (dso_TxID del) (dso_Address del) o1"
  shows "btc_spent net (bs_db (EventDeleteSpendableOut M net del s)) = btc_spent net (bs_db s) @ [del, del, del, del]"
proof -
  have "so_id ` set (btc_sp net (bs_db s)) \<inter> {dso_id del} = {}"
    using assms(2) by (auto simp: sp_key_id dso_id_def)
  from mongo_live.delete_loop_absent [OF assms(1) this, of 4]
  show ?thesis by (simp add: EventDeleteSpendableOut_def numeral_eq_Suc)
qed

theorem delete_absent_four_records_witness:
  "btc_spent 1 (bs_db (EventDeleteSpendableOut ref_mongo 1 ex_del ex_state)) = [ex_del, ex_del, ex_del, ex_del]"
  using delete_absent_four_records [OF refm.mongo_live_axioms, of 1 ex_state ex_del]
  by (simp add: ex_state_def ex_defs btc_sp_def btc_spent_def)

text \<open>
  Of two outputs of one transaction to the same address only the first is stored: the
  second, with another output index and amount, only updates the status of the first.
\<close>

theorem second_output_dropped:
  assumes "mongo_live M"
    and "ps_UserID g2 = ps_UserID g1" "ps_TxID g2 = ps_TxID g1" "ps_Address g2 = ps_Address g1"
    and "\<forall>o1 \<in> set (btc_sp net d). \<not> sp_key (ps_UserID g1) (ps_TxID g1) (ps_Address g1) o1"
  shows "map so_TxOutID (btc_sp net (fst (add_spendable M net g2 (fst (add_spendable M net g1 d))))) =
     map so_TxOutID (btc_sp net (fst (add_spendable M net g1 d)))"
proof -
  let ?k = "sp_key (ps_UserID g1) (ps_TxID g1) (ps_Address g1)"
  let ?d = "fst (add_spendable M net g1 d)"
  show ?thesis
  proof (cases "find (spent_key (ps_UserID g1) (ps_TxID g1) (ps_Address g1)) (btc_spent net d)")
    case (Some x)
    with assms(2-4) show ?thesis by (simp add: add_spendable_def add_unspent_def mongo_live.live_simps [OF assms(1)] doc_one_def)
  next
    case None
    have f: "find ?k (btc_sp net d) = None" using assms(5) by (simp add: find_None_iff)
    let ?o = "\<lambda>r. (generatedSpOutsToStore g1)\<lparr>so_StockExchangeRate := r\<rparr>"
    have d: "btc_sp net ?d = btc_sp net d @ [?o (rates_or_nil (GetLatestExchangeRate M d))]"
        "btc_spent net ?d = btc_spent net d"
      using None f
      by (simp_all add: add_spendable_def add_unspent_def mongo_live.live_simps [OF assms(1)] doc_one_def Let_def
          generatedSpOutsToStore_def split: option.split)
    have k: "?k (?o r)" for r by (simp add: sp_key_def generatedSpOutsToStore_def)
    then have "find ?k (btc_sp net ?d) = Some (?o (rates_or_nil (GetLatestExchangeRate M d)))"
      unfolding d by (simp add: find_append_None [OF f])
    with None assms(2-4) d(2) show ?thesis
      by (simp add: add_spendable_def add_unspent_def [of M net g2] mongo_live.live_simps [OF assms(1)] doc_one_def Let_def
          generatedSpOutsToStore_def [of g2] doc_update_def split: option.split)
  qed
qed

theorem second_output_dropped_witness:
  "map so_TxOutID (btc_sp 1 (fst (add_spendable ref_mongo 1 (ex_spout 1) (fst (add_spendable ref_mongo 1 (ex_spout 0) ex_db))))) =
   map so_TxOutID (btc_sp 1 (fst (add_spendable ref_mongo 1 (ex_spout 0) ex_db)))"
  using second_output_dropped [OF refm.mongo_live_axioms, of "ex_spout 1" "ex_spout 0" 1 ex_db]
  by (simp add: ex_spout_def ex_defs btc_sp_def)

text \<open>
  C10: on a database without errors, saving a transaction twice is saving it once, provided that the first wallet it
  lists, inputs before outputs, belongs to the user it was assigned to: the first save succeeds and the second
  changes nothing and reports no error. (The look-up asks for the user of that wallet and the document is
  stored under the user assigned, so that without the condition the second save may insert another document.)
\<close>

theorem saveMultyTransaction_idempotent:
  assumes "mongo_live M" "net = Main_net \<or> net = Test_net"
    and "list_all (\<lambda>w. wft_UserId w = mtx_UserId tx) (take 1 (mtx_WalletsInput tx @ mtx_WalletsOutput tx))"
    and "saveMultyTransaction M tx net d = Inr (d', e)"
  shows "e = None \<and> saveMultyTransaction M tx net d' = Inr (d', None)"
proof -
  obtain c where c: "save_in M tx (btc_txs net d) = Inr (c, e)" "d' = set_btc_txs net c d"
    using assms(2,4) by (auto simp: saveMultyTransaction_def bind_p_Inr)
  from mongo_live.save_in_twice [OF assms(1) c(1) assms(3)] c(2) assms(2)
  show ?thesis by (auto simp: saveMultyTransaction_def)
qed

definition ex_tx :: MultyTX where
  "ex_tx = \<lparr>mtx_UserId = ''u1'', mtx_TxID = ''t1'', mtx_TxHash = ''h'', mtx_TxOutScript = [],
     mtx_TxAddress = [''a1''], mtx_TxStatus = 1, mtx_TxOutAmount = 10, mtx_BlockTime = 0,
     mtx_BlockHeight = 0, mtx_Confirmations = 0, mtx_TxFee = 1, mtx_MempoolTime = 77,
     mtx_StockExchangeRate = [], mtx_TxInputs = [], mtx_TxOutputs = [],
     mtx_WalletsInput = [\<lparr>wft_UserId = ''u1'', wft_WalletIndex = 1, wft_Address =
       \<lparr>afw_AddressIndex = 0, afw_AddressOutIndex = 0, afw_Address = ''a1'', afw_Amount = 10\<rparr>\<rparr>],
     mtx_WalletsOutput = []\<rparr>"

theorem saveMultyTransaction_idempotent_witness:
  "saveMultyTransaction ref_mongo ex_tx 1 (set_btc_txs 1 [ex_tx] ex_db) = Inr (set_btc_txs 1 [ex_tx] ex_db, None)"
proof -
  have s: "saveMultyTransaction ref_mongo ex_tx 1 ex_db = Inr (set_btc_txs 1 [ex_tx] ex_db, None)"
    by (simp add: saveMultyTransaction_def network_ids save_in_def refm.seen_unconfirmed_False seen_async_def
        ref_simps doc_one_def save_split_def mgo_err_def ex_tx_def ex_defs btc_txs_def set_btc_txs_def)
  have "list_all (\<lambda>w. wft_UserId w = mtx_UserId ex_tx) (take 1 (mtx_WalletsInput ex_tx @ mtx_WalletsOutput ex_tx))"
    by (simp add: ex_tx_def)
  from saveMultyTransaction_idempotent [OF refm.mongo_live_axioms _ this s]
  show ?thesis by (simp add: network_ids)
qed

text \<open>
  C19: a new block never changes a stored Bitcoin transaction, whatever the node reports as
  rejected and whatever the database does: the rejection looks for a key the documents do
  not have.
\<close>

theorem EventNewBlock_rejects_nothing:
  assumes "mongo_srv M"
  shows "btc_txs net (bs_db (EventNewBlock M CheckRejectTxs net accuracyRange height s)) = btc_txs net (bs_db s)"
  by (rule mongo_srv.EventNewBlock_txs [OF assms])

theorem EventNewBlock_rejects_nothing_witness:
  "btc_txs 1 (bs_db (EventNewBlock ref_mongo (\<lambda>hs. Some [''h'']) 1 6 100
     (ex_state\<lparr>bs_db := set_btc_txs 1 [ex_tx] ex_db\<rparr>))) = [ex_tx]"
  using EventNewBlock_rejects_nothing [OF refm.mongo_srv_axioms, of 1 "\<lambda>hs. Some [''h'']" 6 100
      "ex_state\<lparr>bs_db := set_btc_txs 1 [ex_tx] ex_db\<rparr>"]
  by (simp add: ex_state_def)

text \<open>
  Recording a transaction that touches an address of a user brings the wallet that holds
  it back: some wallet of the user with the address has status \<open>ok\<close> and the new action time
  afterwards, also when it had been deleted.
\<close>

theorem transaction_revives_wallet:
  assumes "mongo_live M"
    and "find (\<lambda>u. by_userID (wft_UserId w) u \<and> user_has_addr (afw_Address (wft_Address w)) u) (db_users d) = Some u"
  shows "\<exists>v \<in> set (db_users (fst (update_dates M now [w] d))). usr_UserID v = wft_UserId w \<and>
     (\<exists>x \<in> set (usr_Wallets v). wal_Status x = WalletStatusOK \<and> wal_LastActionTime x = now \<and>
        has_addr (afw_Address (wft_Address w)) x)"
proof -
  let ?a = "afw_Address (wft_Address w)"
  have u: "usr_UserID u = wft_UserId w" "user_has_addr ?a u"
    using find_SomeD [OF assms(2)] by (auto simp: by_userID_def)
  then obtain i j where p: "positions ?a (usr_Wallets u) = Some (i, j)"
    using positions_None [of ?a "usr_Wallets u"]
    by (cases "positions ?a (usr_Wallets u)") (auto simp: user_has_addr_def list_ex_iff)
  let ?v = "at_wallet i (touch_wallet now j) u"
  let ?x = "touch_wallet now j (usr_Wallets u ! i)"
  have h: "i < length (usr_Wallets u)" "j < length (wal_Adresses (usr_Wallets u ! i))"
    "adr_Address (wal_Adresses (usr_Wallets u ! i) ! j) = ?a"
    using positions_holds [OF p] by auto
  have x: "?x \<in> set (usr_Wallets ?v)" using h(1) by (simp add: at_wallet_def set_update_memI)
  have "\<exists>ad \<in> set (wal_Adresses ?x). adr_Address ad = ?a"
    using h(2,3) by (intro bexI [of _ "(wal_Adresses (usr_Wallets u ! i) ! j)\<lparr>adr_LastActionTime := now\<rparr>"])
      (simp_all add: touch_wallet_def set_update_memI)
  then have "has_addr ?a ?x" by (simp add: has_addr_def list_ex_iff)
  moreover have "wal_Status ?x = WalletStatusOK" "wal_LastActionTime ?x = now" by (simp_all add: touch_wallet_def)
  moreover have "?v \<in> set (db_users (fst (update_dates M now [w] d)))"
    using update_dates_one [OF assms p, of now] update_first_in [OF assms(2)] by simp
  ultimately show ?thesis using x u(1) by (intro bexI [of _ ?v] conjI bexI [of _ ?x]) simp_all
qed

theorem transaction_revives_wallet_witness:
  "\<exists>v \<in> set (db_users (fst (update_dates ref_mongo 99 (mtx_WalletsInput ex_tx) ex_db))). usr_UserID v = ''u1'' \<and>
     (\<exists>x \<in> set (usr_Wallets v). wal_Status x = WalletStatusOK \<and> wal_LastActionTime x = 99 \<and> has_addr ''a1'' x)"
  using transaction_revives_wallet [OF refm.mongo_live_axioms, of "hd (mtx_WalletsInput ex_tx)" ex_db ex_user 99]
  by (simp add: ex_tx_def ex_db_def empty_db_def ex_user_def ex_wallet_def by_userID_def user_has_addr_def
      has_addr_def zero_wallet_def)

end
