(* ===== verification/Eth.thy ===== *)
theory Eth
  imports Btc_Handlers
begin

text \<open>
  The Ethereum package, \<open>eth/utils.go\<close>: saving of transactions, multisig contract calls
  (\<open>ParseMultisigInput\<close>) and their bookkeeping. The transaction a handler works on is one
  object behind a pointer, and the \<open>Multisig\<close> of its copies is shared with it: the
  definitions thread the transaction's scalar fields and its multisig \<open>m\<close> separately, so
  that an assignment through a copy shows in the original. A stored document is a copy.
\<close>

section \<open>State\<close>

record pb_ETHTransaction =
  pe_UserID :: string
  pe_WalletIndex :: int
  pe_AddressIndex :: int
  pe_Hash :: string
  pe_From :: string
  pe_To :: string
  pe_Amount :: string
  pe_GasPrice :: int
  pe_GasLimit :: int
  pe_Nonce :: int
  pe_Status :: int
  pe_BlockTime :: int
  pe_TxpoolTime :: int
  pe_BlockHeight :: int
  pe_Contract :: string
  pe_MethodInvoked :: string
  pe_InvocationStatus :: bool
  pe_Return :: string
  pe_Input :: string
  pe_Multisig :: bool
  pe_Resync :: bool

record pb_Multisig =
  pm_Confirmations :: int
  pm_Contract :: string
  pm_TxOfCreation :: string
  pm_FactoryAddress :: string
  pm_DeployStatus :: int
  pm_Addresses :: "string list"

datatype payload = POk | PMultisig Multisig | PTransaction pb_ETHTransaction

record ws_message =
  wm_Type :: int
  wm_To :: string
  wm_Payload :: payload

record eth_state =
  es_db :: db
  es_mempool :: "(string \<times> int) list"
  es_notices :: "TransactionWithUserID list"
  es_broadcasts :: "ws_message list"

definition eth_txs :: "int \<Rightarrow> db \<Rightarrow> TransactionETH list" where
  "eth_txs net d = (if net = ETHMain then db_ethMain d else db_ethTest d)"

definition set_eth_txs :: "int \<Rightarrow> TransactionETH list \<Rightarrow> db \<Rightarrow> db" where
  "set_eth_txs net ts d = (if net = ETHMain then d\<lparr>db_ethMain := ts\<rparr> else d\<lparr>db_ethTest := ts\<rparr>)"

definition eth_ms :: "int \<Rightarrow> db \<Rightarrow> TransactionETH list" where
  "eth_ms net d = (if net = ETHMain then db_msMain d else db_msTest d)"

definition set_eth_ms :: "int \<Rightarrow> TransactionETH list \<Rightarrow> db \<Rightarrow> db" where
  "set_eth_ms net ts d = (if net = ETHMain then d\<lparr>db_msMain := ts\<rparr> else d\<lparr>db_msTest := ts\<rparr>)"

lemma eth_coll_simps [simp]:
  "eth_txs net (set_eth_txs net ts d) = ts" "eth_ms net (set_eth_txs net ts d) = eth_ms net d"
  "eth_ms net (set_eth_ms net ts d) = ts" "eth_txs net (set_eth_ms net ts d) = eth_txs net d"
  "db_users (set_eth_txs net ts d) = db_users d" "db_users (set_eth_ms net ts d) = db_users d"
  "eth_txs net (d\<lparr>db_users := us\<rparr>) = eth_txs net d" "eth_ms net (d\<lparr>db_users := us\<rparr>) = eth_ms net d"
  "set_eth_txs net (eth_txs net d) d = d" "set_eth_ms net (eth_ms net d) d = d"
  "set_eth_txs net ts (set_eth_txs net ts' d) = set_eth_txs net ts d"
  "set_eth_ms net ts (set_eth_ms net ts' d) = set_eth_ms net ts d"
  by (simp_all add: eth_txs_def set_eth_txs_def eth_ms_def set_eth_ms_def)

section \<open>Transactions of wallets\<close>

definition zero_multisig_tx :: MultisigTx where
  "zero_multisig_tx = \<lparr>mst_Contract = [], mst_MethodInvoked = [], mst_Input = [], mst_InvocationStatus = False,
     mst_RequestID = 0, mst_Return = [], mst_Owners = [], mst_Confirmed = False\<rparr>"

definition eth_generatedTxDataToStore :: "pb_ETHTransaction \<Rightarrow> TransactionETH" where
  "eth_generatedTxDataToStore g =
     \<lparr>etx_UserID = pe_UserID g, etx_WalletIndex = pe_WalletIndex g, etx_AddressIndex = pe_AddressIndex g,
      etx_Hash = pe_Hash g, etx_From = pe_From g, etx_To = pe_To g, etx_Amount = pe_Amount g,
      etx_GasPrice = pe_GasPrice g, etx_GasLimit = pe_GasLimit g, etx_Nonce = pe_Nonce g,
      etx_Status = pe_Status g, etx_BlockTime = pe_BlockTime g, etx_PoolTime = pe_TxpoolTime g,
      etx_BlockHeight = pe_BlockHeight g, etx_Confirmations = 0, etx_IsInternal = False,
      etx_Multisig = Some (zero_multisig_tx\<lparr>mst_Contract := pe_Contract g,
        mst_MethodInvoked := pe_MethodInvoked g, mst_InvocationStatus := pe_InvocationStatus g,
        mst_Return := pe_Return g, mst_Input := pe_Input g\<rparr>),
      etx_ERC20Token = None, etx_StockExchangeRate = []\<rparr>"

text \<open>Unlike its Bitcoin twin, this one returns a record made of zeroes beside the error.\<close>

definition zero_rates :: ExchangeRatesRecord where
  "zero_rates = \<lparr>err_Exchanges = \<lparr>er_EURtoBTC = 0, er_USDtoBTC = 0, er_ETHtoBTC = 0, er_ETHtoUSD = 0,
     er_ETHtoEUR = 0, er_BTCtoUSD = 0\<rparr>, err_Timestamp = 0, err_StockExchange = []\<rparr>"

definition eth_GetReSyncExchangeRate :: "mongo \<Rightarrow> int \<Rightarrow> db \<Rightarrow> ExchangeRatesRecord list \<times> mgo_error option" where
  "eth_GetReSyncExchangeRate M time d =
     (case c_newest (M_rates M) (\<lambda>r. err_StockExchange r = ''CCCAGG'' \<and> err_Timestamp r < time)
             err_Timestamp (db_rates d) of
        Inl e \<Rightarrow> ([zero_rates], Some e) | Inr stocksCCCAGG \<Rightarrow> ([stocksCCCAGG], None))"

definition eth_setExchangeRates :: "mongo \<Rightarrow> bool \<Rightarrow> db \<Rightarrow> TransactionETH \<Rightarrow> TransactionETH" where
  "eth_setExchangeRates M isReSync d tx =
     (if isReSync then tx\<lparr>etx_StockExchangeRate := fst (eth_GetReSyncExchangeRate M (etx_BlockTime tx) d)\<rparr>
      else tx\<lparr>etx_StockExchangeRate := rates_or_nil (GetLatestExchangeRate M d)\<rparr>)"

definition eth_key :: "TransactionETH \<Rightarrow> TransactionETH \<Rightarrow> bool" where
  "eth_key tx t \<longleftrightarrow> etx_UserID t = etx_UserID tx \<and> etx_Hash t = etx_Hash tx \<and> etx_WalletIndex t = etx_WalletIndex tx"

definition eth_update :: "TransactionETH \<Rightarrow> TransactionETH \<Rightarrow> TransactionETH" where
  "eth_update tx t = t\<lparr>etx_Status := etx_Status tx, etx_BlockHeight := etx_BlockHeight tx,
     etx_BlockTime := etx_BlockTime tx, etx_GasPrice := etx_GasPrice tx, etx_GasLimit := etx_GasLimit tx\<rparr>"

text \<open>The branches for incoming and for outgoing transactions are the same code.\<close>

definition save_eth :: "mongo \<Rightarrow> TransactionETH \<Rightarrow> TransactionETH list \<Rightarrow> TransactionETH list \<times> go_error option" where
  "save_eth M tx c =
     (case c_one (M_eth M) (eth_key tx) c of
        Inl ErrNotFound \<Rightarrow> (let (c', e) = c_insert (M_eth M) tx c in (c', mgo_err e))
      | Inl e \<Rightarrow> (c, Some (EMgo e))
      | Inr t \<Rightarrow> (let (c', e) = c_update (M_eth M) (eth_key tx) (eth_update tx) c in (c', mgo_err e)))"

definition saveTransaction :: "mongo \<Rightarrow> TransactionETH \<Rightarrow> int \<Rightarrow> db \<Rightarrow> db \<times> go_error option" where
  "saveTransaction M tx networkID d =
     (if networkID = ETHMain \<or> networkID = ETHTest then
        if incoming (etx_Status tx) then
          (let (c, e) = save_eth M tx (eth_txs networkID d) in (set_eth_txs networkID c d, e))
        else if outgoing (etx_Status tx) then
          (let (c, e) = save_eth M tx (eth_txs networkID d) in (set_eth_txs networkID c d, e))
        else (d, None)
      else (d, Some (EMsg ''saveMultyTransaction: wrong networkID'')))"

definition positions_net :: "string \<Rightarrow> int \<Rightarrow> Wallet list \<Rightarrow> (nat \<times> nat) option" where
  "positions_net a net ws =
     fold (\<lambda>(i, w) r.
         case first_index (\<lambda>ad. adr_Address ad = a \<and> wal_NetworkID w = net) (wal_Adresses w) of
           None \<Rightarrow> r | Some j \<Rightarrow> Some (i, j)) (enumerate 0 ws) None"

definition update_date :: "mongo \<Rightarrow> int \<Rightarrow> string \<Rightarrow> string \<Rightarrow> int \<Rightarrow> db \<Rightarrow> db \<times> go_error option" where
  "update_date M now uid a net d =
     (let sel = (\<lambda>u. by_userID uid u \<and> user_has_addr a u);
          user = one_or (M_users M) sel (db_users d) zero_user
      in case positions_net a net (usr_Wallets user) of
           None \<Rightarrow> (d, None)
         | Some (i, j) \<Rightarrow>
             (case users_update M sel (at_wallet i (touch_wallet now j)) d of
                (d', None) \<Rightarrow> (d', None)
              | (d', Some e) \<Rightarrow>
                  (d', Some (EMsg (''updateWalletAndAddressDate:usersData.Update: '' @ mgo_text e)))))"

definition eth_updateWalletAndAddressDate :: "mongo \<Rightarrow> int \<Rightarrow> TransactionETH \<Rightarrow> int \<Rightarrow> db \<Rightarrow> db \<times> go_error option" where
  "eth_updateWalletAndAddressDate M now tx net d =
     (case update_date M now (etx_UserID tx) (etx_From tx) net d of
        (d', Some e) \<Rightarrow> (d', Some e)
      | (d', None) \<Rightarrow> update_date M now (etx_UserID tx) (etx_To tx) net d')"

definition eth_notice :: "TransactionETH \<Rightarrow> int \<Rightarrow> string \<Rightarrow> string \<Rightarrow> TransactionWithUserID" where
  "eth_notice tx netid a contract =
     \<lparr>twu_NotificationMsg =
        \<lparr>wtn_CurrencyID = Ether, wtn_NetworkID = netid, wtn_Address = a, wtn_Amount = etx_Amount tx,
         wtn_TxID = etx_Hash tx, wtn_TransactionType = etx_Status tx, wtn_WalletIndex = etx_WalletIndex tx,
         wtn_From = etx_From tx, wtn_To = etx_To tx, wtn_Multisig = contract\<rparr>,
      twu_UserID = etx_UserID tx\<rparr>"

text \<open>The call in the handler passes no user ids. \<open>tx.Multisig\<close> is dereferenced in both branches.\<close>

definition eth_sendNotifyToClients :: "TransactionETH \<Rightarrow> int \<Rightarrow> panic + TransactionWithUserID list" where
  "eth_sendNotifyToClients tx netid =
     (if incoming (etx_Status tx) then
        (case etx_Multisig tx of None \<Rightarrow> Inl NilDereference
         | Some m \<Rightarrow> Inr [eth_notice tx netid (etx_To tx) (mst_Contract m)])
      else if outgoing (etx_Status tx) then
        (case etx_Multisig tx of None \<Rightarrow> Inl NilDereference
         | Some m \<Rightarrow> Inr [eth_notice tx netid (etx_From tx) (mst_Contract m)])
      else Inr [])"

section \<open>Reading contract calls\<close>

definition fetchMethod :: "string \<Rightarrow> string" where
  "fetchMethod input = (if length input < 10 then ''0x'' else take 10 input)"

text \<open>
  All matches of the pattern \<open>.{64}\<close>: the leftmost run of 64 characters without a line
  feed, then the same after its end.
\<close>

function chunks64 :: "string \<Rightarrow> string list" where
  "chunks64 s =
     (if length s < 64 then []
      else if CHR 0x0A \<in> set (take 64 s) then chunks64 (drop 1 s)
      else take 64 s # chunks64 (drop 64 s))"
  by pat_completeness auto
termination by (relation "measure length") auto

declare chunks64.simps [simp del]

text \<open>A nil \<open>big.Int\<close> prints as \<open><nil>\<close>.\<close>

definition big_text :: "int option \<Rightarrow> string" where
  "big_text i = (case i of None \<Rightarrow> ''<nil>'' | Some x \<Rightarrow> Itoa x)"

definition parseSubmitInput :: "string \<Rightarrow> string \<times> string" where
  "parseSubmitInput input =
     (if length input \<ge> 266 then
        (let parts = chunks64 (drop 10 input) in
         if length parts \<ge> 4
         then (ToLower (''0x'' @ drop 24 (parts ! 0)), big_text (SetString 16 (parts ! 1)))
         else ([], []))
      else ([], []))"

text \<open>\<open>input[10:]\<close> of a shorter input panics.\<close>

definition parseRevokeInput :: "string \<Rightarrow> panic + (int \<times> go_error option)" where
  "parseRevokeInput input =
     (if length input < 10 then Inl IndexOutOfRange
      else if length (chunks64 (drop 10 input)) > 0 then
        (case SetString 16 input of
           None \<Rightarrow> Inr (0, Some (EMsg (''bad input '' @ input)))
         | Some i \<Rightarrow> Inr (Int64 i, None))
      else Inr (0, Some (EMsg (''low len input '' @ input))))"

definition signatuteToStatus :: "string \<Rightarrow> int" where
  "signatuteToStatus signature =
     (if signature = SubmitTransaction then NotifyPaymentReq
      else if signature = ConfirmTransaction then NotifyConfirmTx
      else if signature = RevokeConfirmation then NotifyRevokeTx
      else if signature = ''0x'' then NotifyIncomingTx
      else NotifyPaymentReq)"

section \<open>Contracts and their owners\<close>

definition zero_oh :: OwnerHistory where
  "zero_oh = \<lparr>oh_Address = [], oh_ConfirmationTX = [], oh_ConfirmationStatus = 0, oh_ConfirmationTime = 0, oh_SeenTime = 0\<rparr>"

definition FetchContractOwners :: "mongo \<Rightarrow> int \<Rightarrow> int \<Rightarrow> string \<Rightarrow> db \<Rightarrow> OwnerHistory list" where
  "FetchContractOwners M currencyID networkID contractaddress d =
     (let user = one_or (M_users M) (has_contract contractaddress) (db_users d) zero_user in
      concat (map (\<lambda>multisig.
        if ms_CurrencyID multisig = currencyID \<and> ms_NetworkID multisig = networkID \<and>
           ms_ContractAddress multisig = contractaddress
        then map (\<lambda>owner. zero_oh\<lparr>oh_Address := ae_Address owner\<rparr>) (ms_Owners multisig)
        else []) (usr_Multisigs user)))"

definition findContractOwners :: "mongo \<Rightarrow> string \<Rightarrow> db \<Rightarrow> User list" where
  "findContractOwners M contractAddress d = all_or (M_users M) (has_contract (ToLower contractAddress)) (db_users d)"

definition fetchMultisig :: "User list \<Rightarrow> string \<Rightarrow> Multisig \<times> go_error option" where
  "fetchMultisig users contract =
     (let failed = (zero_multisig, Some (EMsg (''fetchMultisig: contract have no multy users :'' @ contract))) in
      case users of
        [] \<Rightarrow> failed
      | u # _ \<Rightarrow>
          (case find (\<lambda>m. ms_ContractAddress m = contract) (usr_Multisigs u) of
             Some m \<Rightarrow> (m, None) | None \<Rightarrow> failed))"

text \<open>The update to the history of the owner \<open>from\<close> when it confirms with transaction \<open>hash\<close>.\<close>

definition confirm_owner :: "int \<Rightarrow> string \<Rightarrow> string \<Rightarrow> OwnerHistory \<Rightarrow> OwnerHistory" where
  "confirm_owner now from hash oh =
     (if oh_Address oh = from
      then \<lparr>oh_Address = from, oh_ConfirmationTX = hash,
            oh_ConfirmationStatus = MultisigOwnerStatusConfirmed, oh_ConfirmationTime = now, oh_SeenTime = now\<rparr>
      else oh)"

end
