(* ===== verification/Eth_Multisig.thy ===== *)
theory Eth_Multisig
  imports Eth
begin

text \<open>
  \<open>ParseMultisigInput\<close> and \<open>processMultisig\<close> (\<open>eth/utils.go\<close>), case by
  case. The state is \<open>eth_state\<close>; a result \<open>(s, Inl p)\<close> is a panic after the writes in
  \<open>s\<close>. The transaction is passed as \<open>tx\<close> with its multisig apart in \<open>m\<close>:
  \<open>txToUser\<close> in the code is a copy that shares the multisig (submit) or the very same object
  (confirm).
\<close>

type_synonym 'a eth_result = "eth_state \<times> (panic + 'a)"

definition with_ms :: "MultisigTx \<Rightarrow> TransactionETH \<Rightarrow> TransactionETH" where
  "with_ms m tx = tx\<lparr>etx_Multisig := Some m\<rparr>"

definition insert_tx :: "mongo \<Rightarrow> int \<Rightarrow> TransactionETH \<Rightarrow> eth_state \<Rightarrow> eth_state" where
  "insert_tx M net t s =
     s\<lparr>es_db := set_eth_txs net (fst (c_insert (M_eth M) t (eth_txs net (es_db s)))) (es_db s)\<rparr>"

definition insert_ms :: "mongo \<Rightarrow> int \<Rightarrow> TransactionETH \<Rightarrow> eth_state \<Rightarrow> eth_state" where
  "insert_ms M net t s =
     s\<lparr>es_db := set_eth_ms net (fst (c_insert (M_eth M) t (eth_ms net (es_db s)))) (es_db s)\<rparr>"

definition update_ms_all ::
  "mongo \<Rightarrow> int \<Rightarrow> (TransactionETH \<Rightarrow> bool) \<Rightarrow> (TransactionETH \<Rightarrow> TransactionETH) \<Rightarrow> eth_state \<Rightarrow> eth_state" where
  "update_ms_all M net sel f s =
     s\<lparr>es_db := set_eth_ms net (fst (c_update_all (M_eth M) sel f (eth_ms net (es_db s)))) (es_db s)\<rparr>"

text \<open>
  The wallets' collection stores the hash under \<open>hash\<close>: a selector on \<open>txhash\<close> finds no
  document, in the update to the failed status and in the look-up for the internal transaction.
\<close>

definition by_txhash :: "string \<Rightarrow> TransactionETH \<Rightarrow> bool" where
  "by_txhash h t \<longleftrightarrow> False"

definition mark_failed :: "mongo \<Rightarrow> int \<Rightarrow> string \<Rightarrow> eth_state \<Rightarrow> eth_state" where
  "mark_failed M net h s =
     s\<lparr>es_db := set_eth_txs net (fst (c_update_all (M_eth M) (by_txhash h)
         (\<lambda>t. t\<lparr>etx_Status := TxStatusInBlockMethodInvocationFail\<rparr>) (eth_txs net (es_db s)))) (es_db s)\<rparr>"

text \<open>The tail shared by the confirm, revoke and plain transfer cases.\<close>

definition fail_check :: "mongo \<Rightarrow> int \<Rightarrow> TransactionETH \<Rightarrow> MultisigTx \<Rightarrow> eth_state \<Rightarrow> TransactionETH \<times> eth_state" where
  "fail_check M net tx m s =
     (if etx_BlockTime tx \<noteq> 0 \<and> \<not> mst_InvocationStatus m
      then (tx\<lparr>etx_Status := TxStatusInBlockMethodInvocationFail\<rparr>, mark_failed M net (etx_Hash tx) s)
      else (tx, s))"

definition broadcast_ok :: "User list \<Rightarrow> eth_state \<Rightarrow> eth_state" where
  "broadcast_ok users s = s\<lparr>es_broadcasts := es_broadcasts s @
     map (\<lambda>u. \<lparr>wm_Type = NotifyTxSubmitted, wm_To = usr_UserID u, wm_Payload = POk\<rparr>) users\<rparr>"

section \<open>Internal transactions\<close>

text \<open>The last wallet of the user that holds the address, with its first matching address.\<close>

definition wallet_hit :: "string \<Rightarrow> User \<Rightarrow> (Wallet \<times> Address) option" where
  "wallet_hit address user =
     (case positions address (usr_Wallets user) of
        None \<Rightarrow> None
      | Some (i, j) \<Rightarrow> Some (usr_Wallets user ! i, wal_Adresses (usr_Wallets user ! i) ! j))"

definition to_wallet ::
  "int \<Rightarrow> Multisig \<Rightarrow> string \<Rightarrow> int \<Rightarrow> User \<Rightarrow> Wallet \<times> Address \<Rightarrow> TransactionETH \<Rightarrow> TransactionETH" where
  "to_wallet now contract amount status user wa t =
     t\<lparr>etx_From := ms_ContractAddress contract, etx_To := adr_Address (snd wa), etx_PoolTime := now,
       etx_UserID := usr_UserID user, etx_WalletIndex := wal_WalletIndex (fst wa),
       etx_AddressIndex := adr_AddressIndex (snd wa), etx_Amount := amount,
       etx_Status := status, etx_IsInternal := True\<rparr>"

definition to_contract :: "int \<Rightarrow> Multisig \<Rightarrow> string \<Rightarrow> Multisig \<Rightarrow> TransactionETH \<Rightarrow> TransactionETH" where
  "to_contract now contract amount multisig t =
     t\<lparr>etx_From := ms_ContractAddress contract, etx_To := ms_ContractAddress multisig, etx_PoolTime := now,
       etx_Amount := amount, etx_Status := TxStatusInBlockConfirmedIncoming, etx_IsInternal := True\<rparr>"

text \<open>
  The internal transaction of a submit call that needs one confirmation. \<open>tu\<close> is
  \<open>txToUser\<close>; \<open>m\<close> is shared with \<open>tx\<close>. After the first insertion
  \<open>txToUser.Multisig\<close> is nil, and an address that is also a contract then dereferences it.
\<close>

definition submit_internal ::
  "mongo \<Rightarrow> int \<Rightarrow> int \<Rightarrow> Multisig \<Rightarrow> string \<Rightarrow> string \<Rightarrow> TransactionETH \<Rightarrow> MultisigTx \<Rightarrow> eth_state \<Rightarrow> MultisigTx eth_result" where
  "submit_internal M now net contract address amount tx m s =
     (let tu = tx\<lparr>etx_From := ms_ContractAddress contract, etx_To := address\<rparr>;
          users = db_users (es_db s);
          user = one_or (M_users M) (user_has_addr address) users zero_user;
          hit = wallet_hit address user;
          m1 = (case hit of None \<Rightarrow> m | Some wa \<Rightarrow> m\<lparr>mst_MethodInvoked := ExecuteTransaction\<rparr>);
          tu1 = (case hit of None \<Rightarrow> tu
                 | Some wa \<Rightarrow> to_wallet now contract amount TxStatusInBlockConfirmedOutcoming user wa tu);
          s1 = (case hit of None \<Rightarrow> s | Some wa \<Rightarrow> insert_tx M net (tu1\<lparr>etx_Multisig := None\<rparr>) s);
          user2 = one_or (M_users M) (has_contract address) users user
      in case find (\<lambda>ms. ms_ContractAddress ms = address) (usr_Multisigs user2) of
           None \<Rightarrow> (s1, Inr m1)
         | Some ms \<Rightarrow>
             (if hit \<noteq> None then (s1, Inl NilDereference)
              else (let m2 = m1\<lparr>mst_MethodInvoked := ExecuteTransaction, mst_Contract := ms_ContractAddress ms\<rparr>
                    in (insert_ms M net (with_ms m2 (to_contract now contract amount ms tu1)) s1, Inr m2))))"

section \<open>The cases\<close>

definition submit_end ::
  "int \<Rightarrow> TransactionETH \<Rightarrow> MultisigTx \<Rightarrow> TransactionETH" where
  "submit_end now tx m =
     (let m' = m\<lparr>mst_Owners := map (confirm_owner now (etx_From tx) (etx_Hash tx)) (mst_Owners m)\<rparr>;
          (address, amount) = parseSubmitInput (mst_Input m)
      in with_ms m' (tx\<lparr>etx_From := etx_To tx, etx_To := address, etx_Amount := amount\<rparr>))"

definition submit_case ::
  "mongo \<Rightarrow> int \<Rightarrow> int \<Rightarrow> User list \<Rightarrow> Multisig \<Rightarrow> TransactionETH \<Rightarrow> MultisigTx \<Rightarrow> eth_state \<Rightarrow> TransactionETH eth_result" where
  "submit_case M now net users contract tx m s =
     (if etx_BlockTime tx \<noteq> 0 then
        (case (if mst_Return m = [] then None else SetString 16 (mst_Return m)) of
           None \<Rightarrow> (s, Inr (with_ms (m\<lparr>mst_InvocationStatus := False\<rparr>) tx))
         | Some i \<Rightarrow>
             (let (tx1, s1) = fail_check M net tx m s;
                  m1 = m\<lparr>mst_RequestID := Int64 i\<rparr>;
                  (address, amount) = parseSubmitInput (mst_Input m1);
                  tx2 = tx1\<lparr>etx_Amount := amount\<rparr>
              in if ms_Confirmations contract = 1 then
                   (let m2 = m1\<lparr>mst_Confirmed := True\<rparr> in
                    case c_one (M_eth M) (by_txhash (etx_Hash tx2)) (eth_txs net (es_db s1)) of
                      Inl ErrNotFound \<Rightarrow>
                        (case submit_internal M now net contract address amount tx2 m2 s1 of
                           (s2, Inl p) \<Rightarrow> (s2, Inl p)
                         | (s2, Inr m3) \<Rightarrow> (broadcast_ok users s2, Inr (submit_end now tx2 m3)))
                    | _ \<Rightarrow> (broadcast_ok users s1, Inr (submit_end now tx2 m2)))
                 else (s1, Inr (submit_end now tx2 m1))))
      else (s, Inr (submit_end now tx m)))"

definition same_request :: "int \<Rightarrow> string \<Rightarrow> TransactionETH \<Rightarrow> bool" where
  "same_request requestid contract t \<longleftrightarrow>
     (case etx_Multisig t of None \<Rightarrow> False
      | Some m \<Rightarrow> mst_RequestID m = requestid \<and> mst_Contract m = contract)"

definition submitted_request :: "int \<Rightarrow> string \<Rightarrow> TransactionETH \<Rightarrow> bool" where
  "submitted_request requestid contract t \<longleftrightarrow>
     same_request requestid contract t \<and>
     (case etx_Multisig t of None \<Rightarrow> False | Some m \<Rightarrow> mst_MethodInvoked m = SubmitTransaction)"

definition set_owners :: "OwnerHistory list \<Rightarrow> TransactionETH \<Rightarrow> TransactionETH" where
  "set_owners ohs t = t\<lparr>etx_Multisig := map_option (\<lambda>m. m\<lparr>mst_Owners := ohs\<rparr>) (etx_Multisig t)\<rparr>"

definition set_confirmed :: "OwnerHistory list \<Rightarrow> TransactionETH \<Rightarrow> TransactionETH" where
  "set_confirmed ohs t =
     t\<lparr>etx_Multisig := map_option (\<lambda>m. m\<lparr>mst_Owners := ohs, mst_Confirmed := True\<rparr>) (etx_Multisig t)\<rparr>"

definition confirmations :: "OwnerHistory list \<Rightarrow> nat" where
  "confirmations ohs = length (filter (\<lambda>oh. oh_ConfirmationStatus oh = MultisigOwnerStatusConfirmed) ohs)"

text \<open>Here \<open>txToUser := tx\<close> copies the pointer: every assignment is to \<open>tx\<close> itself.\<close>

definition confirm_internal ::
  "mongo \<Rightarrow> int \<Rightarrow> int \<Rightarrow> Multisig \<Rightarrow> string \<Rightarrow> TransactionETH \<Rightarrow> MultisigTx \<Rightarrow> eth_state \<Rightarrow>
   TransactionETH \<times> MultisigTx \<times> eth_state" where
  "confirm_internal M now net contract input tx m s =
     (let (outputAddress, amount) = parseSubmitInput input;
          users = db_users (es_db s);
          user = one_or (M_users M) (user_has_addr outputAddress) users zero_user;
          hit = wallet_hit outputAddress user;
          m1 = (case hit of None \<Rightarrow> m | Some wa \<Rightarrow> m\<lparr>mst_MethodInvoked := ExecuteTransaction\<rparr>);
          tx1 = (case hit of None \<Rightarrow> tx
                 | Some wa \<Rightarrow> to_wallet now contract amount TxStatusInBlockConfirmedIncoming user wa tx);
          s1 = (case hit of None \<Rightarrow> s | Some wa \<Rightarrow> insert_tx M net (with_ms m1 tx1) s);
          user2 = one_or (M_users M) (has_contract outputAddress) users user
      in case find (\<lambda>ms. ms_ContractAddress ms = outputAddress) (usr_Multisigs user2) of
           None \<Rightarrow> (tx1, m1, s1)
         | Some ms \<Rightarrow>
             (let m2 = m1\<lparr>mst_Contract := ms_ContractAddress ms, mst_MethodInvoked := SubmitTransaction\<rparr>;
                  tx2 = to_contract now contract amount ms tx1
              in (tx2, m2, insert_ms M net (with_ms m2 tx2) s1)))"

definition confirm_executed ::
  "mongo \<Rightarrow> int \<Rightarrow> int \<Rightarrow> User list \<Rightarrow> Multisig \<Rightarrow> TransactionETH \<Rightarrow> string \<Rightarrow> OwnerHistory list \<Rightarrow>
   TransactionETH \<Rightarrow> MultisigTx \<Rightarrow> eth_state \<Rightarrow> TransactionETH \<times> MultisigTx \<times> eth_state" where
  "confirm_executed M now net users contract originTx input ohs tx m s =
     (let m1 = m\<lparr>mst_Confirmed := True\<rparr>;
          s1 = update_ms_all M net (\<lambda>t. etx_Hash t = etx_Hash originTx) (set_confirmed ohs) s;
          (tx1, m2, s2) =
            (case c_one (M_eth M) (\<lambda>t. etx_Hash t = etx_Hash originTx \<and> etx_IsInternal t) (eth_txs net (es_db s1)) of
               Inl ErrNotFound \<Rightarrow> confirm_internal M now net contract input tx m1 s1
             | _ \<Rightarrow> (tx, m1, s1))
      in (tx1, m2, broadcast_ok users s2))"

definition confirm_case ::
  "mongo \<Rightarrow> int \<Rightarrow> int \<Rightarrow> User list \<Rightarrow> Multisig \<Rightarrow> TransactionETH \<Rightarrow> MultisigTx \<Rightarrow> eth_state \<Rightarrow> TransactionETH eth_result" where
  "confirm_case M now net users contract tx m s =
     (case SetString 16 (drop 10 (mst_Input m)) of
        None \<Rightarrow> (s, Inl NilDereference)
      | Some i \<Rightarrow>
          (let sel = submitted_request (Int64 i) (mst_Contract m) in
           case c_one (M_eth M) sel (eth_ms net (es_db s)) of
             Inl e \<Rightarrow> (s, Inr (with_ms m tx))
           | Inr originTx \<Rightarrow>
               (case etx_Multisig originTx of
                  None \<Rightarrow> (s, Inl NilDereference)
                | Some om \<Rightarrow>
                    (let ohs = map (confirm_owner now (etx_From tx) (etx_Hash tx)) (mst_Owners om);
                         s1 = update_ms_all M net sel (set_owners ohs) s;
                         m1 = m\<lparr>mst_Owners := []\<rparr>;
                         (tx2, m2, s2) =
                           (if ms_Confirmations contract \<le> int (confirmations ohs) \<and> etx_BlockTime tx \<noteq> 0
                            then confirm_executed M now net users contract originTx (mst_Input om) ohs tx m1 s1
                            else (tx, m1, s1));
                         (tx3, s3) = fail_check M net tx2 m2 s2
                     in (s3, Inr (with_ms m2 tx3))))))"

text \<open>The new history is built over \<open>tx.Multisig.Owners\<close>, which was emptied a line above.\<close>

definition revoke_case ::
  "mongo \<Rightarrow> int \<Rightarrow> int \<Rightarrow> Multisig \<Rightarrow> TransactionETH \<Rightarrow> MultisigTx \<Rightarrow> eth_state \<Rightarrow> TransactionETH eth_result" where
  "revoke_case M now net contract tx m s =
     (let m1 = m\<lparr>mst_Owners := []\<rparr> in
      case parseRevokeInput (mst_Input m1) of
        Inl p \<Rightarrow> (s, Inl p)
      | Inr (requestid, err) \<Rightarrow>
          (let s1 = (case err of
                       Some e \<Rightarrow> s
                     | None \<Rightarrow>
                         (let sel = same_request requestid (ms_ContractAddress contract);
                              from = (case c_one (M_eth M) sel (eth_ms net (es_db s)) of
                                        Inl e \<Rightarrow> [] | Inr originTx \<Rightarrow> etx_From originTx);
                              ohs = concat (map (\<lambda>oh. if oh_Address oh = from
                                then [\<lparr>oh_Address = etx_From tx, oh_ConfirmationTX = [],
                                       oh_ConfirmationStatus = MultisigOwnerStatusRevoked,
                                       oh_ConfirmationTime = now, oh_SeenTime = now\<rparr>, oh]
                                else [oh]) (mst_Owners m1))
                          in update_ms_all M net sel (set_owners ohs) s));
               (tx2, s2) = fail_check M net tx m1 s1
           in (s2, Inr (with_ms m1 tx2))))"

definition ParseMultisigInput :: "mongo \<Rightarrow> int \<Rightarrow> int \<Rightarrow> TransactionETH \<Rightarrow> eth_state \<Rightarrow> TransactionETH eth_result" where
  "ParseMultisigInput M now net tx s =
     (case etx_Multisig tx of
        None \<Rightarrow> (s, Inl NilDereference)
      | Some m0 \<Rightarrow>
          (let d = es_db s;
               m = m0\<lparr>mst_Owners := FetchContractOwners M Ether net (mst_Contract m0) d,
                      mst_MethodInvoked := fetchMethod (mst_Input m0)\<rparr>;
               users = findContractOwners M (etx_To tx) d;
               contract = fst (fetchMultisig users (etx_To tx))
           in if mst_MethodInvoked m = SubmitTransaction then submit_case M now net users contract tx m s
              else if mst_MethodInvoked m = ConfirmTransaction then confirm_case M now net users contract tx m s
              else if mst_MethodInvoked m = RevokeConfirmation then revoke_case M now net contract tx m s
              else if mst_MethodInvoked m = ''0x'' then
                (let (tx2, s2) = fail_check M net tx m s in (s2, Inr (with_ms m tx2)))
              else (s, Inr (with_ms m tx))))"

section \<open>processMultisig\<close>

definition method_of :: "TransactionETH \<Rightarrow> string" where
  "method_of t = (case etx_Multisig t of None \<Rightarrow> [] | Some m \<Rightarrow> mst_MethodInvoked m)"

definition settle_submit :: "TransactionETH \<Rightarrow> TransactionETH" where
  "settle_submit t =
     (if method_of t = SubmitTransaction \<and> etx_Status t = TxStatusAppearedInBlockIncoming
      then t\<lparr>etx_Status := TxStatusInBlockConfirmedOutcoming\<rparr> else t)"

definition ms_update :: "TransactionETH \<Rightarrow> TransactionETH \<Rightarrow> TransactionETH" where
  "ms_update tx t =
     t\<lparr>etx_From := etx_From tx, etx_To := etx_To tx, etx_Status := etx_Status tx,
       etx_BlockHeight := etx_BlockHeight tx, etx_BlockTime := etx_BlockTime tx, etx_Amount := etx_Amount tx,
       etx_Multisig := map_option (\<lambda>m. case etx_Multisig tx of None \<Rightarrow> m
         | Some n \<Rightarrow> m\<lparr>mst_RequestID := mst_RequestID n, mst_Return := mst_Return n,
                       mst_InvocationStatus := mst_InvocationStatus n, mst_Confirmed := mst_Confirmed n\<rparr>)
         (etx_Multisig t)\<rparr>"

text \<open>The transaction after the call, the method name and the error.\<close>

definition processMultisig ::
  "mongo \<Rightarrow> int \<Rightarrow> int \<Rightarrow> TransactionETH \<Rightarrow> eth_state \<Rightarrow> (TransactionETH \<times> string \<times> go_error option) eth_result" where
  "processMultisig M now net tx0 s =
     (if \<not> (net = ETHMain \<or> net = ETHTest)
      then (s, Inr (tx0, [], Some (EMsg ''processMultisig: wrong networkID'')))
      else case etx_Multisig tx0 of
        None \<Rightarrow> (s, Inl NilDereference)
      | Some m0 \<Rightarrow>
          (let tx = with_ms (m0\<lparr>mst_Contract := etx_To tx0\<rparr>) tx0;
               sel = (\<lambda>t. etx_Hash t = etx_Hash tx)
           in if incoming (etx_Status tx) then
                (let found = c_one (M_eth M) sel (eth_ms net (es_db s)) in
                 case ParseMultisigInput M now net tx s of
                   (s1, Inl p) \<Rightarrow> (s1, Inl p)
                 | (s1, Inr tx1) \<Rightarrow>
                     (let tx2 = settle_submit tx1 in
                      case found of
                        Inl ErrNotFound \<Rightarrow>
                          (let (c, e) = c_insert (M_eth M) tx2 (eth_ms net (es_db s1))
                           in (s1\<lparr>es_db := set_eth_ms net c (es_db s1)\<rparr>, Inr (tx2, [], mgo_err e)))
                      | Inl e \<Rightarrow> (s1, Inr (tx2, [], Some (EMgo e)))
                      | Inr old \<Rightarrow>
                          (let (c, e) = c_update (M_eth M) sel (ms_update tx2) (eth_ms net (es_db s1))
                           in (s1\<lparr>es_db := set_eth_ms net c (es_db s1)\<rparr>, Inr (tx2, method_of tx2, mgo_err e)))))
              else (s, Inr (tx, [], None))))"

end
