(* ===== verification/Eth_Handlers.thy ===== *)
theory Eth_Handlers
  imports Eth_Multisig
begin

text \<open>
  The event streams of the Ethereum package (\<open>eth/handlers.go\<close>). Where the code ranges over a Go
  map, the order is not defined by the language: \<open>ord\<close>, \<open>ord'\<close> and \<open>ordA\<close>
  are the orders of one run, parameters that return their argument's elements in some order.
\<close>

section \<open>Mempool and blocks\<close>

definition eth_mempool_store :: "MempoolRecord \<Rightarrow> eth_state \<Rightarrow> eth_state" where
  "eth_mempool_store v s = s\<lparr>es_mempool := AList.update (mpr_HashTX v) (mpr_Category v) (es_mempool s)\<rparr>"

definition eth_mempool_delete :: "string \<Rightarrow> eth_state \<Rightarrow> eth_state" where
  "eth_mempool_delete h s = s\<lparr>es_mempool := AList.delete h (es_mempool s)\<rparr>"

definition eth_unsettled :: "int \<Rightarrow> int \<Rightarrow> TransactionETH \<Rightarrow> bool" where
  "eth_unsettled height accuracyRange t \<longleftrightarrow>
     etx_BlockHeight t = 0 \<and> etx_Status t \<notin> {TxStatusTxRejectedOutgoing, TxStatusTxRejectedIncoming} \<or>
     etx_BlockHeight t < height \<and> wrap64 (height - accuracyRange) < etx_BlockHeight t"

definition reject_one :: "mongo \<Rightarrow> string \<Rightarrow> TransactionETH list \<Rightarrow> TransactionETH list" where
  "reject_one M hash c =
     (let c1 = fst (c_update_all (M_eth M) (\<lambda>t. etx_Hash t = hash \<and> incoming (etx_Status t))
                 (\<lambda>t. t\<lparr>etx_Status := TxStatusTxRejectedIncoming\<rparr>) c)
      in fst (c_update_all (M_eth M) (\<lambda>t. etx_Hash t = hash \<and> outgoing (etx_Status t))
                 (\<lambda>t. t\<lparr>etx_Status := TxStatusTxRejectedOutgoing\<rparr>) c1))"

definition eth_EventNewBlock ::
  "mongo \<Rightarrow> (string list \<Rightarrow> string list option) \<Rightarrow> int \<Rightarrow> int \<Rightarrow> int \<Rightarrow> eth_state \<Rightarrow> eth_state" where
  "eth_EventNewBlock M CheckRejectTxs net accuracyRange height s =
     (let d = save_height M Ether net height (es_db s);
          txs = all_or (M_eth M) (eth_unsettled height accuracyRange) (eth_txs net d);
          rejected = (case CheckRejectTxs (map etx_Hash txs) of None \<Rightarrow> [] | Some hs \<Rightarrow> hs)
      in s\<lparr>es_db := set_eth_txs net (fold (reject_one M) rejected (eth_txs net d)) d\<rparr>)"

section \<open>New transactions\<close>

definition NewTx_saved :: "mongo \<Rightarrow> int \<Rightarrow> int \<Rightarrow> TransactionETH \<Rightarrow> eth_state \<Rightarrow> eth_state" where
  "NewTx_saved M now net tx s =
     s\<lparr>es_db := fst (eth_updateWalletAndAddressDate M now tx net (fst (saveTransaction M tx net (es_db s))))\<rparr>"

definition NewTx_multisig :: "mongo \<Rightarrow> int \<Rightarrow> int \<Rightarrow> pb_ETHTransaction \<Rightarrow> TransactionETH \<Rightarrow> eth_state \<Rightarrow> eth_state outcome" where
  "NewTx_multisig M now net g tx s =
     (case processMultisig M now net tx s of
        (s', Inl p) \<Rightarrow> Dies p s'
      | (s', Inr (tx', methodInvoked, err)) \<Rightarrow>
          (let contract = (case etx_Multisig tx' of None \<Rightarrow> [] | Some m \<Rightarrow> mst_Contract m);
               users = all_or (M_users M) (has_contract contract) (db_users (es_db s'))
           in Goes (s'\<lparr>es_broadcasts := es_broadcasts s' @
                map (\<lambda>u. \<lparr>wm_Type = signatuteToStatus methodInvoked, wm_To = usr_UserID u,
                          wm_Payload = PTransaction g\<rparr>) users\<rparr>)))"

definition eth_NewTx :: "mongo \<Rightarrow> int \<Rightarrow> int \<Rightarrow> pb_ETHTransaction \<Rightarrow> eth_state \<Rightarrow> eth_state outcome" where
  "eth_NewTx M now net g s =
     (let tx = eth_setExchangeRates M (pe_Resync g) (es_db s) (eth_generatedTxDataToStore g);
          s1 = NewTx_saved M now net tx s
      in case (if pe_Resync g then Inr [] else eth_sendNotifyToClients tx net) of
           Inl p \<Rightarrow> Dies p s1
         | Inr msgs \<Rightarrow>
             (let s2 = s1\<lparr>es_notices := es_notices s1 @ msgs\<rparr> in
              if pe_Multisig g then NewTx_multisig M now net g tx s2 else Goes s2))"

section \<open>Deployed multisigs\<close>

definition generatedMultisigTxToStore :: "int \<Rightarrow> pb_Multisig \<Rightarrow> int \<Rightarrow> int \<Rightarrow> Multisig" where
  "generatedMultisigTxToStore now mul currencyid networkid =
     zero_multisig\<lparr>ms_CurrencyID := currencyid, ms_NetworkID := networkid,
       ms_Confirmations := pm_Confirmations mul, ms_ContractAddress := pm_Contract mul,
       ms_TxOfCreation := pm_TxOfCreation mul, ms_FactoryAddress := pm_FactoryAddress mul,
       ms_LastActionTime := now, ms_DateOfCreation := now, ms_DeployStatus := pm_DeployStatus mul,
       ms_Status := WalletStatusOK\<rparr>"

text \<open>The loop stops at the first address no user has.\<close>

fun msToUserData_loop :: "mongo \<Rightarrow> db \<Rightarrow> string list \<Rightarrow> (string \<times> User) list \<Rightarrow> (string \<times> User) list" where
  "msToUserData_loop M d [] users = users"
| "msToUserData_loop M d (address # as) users =
     (case c_one (M_users M) (user_has_addr (ToLower address)) (db_users d) of
        Inl e \<Rightarrow> users
      | Inr user \<Rightarrow> msToUserData_loop M d as (AList.update (ToLower address) user users))"

definition msToUserData :: "mongo \<Rightarrow> string list \<Rightarrow> db \<Rightarrow> (string \<times> User) list" where
  "msToUserData M addresses d = msToUserData_loop M d addresses []"

text \<open>One owner of a multisig: the counter and the code after it. The keys of \<open>users\<close> are distinct.\<close>

definition count_owner :: "(string \<times> User) list \<Rightarrow> Multisig \<Rightarrow> AddressExtended \<Rightarrow> int \<times> string \<Rightarrow> int \<times> string" where
  "count_owner users ms owner r =
     (case r of (ownersCount, invitecode) \<Rightarrow>
        if map_of users (ae_Address owner) \<noteq> None
        then (ownersCount + 1, if ownersCount + 1 = ms_OwnersCount ms then ms_InviteCode ms else invitecode)
        else (ownersCount, invitecode))"

definition fetchInviteUndeployed :: "(string \<times> User) list \<Rightarrow> string" where
  "fetchInviteUndeployed users =
     fold (\<lambda>(a, msUser) invitecode.
         fold (\<lambda>ms invitecode. snd (fold (count_owner users ms) (ms_Owners ms) (0, invitecode)))
           (usr_Multisigs msUser) invitecode) users []"

definition eth_FetchUserAddresses :: "int \<Rightarrow> int \<Rightarrow> User \<Rightarrow> string list \<Rightarrow> (string \<times> AddressExtended) list" where
  "eth_FetchUserAddresses currencyID networkID user addreses =
     fold (\<lambda>wallet fetched. fold (\<lambda>addres fetched.
         if wal_CurrencyID wallet = currencyID \<and> wal_NetworkID wallet = networkID
         then (case map_of fetched (adr_Address addres) of
                 None \<Rightarrow> fetched
               | Some fetchAddr \<Rightarrow>
                   AList.update (adr_Address addres)
                     (fetchAddr\<lparr>ae_Associated := True, ae_WalletIndex := wal_WalletIndex wallet,
                        ae_AddressIndex := adr_AddressIndex addres, ae_UserID := usr_UserID user\<rparr>) fetched)
         else fetched) (wal_Adresses wallet) fetched)
       (usr_Wallets user)
       (fold (\<lambda>a fetched. AList.update a (zero_ae\<lparr>ae_Address := a\<rparr>) fetched) addreses [])"

definition deploy_update :: "Multisig \<Rightarrow> Multisig \<Rightarrow> Multisig" where
  "deploy_update multisig m =
     m\<lparr>ms_Confirmations := ms_Confirmations multisig, ms_ContractAddress := ms_ContractAddress multisig,
       ms_TxOfCreation := ms_TxOfCreation multisig, ms_FactoryAddress := ms_FactoryAddress multisig,
       ms_LastActionTime := ms_LastActionTime multisig, ms_DeployStatus := ms_DeployStatus multisig\<rparr>"

definition deploy_user ::
  "mongo \<Rightarrow> ((string \<times> AddressExtended) list \<Rightarrow> (string \<times> AddressExtended) list) \<Rightarrow> string list \<Rightarrow>
   string \<Rightarrow> Multisig \<Rightarrow> User \<Rightarrow> eth_state \<Rightarrow> eth_state" where
  "deploy_user M ordA addresses invitecode multisig user s =
     (let addrs = map snd (ordA (eth_FetchUserAddresses Ether (ms_NetworkID multisig) user addresses));
          d = fst (users_update M (\<lambda>u. by_userID (usr_UserID user) u \<and> has_invite invitecode u)
                (at_first_multisig (\<lambda>m. ms_InviteCode m = invitecode) (deploy_update multisig)) (es_db s))
      in s\<lparr>es_db := d, es_broadcasts := es_broadcasts s @
           [\<lparr>wm_Type = NotifyDeploy, wm_To = usr_UserID user,
             wm_Payload = PMultisig (multisig\<lparr>ms_Owners := addrs, ms_InviteCode := invitecode\<rparr>)\<rparr>]\<rparr>)"

definition AddMultisig ::
  "mongo \<Rightarrow> ((string \<times> User) list \<Rightarrow> (string \<times> User) list) \<Rightarrow>
   ((string \<times> User) list \<Rightarrow> (string \<times> User) list) \<Rightarrow>
   ((string \<times> AddressExtended) list \<Rightarrow> (string \<times> AddressExtended) list) \<Rightarrow>
   int \<Rightarrow> int \<Rightarrow> pb_Multisig \<Rightarrow> eth_state \<Rightarrow> eth_state" where
  "AddMultisig M ord ord' ordA now net multisigTx s =
     (let multisig = generatedMultisigTxToStore now multisigTx Ether net;
          users = msToUserData M (pm_Addresses multisigTx) (es_db s);
          invitecode = fetchInviteUndeployed (ord users);
          msUser = one_or (M_users M) (has_invite invitecode) (db_users (es_db s)) zero_user;
          doubleInvited = list_ex (\<lambda>m. ms_InviteCode m = invitecode \<and> ms_ContractAddress m \<noteq> []) (usr_Multisigs msUser)
      in if \<not> doubleInvited \<and> invitecode \<noteq> []
         then fold (\<lambda>(a, user). deploy_user M ordA (pm_Addresses multisigTx) invitecode multisig user) (ord' users) s
         else s)"

text \<open>The two calls to the node for a watched address; the resynchronisation gets the address only.\<close>

definition eth_watch_calls :: "pb_WatchAddress \<Rightarrow> pb_WatchAddress \<times> pb_AddressToResync" where
  "eth_watch_calls addr =
     (addr, \<lparr>par_Address = pwa_Address addr, par_UserID = [], par_WalletIndex = 0, par_AddressIndex = 0\<rparr>)"

section \<open>The package as a transition system\<close>

inductive eth_step :: "mongo \<Rightarrow> int \<Rightarrow> eth_state \<Rightarrow> eth_state \<Rightarrow> bool" for M net where
  eth_MempoolAdd: "eth_step M net s (eth_mempool_store v s)"
| eth_MempoolDelete: "eth_step M net s (eth_mempool_delete h s)"
| eth_Block: "eth_step M net s (eth_EventNewBlock M check net acc height s)"
| eth_Tx: "eth_step M net s (outcome_state (eth_NewTx M now net g s))"
| eth_Deploy: "eth_step M net s (AddMultisig M ord ord' ordA now net ms s)"

end
