(* ===== verification/Eth_Facts.thy ===== *)
theory Eth_Facts
  imports Eth_Handlers Store_Facts
begin

text \<open>
  Correctness of the Ethereum handlers: reading of contract calls, the confirmation history,
  the internal transactions, the saving and the rejection of transactions, and the invite
  code of a deployed multisig.
\<close>

section \<open>Reading contract calls\<close>

lemma chunks64_Cons: "length c = 64 \<Longrightarrow> CHR 0x0A \<notin> set c \<Longrightarrow> chunks64 (c @ r) = c # chunks64 r"
  by (subst chunks64.simps) simp

lemma hex_digits_split: "hex_digits (m + k) v = hex_digits m (v div 16 ^ k) @ hex_digits k (v mod 16 ^ k)"
proof (induction k arbitrary: v)
  case 0
  then show ?case by simp
next
  case (Suc k)
  have "v div 16 div 16 ^ k = v div 16 ^ Suc k" by (simp add: div_mult2_eq)
  moreover have "v div 16 mod 16 ^ k = v mod 16 ^ Suc k div 16"
    by (simp add: mod_mult2_eq)
  moreover have "v mod 16 ^ Suc k mod 16 = v mod 16" by (simp add: mod_mod_cancel)
  ultimately show ?case using Suc.IH [of "v div 16"] by simp
qed

lemma digit_char_hex: "d < 16 \<Longrightarrow> lower_char (digit_char d) = digit_char d \<and> digit_char d \<noteq> CHR 0x0A"
  by (auto simp: lower_char_def digit_char_def Let_def of_char_of dest: arg_cong [where f = "of_char :: char \<Rightarrow> nat"])

lemma hex_digits_lower [simp]: "ToLower (hex_digits k v) = hex_digits k v"
  by (induction k arbitrary: v) (simp_all add: ToLower_def digit_char_hex)

lemma hex_digits_line [simp]: "CHR 0x0A \<notin> set (hex_digits k v)"
proof (induction k arbitrary: v)
  case (Suc k)
  have "digit_char (v mod 16) \<noteq> CHR 0x0A" by (simp add: digit_char_hex)
  with Suc show ?case by auto
qed simp

lemma parseSubmit_encoded:
  assumes "v < 16 ^ 64"
  shows "parseSubmitInput (SubmitTransaction @ hex_digits 64 a @ hex_digits 64 v @ hex_digits 64 off @ hex_digits 64 n @ tail) =
     (''0x'' @ hex_digits 40 (a mod 16 ^ 40), Itoa (int v))"
proof -
  let ?in = "SubmitTransaction @ hex_digits 64 a @ hex_digits 64 v @ hex_digits 64 off @ hex_digits 64 n @ tail"
  have len: "length SubmitTransaction = 10" by (simp add: SubmitTransaction_def)
  have parts: "chunks64 (drop 10 ?in) = hex_digits 64 a # hex_digits 64 v # hex_digits 64 off # hex_digits 64 n # chunks64 tail"
    by (simp add: len chunks64_Cons)
  have "drop 24 (hex_digits 64 a) = hex_digits 40 (a mod 16 ^ 40)"
    using hex_digits_split [of 24 40 a] by simp
  moreover have "SetString 16 (hex_digits 64 v) = Some (int v)" by (rule SetString_hex) (use assms in simp_all)
  moreover have "ToLower (CHR ''0'' # CHR ''x'' # hex_digits 40 w) = CHR ''0'' # CHR ''x'' # hex_digits 40 w" for w
    using hex_digits_lower [of 40 w] by (simp add: ToLower_def lower_char_def)
  ultimately show ?thesis
    unfolding parseSubmitInput_def parts by (simp add: len big_text_def)
qed

lemma parseRevoke_0x:
  "has_prefix ''0x'' input \<Longrightarrow>
   (case parseRevokeInput input of Inl p \<Rightarrow> length input < 10 | Inr (i, e) \<Rightarrow> i = 0 \<and> e \<noteq> None)"
  by (simp add: parseRevokeInput_def SetString_0x)

lemma fetchMethod_prefix:
  assumes "fetchMethod input = RevokeConfirmation"
  shows "has_prefix ''0x'' input \<and> 10 \<le> length input"
proof -
  have l: "10 \<le> length input" using assms by (auto simp: fetchMethod_def RevokeConfirmation_def split: if_splits)
  with assms have "take 10 input = RevokeConfirmation" by (simp add: fetchMethod_def)
  then have "input = RevokeConfirmation @ drop 10 input" by (metis append_take_drop_id)
  then obtain r where "input = RevokeConfirmation @ r" by blast
  with l show ?thesis by (simp add: RevokeConfirmation_def)
qed

section \<open>Failed calls and revocations\<close>

context mongo_srv
begin

lemma eth_update_none: "fst (c_update_all (M_eth M) (by_txhash h) f c) = c"
  using eth.update_all_cases [of "by_txhash h" f c] by (auto simp: by_txhash_def)

lemma mark_failed_id: "mark_failed M net h s = s"
  by (simp add: mark_failed_def eth_update_none)

lemma fail_check_pair:
  "fail_check M net tx m s =
     (if etx_BlockTime tx \<noteq> 0 \<and> \<not> mst_InvocationStatus m
      then tx\<lparr>etx_Status := TxStatusInBlockMethodInvocationFail\<rparr> else tx, s)"
  by (simp add: fail_check_def mark_failed_id)

lemma revoke_case_state:
  assumes "has_prefix ''0x'' (mst_Input m)" "10 \<le> length (mst_Input m)"
  shows "fst (revoke_case M now net contract tx m s) = s"
  using parseRevoke_0x [OF assms(1)] assms(2)
  by (auto simp: revoke_case_def fail_check_pair Let_def split: sum.split prod.split option.splits)

lemma revoke_state:
  assumes "etx_Multisig tx = Some m" "fetchMethod (mst_Input m) = RevokeConfirmation"
  shows "fst (ParseMultisigInput M now net tx s) = s"
  using assms fetchMethod_prefix [OF assms(2)]
  by (simp add: ParseMultisigInput_def Let_def method_defs revoke_case_state)

end

text \<open>
  The owners' history of a stored transaction, and what the handling of a call may do to the documents when it
  records no decision: it stores or updates the document of the call itself.
\<close>

definition history :: "TransactionETH \<Rightarrow> OwnerHistory list option" where
  "history t = map_option mst_Owners (etx_Multisig t)"

definition only_call :: "string \<Rightarrow> TransactionETH list \<Rightarrow> TransactionETH list \<Rightarrow> bool" where
  "only_call h ts ts' \<longleftrightarrow> (map history ts' = map history ts \<or> map history ts' = map history ts @ [Some []]) \<and>
     filter (\<lambda>t. etx_Hash t \<noteq> h) ts' = filter (\<lambda>t. etx_Hash t \<noteq> h) ts"

lemma only_call_refl [simp]: "only_call h ts ts"
  by (simp add: only_call_def)

lemma history_ms_update [simp]: "history (ms_update tx t) = history t"
  by (auto simp: history_def ms_update_def map_option_case split: option.split)

lemma filter_update_first_same:
  "(\<And>x. P x \<Longrightarrow> \<not> Q x \<and> \<not> Q (f x)) \<Longrightarrow> filter Q (update_first P f xs) = filter Q xs"
  by (induction xs) auto

context mongo_srv
begin

lemma revoke_result:
  assumes "etx_Multisig tx = Some m" "fetchMethod (mst_Input m) = RevokeConfirmation" "ParseMultisigInput M now net tx s = (s', r)"
  shows "s' = s \<and> (case r of Inl p \<Rightarrow> True | Inr t \<Rightarrow> history t = Some [] \<and> etx_Hash t = etx_Hash tx)"
proof -
  have "history t = Some [] \<and> etx_Hash t = etx_Hash tx" if "ParseMultisigInput M now net tx s = (s', Inr t)" for t
    using that assms(1,2)
    by (auto simp: ParseMultisigInput_def Let_def method_defs revoke_case_def fail_check_pair history_def with_ms_def
        split: sum.splits prod.splits if_splits)
  with assms(3) revoke_state [OF assms(1,2), of now net s] show ?thesis by (auto split: sum.split)
qed

lemma revoke_processed:
  assumes "etx_Multisig tx = Some m" "fetchMethod (mst_Input m) = RevokeConfirmation"
  shows "only_call (etx_Hash tx) (eth_ms net (es_db s)) (eth_ms net (es_db (fst (processMultisig M now net tx s))))"
proof -
  let ?tx = "with_ms (m\<lparr>mst_Contract := etx_To tx\<rparr>) tx" and ?ts = "eth_ms net (es_db s)"
  let ?sel = "\<lambda>t. etx_Hash t = etx_Hash tx"
  obtain s1 r where p: "ParseMultisigInput M now net ?tx s = (s1, r)" by fastforce
  have r: "s1 = s" "case r of Inl p \<Rightarrow> True | Inr t \<Rightarrow> history t = Some [] \<and> etx_Hash t = etx_Hash tx"
    using revoke_result [OF _ _ p] assms(2) by (auto simp: with_ms_def split: sum.splits)
  have u: "only_call (etx_Hash tx) ?ts (fst (c_update (M_eth M) ?sel (ms_update t) ?ts))" if "etx_Hash t = etx_Hash tx" for t
  proof -
    have "map history (fst (c_update (M_eth M) ?sel (ms_update t) ?ts)) = map history ?ts" by (rule eth.update_map) simp
    moreover have "filter (\<lambda>t. etx_Hash t \<noteq> etx_Hash tx) (fst (c_update (M_eth M) ?sel (ms_update t) ?ts)) =
        filter (\<lambda>t. etx_Hash t \<noteq> etx_Hash tx) ?ts"
      using eth.update_cases [of ?sel "ms_update t" ?ts] by (auto simp: filter_update_first_same ms_update_def)
    ultimately show ?thesis by (simp add: only_call_def)
  qed
  have i: "only_call (etx_Hash tx) ?ts (fst (c_insert (M_eth M) t ?ts))" if "history t = Some []" "etx_Hash t = etx_Hash tx" for t
    using eth.insert_cases [of t ?ts] that by (auto simp: only_call_def)
  have st: "history (settle_submit t) = history t" "etx_Hash (settle_submit t) = etx_Hash t" for t
    by (simp_all add: settle_submit_def history_def)
  show ?thesis
    using p r u i by (cases r) (auto simp: processMultisig_def assms(1) Let_def st with_ms_def case_prod_beta split: sum.split mgo_error.split)
qed

lemma update_date_ms: "eth_ms net' (fst (update_date M now uid a net d)) = eth_ms net' d"
proof -
  have "eth_ms net' d' = eth_ms net' d" if "users_update M q f d = (d', e)" for q f d' e
    using that by (auto simp: users_update_def case_prod_beta)
  then show ?thesis by (auto simp: update_date_def Let_def split: option.split prod.split)
qed

lemma NewTx_saved_ms [simp]: "eth_ms net (es_db (NewTx_saved M now net tx s)) = eth_ms net (es_db s)"
proof -
  have "eth_ms net (fst (eth_updateWalletAndAddressDate M now tx net d)) = eth_ms net d" for d
    by (simp add: eth_updateWalletAndAddressDate_def case_prod_beta update_date_ms split: option.split)
  then show ?thesis by (simp add: NewTx_saved_def saveTransaction_def case_prod_beta)
qed

lemma revoke_NewTx_multisig:
  assumes "etx_Hash tx = h" "\<exists>m. etx_Multisig tx = Some m \<and> fetchMethod (mst_Input m) = RevokeConfirmation"
    and "eth_ms net (es_db s) = ts"
  shows "only_call h ts (eth_ms net (es_db (outcome_state (NewTx_multisig M now net g tx s))))"
  using assms revoke_processed [of tx _ net s now]
  by (auto simp: NewTx_multisig_def Let_def case_prod_beta split: sum.split)

lemma revoke_NewTx:
  assumes "pe_Multisig g" "fetchMethod (pe_Input g) = RevokeConfirmation"
  shows "only_call (pe_Hash g) (eth_ms net (es_db s)) (eth_ms net (es_db (outcome_state (eth_NewTx M now net g s))))"
proof -
  have "etx_Hash (eth_setExchangeRates M b d (eth_generatedTxDataToStore g)) = pe_Hash g"
    "\<exists>m. etx_Multisig (eth_setExchangeRates M b d (eth_generatedTxDataToStore g)) = Some m \<and> fetchMethod (mst_Input m) = RevokeConfirmation"
    for b d using assms(2) by (simp_all add: eth_setExchangeRates_def eth_generatedTxDataToStore_def)
  then show ?thesis
    using assms(1) by (auto simp: eth_NewTx_def Let_def split: sum.split intro!: revoke_NewTx_multisig)
qed

end

section \<open>Confirmations\<close>

context mongo_live
begin

lemma confirm_case_pending:
  assumes i: "SetString 16 (drop 10 (mst_Input m)) = Some i" and b: "etx_BlockTime tx = 0"
    and f: "find (submitted_request (Int64 i) (mst_Contract m)) (eth_ms net (es_db s)) = Some t"
    and t: "etx_Multisig t = Some om"
  shows "confirm_case M now net users contract tx m s =
     (s\<lparr>es_db := set_eth_ms net
          (map (\<lambda>x. if submitted_request (Int64 i) (mst_Contract m) x
                    then set_owners (map (confirm_owner now (etx_From tx) (etx_Hash tx)) (mst_Owners om)) x
                    else x) (eth_ms net (es_db s))) (es_db s)\<rparr>,
      Inr (with_ms (m\<lparr>mst_Owners := []\<rparr>) tx))"
  by (simp add: confirm_case_def i live_simps doc_one_def f t b Let_def fail_check_pair update_ms_all_def
      doc_update_all_def)

lemma ParseMultisig_confirm:
  assumes "etx_Multisig tx = Some m" "fetchMethod (mst_Input m) = ConfirmTransaction"
  shows "ParseMultisigInput M now net tx s =
     confirm_case M now net (findContractOwners M (etx_To tx) (es_db s))
       (fst (fetchMultisig (findContractOwners M (etx_To tx) (es_db s)) (etx_To tx))) tx
       (m\<lparr>mst_Owners := FetchContractOwners M Ether net (mst_Contract m) (es_db s),
          mst_MethodInvoked := ConfirmTransaction\<rparr>) s"
  using assms by (simp add: ParseMultisigInput_def Let_def method_defs)

end

section \<open>Saving and rejecting\<close>

definition rejected_tx :: "string list \<Rightarrow> TransactionETH \<Rightarrow> TransactionETH" where
  "rejected_tx hashes t = (if etx_Hash t \<in> set hashes
     then t\<lparr>etx_Status := (if incoming (etx_Status t) then TxStatusTxRejectedIncoming
                           else if outgoing (etx_Status t) then TxStatusTxRejectedOutgoing
                           else etx_Status t)\<rparr> else t)"

lemma rejected_tx_Cons: "rejected_tx hs (rejected_tx [h] t) = rejected_tx (h # hs) t"
  by (auto simp: rejected_tx_def incoming_def outgoing_def tx_status_defs)

lemma rejected_tx_Nil [simp]: "rejected_tx [] t = t"
  by (simp add: rejected_tx_def)

context mongo_live
begin

lemma reject_one_tx: "reject_one M h c = map (rejected_tx [h]) c"
  by (auto simp: reject_one_def live_simps doc_update_all_def Let_def rejected_tx_def incoming_def
      outgoing_def tx_status_defs)

lemma reject_fold: "fold (reject_one M) hs c = map (rejected_tx hs) c"
  by (induction hs arbitrary: c) (simp_all add: reject_one_tx rejected_tx_Cons comp_def map_idI)

lemma EventNewBlock_reject:
  "eth_txs net (es_db (eth_EventNewBlock M check net acc height s)) =
     map (rejected_tx (case check (map etx_Hash (filter (eth_unsettled height acc) (eth_txs net (es_db s)))) of
                         None \<Rightarrow> [] | Some hs \<Rightarrow> hs)) (eth_txs net (es_db s))"
  by (simp add: eth_EventNewBlock_def Let_def reject_fold all_or_def live_simps)
    (simp add: save_height_def eth_txs_def)

lemma save_eth_find:
  "snd (save_eth M tx c) = None \<and>
   (\<exists>t. find (eth_key tx) (fst (save_eth M tx c)) = Some t \<and>
      etx_Status t = etx_Status tx \<and> etx_BlockHeight t = etx_BlockHeight tx \<and> etx_BlockTime t = etx_BlockTime tx)"
proof (cases "find (eth_key tx) c")
  case None
  have k: "eth_key tx tx" by (simp add: eth_key_def)
  from None have "find (eth_key tx) (c @ [tx]) = Some tx"
    using k by (induction c) (auto split: if_splits)
  then show ?thesis using None by (simp add: save_eth_def live_simps doc_one_def mgo_err_def)
next
  case (Some t)
  have "eth_key tx (eth_update tx t)" using find_SomeD [OF Some] by (simp add: eth_key_def eth_update_def)
  from find_update_first [OF Some, of "eth_update tx", OF this] Some find_list_ex [OF Some]
  show ?thesis
    by (simp add: save_eth_def live_simps doc_one_def doc_update_def mgo_err_def eth_update_def)
qed

lemma save_eth_unique:
  assumes "distinct (map (\<lambda>t. (etx_UserID t, etx_Hash t, etx_WalletIndex t)) c)"
  shows "distinct (map (\<lambda>t. (etx_UserID t, etx_Hash t, etx_WalletIndex t)) (fst (save_eth M tx c)))"
proof (cases "find (eth_key tx) c")
  case None
  then have "\<forall>t \<in> set c. (etx_UserID t, etx_Hash t, etx_WalletIndex t) \<noteq> (etx_UserID tx, etx_Hash tx, etx_WalletIndex tx)"
    by (auto simp: find_None_iff eth_key_def)
  with assms None show ?thesis
    by (auto simp: save_eth_def live_simps doc_one_def mgo_err_def)
next
  case (Some t)
  with assms find_list_ex [OF Some] show ?thesis
    by (simp add: save_eth_def live_simps doc_one_def doc_update_def mgo_err_def eth_update_def)
qed

end

section \<open>Invite codes\<close>

lemma count_owner_cases:
  "map_of users (ae_Address ow) = None \<Longrightarrow> count_owner users ms ow (n, code) = (n, code)"
  "map_of users (ae_Address ow) = Some u \<Longrightarrow> count_owner users ms ow (n, code) =
     (n + 1, if n + 1 = ms_OwnersCount ms then ms_InviteCode ms else code)"
  by (simp_all add: count_owner_def)

lemma count_owner_fold:
  assumes "fold (count_owner users ms) os (n, code) = (n', code')"
  shows "n' = n + int (length (filter (\<lambda>ow. map_of users (ae_Address ow) \<noteq> None) os)) \<and>
     (code' = code \<or> code' = ms_InviteCode ms \<and> n < ms_OwnersCount ms \<and> ms_OwnersCount ms \<le> n')"
  using assms
proof (induction os arbitrary: n code)
  case Nil
  then show ?case by simp
next
  case (Cons ow os)
  show ?case
  proof (cases "map_of users (ae_Address ow)")
    case None
    with Cons show ?thesis by (simp add: count_owner_cases(1))
  next
    case (Some u)
    with Cons.prems have "fold (count_owner users ms) os
        (n + 1, if n + 1 = ms_OwnersCount ms then ms_InviteCode ms else code) = (n', code')"
      by (simp add: count_owner_cases(2) [OF Some])
    from Cons.IH [OF this] Some show ?thesis by (auto split: if_splits)
  qed
qed

definition multisig_backed :: "(string \<times> User) list \<Rightarrow> User list \<Rightarrow> string \<Rightarrow> bool" where
  "multisig_backed users us code \<longleftrightarrow>
     (\<exists>u \<in> set us. \<exists>ms \<in> set (usr_Multisigs u). ms_InviteCode ms = code \<and> 0 < ms_OwnersCount ms \<and>
        ms_OwnersCount ms \<le> int (length (filter (\<lambda>ow. map_of users (ae_Address ow) \<noteq> None) (ms_Owners ms))))"

lemma multisigs_fold_backed:
  assumes "multisig_backed users us code \<or> code = []" "u \<in> set us" "set mss \<subseteq> set (usr_Multisigs u)"
  shows "let code' = fold (\<lambda>ms code. snd (fold (count_owner users ms) (ms_Owners ms) (0, code))) mss code
         in multisig_backed users us code' \<or> code' = []"
  using assms
proof (induction mss arbitrary: code)
  case Nil
  then show ?case by simp
next
  case (Cons ms mss)
  obtain n' code' where f: "fold (count_owner users ms) (ms_Owners ms) (0, code) = (n', code')" by fastforce
  from count_owner_fold [OF f] Cons.prems have "multisig_backed users us code' \<or> code' = []"
    by (fastforce simp: multisig_backed_def)
  from Cons.IH [OF this] Cons.prems f show ?case by simp
qed

lemma users_fold_backed:
  assumes "multisig_backed users us code \<or> code = []" "snd ` set vs \<subseteq> set us"
  shows "let code' = fold (\<lambda>(a, msUser) code.
           fold (\<lambda>ms code. snd (fold (count_owner users ms) (ms_Owners ms) (0, code))) (usr_Multisigs msUser) code) vs code
         in multisig_backed users us code' \<or> code' = []"
  using assms
proof (induction vs arbitrary: code)
  case Nil
  then show ?case by simp
next
  case (Cons v vs)
  obtain a u where v: "v = (a, u)" by fastforce
  have "u \<in> set us" using Cons.prems(2) v by auto
  from multisigs_fold_backed [OF Cons.prems(1) this subset_refl] Cons.IH Cons.prems(2) v
  show ?case by (simp add: Let_def)
qed

lemma fetchInvite_backed:
  "fetchInviteUndeployed users \<noteq> [] \<Longrightarrow> multisig_backed users (map snd users) (fetchInviteUndeployed users)"
  using users_fold_backed [of users "map snd users" "[]" users]
  by (simp add: fetchInviteUndeployed_def Let_def)

section \<open>Internal transactions\<close>

lemma es_db_broadcast [simp]: "es_db (broadcast_ok users s) = es_db s"
  by (simp add: broadcast_ok_def)

context mongo_live
begin

lemma by_txhash_none: "c_one (M_eth M) (by_txhash h) c = Inl ErrNotFound"
proof -
  have "find (by_txhash h) c = None" by (auto simp: find_None_iff by_txhash_def)
  then show ?thesis by (simp add: live_simps doc_one_def)
qed

lemma submit_internal_txs:
  assumes "wallet_hit address (one_or (M_users M) (user_has_addr address) (db_users (es_db s)) zero_user) = Some wa"
  shows "\<exists>x. eth_txs net (es_db (fst (submit_internal M now net contract address amount tx m s))) = eth_txs net (es_db s) @ [x] \<and>
     etx_Hash x = etx_Hash tx \<and> etx_IsInternal x \<and>
     db_users (es_db (fst (submit_internal M now net contract address amount tx m s))) = db_users (es_db s)"
  using assms
  by (simp add: submit_internal_def Let_def insert_tx_def live_simps to_wallet_def split: option.split)

lemma submit_case_txs:
  assumes "etx_BlockTime tx \<noteq> 0" "SetString 16 (mst_Return m) = Some i" "ms_Confirmations contract = 1"
    and "wallet_hit (fst (parseSubmitInput (mst_Input m)))
          (one_or (M_users M) (user_has_addr (fst (parseSubmitInput (mst_Input m)))) (db_users (es_db s)) zero_user) = Some wa"
  shows "\<exists>x. eth_txs net (es_db (fst (submit_case M now net users contract tx m s))) = eth_txs net (es_db s) @ [x] \<and>
     etx_Hash x = etx_Hash tx \<and> etx_IsInternal x \<and>
     db_users (es_db (fst (submit_case M now net users contract tx m s))) = db_users (es_db s)"
proof -
  have r: "mst_Return m \<noteq> []" using assms(2) by (auto simp: SetString_def)
  obtain address amount where p: "parseSubmitInput (mst_Input m) = (address, amount)" by fastforce
  define tx1 where "tx1 = (if \<not> mst_InvocationStatus m then tx\<lparr>etx_Status := TxStatusInBlockMethodInvocationFail\<rparr> else tx)"
  define tx2 where "tx2 = tx1\<lparr>etx_Amount := amount\<rparr>"
  define m2 where "m2 = m\<lparr>mst_RequestID := Int64 i, mst_Confirmed := True\<rparr>"
  let ?r = "submit_internal M now net contract address amount tx2 m2 s"
  have h: "etx_Hash tx2 = etx_Hash tx" by (simp add: tx2_def tx1_def)
  have "fst (submit_case M now net users contract tx m s) =
      (case ?r of (s2, Inl p) \<Rightarrow> s2 | (s2, Inr m3) \<Rightarrow> broadcast_ok users s2)"
    using assms(1-3) r p
    by (simp add: submit_case_def fail_check_pair Let_def by_txhash_none tx1_def tx2_def m2_def
        split: prod.split sum.split)
  then have "es_db (fst (submit_case M now net users contract tx m s)) = es_db (fst ?r)"
    by (simp split: prod.split sum.split)
  with submit_internal_txs [of address s wa net now contract amount tx2 m2] assms(4) p h show ?thesis by simp
qed

lemma ParseMultisig_submit:
  assumes "etx_Multisig tx = Some m" "fetchMethod (mst_Input m) = SubmitTransaction"
  shows "ParseMultisigInput M now net tx s =
     submit_case M now net (findContractOwners M (etx_To tx) (es_db s))
       (fst (fetchMultisig (findContractOwners M (etx_To tx) (es_db s)) (etx_To tx))) tx
       (m\<lparr>mst_Owners := FetchContractOwners M Ether net (mst_Contract m) (es_db s),
          mst_MethodInvoked := SubmitTransaction\<rparr>) s"
  using assms by (simp add: ParseMultisigInput_def Let_def)

end

section \<open>Properties\<close>

text \<open>
  C8: the call data of a submission is read back as it was encoded: for the selector of
  \<open>submitTransaction\<close> and the four words of its arguments the recipient is the low twenty
  bytes of the first word in lower case and the amount the second word in decimal.
\<close>

theorem parseSubmitInput_roundtrip:
  assumes "v < 16 ^ 64"
  shows "parseSubmitInput (SubmitTransaction @ hex_digits 64 a @ hex_digits 64 v @ hex_digits 64 off @ hex_digits 64 n @ tail) =
     (''0x'' @ hex_digits 40 (a mod 16 ^ 40), Itoa (int v))"
  by (rule parseSubmit_encoded [OF assms])

theorem parseSubmitInput_roundtrip_witness:
  "parseSubmitInput (SubmitTransaction @ hex_digits 64 1 @ hex_digits 64 7 @ hex_digits 64 96 @ hex_digits 64 0 @ []) =
     (''0x'' @ hex_digits 40 1, ''7'')"
proof -
  have "Itoa (int 7) = ''7''" by code_simp
  with parseSubmitInput_roundtrip [of 7 1 96 0 "[]"] show ?thesis by simp
qed

text \<open>
  C18: a revocation is never recorded: whatever the call's arguments, the contract, the state of the database
  and its errors, after the message of a \<open>revokeConfirmation\<close> call has been handled as a whole
  every stored multisig transaction has the owners' history it had, and the documents of other hashes are as
  they were. What is stored is at most the call itself, as a new document with an empty history or with new
  fields apart from the history. The reason: its whole input, with the \<open>0x\<close>, is read as a base 16
  number.
\<close>

theorem revoke_never_recorded:
  assumes "mongo_srv M" "pe_Multisig g" "fetchMethod (pe_Input g) = RevokeConfirmation"
    and "ts = eth_ms net (es_db s)" "ts' = eth_ms net (es_db (outcome_state (eth_NewTx M now net g s)))"
  shows "(map history ts' = map history ts \<or> map history ts' = map history ts @ [Some []]) \<and>
    filter (\<lambda>t. etx_Hash t \<noteq> pe_Hash g) ts' = filter (\<lambda>t. etx_Hash t \<noteq> pe_Hash g) ts"
  using mongo_srv.revoke_NewTx [OF assms(1-3), of net s now] by (simp add: assms(4,5) only_call_def)

definition ex_eth_state :: eth_state where
  "ex_eth_state = \<lparr>es_db = ex_db, es_mempool = [], es_notices = [], es_broadcasts = []\<rparr>"

definition ex_call :: "string \<Rightarrow> int \<Rightarrow> TransactionETH" where
  "ex_call input blocktime = ex_multisig_tx\<lparr>etx_Hash := ''h2'', etx_BlockTime := blocktime, etx_To := ''contract'',
     etx_Multisig := Some (zero_multisig_tx\<lparr>mst_Contract := ''contract'', mst_Input := input,
       mst_Return := ''1'', mst_InvocationStatus := True\<rparr>)\<rparr>"

definition ex_pb_call :: "string \<Rightarrow> pb_ETHTransaction" where
  "ex_pb_call input = \<lparr>pe_UserID = ''u1'', pe_WalletIndex = 0, pe_AddressIndex = 0, pe_Hash = ''h2'', pe_From = ''a0'',
     pe_To = ''contract'', pe_Amount = ''0'', pe_GasPrice = 0, pe_GasLimit = 0, pe_Nonce = 0,
     pe_Status = TxStatusAppearedInBlockIncoming, pe_BlockTime = 5, pe_TxpoolTime = 4, pe_BlockHeight = 3,
     pe_Contract = ''contract'', pe_MethodInvoked = [], pe_InvocationStatus = True, pe_Return = [],
     pe_Input = input, pe_Multisig = True, pe_Resync = True\<rparr>"

theorem revoke_never_recorded_witness:
  "map etx_Hash (eth_ms 1 (es_db (outcome_state (eth_NewTx ref_mongo 7 1 (ex_pb_call (RevokeConfirmation @ hex_digits 64 0)) ex_eth_state)))) = [''h'', ''h2''] \<and>
   map history (eth_ms 1 (es_db (outcome_state (eth_NewTx ref_mongo 7 1 (ex_pb_call (RevokeConfirmation @ hex_digits 64 0)) ex_eth_state)))) =
     map history (eth_ms 1 ex_db) @ [Some []]"
proof -
  let ?g = "ex_pb_call (RevokeConfirmation @ hex_digits 64 0)"
  let ?ts = "eth_ms 1 (es_db (outcome_state (eth_NewTx ref_mongo 7 1 ?g ex_eth_state)))"
  have "fetchMethod (pe_Input ?g) = RevokeConfirmation" "pe_Multisig ?g"
    by (simp_all add: ex_pb_call_def fetchMethod_def RevokeConfirmation_def)
  from revoke_never_recorded [OF refm.mongo_srv_axioms this(2,1) refl refl, where net = 1 and s = ex_eth_state and now = 7]
  have "map history ?ts = map history (eth_ms 1 ex_db) \<or> map history ?ts = map history (eth_ms 1 ex_db) @ [Some []]"
    by (simp add: ex_eth_state_def)
  moreover have h: "map etx_Hash ?ts = [''h'', ''h2'']" by code_simp
  moreover have "length (eth_ms 1 ex_db) = 1" by (simp add: ex_db_def empty_db_def eth_ms_def ETHMain_def)
  moreover have "length (map history ?ts) = 2" using arg_cong [OF h, of length] by simp
  ultimately show ?thesis by (metis One_nat_def length_map numeral_2_eq_2 n_not_Suc_n)
qed




text \<open>
  A confirmation whose argument is not a base 16 number, the empty one included, stops the
  process: the nil result of the conversion is dereferenced. Anyone can send such a call.
\<close>

theorem confirm_bad_argument_panics:
  assumes "etx_Multisig tx = Some m" "fetchMethod (mst_Input m) = ConfirmTransaction"
    and "SetString 16 (drop 10 (mst_Input m)) = None"
  shows "ParseMultisigInput M now net tx s = (s, Inl NilDereference)"
  using assms by (simp add: ParseMultisigInput_def Let_def method_defs confirm_case_def)

theorem confirm_bad_argument_panics_witness:
  "ParseMultisigInput ref_mongo 7 1 (ex_call ConfirmTransaction 0) ex_eth_state = (ex_eth_state, Inl NilDereference)"
  by (rule confirm_bad_argument_panics [of _ "zero_multisig_tx\<lparr>mst_Contract := ''contract'',
      mst_Input := ConfirmTransaction, mst_Return := ''1'', mst_InvocationStatus := True\<rparr>"])
    (simp_all add: ex_call_def fetchMethod_def ConfirmTransaction_def SetString_def)

text \<open>
  Each delivery of the same mined submission that needs one confirmation stores another
  internal transaction for the receiving wallet: the look-up that should find the first one
  asks for a key the documents do not have.
\<close>

theorem internal_transaction_repeated:
  assumes "mongo_live M" "etx_Multisig tx = Some m" "fetchMethod (mst_Input m) = SubmitTransaction"
    and "etx_BlockTime tx \<noteq> 0" "SetString 16 (mst_Return m) = Some i"
    and "ms_Confirmations (fst (fetchMultisig (findContractOwners M (etx_To tx) (es_db s)) (etx_To tx))) = 1"
    and "wallet_hit (fst (parseSubmitInput (mst_Input m)))
          (one_or (M_users M) (user_has_addr (fst (parseSubmitInput (mst_Input m)))) (db_users (es_db s)) zero_user) = Some wa"
  shows "\<exists>x y. eth_txs net (es_db (fst (ParseMultisigInput M now' net tx (fst (ParseMultisigInput M now net tx s))))) =
       eth_txs net (es_db s) @ [x, y] \<and> etx_Hash x = etx_Hash y \<and> etx_IsInternal x \<and> etx_IsInternal y"
proof -
  let ?f = "\<lambda>now s. fst (ParseMultisigInput M now net tx s)"
  have step: "\<exists>x. eth_txs net (es_db (?f now s')) = eth_txs net (es_db s') @ [x] \<and> etx_Hash x = etx_Hash tx \<and>
      etx_IsInternal x \<and> db_users (es_db (?f now s')) = db_users (es_db s')"
    if "db_users (es_db s') = db_users (es_db s)" for s' now
  proof -
    have "findContractOwners M (etx_To tx) (es_db s') = findContractOwners M (etx_To tx) (es_db s)"
      using that by (simp add: findContractOwners_def)
    with assms(4-7) that show ?thesis
      unfolding mongo_live.ParseMultisig_submit [OF assms(1-3)]
      by (intro mongo_live.submit_case_txs [OF assms(1), of tx _ i _ s' wa]) simp_all
  qed
  from step [of s now] obtain x where x: "eth_txs net (es_db (?f now s)) = eth_txs net (es_db s) @ [x]"
      "etx_Hash x = etx_Hash tx" "etx_IsInternal x" "db_users (es_db (?f now s)) = db_users (es_db s)" by auto
  from step [OF x(4), of now'] x show ?thesis by auto
qed

definition ex_addr :: string where
  "ex_addr = ''0x'' @ hex_digits 40 1"

definition ex_ms_db :: db where
  "ex_ms_db = empty_db\<lparr>db_users := [ex_user\<lparr>usr_Wallets := [ex_wallet 60 1 0 ex_addr],
     usr_Multisigs := [ex_multisig\<lparr>ms_ContractAddress := ''contract'', ms_Confirmations := 1\<rparr>]\<rparr>]\<rparr>"

definition ex_submit :: string where
  "ex_submit = SubmitTransaction @ hex_digits 64 1 @ hex_digits 64 7 @ hex_digits 64 96 @ hex_digits 64 0 @ []"

theorem internal_transaction_repeated_witness:
  "\<exists>x y. eth_txs 1 (es_db (fst (ParseMultisigInput ref_mongo 8 1 (ex_call ex_submit 5)
      (fst (ParseMultisigInput ref_mongo 7 1 (ex_call ex_submit 5) (ex_eth_state\<lparr>es_db := ex_ms_db\<rparr>)))))) = [x, y] \<and>
     etx_Hash x = etx_Hash y"
proof -
  have m: "fetchMethod ex_submit = SubmitTransaction"
    by (simp add: ex_submit_def fetchMethod_def SubmitTransaction_def)
  have p: "fst (parseSubmitInput ex_submit) = ex_addr"
    using parseSubmit_encoded [of 7 1 96 0 "[]"] by (simp add: ex_submit_def ex_addr_def)
  have i: "SetString 16 ''1'' = Some 1" by (simp add: SetString_def scan_unsigned_def digit_of_def)
  have w: "wallet_hit ex_addr (hd (db_users ex_ms_db)) = Some (ex_wallet 60 1 0 ex_addr, \<lparr>adr_AddressIndex = 0, adr_Address = ex_addr, adr_LastActionTime = 0\<rparr>)"
    by (simp add: wallet_hit_def positions_def ex_ms_db_def ex_wallet_def zero_wallet_def)
  have u: "one_or (M_users ref_mongo) (user_has_addr ex_addr) (db_users ex_ms_db) zero_user = hd (db_users ex_ms_db)"
    by (simp add: one_or_def ref_simps doc_one_def ex_ms_db_def user_has_addr_def has_addr_def ex_wallet_def)
  have l: "ToLower ''contract'' = ''contract''" by (simp add: ToLower_def lower_char_def)
  have o: "ms_Confirmations (fst (fetchMultisig (findContractOwners ref_mongo ''contract'' ex_ms_db) ''contract'')) = 1"
    by (simp add: fetchMultisig_def findContractOwners_def l all_or_def ref_simps ex_ms_db_def has_contract_def)
  have e: "eth_txs 1 ex_ms_db = []" by (simp add: eth_txs_def ex_ms_db_def empty_db_def)
  let ?m = "zero_multisig_tx\<lparr>mst_Contract := ''contract'', mst_Input := ex_submit,
       mst_Return := ''1'', mst_InvocationStatus := True\<rparr>"
  have "etx_Multisig (ex_call ex_submit 5) = Some ?m" by (simp add: ex_call_def)
  from internal_transaction_repeated [OF refm.mongo_live_axioms this, of 1 "ex_eth_state\<lparr>es_db := ex_ms_db\<rparr>" _ 1 8 7]
  show ?thesis using m p i w u o e by (auto simp: ex_call_def)
qed

text \<open>
  C7: on a new block exactly the transactions the node rejects change, and only in their
  status: incoming ones become rejected incoming, outgoing ones rejected outgoing, and a
  failed or already rejected one keeps its status.
\<close>

theorem rejection_exact:
  assumes "mongo_live M"
  shows "eth_txs net (es_db (eth_EventNewBlock M (\<lambda>hs. Some rejected) net acc height s)) =
     map (\<lambda>t. if etx_Hash t \<in> set rejected
              then t\<lparr>etx_Status :=
                (if etx_Status t \<in> {1, 2, 5} then 8 else if etx_Status t \<in> {3, 4, 6} then 9 else etx_Status t)\<rparr>
              else t) (eth_txs net (es_db s))"
  by (simp add: mongo_live.EventNewBlock_reject [OF assms] rejected_tx_def incoming_def outgoing_def tx_status_defs)

theorem rejection_exact_witness:
  "map etx_Status (eth_txs 1 (es_db (eth_EventNewBlock ref_mongo (\<lambda>hs. Some [''h'']) 1 6 100
     (ex_eth_state\<lparr>es_db := empty_db\<lparr>db_ethMain := [ex_multisig_tx, ex_multisig_tx\<lparr>etx_Hash := ''g''\<rparr>]\<rparr>\<rparr>)))) = [9, 3]"
  unfolding rejection_exact [OF refm.mongo_live_axioms]
  by (simp add: eth_txs_def ETHMain_def ex_eth_state_def ex_multisig_tx_def)

text \<open>
  C11: saving keeps one document for each user, hash and wallet index, and after a save of an
  incoming or outgoing transaction that document has the new status, height and block time.
\<close>

theorem saveTransaction_unique:
  assumes "mongo_live M" "net = ETHMain \<or> net = ETHTest" "incoming (etx_Status tx) \<or> outgoing (etx_Status tx)"
    and "distinct (map (\<lambda>t. (etx_UserID t, etx_Hash t, etx_WalletIndex t)) (eth_txs net d))"
  shows "distinct (map (\<lambda>t. (etx_UserID t, etx_Hash t, etx_WalletIndex t)) (eth_txs net (fst (saveTransaction M tx net d)))) \<and>
     snd (saveTransaction M tx net d) = None \<and>
     (\<exists>t. find (eth_key tx) (eth_txs net (fst (saveTransaction M tx net d))) = Some t \<and>
        etx_Status t = etx_Status tx \<and> etx_BlockHeight t = etx_BlockHeight tx \<and> etx_BlockTime t = etx_BlockTime tx)"
proof -
  have s: "saveTransaction M tx net d =
      (set_eth_txs net (fst (save_eth M tx (eth_txs net d))) d, snd (save_eth M tx (eth_txs net d)))"
    using assms(2,3) by (auto simp: saveTransaction_def case_prod_beta Let_def)
  from mongo_live.save_eth_unique [OF assms(1,4), of tx] mongo_live.save_eth_find [OF assms(1), of tx "eth_txs net d"]
  show ?thesis by (simp add: s)
qed

theorem saveTransaction_unique_witness:
  "distinct (map (\<lambda>t. (etx_UserID t, etx_Hash t, etx_WalletIndex t))
     (eth_txs 1 (fst (saveTransaction ref_mongo ex_multisig_tx 1 (empty_db\<lparr>db_ethMain := [ex_multisig_tx\<lparr>etx_Status := 4\<rparr>]\<rparr>)))))"
  using saveTransaction_unique [OF refm.mongo_live_axioms, of 1 ex_multisig_tx "empty_db\<lparr>db_ethMain := [ex_multisig_tx\<lparr>etx_Status := 4\<rparr>]\<rparr>"]
  by (simp add: eth_txs_def ETHMain_def ex_multisig_tx_def outgoing_def tx_status_defs)

text \<open>
  C16: the invite code taken for a deployed contract belongs to a multisig of one of the users
  the contract's addresses resolve to, and at least as many of that multisig's owners as it
  expects are among the addresses.
\<close>

theorem fetchInviteUndeployed_sound:
  assumes "fetchInviteUndeployed users \<noteq> []"
  shows "\<exists>u \<in> set (map snd users). \<exists>ms \<in> set (usr_Multisigs u).
     ms_InviteCode ms = fetchInviteUndeployed users \<and> 0 < ms_OwnersCount ms \<and>
     ms_OwnersCount ms \<le> int (length (filter (\<lambda>ow. map_of users (ae_Address ow) \<noteq> None) (ms_Owners ms)))"
  using fetchInvite_backed [OF assms] by (simp add: multisig_backed_def)

theorem fetchInviteUndeployed_sound_witness:
  "fetchInviteUndeployed [(''a0'', zero_user\<lparr>usr_Multisigs := [ex_multisig\<lparr>ms_OwnersCount := 1,
     ms_Owners := [zero_ae\<lparr>ae_Address := ''a0''\<rparr>]\<rparr>]\<rparr>)] = ''inv'' \<and>
   (\<exists>u \<in> {zero_user\<lparr>usr_Multisigs := [ex_multisig\<lparr>ms_OwnersCount := 1, ms_Owners := [zero_ae\<lparr>ae_Address := ''a0''\<rparr>]\<rparr>]\<rparr>}.
      \<exists>ms \<in> set (usr_Multisigs u). ms_InviteCode ms = ''inv'')"
proof -
  let ?us = "[(''a0'', zero_user\<lparr>usr_Multisigs := [ex_multisig\<lparr>ms_OwnersCount := 1, ms_Owners := [zero_ae\<lparr>ae_Address := ''a0''\<rparr>]\<rparr>]\<rparr>)]"
  have f: "fetchInviteUndeployed ?us = ''inv''"
    by (simp add: fetchInviteUndeployed_def count_owner_def ex_multisig_def)
  from fetchInviteUndeployed_sound [of ?us] f show ?thesis by auto
qed

end
