(* ===== verification/Multisig_Ws.thy ===== *)
theory Multisig_Ws
  imports Store_Facts
begin

text \<open>
  The multisig messages of the socket API (\<open>client/socket-io.go\<close>, handler of
  \<open>message:send\<close>, with \<open>getMultisig\<close>, \<open>makeErr\<close> and
  \<open>updateUserOwners\<close>). The state is the database, the users that are online (the keys of
  \<open>pool.users\<close>) and the messages broadcast so far. The payload is decoded by a library: a message
  comes with the struct after decoding and the decoder's error. \<open>ord\<close> is the order in which the run
  goes through the map of owners. The time in a reply is not modelled.
\<close>

section \<open>State and replies\<close>

datatype ws_payload =
    WText string
  | WMultisig Multisig
  | WKicked Multisig string
  | WInfo InviteCodeInfo
  | WTx string string

record ws_reply =
  wr_Type :: int
  wr_To :: string
  wr_Payload :: ws_payload

record ws_state =
  ws_db :: db
  ws_online :: "string list"
  ws_sent :: "ws_reply list"

type_synonym owner_order = "(string \<times> AddressExtended) list \<Rightarrow> (string \<times> AddressExtended) list"

definition makeErr :: "string \<Rightarrow> string \<Rightarrow> int \<Rightarrow> ws_reply" where
  "makeErr userid errorStr method = \<lparr>wr_Type = method, wr_To = userid, wr_Payload = WText errorStr\<rparr>"

definition ok_reply :: "string \<Rightarrow> int \<Rightarrow> ws_reply" where
  "ok_reply userid method = \<lparr>wr_Type = method, wr_To = userid, wr_Payload = WText ''ok''\<rparr>"

definition tell :: "string \<Rightarrow> int \<Rightarrow> ws_payload \<Rightarrow> ws_state \<Rightarrow> ws_state" where
  "tell userid method p s =
     (if userid \<in> set (ws_online s)
      then s\<lparr>ws_sent := ws_sent s @ [\<lparr>wr_Type = method, wr_To = userid, wr_Payload = p\<rparr>]\<rparr> else s)"

definition getMultisig ::
  "mongo \<Rightarrow> MultisigMsg \<Rightarrow> int \<Rightarrow> db \<Rightarrow> Multisig \<times> (ws_reply \<times> go_error) option" where
  "getMultisig M msg method d =
     (case FindMultisig M (mm_UserID msg) (mm_InviteCode msg) d of
        (multisig, None) \<Rightarrow> (multisig, None)
      | (multisig, Some err) \<Rightarrow>
          (multisig, Some (makeErr (mm_UserID msg) (''can't join multisig: '' @ Error err) method, err)))"

section \<open>The owners as a user sees them\<close>

definition clean_owner :: "AddressExtended \<Rightarrow> AddressExtended" where
  "clean_owner owner = zero_ae\<lparr>ae_Address := ae_Address owner, ae_Creator := ae_Creator owner,
     ae_WalletIndex := ae_WalletIndex owner, ae_AddressIndex := ae_AddressIndex owner\<rparr>"

definition owner_map :: "AddressExtended list \<Rightarrow> (string \<times> AddressExtended) list" where
  "owner_map owners = fold (\<lambda>owner. AList.update (ae_Address owner) (clean_owner owner)) owners []"

text \<open>The \<open>break\<close> ends the loop over a wallet's addresses after the first one.\<close>

definition associate :: "User \<Rightarrow> Wallet \<Rightarrow> (string \<times> AddressExtended) list \<Rightarrow> (string \<times> AddressExtended) list" where
  "associate user wallet owners =
     (case wal_Adresses wallet of
        [] \<Rightarrow> owners
      | address # _ \<Rightarrow>
          (case map_of owners (adr_Address address) of
             None \<Rightarrow> owners
           | Some owner \<Rightarrow>
               AList.update (adr_Address address)
                 \<lparr>ae_UserID = usr_UserID user, ae_Address = adr_Address address, ae_Associated = True,
                  ae_Creator = ae_Creator owner, ae_WalletIndex = wal_WalletIndex wallet,
                  ae_AddressIndex = adr_AddressIndex address\<rparr> owners))"

definition user_owners :: "owner_order \<Rightarrow> User \<Rightarrow> AddressExtended list \<Rightarrow> AddressExtended list" where
  "user_owners ord user owners = map snd (ord (fold (associate user) (usr_Wallets user) (owner_map owners)))"

definition updateUserOwners ::
  "mongo \<Rightarrow> owner_order \<Rightarrow> User \<Rightarrow> Multisig \<Rightarrow> int \<Rightarrow> db \<Rightarrow> db \<times> mgo_error option" where
  "updateUserOwners M ord user multisig deployStatus d =
     UpdateMultisigOwners M (usr_UserID user) (ms_InviteCode multisig)
       (user_owners ord user (ms_Owners multisig)) deployStatus d"

text \<open>The loop over the users of a multisig; the errors of the updates are logged and dropped.\<close>

fun share_owners ::
  "mongo \<Rightarrow> owner_order \<Rightarrow> int \<Rightarrow> ws_payload \<Rightarrow> Multisig \<Rightarrow> int \<Rightarrow> User list \<Rightarrow> ws_state \<Rightarrow> ws_state" where
  "share_owners M ord method p multisig deployStatus [] s = s"
| "share_owners M ord method p multisig deployStatus (user # users) s =
     share_owners M ord method p multisig deployStatus users
       (tell (usr_UserID user) method p
         (s\<lparr>ws_db := fst (updateUserOwners M ord user multisig deployStatus (ws_db s))\<rparr>))"

section \<open>Joining\<close>

definition joined_multisig :: "MultisigMsg \<Rightarrow> Multisig \<Rightarrow> Multisig" where
  "joined_multisig msg multisig =
     (let owners = map clean_owner (ms_Owners multisig) @
            [\<lparr>ae_UserID = mm_UserID msg, ae_Address = mm_Address msg, ae_Associated = True,
              ae_Creator = False, ae_WalletIndex = mm_WalletIndex msg, ae_AddressIndex = 0\<rparr>]
      in multisig\<lparr>ms_Owners := owners,
           ms_DeployStatus := (if int (length (ms_Owners multisig)) + 1 = ms_OwnersCount multisig
             then MultisigStatusAllJoined else ms_DeployStatus multisig)\<rparr>)"

definition join_status :: "Multisig \<Rightarrow> int" where
  "join_status multisig =
     (if int (length (ms_Owners multisig)) + 1 = ms_OwnersCount multisig
      then MultisigStatusAllJoined else MultisigStatusWaitingForJoin)"

definition join_accepted :: "mongo \<Rightarrow> owner_order \<Rightarrow> MultisigMsg \<Rightarrow> Multisig \<Rightarrow> ws_state \<Rightarrow> ws_state \<times> ws_reply" where
  "join_accepted M ord msg multisig s =
     (let ms = joined_multisig msg multisig;
          users = FindMultisigUsers M (mm_InviteCode msg) (ws_db s);
          (d, e) = JoinMultisig M (mm_UserID msg) ms (ws_db s);
          s1 = s\<lparr>ws_db := d\<rparr>
      in case e of
           Some e \<Rightarrow> (s1, makeErr (mm_UserID msg) (''can't join multisig: '' @ mgo_text e) JoinMultisig_msg)
         | None \<Rightarrow>
             (share_owners M ord JoinMultisig_msg (WMultisig ms) ms (join_status multisig) users s1,
              ok_reply (mm_UserID msg) JoinMultisig_msg))"

definition on_join :: "mongo \<Rightarrow> owner_order \<Rightarrow> MultisigMsg \<Rightarrow> ws_state \<Rightarrow> ws_state \<times> ws_reply" where
  "on_join M ord msg s =
     (let d = ws_db s in
      if CheckInviteCode M (mm_InviteCode msg) d then (s, makeErr [] ''wrong request payload'' JoinMultisig_msg)
      else if list_ex (\<lambda>u. usr_UserID u = mm_UserID msg) (FindMultisigUsers M (mm_InviteCode msg) d)
      then (s, makeErr (mm_UserID msg) ''we not support multiple join from same userid '' JoinMultisig_msg)
      else if \<not> IsRelatedAddress M (mm_UserID msg) (mm_Address msg) d
      then (s, makeErr (mm_UserID msg) ''can't add addres with is not related userid '' JoinMultisig_msg)
      else if \<not> CheckMultisigCurrency M (mm_InviteCode msg) (mm_CurrencyID msg) (mm_NetworkID msg) d
      then (s, makeErr (mm_UserID msg) ''this invitecode accotiated with different currency/network'' JoinMultisig_msg)
      else case getMultisig M msg JoinMultisig_msg d of
             (multisig, Some (reply, err)) \<Rightarrow> (s, reply)
           | (multisig, None) \<Rightarrow>
               if ms_OwnersCount multisig > int (length (ms_Owners multisig))
               then join_accepted M ord msg multisig s
               else (s, makeErr [] ''wrong request payload'' JoinMultisig_msg))"

section \<open>Leaving\<close>

definition without_owner :: "string \<Rightarrow> Multisig \<Rightarrow> Multisig" where
  "without_owner a multisig = multisig\<lparr>ms_Owners := filter (\<lambda>owner. ae_Address owner \<noteq> a) (ms_Owners multisig)\<rparr>"

definition on_leave :: "mongo \<Rightarrow> owner_order \<Rightarrow> MultisigMsg \<Rightarrow> ws_state \<Rightarrow> ws_state \<times> ws_reply" where
  "on_leave M ord msg s =
     (let d = ws_db s in
      if CheckInviteCode M (mm_InviteCode msg) d then (s, makeErr [] ''wrong request payload: '' LeaveMultisig_msg)
      else case getMultisig M msg LeaveMultisig_msg d of
             (multisig, Some (reply, err)) \<Rightarrow> (s, reply)
           | (multisig, None) \<Rightarrow>
               if list_ex (\<lambda>owner. ae_Address owner = mm_Address msg \<and> ae_Creator owner) (ms_Owners multisig)
               then (s, makeErr (mm_UserID msg)
                      ''can't leave multisig if you are creator you need delete it '' LeaveMultisig_msg)
               else if list_ex (\<lambda>owner. ae_Address owner = mm_Address msg) (ms_Owners multisig) then
                 (case LeaveMultisig M (mm_UserID msg) (mm_InviteCode msg) d of
                    (d', Some e) \<Rightarrow>
                      (s\<lparr>ws_db := d'\<rparr>, makeErr (mm_UserID msg) (''can't leave multisig: '' @ mgo_text e) LeaveMultisig_msg)
                  | (d', None) \<Rightarrow>
                      (let ms = without_owner (mm_Address msg) multisig in
                       (share_owners M ord LeaveMultisig_msg (WMultisig ms) ms MultisigStatusWaitingForJoin
                          (FindMultisigUsers M (mm_InviteCode msg) d') (s\<lparr>ws_db := d'\<rparr>),
                        ok_reply (mm_UserID msg) LeaveMultisig_msg)))
               else (s, makeErr (mm_UserID msg) ''can't leave multisig if you are not a owner'' LeaveMultisig_msg))"

section \<open>Kicking and deleting\<close>

definition is_admin :: "MultisigMsg \<Rightarrow> Multisig \<Rightarrow> bool" where
  "is_admin msg multisig \<longleftrightarrow>
     list_ex (\<lambda>owner. ae_Address owner = mm_Address msg \<and> ae_Creator owner) (ms_Owners multisig)"

definition on_kick :: "mongo \<Rightarrow> owner_order \<Rightarrow> MultisigMsg \<Rightarrow> ws_state \<Rightarrow> ws_state \<times> ws_reply" where
  "on_kick M ord msg s =
     (let d = ws_db s in
      if CheckInviteCode M (mm_InviteCode msg) d then (s, makeErr [] ''wrong request payload'' KickMultisig_msg)
      else case getMultisig M msg KickMultisig_msg d of
             (multisig, Some (reply, err)) \<Rightarrow> (s, reply)
           | (multisig, None) \<Rightarrow>
               if \<not> is_admin msg multisig
               then (s, makeErr (mm_UserID msg) ''only admin can kik form ms'' KickMultisig_msg)
               else
                 (let users = FindMultisigUsers M (mm_InviteCode msg) d in
                  case KickMultisig M (mm_AddressToKick msg) (mm_InviteCode msg) d of
                    (d', Some e) \<Rightarrow>
                      (s\<lparr>ws_db := d'\<rparr>, makeErr (mm_UserID msg) (''can't kik from multisig: '' @ mgo_text e) KickMultisig_msg)
                  | (d', None) \<Rightarrow>
                      (let ms = without_owner (mm_AddressToKick msg) multisig in
                       (share_owners M ord KickMultisig_msg (WKicked ms (mm_AddressToKick msg)) ms
                          MultisigStatusWaitingForJoin users (s\<lparr>ws_db := d'\<rparr>),
                        ok_reply (mm_UserID msg) KickMultisig_msg))))"

definition on_delete :: "mongo \<Rightarrow> MultisigMsg \<Rightarrow> ws_state \<Rightarrow> ws_state \<times> ws_reply" where
  "on_delete M msg s =
     (let d = ws_db s in
      if CheckInviteCode M (mm_InviteCode msg) d then (s, makeErr [] ''wrong request payload: '' DeleteMultisig_msg)
      else case getMultisig M msg DeleteMultisig_msg d of
             (multisig, Some (reply, err)) \<Rightarrow> (s, reply)
           | (multisig, None) \<Rightarrow>
               if \<not> is_admin msg multisig
               then (s, makeErr (mm_UserID msg) ''only creator can delete ms'' DeleteMultisig_msg)
               else
                 (let users = FindMultisigUsers M (mm_InviteCode msg) d in
                  case DeleteMultisig M (mm_InviteCode msg) d of
                    (d', Some e) \<Rightarrow>
                      (s\<lparr>ws_db := d'\<rparr>, makeErr (mm_UserID msg)
                         (''server.On:deleteMultisig:DeleteMultisig '' @ mgo_text e) DeleteMultisig_msg)
                  | (d', None) \<Rightarrow>
                      (fold (\<lambda>u. tell (usr_UserID u) DeleteMultisig_msg (WText (mm_InviteCode msg))) users (s\<lparr>ws_db := d'\<rparr>),
                       ok_reply (mm_UserID msg) DeleteMultisig_msg)))"

section \<open>Checking, declining and viewing\<close>

definition on_check :: "mongo \<Rightarrow> MultisigMsg \<Rightarrow> ws_state \<Rightarrow> ws_state \<times> ws_reply" where
  "on_check M msg s =
     (s, \<lparr>wr_Type = CheckMultisig_msg, wr_To = mm_UserID msg,
          wr_Payload = WInfo (InviteCodeInfo M (mm_InviteCode msg) (ws_db s))\<rparr>)"

definition on_decline :: "mongo \<Rightarrow> MultisigMsg \<Rightarrow> ws_state \<Rightarrow> ws_state \<times> ws_reply" where
  "on_decline M msg s =
     (if CheckInviteCode M (mm_InviteCode msg) (ws_db s)
      then (s, makeErr [] ''wrong request payload: '' DeclineTransaction_msg)
      else case DeclineTransaction M (mm_TxID msg) (mm_Address msg) (mm_CurrencyID msg) (mm_NetworkID msg) (ws_db s) of
             (d', Some e) \<Rightarrow> (s\<lparr>ws_db := d'\<rparr>, makeErr [] ''Tx can't be declined: '' DeclineTransaction_msg)
           | (d', None) \<Rightarrow>
               (let users = FindMultisigUsers M (mm_InviteCode msg) d'; s1 = s\<lparr>ws_db := d'\<rparr> in
                case FindMultisig M (mm_UserID msg) (mm_InviteCode msg) d' of
                  (ms, Some e) \<Rightarrow> (s1, makeErr [] ''You not owe those multisig: '' DeclineTransaction_msg)
                | (ms, None) \<Rightarrow>
                    (fold (\<lambda>u. tell (usr_UserID u) DeclineTransaction_msg (WTx (ms_ContractAddress ms) (mm_TxID msg))) users s1,
                     \<lparr>wr_Type = DeclineTransaction_msg, wr_To = mm_UserID msg, wr_Payload = WText ''declined''\<rparr>)))"

definition on_view :: "mongo \<Rightarrow> int \<Rightarrow> MultisigMsg \<Rightarrow> ws_state \<Rightarrow> panic + (ws_state \<times> ws_reply)" where
  "on_view M now msg s =
     (case ViewTransaction M now (mm_TxID msg) (mm_Address msg) (mm_CurrencyID msg) (mm_NetworkID msg) (ws_db s) of
        Inl p \<Rightarrow> Inl p
      | Inr (d', Some e) \<Rightarrow>
          Inr (s\<lparr>ws_db := d'\<rparr>,
            \<lparr>wr_Type = ViewTransaction_msg, wr_To = mm_UserID msg, wr_Payload = WText ''not viewed''\<rparr>)
      | Inr (d', None) \<Rightarrow>
          (let s1 = s\<lparr>ws_db := d'\<rparr> in
           case FindMultisig M (mm_UserID msg) (mm_InviteCode msg) d' of
             (ms, Some e) \<Rightarrow> Inr (s1, makeErr [] ''You not owe those multisig: '' DeclineTransaction_msg)
           | (ms, None) \<Rightarrow>
               Inr (fold (\<lambda>u. tell (usr_UserID u) ViewTransaction_msg (WTx (ms_ContractAddress ms) (mm_TxID msg)))
                      (FindMultisigUsers M (mm_InviteCode msg) d') s1,
                    \<lparr>wr_Type = ViewTransaction_msg, wr_To = mm_UserID msg, wr_Payload = WText ''viewed''\<rparr>)))"

section \<open>The handler\<close>

definition bad_request :: "int \<Rightarrow> string" where
  "bad_request method =
     (if method = JoinMultisig_msg then ''can't join multisig: bad request: ''
      else if method = LeaveMultisig_msg then ''can't leave multisig: bad request: ''
      else if method = DeclineTransaction_msg then ''can't decline from multisig: bad request: ''
      else ''can't kik from multisig: bad request: '')"

definition on_message ::
  "mongo \<Rightarrow> owner_order \<Rightarrow> int \<Rightarrow> int \<Rightarrow> MultisigMsg \<times> string option \<Rightarrow> ws_state \<Rightarrow> panic + (ws_state \<times> ws_reply)" where
  "on_message M ord now method decoded s =
     (if method \<notin> {JoinMultisig_msg, LeaveMultisig_msg, KickMultisig_msg, DeleteMultisig_msg, CheckMultisig_msg,
                     DeclineTransaction_msg, ViewTransaction_msg}
      then Inr (s, makeErr [] ''wrong request message type: '' 0)
      else case decoded of
        (msg, Some e) \<Rightarrow> Inr (s, makeErr (mm_UserID msg) (bad_request method @ e) method)
      | (msg, None) \<Rightarrow>
          if method = JoinMultisig_msg then Inr (on_join M ord msg s)
          else if method = LeaveMultisig_msg then Inr (on_leave M ord msg s)
          else if method = KickMultisig_msg then Inr (on_kick M ord msg s)
          else if method = DeleteMultisig_msg then Inr (on_delete M msg s)
          else if method = CheckMultisig_msg then Inr (on_check M msg s)
          else if method = DeclineTransaction_msg then Inr (on_decline M msg s)
          else on_view M now msg s)"

end
