(* ===== verification/Rest.thy ===== *)
theory Rest
  imports Multisig_Ws
begin

text \<open>
  What the handlers of the REST API (\<open>client/rest.go\<close>) share: replies with their status, their
  \<open>code\<close> and \<open>message\<close> fields, the messages of the file, \<open>getToken\<close>, the
  state the handlers work on and the constructors of documents (\<open>client/utils.go\<close>). The router and
  the JSON decoder are libraries: a handler takes the path parameters, the \<open>Authorization\<close> header
  and the body after decoding, \<open>None\<close> when the decoder fails. Times are arguments.
\<close>

section \<open>Replies\<close>

datatype http_code = Code int | CodeText string

record 'a http_reply =
  hr_status :: int
  hr_code :: http_code
  hr_message :: string
  hr_data :: "'a option"

definition StatusOK :: int where "StatusOK = 200"
definition StatusCreated :: int where "StatusCreated = 201"
definition StatusBadRequest :: int where "StatusBadRequest = 400"
definition StatusUnauthorized :: int where "StatusUnauthorized = 401"
definition StatusForbidden :: int where "StatusForbidden = 403"
definition StatusNotAcceptable :: int where "StatusNotAcceptable = 406"
definition StatusInternalServerError :: int where "StatusInternalServerError = 500"

lemmas status_defs =
  StatusOK_def StatusCreated_def StatusBadRequest_def StatusUnauthorized_def StatusForbidden_def
  StatusNotAcceptable_def StatusInternalServerError_def

definition reply :: "int \<Rightarrow> int \<Rightarrow> string \<Rightarrow> 'a http_reply" where
  "reply status code message = \<lparr>hr_status = status, hr_code = Code code, hr_message = message, hr_data = None\<rparr>"

definition reply_with :: "int \<Rightarrow> int \<Rightarrow> string \<Rightarrow> 'a \<Rightarrow> 'a http_reply" where
  "reply_with status code message x = \<lparr>hr_status = status, hr_code = Code code, hr_message = message, hr_data = Some x\<rparr>"

definition bad_reply :: "string \<Rightarrow> 'a http_reply" where
  "bad_reply message = reply StatusBadRequest StatusBadRequest message"

lemmas reply_defs = reply_def reply_with_def bad_reply_def

definition msgErrServerError :: string where "msgErrServerError = ''internal server error''"
definition msgErrNoWallet :: string where "msgErrNoWallet = ''no such wallet''"
definition msgErrWalletNonZeroBalance :: string where "msgErrWalletNonZeroBalance = ''can't delete non zero balance wallet''"
definition msgErrWalletIndex :: string where "msgErrWalletIndex = ''already existing wallet index''"
definition msgErrKnownAddres :: string where "msgErrKnownAddres = ''already existing wallet address''"
definition msgErrWrongBadAddress :: string where "msgErrWrongBadAddress = ''bad address''"
definition msgErrTxHistory :: string where "msgErrTxHistory = ''not found any transaction history''"
definition msgErrAddressIndex :: string where "msgErrAddressIndex = ''already existing address index''"
definition msgErrHeaderError :: string where "msgErrHeaderError = ''wrong authorization headers''"
definition msgErrRequestBodyError :: string where "msgErrRequestBodyError = ''missing request body params''"
definition msgErrUserNotFound :: string where "msgErrUserNotFound = ''user not found in db''"
definition msgErrDecodeWalletIndexErr :: string where "msgErrDecodeWalletIndexErr = ''wrong wallet index''"
definition msgErrDecodeTypeErr :: string where "msgErrDecodeTypeErr = ''wrong type''"
definition msgErrDecodeCurIndexErr :: string where "msgErrDecodeCurIndexErr = ''wrong currency index''"
definition msgErrDecodenetworkidErr :: string where "msgErrDecodenetworkidErr = ''wrong networkid index''"
definition msgErrChainIsNotImplemented :: string where "msgErrChainIsNotImplemented = ''current chain is not implemented''"
definition msgErrUserHaveNoTxs :: string where "msgErrUserHaveNoTxs = ''user have no transactions''"
definition msgErrWrongSeedPhraseType :: string where "msgErrWrongSeedPhraseType = ''seed phrase type is not supported''"

lemmas msg_err_defs =
  msgErrServerError_def msgErrNoWallet_def msgErrWalletNonZeroBalance_def msgErrWalletIndex_def
  msgErrKnownAddres_def msgErrWrongBadAddress_def msgErrTxHistory_def msgErrAddressIndex_def
  msgErrHeaderError_def msgErrRequestBodyError_def msgErrUserNotFound_def
  msgErrDecodeWalletIndexErr_def msgErrDecodeTypeErr_def msgErrDecodeCurIndexErr_def
  msgErrDecodenetworkidErr_def msgErrChainIsNotImplemented_def msgErrUserHaveNoTxs_def
  msgErrWrongSeedPhraseType_def

definition getToken :: "string \<Rightarrow> string + string" where
  "getToken header =
     (let authHeader = Split (CHR '' '') header in
      if length authHeader < 2 then Inl msgErrHeaderError else Inr (authHeader ! 1))"

definition errHandler :: "string \<Rightarrow> bool" where
  "errHandler resp = Contains resp ''err:''"

section \<open>State\<close>

text \<open>
  The state of a handler: the database, the watch-address channels of the four chains (the
  messages sent so far with their chain), the messages broadcast through the socket server, the
  keys of the map \<open>BTC.Resync\<close> and the resynchronisations asked of the nodes.
\<close>

record WatchAddress =
  wa_Address :: string
  wa_UserID :: string
  wa_WalletIndex :: int
  wa_AddressIndex :: int

datatype watch_chan = BtcMain | BtcTest | EthMain | EthTest

record rest_state =
  rs_db :: db
  rs_watch :: "(watch_chan \<times> WatchAddress) list"
  rs_sent :: "ws_reply list"
  rs_resync :: "string list"
  rs_calls :: "(watch_chan \<times> WatchAddress) list"

definition watch :: "watch_chan \<Rightarrow> WatchAddress \<Rightarrow> rest_state \<Rightarrow> rest_state" where
  "watch ch w s = s\<lparr>rs_watch := rs_watch s @ [(ch, w)]\<rparr>"

definition NewAddressNode ::
  "string \<Rightarrow> string \<Rightarrow> int \<Rightarrow> int \<Rightarrow> int \<Rightarrow> int \<Rightarrow> rest_state \<Rightarrow> rest_state" where
  "NewAddressNode address userid currencyID networkID walletIndex addressIndex s =
     (let w = \<lparr>wa_Address = address, wa_UserID = userid, wa_WalletIndex = wrap32 walletIndex,
               wa_AddressIndex = wrap32 addressIndex\<rparr> in
      if currencyID = Bitcoin then
        if networkID = Main_net then watch BtcMain w s
        else if networkID = Test_net then watch BtcTest w s else s
      else if currencyID = Ether then
        if networkID = ETHMain then watch EthMain w s
        else if networkID = ETHTest then watch EthTest w s else s
      else s)"

text \<open>
  The remote calls of the node services: their answers are a parameter. An error is its text. An
  answer that can be a nil pointer when the call fails is an option.
\<close>

record ContractInfo =
  ci_ConfirmationsRequired :: int
  ci_ContractOwners :: "string list"

record nodes =
  n_send :: "watch_chan \<Rightarrow> string \<Rightarrow> string \<times> string option"
  n_balance :: "string \<Rightarrow> string option \<times> string option"
  n_multisig_info :: "watch_chan \<Rightarrow> string \<Rightarrow> ContractInfo \<times> string option"
  n_add_multisig :: "watch_chan \<Rightarrow> string \<Rightarrow> string option"
  n_is_empty :: "watch_chan \<Rightarrow> string \<Rightarrow> bool"

section \<open>Parameters of a path\<close>

text \<open>A wallet index that is not a number is kept as the address it may be.\<close>

definition wallet_param :: "string \<Rightarrow> int \<times> string" where
  "wallet_param p = (case Atoi p of (i, None) \<Rightarrow> (i, []) | (i, Some e) \<Rightarrow> (i, ToLower p))"

definition type_param :: "string \<Rightarrow> string + int" where
  "type_param p =
     (if p = [] then Inr AssetTypeMultyAddress
      else case Atoi (tl p) of (t, None) \<Rightarrow> Inr t | (t, Some e) \<Rightarrow> Inl msgErrDecodeTypeErr)"

definition int_param :: "string \<Rightarrow> string \<Rightarrow> string + int" where
  "int_param message p = (case Atoi p of (i, None) \<Rightarrow> Inr i | (i, Some e) \<Rightarrow> Inl message)"

section \<open>Documents\<close>

definition createUser :: "string \<Rightarrow> Device list \<Rightarrow> Wallet list \<Rightarrow> int \<Rightarrow> User" where
  "createUser userid device wallets seedPhraseType =
     \<lparr>usr_UserID = userid, usr_SeedPhraseType = seedPhraseType, usr_Devices = device,
      usr_Wallets = wallets, usr_Multisigs = []\<rparr>"

definition createDevice ::
  "int \<Rightarrow> string \<Rightarrow> string \<Rightarrow> string \<Rightarrow> string \<Rightarrow> string \<Rightarrow> int \<Rightarrow> Device" where
  "createDevice now deviceid ip jwt pushToken appVersion deviceType =
     \<lparr>dev_DeviceID = deviceid, dev_PushToken = pushToken, dev_JWT = jwt, dev_LastActionTime = now,
      dev_LastActionIP = ip, dev_AppVersion = appVersion, dev_DeviceType = deviceType\<rparr>"

text \<open>\<open>nano\<close> is the clock in nanoseconds (\<open>time.Now().UnixNano()\<close>).\<close>

definition createWallet ::
  "int \<Rightarrow> int \<Rightarrow> int \<Rightarrow> int \<Rightarrow> string \<Rightarrow> int \<Rightarrow> int \<Rightarrow> string \<Rightarrow> bool \<Rightarrow> string \<Rightarrow> Wallet" where
  "createWallet now nano currencyID networkID address addressIndex walletIndex walletName isImported status =
     \<lparr>wal_CurrencyID = currencyID, wal_NetworkID = networkID, wal_WalletIndex = walletIndex,
      wal_WalletName = walletName, wal_LastActionTime = now, wal_DateOfCreation = nano,
      wal_Adresses = [\<lparr>adr_AddressIndex = addressIndex, adr_Address = address, adr_LastActionTime = now\<rparr>],
      wal_Status = status, wal_IsImported = isImported, wal_BrokenStatus = 0\<rparr>"

definition createMultisig ::
  "int \<Rightarrow> int \<Rightarrow> int \<Rightarrow> int \<Rightarrow> int \<Rightarrow> int \<Rightarrow> int \<Rightarrow> string \<Rightarrow> string \<Rightarrow> string \<Rightarrow> string \<Rightarrow> Multisig" where
  "createMultisig now currencyID networkID addressIndex walletIndex signaturesRequired ownerscount
     userid address walletName invitecode =
     zero_multisig\<lparr>ms_CurrencyID := currencyID, ms_NetworkID := networkID, ms_WalletName := walletName,
       ms_LastActionTime := now, ms_DateOfCreation := now, ms_Status := WalletStatusOK,
       ms_Confirmations := signaturesRequired, ms_OwnersCount := ownerscount,
       ms_Owners := [\<lparr>ae_UserID = userid, ae_Address = address, ae_Associated = True, ae_Creator = True,
         ae_WalletIndex = walletIndex, ae_AddressIndex = addressIndex\<rparr>],
       ms_DeployStatus := MultisigStatusWaitingForJoin, ms_InviteCode := invitecode\<rparr>"

definition importMultisig ::
  "int \<Rightarrow> int \<Rightarrow> int \<Rightarrow> int \<Rightarrow> string \<Rightarrow> string \<Rightarrow> string \<Rightarrow> AddressExtended list \<Rightarrow> Multisig" where
  "importMultisig now currencyID networkID confirmationsRequired invitecode contractAddress walletName owners =
     zero_multisig\<lparr>ms_CurrencyID := currencyID, ms_NetworkID := networkID,
       ms_Confirmations := confirmationsRequired, ms_WalletName := walletName,
       ms_ContractAddress := contractAddress, ms_LastActionTime := now, ms_DateOfCreation := now,
       ms_Owners := owners, ms_DeployStatus := MultisigStatusDeployed, ms_Status := WalletStatusOK,
       ms_OwnersCount := int (length owners), ms_InviteCode := invitecode, ms_Imported := True\<rparr>"

end
