(* ===== verification/Auth.thy ===== *)
theory Auth
  imports Rest Currencies "HOL-Library.AList"
begin

text \<open>
  Authentication: the JWT middleware (\<open>client/auth_jwt.go\<close>), its set-up (\<open>initMiddlewareJWT\<close>
  in \<open>client/rest.go\<close>) and the login handler (\<open>client/rest-auth.go\<close>). The JWT library is a
  parameter: the signing of claims and the parsing of a token with the key function of the code.
  Times are in nanoseconds; the rendering of a time as text is left out. Claims are a map, kept
  as an association list. White space is that of ASCII.
\<close>

section \<open>The library of tokens\<close>

datatype claim = CNil | CStr string | CNum int

type_synonym claims = "(string \<times> claim) list"

text \<open>A token that was not accepted may come back with the claims it has, for none of them was verified.\<close>

datatype parsed = NoToken string | TokenErr "claims option" string | TokenOk claims

record jwt =
  j_method :: "string \<Rightarrow> bool"
  j_sign :: "string \<Rightarrow> string \<Rightarrow> claims \<Rightarrow> string + string"
  j_parse :: "(string \<Rightarrow> string + string) \<Rightarrow> int \<Rightarrow> string \<Rightarrow> parsed"

definition unix :: "int \<Rightarrow> int" where "unix t = t div 1000000000"

definition Hour :: int where "Hour = 3600000000000"

definition set_claim :: "string \<Rightarrow> claim \<Rightarrow> claims \<Rightarrow> claims" where
  "set_claim k v c = AList.update k v c"

lemma map_of_set_claim [simp]: "map_of (set_claim k v c) = (map_of c)(k \<mapsto> v)"
  by (simp add: set_claim_def update_conv')

section \<open>The middleware\<close>

datatype auth_body = TokenBody string "int option" | SeedErr string | Message int string

record auth_reply =
  ar_status :: int
  ar_body :: auth_body
  ar_realm :: "string option"

record request =
  rq_header :: "string \<Rightarrow> string"
  rq_query :: "string \<Rightarrow> string"
  rq_cookie :: "string \<Rightarrow> string"

record GinJWTMiddleware =
  gm_Realm :: string
  gm_SigningAlgorithm :: string
  gm_Key :: "string option"
  gm_Timeout :: int
  gm_MaxRefresh :: int
  gm_Authenticator :: "(string \<Rightarrow> db \<Rightarrow> User \<times> bool) option"
  gm_Authorizator :: "(string \<Rightarrow> bool) option"
  gm_PayloadFunc :: "(string \<Rightarrow> claims) option"
  gm_Unauthorized :: "(int \<Rightarrow> string \<Rightarrow> int \<times> auth_body) option"
  gm_IdentityHandler :: "(claims \<Rightarrow> panic + string) option"
  gm_TokenLookup :: string
  gm_TokenHeadName :: string

record Login =
  lg_UserID :: string
  lg_DeviceID :: string
  lg_PushToken :: string
  lg_AppVersion :: string
  lg_DeviceType :: int
  lg_SeedPhraseType :: int

definition white :: "char \<Rightarrow> bool" where
  "white c \<longleftrightarrow> of_char c \<in> {9, 10, 11, 12, 13, 32 :: nat}"

definition TrimSpace :: "string \<Rightarrow> string" where
  "TrimSpace s = rev (dropWhile white (rev (dropWhile white s)))"

text \<open>The default identity handler asserts that the claim is a string.\<close>

definition default_identity :: "claims \<Rightarrow> panic + string" where
  "default_identity claims = (case map_of claims ''id'' of Some (CStr s) \<Rightarrow> Inr s | _ \<Rightarrow> Inl TypeAssertion)"

definition MiddlewareInit :: "GinJWTMiddleware \<Rightarrow> GinJWTMiddleware \<times> string option" where
  "MiddlewareInit mw =
     (let head = TrimSpace (gm_TokenHeadName mw);
          mw = mw\<lparr>gm_TokenLookup := (if gm_TokenLookup mw = [] then ''header:Authorization'' else gm_TokenLookup mw),
                  gm_SigningAlgorithm := (if gm_SigningAlgorithm mw = [] then ''HS256'' else gm_SigningAlgorithm mw),
                  gm_Timeout := (if gm_Timeout mw = 0 then Hour else gm_Timeout mw),
                  gm_TokenHeadName := (if head = [] then ''Bearer'' else head),
                  gm_Authorizator := (case gm_Authorizator mw of None \<Rightarrow> Some (\<lambda>userID. True) | Some a \<Rightarrow> Some a),
                  gm_Unauthorized := (case gm_Unauthorized mw of
                     None \<Rightarrow> Some (\<lambda>code message. (code, Message code message)) | Some u \<Rightarrow> Some u),
                  gm_IdentityHandler := (case gm_IdentityHandler mw of None \<Rightarrow> Some default_identity | Some h \<Rightarrow> Some h)\<rparr>
      in if gm_Realm mw = [] then (mw, Some ''realm is required'')
         else if gm_Key mw = None then (mw, Some ''secret key is required'')
         else (mw, None))"

definition unauthorized :: "GinJWTMiddleware \<Rightarrow> int \<Rightarrow> string \<Rightarrow> panic + auth_reply" where
  "unauthorized mw code message =
     (case gm_Unauthorized mw of
        None \<Rightarrow> Inl NilDereference
      | Some u \<Rightarrow> Inr \<lparr>ar_status = fst (u code message), ar_body = snd (u code message),
          ar_realm = Some (if gm_Realm mw = [] then ''gin jwt'' else gm_Realm mw)\<rparr>)"

section \<open>Tokens of a request\<close>

definition jwtFromHeader :: "GinJWTMiddleware \<Rightarrow> request \<Rightarrow> string \<Rightarrow> string + string" where
  "jwtFromHeader mw rq key =
     (let authHeader = rq_header rq key in
      if authHeader = [] then Inl ''auth header empty''
      else let parts = SplitN2 (CHR '' '') authHeader in
           if length parts = 2 \<and> parts ! 0 = gm_TokenHeadName mw then Inr (parts ! 1)
           else Inl ''invalid auth header'')"

definition jwtFromQuery :: "request \<Rightarrow> string \<Rightarrow> string + string" where
  "jwtFromQuery rq key = (if rq_query rq key = [] then Inl ''Query token empty'' else Inr (rq_query rq key))"

definition jwtFromCookie :: "request \<Rightarrow> string \<Rightarrow> string + string" where
  "jwtFromCookie rq key = (if rq_cookie rq key = [] then Inl ''Cookie token empty'' else Inr (rq_cookie rq key))"

definition lookup_token :: "GinJWTMiddleware \<Rightarrow> request \<Rightarrow> panic + (string + string)" where
  "lookup_token mw rq =
     (let parts = Split (CHR '':'') (gm_TokenLookup mw) in
      if parts ! 0 = ''header'' then bind_p (index parts 1) (\<lambda>key. Inr (jwtFromHeader mw rq key))
      else if parts ! 0 = ''query'' then bind_p (index parts 1) (\<lambda>key. Inr (jwtFromQuery rq key))
      else if parts ! 0 = ''cookie'' then bind_p (index parts 1) (\<lambda>key. Inr (jwtFromCookie rq key))
      else Inr (Inr []))"

definition keyfunc :: "GinJWTMiddleware \<Rightarrow> string \<Rightarrow> string + string" where
  "keyfunc mw alg =
     (if gm_SigningAlgorithm mw \<noteq> alg then Inl ''invalid signing algorithm''
      else Inr (case gm_Key mw of None \<Rightarrow> [] | Some key \<Rightarrow> key))"

definition parseToken :: "jwt \<Rightarrow> GinJWTMiddleware \<Rightarrow> int \<Rightarrow> request \<Rightarrow> panic + parsed" where
  "parseToken J mw now rq =
     bind_p (lookup_token mw rq) (\<lambda>r.
       case r of Inl err \<Rightarrow> Inr (NoToken err) | Inr token \<Rightarrow> Inr (j_parse J (keyfunc mw) (unix now) token))"

fun parse_error :: "parsed \<Rightarrow> claims + string" where
  "parse_error (NoToken err) = Inr err"
| "parse_error (TokenErr c err) = Inr err"
| "parse_error (TokenOk c) = Inl c"

datatype admission = Refused auth_reply | Admitted string claims

definition middlewareImpl :: "jwt \<Rightarrow> GinJWTMiddleware \<Rightarrow> int \<Rightarrow> request \<Rightarrow> panic + admission" where
  "middlewareImpl J mw now rq =
     bind_p (parseToken J mw now rq) (\<lambda>p.
       case parse_error p of
         Inr err \<Rightarrow> bind_p (unauthorized mw StatusUnauthorized err) (\<lambda>r. Inr (Refused r))
       | Inl claims \<Rightarrow>
           bind_p (case gm_IdentityHandler mw of None \<Rightarrow> Inl NilDereference | Some h \<Rightarrow> h claims) (\<lambda>id.
             case gm_Authorizator mw of
               None \<Rightarrow> Inl NilDereference
             | Some authorized \<Rightarrow>
                 if authorized id then Inr (Admitted id claims)
                 else bind_p (unauthorized mw StatusForbidden ''You don't have permission to access.'')
                        (\<lambda>r. Inr (Refused r))))"

definition MiddlewareFunc :: "jwt \<Rightarrow> GinJWTMiddleware \<Rightarrow> int \<Rightarrow> request \<Rightarrow> panic + admission" where
  "MiddlewareFunc J mw now rq =
     (case MiddlewareInit mw of
        (mw, Some err) \<Rightarrow> bind_p (unauthorized mw StatusInternalServerError err) (\<lambda>r. Inr (Refused r))
      | (mw, None) \<Rightarrow> middlewareImpl J mw now rq)"

section \<open>New tokens\<close>

text \<open>\<open>jwt.New\<close> calls a method of the signing method, nil for an unknown name.\<close>

definition sign_token :: "jwt \<Rightarrow> GinJWTMiddleware \<Rightarrow> claims \<Rightarrow> panic + (string + string)" where
  "sign_token J mw claims =
     (if j_method J (gm_SigningAlgorithm mw)
      then Inr (j_sign J (gm_SigningAlgorithm mw) (case gm_Key mw of None \<Rightarrow> [] | Some key \<Rightarrow> key) claims)
      else Inl NilDereference)"

definition new_claims :: "GinJWTMiddleware \<Rightarrow> string \<Rightarrow> int \<Rightarrow> claims" where
  "new_claims mw userID now =
     (let claims = fold (\<lambda>(key, v). set_claim key v)
            (case gm_PayloadFunc mw of None \<Rightarrow> [] | Some payload \<Rightarrow> payload userID) []
      in set_claim ''orig_iat'' (CNum (unix now))
           (set_claim ''exp'' (CNum (unix (now + gm_Timeout mw))) (set_claim ''id'' (CStr userID) claims)))"

definition TokenGenerator :: "jwt \<Rightarrow> GinJWTMiddleware \<Rightarrow> string \<Rightarrow> int \<Rightarrow> panic + (string + string \<times> int)" where
  "TokenGenerator J mw userID now =
     bind_p (sign_token J mw (new_claims mw userID now)) (\<lambda>r.
       Inr (case r of Inl err \<Rightarrow> Inl err | Inr tokenString \<Rightarrow> Inr (tokenString, now + gm_Timeout mw)))"

definition token_reply :: "int \<Rightarrow> string \<Rightarrow> int option \<Rightarrow> auth_reply" where
  "token_reply status token expire = \<lparr>ar_status = status, ar_body = TokenBody token expire, ar_realm = None\<rparr>"

text \<open>
  The error of the parser is dropped: without a token its claims are a nil dereference, without claims
  the assertion of their type fails.
\<close>

fun parsed_claims :: "parsed \<Rightarrow> panic + claims" where
  "parsed_claims (NoToken err) = Inl NilDereference"
| "parsed_claims (TokenErr None err) = Inl TypeAssertion"
| "parsed_claims (TokenErr (Some c) err) = Inr c"
| "parsed_claims (TokenOk c) = Inr c"

definition refreshed_claims :: "GinJWTMiddleware \<Rightarrow> int \<Rightarrow> int \<Rightarrow> claims \<Rightarrow> claims" where
  "refreshed_claims mw now origIat claims =
     set_claim ''orig_iat'' (CNum origIat)
       (set_claim ''exp'' (CNum (unix (now + gm_Timeout mw)))
         (set_claim ''id'' (case map_of claims ''id'' of None \<Rightarrow> CNil | Some v \<Rightarrow> v) claims))"

definition RefreshHandler :: "jwt \<Rightarrow> GinJWTMiddleware \<Rightarrow> int \<Rightarrow> request \<Rightarrow> panic + auth_reply" where
  "RefreshHandler J mw now rq =
     bind_p (parseToken J mw now rq) (\<lambda>p. bind_p (parsed_claims p) (\<lambda>claims.
       case map_of claims ''orig_iat'' of
         Some (CNum origIat) \<Rightarrow>
           if origIat < unix (now - gm_MaxRefresh mw) then unauthorized mw StatusUnauthorized ''Token is expired.''
           else bind_p (sign_token J mw (refreshed_claims mw now origIat claims)) (\<lambda>r.
             case r of
               Inl err \<Rightarrow> unauthorized mw StatusUnauthorized ''Create JWT Token faild''
             | Inr tokenString \<Rightarrow> Inr (token_reply StatusOK tokenString (Some (now + gm_Timeout mw))))
       | _ \<Rightarrow> Inl TypeAssertion))"

text \<open>What the middleware stored under \<open>JWT_PAYLOAD\<close>, if it ran.\<close>

definition ExtractClaims :: "claims option \<Rightarrow> claims" where
  "ExtractClaims payload = (case payload of None \<Rightarrow> [] | Some claims \<Rightarrow> claims)"

section \<open>The server's middleware and the login\<close>

definition Authenticator :: "mongo \<Rightarrow> string \<Rightarrow> db \<Rightarrow> User \<times> bool" where
  "Authenticator M userId d =
     (case FindUser M (by_userID userId) d of
        Inl err \<Rightarrow> (zero_user, False)
      | Inr user \<Rightarrow> (user, usr_UserID user \<noteq> []))"

definition initMiddlewareJWT :: "mongo \<Rightarrow> string \<Rightarrow> GinJWTMiddleware" where
  "initMiddlewareJWT M secretkey =
     \<lparr>gm_Realm = ''test zone'', gm_SigningAlgorithm = [], gm_Key = Some secretkey, gm_Timeout = Hour,
      gm_MaxRefresh = Hour, gm_Authenticator = Some (Authenticator M), gm_Authorizator = None,
      gm_PayloadFunc = None, gm_Unauthorized = None, gm_IdentityHandler = None,
      gm_TokenLookup = ''header:Authorization'', gm_TokenHeadName = ''Bearer''\<rparr>"

text \<open>The reply after a write of the database.\<close>

definition saved_reply :: "string \<Rightarrow> int \<Rightarrow> db \<times> mgo_error option \<Rightarrow> auth_reply \<times> db" where
  "saved_reply tokenString expire r =
     (case snd r of
        Some err \<Rightarrow> (token_reply StatusInternalServerError [] None, fst r)
      | None \<Rightarrow> (token_reply StatusOK tokenString (Some expire), fst r))"

text \<open>\<open>\<open>devices.$.JWT\<close>\<close>: the first device of the document that has the old token.\<close>

definition refresh_device :: "string \<Rightarrow> string \<Rightarrow> User \<Rightarrow> User" where
  "refresh_device old new user =
     user\<lparr>usr_Devices := update_first (\<lambda>d. dev_JWT d = old) (\<lambda>d. d\<lparr>dev_JWT := new\<rparr>) (usr_Devices user)\<rparr>"

definition new_user_login ::
  "mongo \<Rightarrow> int \<Rightarrow> string \<Rightarrow> Login \<Rightarrow> string \<Rightarrow> int \<Rightarrow> db \<Rightarrow> auth_reply \<times> db" where
  "new_user_login M now ip lg tokenString expire d =
     (if \<not> IsSeedPhraseTypeValid (lg_SeedPhraseType lg)
      then (\<lparr>ar_status = StatusNotAcceptable, ar_body = SeedErr msgErrWrongSeedPhraseType, ar_realm = None\<rparr>, d)
      else let device = createDevice (unix now) (lg_DeviceID lg) ip tokenString (lg_PushToken lg)
                 (lg_AppVersion lg) (lg_DeviceType lg)
           in saved_reply tokenString expire
                (Insert M (createUser (lg_UserID lg) [device] [] (lg_SeedPhraseType lg)) d))"

definition old_user_login ::
  "mongo \<Rightarrow> int \<Rightarrow> string \<Rightarrow> Login \<Rightarrow> User \<Rightarrow> string \<Rightarrow> int \<Rightarrow> db \<Rightarrow> auth_reply \<times> db" where
  "old_user_login M now ip lg user tokenString expire d =
     (case find (\<lambda>concreteDevice. dev_DeviceID concreteDevice = lg_DeviceID lg) (usr_Devices user) of
        Some concreteDevice \<Rightarrow>
          saved_reply tokenString expire
            (users_update M (\<lambda>u. by_userID (usr_UserID user) u \<and> by_jwt (dev_JWT concreteDevice) u)
               (refresh_device (dev_JWT concreteDevice) tokenString) d)
      | None \<Rightarrow>
          (let device = createDevice (unix now) (lg_DeviceID lg) ip tokenString (lg_PushToken lg)
                 (lg_AppVersion lg) (lg_DeviceType lg)
           in saved_reply tokenString expire
                (UpdateUser M (by_userID (lg_UserID lg))
                   (user\<lparr>usr_Devices := usr_Devices user @ [device]\<rparr>) d)))"

text \<open>
  A login whose document has been read and whose token is signed, before its one write of the database.
  \<open>pn_known\<close> is what the authenticator answered.
\<close>

record pending_login =
  pn_login :: Login
  pn_now :: int
  pn_ip :: string
  pn_user :: User
  pn_known :: bool
  pn_token :: string
  pn_expire :: int

text \<open>
  The handler up to its write: the reply of a login that is refused, or the pending login. \<open>None\<close>: the
  body is not a login, or a required field of it is missing.
\<close>

definition login_reads ::
  "mongo \<Rightarrow> jwt \<Rightarrow> GinJWTMiddleware \<Rightarrow> int \<Rightarrow> string \<Rightarrow> Login option \<Rightarrow> db \<Rightarrow> panic + (auth_reply + pending_login)" where
  "login_reads M J mw now ip loginVals d =
     (let (mw, err) = MiddlewareInit mw in
      case loginVals of
        None \<Rightarrow> bind_p (unauthorized mw StatusBadRequest
                  ''Missing UserID, DeviceID, PushToken, AppVersion or DeviceType'') (\<lambda>r. Inr (Inl r))
      | Some lg \<Rightarrow>
          (case gm_Authenticator mw of
             None \<Rightarrow> bind_p (unauthorized mw StatusInternalServerError ''Missing define authenticator func'')
                       (\<lambda>r. Inr (Inl r))
           | Some authenticate \<Rightarrow>
               (let (user, ok) = authenticate (lg_UserID lg) d;
                    expire = now + gm_Timeout mw
                in bind_p (sign_token J mw (new_claims mw (lg_UserID lg) now)) (\<lambda>r.
                     case r of
                       Inl err \<Rightarrow> bind_p (unauthorized mw StatusUnauthorized ''Create JWT Token faild'') (\<lambda>r. Inr (Inl r))
                     | Inr tokenString \<Rightarrow>
                         Inr (Inr \<lparr>pn_login = lg, pn_now = now, pn_ip = ip, pn_user = user, pn_known = ok,
                           pn_token = tokenString, pn_expire = expire\<rparr>)))))"

definition login_writes :: "mongo \<Rightarrow> pending_login \<Rightarrow> db \<Rightarrow> auth_reply \<times> db" where
  "login_writes M p d =
     (if \<not> pn_known p then new_user_login M (pn_now p) (pn_ip p) (pn_login p) (pn_token p) (pn_expire p) d
      else old_user_login M (pn_now p) (pn_ip p) (pn_login p) (pn_user p) (pn_token p) (pn_expire p) d)"

text \<open>A login during which nothing else happens.\<close>

definition LoginHandler ::
  "mongo \<Rightarrow> jwt \<Rightarrow> GinJWTMiddleware \<Rightarrow> int \<Rightarrow> string \<Rightarrow> Login option \<Rightarrow> db \<Rightarrow> panic + auth_reply \<times> db" where
  "LoginHandler M J mw now ip loginVals d =
     bind_p (login_reads M J mw now ip loginVals d) (\<lambda>r.
       Inr (case r of Inl answer \<Rightarrow> (answer, d) | Inr p \<Rightarrow> login_writes M p d))"

end
