(* ===== verification/Sha512.thy ===== *)
theory Sha512
  imports Prelude
begin

unbundle bit_operations_syntax

text \<open>
  \<open>crypto/sha512\<close>, \<open>crypto/hmac\<close> and \<open>encoding/hex\<close> of the standard
  library, as the back end uses them: the digest of a byte string, the keyed digest and the lower-case
  hexadecimal text. Strings are byte strings.
\<close>

type_synonym w64 = "64 word"

definition K512 :: "w64 list" where
  "K512 =
    [4794697086780616226, 8158064640168781261, 13096744586834688815,
     16840607885511220156, 4131703408338449720, 6480981068601479193,
     10538285296894168987, 12329834152419229976, 15566598209576043074,
     1334009975649890238, 2608012711638119052, 6128411473006802146,
     8268148722764581231, 9286055187155687089, 11230858885718282805,
     13951009754708518548, 16472876342353939154, 17275323862435702243,
     1135362057144423861, 2597628984639134821, 3308224258029322869,
     5365058923640841347, 6679025012923562964, 8573033837759648693,
     10970295158949994411, 12119686244451234320, 12683024718118986047,
     13788192230050041572, 14330467153632333762, 15395433587784984357,
     489312712824947311, 1452737877330783856, 2861767655752347644,
     3322285676063803686, 5560940570517711597, 5996557281743188959,
     7280758554555802590, 8532644243296465576, 9350256976987008742,
     10552545826968843579, 11727347734174303076, 12113106623233404929,
     14000437183269869457, 14369950271660146224, 15101387698204529176,
     15463397548674623760, 17586052441742319658, 1182934255886127544,
     1847814050463011016, 2177327727835720531, 2830643537854262169,
     3796741975233480872, 4115178125766777443, 5681478168544905931,
     6601373596472566643, 7507060721942968483, 8399075790359081724,
     8693463985226723168, 9568029438360202098, 10144078919501101548,
     10430055236837252648, 11840083180663258601, 13761210420658862357,
     14299343276471374635, 14566680578165727644, 15097957966210449927,
     16922976911328602910, 17689382322260857208, 500013540394364858,
     748580250866718886, 1242879168328830382, 1977374033974150939,
     2944078676154940804, 3659926193048069267, 4368137639120453308,
     4836135668995329356, 5532061633213252278, 6448918945643986474,
     6902733635092675308, 7801388544844847127]"

definition H512 :: "w64 list" where
  "H512 =
    [7640891576956012808, 13503953896175478587, 4354685564936845355,
     11912009170470909681, 5840696475078001361, 11170449401992604703,
     2270897969802886507, 6620516959819538809]"

definition rotr :: "nat \<Rightarrow> w64 \<Rightarrow> w64" where
  "rotr n x = drop_bit n x OR push_bit (64 - n) x"

definition big_sigma0 :: "w64 \<Rightarrow> w64" where "big_sigma0 x = (rotr 28 x XOR rotr 34 x) XOR rotr 39 x"
definition big_sigma1 :: "w64 \<Rightarrow> w64" where "big_sigma1 x = (rotr 14 x XOR rotr 18 x) XOR rotr 41 x"
definition small_sigma0 :: "w64 \<Rightarrow> w64" where "small_sigma0 x = (rotr 1 x XOR rotr 8 x) XOR drop_bit 7 x"
definition small_sigma1 :: "w64 \<Rightarrow> w64" where "small_sigma1 x = (rotr 19 x XOR rotr 61 x) XOR drop_bit 6 x"

definition sha_ch :: "w64 \<Rightarrow> w64 \<Rightarrow> w64 \<Rightarrow> w64" where "sha_ch x y z = (x AND y) XOR (NOT x AND z)"
definition sha_maj :: "w64 \<Rightarrow> w64 \<Rightarrow> w64 \<Rightarrow> w64" where "sha_maj x y z = ((x AND y) XOR (x AND z)) XOR (y AND z)"

text \<open>The message schedule, newest word first: \<open>w ! 1\<close> is two words back.\<close>

fun schedule :: "nat \<Rightarrow> w64 list \<Rightarrow> w64 list" where
  "schedule 0 w = rev w"
| "schedule (Suc n) w =
     schedule n ((small_sigma1 (w ! 1) + w ! 6 + small_sigma0 (w ! 14) + w ! 15) # w)"

type_synonym sha_state = "w64 \<times> w64 \<times> w64 \<times> w64 \<times> w64 \<times> w64 \<times> w64 \<times> w64"

fun sha_round :: "w64 \<times> w64 \<Rightarrow> sha_state \<Rightarrow> sha_state" where
  "sha_round (k, w) (a, b, c, d, e, f, g, h) =
     (let t1 = h + big_sigma1 e + sha_ch e f g + k + w;
          t2 = big_sigma0 a + sha_maj a b c
      in (t1 + t2, a, b, c, d + t1, e, f, g))"

fun to_state :: "w64 list \<Rightarrow> sha_state" where
  "to_state [a, b, c, d, e, f, g, h] = (a, b, c, d, e, f, g, h)"
| "to_state xs = (0, 0, 0, 0, 0, 0, 0, 0)"

fun of_state :: "sha_state \<Rightarrow> w64 list" where
  "of_state (a, b, c, d, e, f, g, h) = [a, b, c, d, e, f, g, h]"

definition sha_block :: "w64 list \<Rightarrow> w64 list \<Rightarrow> w64 list" where
  "sha_block block hs =
     map2 (+) hs (of_state (fold sha_round (zip K512 (schedule 64 (rev block))) (to_state hs)))"

section \<open>Bytes and words\<close>

definition bytes_of_nat :: "nat \<Rightarrow> nat \<Rightarrow> nat list" where
  "bytes_of_nat len n = map (\<lambda>i. n div 256 ^ (len - 1 - i) mod 256) [0..<len]"

definition word_of_bytes :: "nat list \<Rightarrow> w64" where
  "word_of_bytes bs = of_nat (foldl (\<lambda>n b. n * 256 + b) 0 bs)"

fun chunks :: "nat \<Rightarrow> nat \<Rightarrow> 'a list \<Rightarrow> 'a list list" where
  "chunks 0 k xs = []"
| "chunks (Suc n) k xs = take k xs # chunks n k (drop k xs)"

definition sha_pad :: "nat list \<Rightarrow> nat list" where
  "sha_pad msg =
     (let z = (239 - length msg mod 128) mod 128 in
      msg @ [128] @ replicate z 0 @ bytes_of_nat 16 (length msg * 8))"

definition sha512_bytes :: "nat list \<Rightarrow> nat list" where
  "sha512_bytes msg =
     (let p = sha_pad msg in
      concat (map (\<lambda>w. bytes_of_nat 8 (unat w))
        (fold (\<lambda>b hs. sha_block (map word_of_bytes (chunks 16 8 b)) hs)
           (chunks (length p div 128) 128 p) H512)))"

definition hmac512_bytes :: "nat list \<Rightarrow> nat list \<Rightarrow> nat list" where
  "hmac512_bytes key msg =
     (let k = (if length key > 128 then sha512_bytes key else key);
          k' = k @ replicate (128 - length k) 0
      in sha512_bytes (map (\<lambda>b. b XOR 92) k' @ sha512_bytes (map (\<lambda>b. b XOR 54) k' @ msg)))"

definition str_bytes :: "string \<Rightarrow> nat list" where
  "str_bytes s = map of_char s"

definition EncodeToString :: "nat list \<Rightarrow> string" where
  "EncodeToString bs = concat (map (\<lambda>b. [digit_char (b div 16), digit_char (b mod 16)]) bs)"

definition sha512_hex :: "string \<Rightarrow> string" where
  "sha512_hex s = EncodeToString (sha512_bytes (str_bytes s))"

definition hmac_sha512_hex :: "string \<Rightarrow> string \<Rightarrow> string" where
  "hmac_sha512_hex key msg = EncodeToString (hmac512_bytes (str_bytes key) (str_bytes msg))"

lemma length_EncodeToString [simp]: "length (EncodeToString bs) = 2 * length bs"
  by (induction bs) (simp_all add: EncodeToString_def)

lemma length_bytes_of_nat [simp]: "length (bytes_of_nat len n) = len"
  by (simp add: bytes_of_nat_def)

end
