(* ===== verification/Wallets.thy ===== *)
theory Wallets
  imports Rest Sha512
begin

text \<open>
  The wallet handlers of the REST API (\<open>client/rest.go\<close>): creating, importing, renaming and
  deleting wallets and multisigs, adding addresses, sending transactions and asking for a
  resynchronisation. A handler returns the state and the reply; a reply that is missing (the
  code returns without writing one) is \<open>None\<close>, and a handler that can panic
  returns a sum. Goroutines started by a handler run to their end before it returns.
\<close>

section \<open>Creating wallets and multisigs\<close>

definition rest_update ::
  "mongo \<Rightarrow> (User \<Rightarrow> bool) \<Rightarrow> (User \<Rightarrow> User) \<Rightarrow> rest_state \<Rightarrow> rest_state \<times> mgo_error option" where
  "rest_update M sel upd s =
     (let (d, e) = users_update M sel upd (rs_db s) in (s\<lparr>rs_db := d\<rparr>, e))"

definition push_wallet :: "Wallet \<Rightarrow> User \<Rightarrow> User" where
  "push_wallet w u = u\<lparr>usr_Wallets := usr_Wallets u @ [w]\<rparr>"

definition push_multisig :: "Multisig \<Rightarrow> User \<Rightarrow> User" where
  "push_multisig m u = set_multisigs (usr_Multisigs u @ [m]) u"

definition first_address_is :: "string \<Rightarrow> Wallet \<Rightarrow> bool" where
  "first_address_is a w \<longleftrightarrow> (case wal_Adresses w of [] \<Rightarrow> False | ad # _ \<Rightarrow> adr_Address ad = a)"

text \<open>
  The wallet to store and the address to watch, or the error. The look-up of a known imported
  address compares the address as it was sent; the stored one is in lower case.
\<close>

definition new_wallet ::
  "int \<Rightarrow> int \<Rightarrow> WalletParams \<Rightarrow> bool \<Rightarrow> User \<Rightarrow> string + (Wallet \<times> (rest_state \<Rightarrow> rest_state))" where
  "new_wallet now nano wp isEmpty user =
     (if \<not> wp_IsImported wp then
        if list_ex (wallet_key (wp_CurrencyID wp) (wp_NetworkID wp) (wp_WalletIndex wp)) (usr_Wallets user)
        then Inl msgErrWalletIndex
        else
          (let address = (if wp_CurrencyID wp = Ether then ToLower (wp_Address wp) else wp_Address wp);
               walletStatus = (if isEmpty then WalletStatusDeleted else WalletStatusOK)
           in Inr (createWallet now nano (wp_CurrencyID wp) (wp_NetworkID wp) address (wp_AddressIndex wp)
                     (wp_WalletIndex wp) (wp_WalletName wp) (wp_IsImported wp) walletStatus,
                   NewAddressNode address (usr_UserID user) (wp_CurrencyID wp) (wp_NetworkID wp)
                     (wp_WalletIndex wp) (wp_AddressIndex wp)))
      else
        if list_ex (\<lambda>w. same_chain (wp_CurrencyID wp) (wp_NetworkID wp) w \<and> first_address_is (wp_Address wp) w)
             (usr_Wallets user)
        then Inl msgErrKnownAddres
        else if length (wp_Address wp) < 2 then Inl msgErrWrongBadAddress
        else Inr (createWallet now nano (wp_CurrencyID wp) (wp_NetworkID wp) (ToLower (wp_Address wp)) 0 (- 1)
                    (wp_WalletName wp) (wp_IsImported wp) WalletStatusOK,
                  NewAddressNode (wp_Address wp) ''imported'' (wp_CurrencyID wp) (wp_NetworkID wp) (- 1) 0))"

definition createCustomWallet ::
  "mongo \<Rightarrow> int \<Rightarrow> int \<Rightarrow> WalletParams \<Rightarrow> string \<Rightarrow> bool \<Rightarrow> rest_state \<Rightarrow> rest_state \<times> string option" where
  "createCustomWallet M now nano wp token isEmpty s =
     (case FindUser M (by_jwt token) (rs_db s) of
        Inl e \<Rightarrow> (s, Some msgErrUserNotFound)
      | Inr user \<Rightarrow>
          (case new_wallet now nano wp isEmpty user of
             Inl e \<Rightarrow> (s, Some e)
           | Inr (wallet, tell_node) \<Rightarrow>
               (let (s', e) = rest_update M (by_jwt token) (push_wallet wallet) (tell_node s)
                in (s', map_option (\<lambda>_. msgErrServerError) e))))"

definition createCustomMultisig ::
  "mongo \<Rightarrow> int \<Rightarrow> WalletParams \<Rightarrow> string \<Rightarrow> rest_state \<Rightarrow> rest_state \<times> (string + Multisig)" where
  "createCustomMultisig M now wp token s =
     (case FindUser M (by_jwt token) (rs_db s) of
        Inl e \<Rightarrow> (s, Inl msgErrUserNotFound)
      | Inr user \<Rightarrow>
          (let multisg = createMultisig now (wp_CurrencyID wp) (wp_NetworkID wp) (wp_AddressIndex wp) (wp_WalletIndex wp)
                 (mw_SignaturesRequired (wp_Multisig wp)) (mw_OwnersCount (wp_Multisig wp)) (usr_UserID user)
                 (ToLower (wp_Address wp)) (wp_WalletName wp) (ToLower (mw_InviteCode (wp_Multisig wp)));
               (s', e) = rest_update M (by_jwt token) (push_multisig multisg) s
           in (s', case e of None \<Rightarrow> Inr multisg | Some e \<Rightarrow> Inl msgErrServerError)))"

section \<open>Importing a multisig\<close>

definition related_wallet :: "string \<Rightarrow> User \<Rightarrow> int option" where
  "related_wallet address user =
     fold (\<lambda>w r. if first_address_is address w then Some (wal_WalletIndex w) else r) (usr_Wallets user) None"

definition own_owner :: "User \<Rightarrow> string \<Rightarrow> int \<Rightarrow> int \<Rightarrow> AddressExtended" where
  "own_owner user address walletIndex addressIndex =
     zero_ae\<lparr>ae_UserID := usr_UserID user, ae_Address := address, ae_Associated := True,
       ae_WalletIndex := walletIndex, ae_AddressIndex := addressIndex\<rparr>"

definition import_owners :: "User \<Rightarrow> string \<Rightarrow> int \<Rightarrow> int \<Rightarrow> string list \<Rightarrow> AddressExtended list" where
  "import_owners user address walletIndex addressIndex owners =
     map (\<lambda>owner. if owner = address then own_owner user owner walletIndex addressIndex
                  else zero_ae\<lparr>ae_Address := owner\<rparr>) owners"

definition import_code :: "string \<Rightarrow> string" where
  "import_code contractAddress = take 45 (sha512_hex contractAddress)"

fun tell_members ::
  "mongo \<Rightarrow> owner_order \<Rightarrow> Multisig \<Rightarrow> User list \<Rightarrow> rest_state \<Rightarrow> rest_state" where
  "tell_members M ord multisig [] s = s"
| "tell_members M ord multisig (user # users) s =
     tell_members M ord multisig users
       (s\<lparr>rs_db := fst (updateUserOwners M ord user multisig MultisigStatusDeployed (rs_db s)),
          rs_sent := rs_sent s @
            [\<lparr>wr_Type = JoinMultisig_msg, wr_To = usr_UserID user, wr_Payload = WMultisig multisig\<rparr>]\<rparr>)"

definition join_imported ::
  "mongo \<Rightarrow> owner_order \<Rightarrow> User \<Rightarrow> string \<Rightarrow> int \<Rightarrow> int \<Rightarrow> string \<Rightarrow> User list \<Rightarrow> rest_state \<Rightarrow>
   rest_state \<times> Multisig http_reply" where
  "join_imported M ord user address walletIndex addressIndex invitecode msUsers s =
     (case FindMultisig M (usr_UserID (hd msUsers)) invitecode (rs_db s) of
        (multisig, Some err) \<Rightarrow> (s, bad_reply (Error err))
      | (multisig, None) \<Rightarrow>
          (let ms = multisig\<lparr>ms_Owners :=
                 import_owners user address walletIndex addressIndex (map ae_Address (ms_Owners multisig))\<rparr>;
               (d, e) = JoinMultisig M (usr_UserID user) ms (rs_db s)
           in case e of
                Some e \<Rightarrow> (s\<lparr>rs_db := d\<rparr>, bad_reply (mgo_text e))
              | None \<Rightarrow> (tell_members M ord ms msUsers (s\<lparr>rs_db := d\<rparr>), reply StatusCreated StatusCreated [])))"

definition eth_chan :: "int \<Rightarrow> watch_chan option" where
  "eth_chan networkID = (if networkID = ETHMain then Some EthMain else if networkID = ETHTest then Some EthTest else None)"

definition insert_imported ::
  "mongo \<Rightarrow> nodes \<Rightarrow> int \<Rightarrow> WalletParams \<Rightarrow> string \<Rightarrow> string \<Rightarrow> int \<Rightarrow> string \<Rightarrow> AddressExtended list \<Rightarrow> rest_state \<Rightarrow>
   rest_state \<times> Multisig http_reply" where
  "insert_imported M N now wp token contract confirmations invitecode owners s =
     (let ms = importMultisig now (wp_CurrencyID wp) (wp_NetworkID wp) confirmations invitecode contract
            (wp_WalletName wp) owners
      in case (case eth_chan (wp_NetworkID wp) of None \<Rightarrow> None | Some ch \<Rightarrow> n_add_multisig N ch contract) of
           Some err \<Rightarrow> (s, bad_reply err)
         | None \<Rightarrow>
             (let (s', e) = rest_update M (by_jwt token) (push_multisig ms) s
              in case e of
                   Some e \<Rightarrow> (s', bad_reply (mgo_text e))
                 | None \<Rightarrow> (s', reply StatusCreated StatusOK ''OK'')))"

definition import_multisig_wallet ::
  "mongo \<Rightarrow> nodes \<Rightarrow> owner_order \<Rightarrow> int \<Rightarrow> WalletParams \<Rightarrow> string \<Rightarrow> rest_state \<Rightarrow> rest_state \<times> Multisig http_reply" where
  "import_multisig_wallet M N ord now wp token s =
     (let contract = ToLower (mw_ContractAddress (wp_Multisig wp));
          (msInfo, err) = (case eth_chan (wp_NetworkID wp) of
             None \<Rightarrow> (\<lparr>ci_ConfirmationsRequired = 0, ci_ContractOwners = []\<rparr>, None)
           | Some ch \<Rightarrow> n_multisig_info N ch contract)
      in case err of
           Some err \<Rightarrow> (s, reply StatusBadRequest StatusOK err)
         | None \<Rightarrow>
      (case FindUser M (by_jwt token) (rs_db s) of
         Inl e \<Rightarrow> (s, bad_reply (mgo_text e))
       | Inr user \<Rightarrow>
      (case related_wallet (wp_Address wp) user of
         None \<Rightarrow> (s, bad_reply ''no such addres owner'')
       | Some walletIndex \<Rightarrow>
          if list_ex (\<lambda>m. ToLower (ms_ContractAddress m) = contract) (usr_Multisigs user)
          then (s, bad_reply ''multisig already exist'')
          else
            (let members = length (filter (\<lambda>owner. owner = wp_Address wp) (ci_ContractOwners msInfo)) in
             if members = 0 then (s, bad_reply ''address are not member of multisig'')
             else if members > 1 then (s, bad_reply ''address are not member of multisig'')
             else
               (let invitecode = import_code contract;
                    msUsers = FindMultisigUsers M invitecode (rs_db s)
                in if msUsers \<noteq> []
                   then join_imported M ord user (wp_Address wp) walletIndex (wp_AddressIndex wp) invitecode msUsers s
                   else insert_imported M N now wp token contract (ci_ConfirmationsRequired msInfo) invitecode
                          (import_owners user (wp_Address wp) walletIndex (wp_AddressIndex wp)
                             (ci_ContractOwners msInfo)) s)))))"

section \<open>The handler of new wallets\<close>

definition create_multisig_wallet ::
  "mongo \<Rightarrow> int \<Rightarrow> WalletParams \<Rightarrow> string \<Rightarrow> rest_state \<Rightarrow> rest_state \<times> Multisig http_reply" where
  "create_multisig_wallet M now wp token s =
     (let ms = wp_Multisig wp in
      if mw_OwnersCount ms < mw_SignaturesRequired ms \<or> mw_OwnersCount ms < 2
      then (s, bad_reply ''owners count should be less or equal than required signatures'')
      else if \<not> CheckInviteCode M (mw_InviteCode ms) (rs_db s)
      then (s, bad_reply ''already existed invite code'')
      else case createCustomMultisig M now wp token s of
             (s', Inl err) \<Rightarrow> (s', bad_reply err)
           | (s', Inr multisig) \<Rightarrow> (s', reply_with StatusCreated StatusOK [] multisig))"

definition addWallet ::
  "mongo \<Rightarrow> nodes \<Rightarrow> owner_order \<Rightarrow> int \<Rightarrow> int \<Rightarrow> string \<Rightarrow> WalletParams option \<Rightarrow> rest_state \<Rightarrow>
   rest_state \<times> Multisig http_reply" where
  "addWallet M N ord now nano header body s =
     (case getToken header of
        Inl e \<Rightarrow> (s, bad_reply e)
      | Inr token \<Rightarrow>
      (case body of
         None \<Rightarrow> (s, bad_reply msgErrRequestBodyError)
       | Some wp \<Rightarrow>
      (case CheckAddWallet M wp token (rs_db s) of
         Some err \<Rightarrow> (s, reply StatusNotAcceptable StatusNotAcceptable (Error err))
       | None \<Rightarrow>
           if mw_IsMultisig (wp_Multisig wp) then
             if \<not> mw_IsImported (wp_Multisig wp) then create_multisig_wallet M now wp token s
             else import_multisig_wallet M N ord now wp token s
           else
             (case createCustomWallet M now nano wp token False s of
                (s', Some err) \<Rightarrow> (s', bad_reply err)
              | (s', None) \<Rightarrow> (s', reply StatusCreated StatusOK ''OK'')))))"

end
