(* ===== verification/Wallet_Ops.thy ===== *)
theory Wallet_Ops
  imports Wallets
begin

text \<open>
  The other wallet handlers of \<open>client/rest.go\<close>: discovery, names, addresses, deletion,
  raw transactions, spendable outputs, resynchronisation and broken wallets.
\<close>

section \<open>Discovering wallets\<close>

record DiscoverAddress =
  da_WalletIndex :: int
  da_WalletName :: string
  da_AddressIndex :: int
  da_Address :: string

record DiscoverWallets =
  dw_CurrencyID :: int
  dw_NetworkID :: int
  dw_Addresses :: "DiscoverAddress list"

definition no_multisig :: MultisigWallet where
  "no_multisig = \<lparr>mw_IsMultisig = False, mw_SignaturesRequired = 0, mw_OwnersCount = 0, mw_InviteCode = [],
     mw_IsImported = False, mw_ContractAddress = []\<rparr>"

definition discover_params :: "int \<Rightarrow> int \<Rightarrow> DiscoverAddress \<Rightarrow> WalletParams" where
  "discover_params currencyID networkID address =
     \<lparr>wp_CurrencyID = currencyID, wp_NetworkID = networkID, wp_Address = da_Address address,
      wp_AddressIndex = da_AddressIndex address, wp_WalletIndex = da_WalletIndex address,
      wp_WalletName = da_WalletName address, wp_IsImported = False, wp_Multisig = no_multisig\<rparr>"

text \<open>The node is asked by the network number alone; an error of the call counts as not empty.\<close>

definition discover_empty :: "nodes \<Rightarrow> int \<Rightarrow> string \<Rightarrow> bool" where
  "discover_empty N networkID address =
     (case eth_chan networkID of None \<Rightarrow> False | Some ch \<Rightarrow> n_is_empty N ch address)"

fun discover_loop ::
  "mongo \<Rightarrow> nodes \<Rightarrow> int \<Rightarrow> int \<Rightarrow> string \<Rightarrow> int \<Rightarrow> int \<Rightarrow> DiscoverAddress list \<Rightarrow> rest_state \<Rightarrow>
   rest_state \<times> string option" where
  "discover_loop M N now nano token currencyID networkID [] s = (s, None)"
| "discover_loop M N now nano token currencyID networkID (address # addresses) s =
     (case createCustomWallet M now nano (discover_params currencyID networkID address) token
             (discover_empty N networkID (da_Address address)) s of
        (s', Some err) \<Rightarrow>
          if err = msgErrWalletIndex
          then discover_loop M N now nano token currencyID networkID addresses s'
          else (s', Some err)
      | (s', None) \<Rightarrow> discover_loop M N now nano token currencyID networkID addresses s')"

definition discoverWallets ::
  "mongo \<Rightarrow> nodes \<Rightarrow> int \<Rightarrow> int \<Rightarrow> string \<Rightarrow> DiscoverWallets option \<Rightarrow> rest_state \<Rightarrow> rest_state \<times> unit http_reply" where
  "discoverWallets M N now nano header body s =
     (case getToken header of
        Inl e \<Rightarrow> (s, bad_reply e)
      | Inr token \<Rightarrow>
      (case body of
         None \<Rightarrow> (s, bad_reply msgErrRequestBodyError)
       | Some dw \<Rightarrow>
      (case discover_loop M N now nano token (dw_CurrencyID dw) (dw_NetworkID dw) (dw_Addresses dw) s of
         (s', Some err) \<Rightarrow> (s', bad_reply err)
       | (s', None) \<Rightarrow> (s', reply StatusOK StatusOK ''OK''))))"

section \<open>Names\<close>

record ChangeName =
  cn_WalletName :: string
  cn_CurrencyID :: int
  cn_WalletIndex :: int
  cn_NetworkID :: int
  cn_Address :: string
  cn_Type :: int

definition rename_wallet :: "string \<Rightarrow> Wallet \<Rightarrow> Wallet" where
  "rename_wallet name w = w\<lparr>wal_WalletName := name\<rparr>"

definition rename_sel :: "string \<Rightarrow> int \<Rightarrow> int \<Rightarrow> User \<Rightarrow> bool" where
  "rename_sel userid walletIndex networkID u \<longleftrightarrow>
     by_userID userid u \<and> list_ex (\<lambda>w. wal_WalletIndex w = walletIndex) (usr_Wallets u) \<and>
     list_ex (\<lambda>w. wal_NetworkID w = networkID) (usr_Wallets u)"

text \<open>
  The selector of a multisig asks for the key \<open>multisig.contractaddress\<close>; the documents have
  \<open>multisig.contractAddress\<close>, so it selects nothing.
\<close>

definition changeName ::
  "mongo \<Rightarrow> ChangeName \<Rightarrow> string \<Rightarrow> rest_state \<Rightarrow> rest_state \<times> string option" where
  "changeName M cn token s =
     (case FindUser M (by_jwt token) (rs_db s) of
        Inl e \<Rightarrow> (s, Some msgErrUserNotFound)
      | Inr user \<Rightarrow>
          if cn_Type cn = AssetTypeMultyAddress then
            (let (s', e) = rest_update M (rename_sel (usr_UserID user) (cn_WalletIndex cn) (cn_NetworkID cn))
                   (at_wallet (wallet_position (cn_CurrencyID cn) (cn_NetworkID cn) (cn_WalletIndex cn) user)
                      (rename_wallet (cn_WalletName cn))) s
             in (s', map_option (\<lambda>e. ''changeName:restClient.userStore.Update:AssetTypeMultyAddress '' @ mgo_text e) e))
          else if cn_Type cn = AssetTypeImportedAddress then
            (let (s', e) = rest_update M (\<lambda>u. by_userID (usr_UserID user) u \<and> user_has_addr (cn_Address cn) u)
                   (at_first_wallet (has_addr (cn_Address cn)) (rename_wallet (cn_WalletName cn))) s
             in (s', map_option (\<lambda>e. ''changeName:restClient.userStore.Update:AssetTypeImportedAddress '' @ mgo_text e) e))
          else if cn_Type cn = AssetTypeMultisig then
            (let (s', e) = rest_update M (\<lambda>u. False) (\<lambda>u. u) s
             in (s', map_option (\<lambda>e. ''changeName:restClient.userStore.Update:AssetTypeMultisig '' @ mgo_text e) e))
          else (s, Some msgErrNoWallet))"

definition changeWalletName ::
  "mongo \<Rightarrow> string \<Rightarrow> ChangeName option \<Rightarrow> rest_state \<Rightarrow> rest_state \<times> unit http_reply" where
  "changeWalletName M header body s =
     (case getToken header of
        Inl e \<Rightarrow> (s, bad_reply e)
      | Inr token \<Rightarrow>
      (case body of
         None \<Rightarrow> (s, bad_reply msgErrRequestBodyError)
       | Some cn \<Rightarrow>
      (case changeName M cn token s of
         (s', Some err) \<Rightarrow> (s', bad_reply ''Bad Request'')
       | (s', None) \<Rightarrow> (s', reply StatusOK StatusOK ''OK''))))"

section \<open>Addresses\<close>

record SelectWallet =
  sw_CurrencyID :: int
  sw_NetworkID :: int
  sw_WalletIndex :: int
  sw_Address :: string
  sw_AddressIndex :: int

text \<open>The loop goes on after a match: the position is that of the last wallet with the key.\<close>

definition address_position :: "int \<Rightarrow> int \<Rightarrow> int \<Rightarrow> User \<Rightarrow> nat" where
  "address_position currencyID networkid walletIndex user =
     fold (\<lambda>i position. if wallet_key currencyID networkid walletIndex (usr_Wallets user ! i) then i else position)
       [0..<length (usr_Wallets user)] 0"

definition index_taken :: "int \<Rightarrow> int \<Rightarrow> int \<Rightarrow> int \<Rightarrow> User \<Rightarrow> bool" where
  "index_taken currencyID networkid walletIndex addressIndex user \<longleftrightarrow>
     list_ex (\<lambda>w. wallet_key currencyID networkid walletIndex w \<and>
       list_ex (\<lambda>a. adr_AddressIndex a = addressIndex) (wal_Adresses w)) (usr_Wallets user)"

definition push_address :: "Address \<Rightarrow> Wallet \<Rightarrow> Wallet" where
  "push_address a w = w\<lparr>wal_Adresses := wal_Adresses w @ [a]\<rparr>"

definition addAddressToWallet ::
  "mongo \<Rightarrow> int \<Rightarrow> string \<Rightarrow> string \<Rightarrow> int \<Rightarrow> int \<Rightarrow> int \<Rightarrow> int \<Rightarrow> rest_state \<Rightarrow> rest_state \<times> string option" where
  "addAddressToWallet M now address token currencyID networkid walletIndex addressIndex s =
     (case FindUser M (by_jwt token) (rs_db s) of
        Inl e \<Rightarrow> (s, Some msgErrUserNotFound)
      | Inr user \<Rightarrow>
          if index_taken currencyID networkid walletIndex addressIndex user then (s, Some msgErrAddressIndex)
          else
            (let addr = \<lparr>adr_AddressIndex = addressIndex, adr_Address = address, adr_LastActionTime = now\<rparr>;
                 (s', e) = rest_update M (\<lambda>u. by_jwt token u \<and> wallet_sel currencyID networkid walletIndex u)
                   (at_wallet (address_position currencyID networkid walletIndex user) (push_address addr)) s
             in (s', map_option (\<lambda>_. msgErrServerError) e)))"

text \<open>A body that cannot be decoded is only logged; the handler goes on with what was decoded.\<close>

definition addAddress ::
  "mongo \<Rightarrow> int \<Rightarrow> string \<Rightarrow> SelectWallet \<Rightarrow> rest_state \<Rightarrow> rest_state \<times> unit http_reply" where
  "addAddress M now header sw s =
     (case getToken header of
        Inl e \<Rightarrow> (s, bad_reply e)
      | Inr token \<Rightarrow>
      (case addAddressToWallet M now (sw_Address sw) token (sw_CurrencyID sw) (sw_NetworkID sw)
              (sw_WalletIndex sw) (sw_AddressIndex sw) s of
         (s', Some err) \<Rightarrow>
           (s', \<lparr>hr_status = StatusBadRequest, hr_code = CodeText ''Bad Request'', hr_message = err, hr_data = None\<rparr>)
       | (s', None) \<Rightarrow>
           (s', \<lparr>hr_status = StatusCreated, hr_code = CodeText ''Created'', hr_message = ''wallet created'', hr_data = None\<rparr>)))"

section \<open>Deleting a wallet\<close>

text \<open>An error of the look-up counts as a balance of zero.\<close>

definition checkBTCAddressbalance :: "mongo \<Rightarrow> string \<Rightarrow> int \<Rightarrow> int \<Rightarrow> db \<Rightarrow> int" where
  "checkBTCAddressbalance M address currencyID networkid d =
     (case GetAddressSpendableOutputs M address currencyID networkid d of
        (spOuts, Some e) \<Rightarrow> 0
      | (spOuts, None) \<Rightarrow> fold (\<lambda>out balance. wrap64 (balance + so_TxOutAmount out)) spOuts 0)"

definition index_balance :: "mongo \<Rightarrow> int \<Rightarrow> int \<Rightarrow> int \<Rightarrow> User \<Rightarrow> db \<Rightarrow> int" where
  "index_balance M walletIndex currencyID networkid user d =
     fold (\<lambda>w t. if wal_WalletIndex w = walletIndex
                 then fold (\<lambda>a t. wrap64 (t + checkBTCAddressbalance M (adr_Address a) currencyID networkid d))
                        (wal_Adresses w) t
                 else t) (usr_Wallets user) 0"

definition btc_total :: "mongo \<Rightarrow> int \<Rightarrow> int \<Rightarrow> int \<Rightarrow> User \<Rightarrow> db \<Rightarrow> int" where
  "btc_total M walletIndex currencyID networkid user d =
     (if networkid = Main_net \<or> networkid = Test_net then index_balance M walletIndex currencyID networkid user d else 0)"

definition delete_stored ::
  "mongo \<Rightarrow> string \<Rightarrow> string \<Rightarrow> int \<Rightarrow> int \<Rightarrow> int \<Rightarrow> int \<Rightarrow> rest_state \<Rightarrow> rest_state \<times> unit http_reply" where
  "delete_stored M userid address walletIndex currencyId networkid assetType s =
     (let (d, e) = DeleteWallet M userid address walletIndex currencyId networkid assetType (rs_db s);
          s' = s\<lparr>rs_db := d\<rparr>
      in case e of
           Some e \<Rightarrow> (s', reply StatusBadRequest StatusInternalServerError msgErrNoWallet)
         | None \<Rightarrow> (s', reply StatusOK StatusOK ''OK''))"

text \<open>The address asked for: that of the last wallet with the index which has one.\<close>

definition eth_address :: "int \<Rightarrow> User \<Rightarrow> string" where
  "eth_address walletIndex user =
     fold (\<lambda>w a. if wal_WalletIndex w = walletIndex
                 then (case wal_Adresses w of [] \<Rightarrow> a | ad # _ \<Rightarrow> adr_Address ad) else a) (usr_Wallets user) []"

text \<open>
  On the test net the answer of the node is dropped, so the balance stays empty; on the main
  net a failed call leaves a nil pointer.
\<close>

definition eth_balance :: "nodes \<Rightarrow> int \<Rightarrow> string \<Rightarrow> panic + string" where
  "eth_balance N networkid address =
     (if networkid = ETHMain
      then (case n_balance N address of (None, e) \<Rightarrow> Inl NilDereference | (Some b, e) \<Rightarrow> Inr b)
      else Inr [])"

definition deleteWallet ::
  "mongo \<Rightarrow> nodes \<Rightarrow> string \<Rightarrow> string \<Rightarrow> string \<Rightarrow> string \<Rightarrow> string \<Rightarrow> rest_state \<Rightarrow>
   panic + (rest_state \<times> unit http_reply)" where
  "deleteWallet M N header walletindex typ currencyid networkid s =
     (case getToken header of
        Inl e \<Rightarrow> Inr (s, bad_reply e)
      | Inr token \<Rightarrow>
      (let (walletIndex, derivationPath) = wallet_param walletindex in
       case type_param typ of
         Inl e \<Rightarrow> Inr (s, bad_reply e)
       | Inr assetType \<Rightarrow>
      (case int_param msgErrDecodeCurIndexErr currencyid of
         Inl e \<Rightarrow> Inr (s, bad_reply e)
       | Inr currencyId \<Rightarrow>
      (case int_param msgErrDecodenetworkidErr networkid of
         Inl e \<Rightarrow> Inr (s, bad_reply e)
       | Inr networkid \<Rightarrow>
      (case FindUser M (by_jwt token) (rs_db s) of
         Inl e \<Rightarrow> Inr (s, reply StatusUnauthorized StatusBadRequest msgErrUserNotFound)
       | Inr user \<Rightarrow>
           if currencyId = Bitcoin then
             if btc_total M walletIndex currencyId networkid user (rs_db s) = 0
             then Inr (delete_stored M (usr_UserID user) [] walletIndex currencyId networkid AssetTypeMultyAddress s)
             else Inr (s, bad_reply msgErrWalletNonZeroBalance)
           else if currencyId = Ether then
             bind_p (eth_balance N networkid (eth_address walletIndex user)) (\<lambda>balance.
               if balance = ''0'' \<or> balance = []
               then Inr (delete_stored M (usr_UserID user) derivationPath walletIndex currencyId networkid assetType s)
               else Inr (s, bad_reply msgErrWalletNonZeroBalance))
           else Inr (s, bad_reply msgErrChainIsNotImplemented))))))"

section \<open>Donations and spendable outputs\<close>

record Donation =
  don_FeatureID :: int
  don_Address :: string
  don_Amount :: int
  don_Status :: int

definition donations :: "mongo \<Rightarrow> (int \<times> string) list \<Rightarrow> db \<Rightarrow> Donation list http_reply" where
  "donations M donationAddresses d =
     reply_with StatusOK StatusOK ''OK''
       (map (\<lambda>(code, address). \<lparr>don_FeatureID = code, don_Address = address,
          don_Amount = checkBTCAddressbalance M address Bitcoin Main_net d, don_Status = 1\<rparr>) donationAddresses)"

definition getSpendableOutputs ::
  "mongo \<Rightarrow> string \<Rightarrow> string \<Rightarrow> string \<Rightarrow> string \<Rightarrow> db \<Rightarrow> SpendableOutputs list http_reply" where
  "getSpendableOutputs M header currencyid networkid address d =
     (case getToken header of
        Inl e \<Rightarrow> bad_reply e
      | Inr token \<Rightarrow>
      (case int_param msgErrDecodeCurIndexErr currencyid of
         Inl e \<Rightarrow> bad_reply e
       | Inr currencyID \<Rightarrow>
      (case int_param msgErrDecodenetworkidErr networkid of
         Inl e \<Rightarrow> bad_reply e
       | Inr networkID \<Rightarrow>
      (case FindUser M (by_jwt token) d of
         Inl e \<Rightarrow> reply StatusUnauthorized StatusBadRequest msgErrUserNotFound
       | Inr user \<Rightarrow>
           reply_with StatusOK StatusOK ''OK'' (fst (GetAddressSpendableOutputs M address currencyID networkID d))))))"

section \<open>Sending a transaction\<close>

record RawHDTx =
  rt_CurrencyID :: int
  rt_NetworkID :: int
  rt_Address :: string
  rt_AddressIndex :: int
  rt_WalletIndex :: int
  rt_Transaction :: string
  rt_IsHD :: bool

text \<open>
  The loop that waits for the transaction on the test net: it stops when \<open>CheckTx\<close> holds or
  the counter, a 64-bit integer that starts at 4 and grows, is 4 again. \<open>None\<close>: not stopped within
  the fuel.
\<close>

fun wait_tx :: "nat \<Rightarrow> mongo \<Rightarrow> string \<Rightarrow> db \<Rightarrow> int \<Rightarrow> unit option" where
  "wait_tx 0 M tx d flag = None"
| "wait_tx (Suc n) M tx d flag =
     (if CheckTx M tx d then Some ()
      else if wrap64 (flag + 1) = 4 then Some () else wait_tx n M tx d (wrap64 (flag + 1)))"

text \<open>
  The check for an error answer asks whether the answer occurs in \<open>err:\<close>, and then reads the
  text of an error that is nil.
\<close>

definition answer_is_error :: "string \<Rightarrow> bool" where
  "answer_is_error message = Contains ''err:'' message"

definition send_btc ::
  "mongo \<Rightarrow> nodes \<Rightarrow> int \<Rightarrow> watch_chan \<Rightarrow> RawHDTx \<Rightarrow> string \<Rightarrow> string \<Rightarrow> rest_state \<Rightarrow>
   panic + (rest_state \<times> unit http_reply)" where
  "send_btc M N now ch rawTx token userid s =
     (let s1 = NewAddressNode (rt_Address rawTx) userid (rt_CurrencyID rawTx) (rt_NetworkID rawTx)
            (rt_WalletIndex rawTx) (rt_AddressIndex rawTx) s
      in case n_send N ch (rt_Transaction rawTx) of
           (resp, Some err) \<Rightarrow> Inr (s1, bad_reply err)
         | (resp, None) \<Rightarrow>
             if answer_is_error resp then Inl NilDereference
             else
               (case (if rt_IsHD rawTx
                      then addAddressToWallet M now (rt_Address rawTx) token (rt_CurrencyID rawTx) (rt_NetworkID rawTx)
                             (rt_WalletIndex rawTx) (rt_AddressIndex rawTx) s1
                      else (s1, None)) of
                  (s2, Some err) \<Rightarrow> Inr (s2, bad_reply err)
                | (s2, None) \<Rightarrow> Inr (s2, reply StatusOK StatusOK resp)))"

definition send_eth ::
  "nodes \<Rightarrow> watch_chan \<Rightarrow> RawHDTx \<Rightarrow> rest_state \<Rightarrow> rest_state \<times> unit http_reply" where
  "send_eth N ch rawTx s =
     (case n_send N ch (rt_Transaction rawTx) of
        (hash, Some err) \<Rightarrow> (s, reply StatusNotAcceptable StatusNotAcceptable err)
      | (hash, None) \<Rightarrow> (s, reply StatusOK StatusOK hash))"

text \<open>
  The outer option is the wait on the test net, which comes after everything else and changes
  nothing; the inner one a missing reply.
\<close>

definition sendRawHDTransaction ::
  "nat \<Rightarrow> mongo \<Rightarrow> nodes \<Rightarrow> int \<Rightarrow> string \<Rightarrow> RawHDTx option \<Rightarrow> rest_state \<Rightarrow>
   (panic + (rest_state \<times> unit http_reply option)) option" where
  "sendRawHDTransaction fuel M N now header body s =
     (case body of
        None \<Rightarrow> Some (Inr (s, Some (bad_reply msgErrRequestBodyError)))
      | Some rawTx \<Rightarrow>
      (case getToken header of
         Inl e \<Rightarrow> Some (Inr (s, Some (bad_reply e)))
       | Inr token \<Rightarrow>
      (case FindUser M (by_jwt token) (rs_db s) of
         Inl e \<Rightarrow> Some (Inr (s, None))
       | Inr user \<Rightarrow>
           if rt_CurrencyID rawTx = Bitcoin then
             if rt_NetworkID rawTx = Main_net then
               Some (bind_p (send_btc M N now BtcMain rawTx token (usr_UserID user) s) (\<lambda>(s', r). Inr (s', Some r)))
             else if rt_NetworkID rawTx = Test_net then
               (case send_btc M N now BtcTest rawTx token (usr_UserID user) s of
                  Inl p \<Rightarrow> Some (Inl p)
                | Inr (s', r) \<Rightarrow>
                    if hr_status r = StatusOK
                    then map_option (\<lambda>_. Inr (s', Some r)) (wait_tx fuel M (hr_message r) (rs_db s') 4)
                    else Some (Inr (s', Some r)))
             else Some (Inr (s, None))
           else if rt_CurrencyID rawTx = Ether then
             if rt_NetworkID rawTx = ETHMain then
               (case send_eth N EthMain rawTx s of (s', r) \<Rightarrow> Some (Inr (s', Some r)))
             else if rt_NetworkID rawTx = ETHTest then
               (case send_eth N EthTest rawTx s of (s', r) \<Rightarrow> Some (Inr (s', Some r)))
             else Some (Inr (s, None))
           else Some (Inr (s, Some (bad_reply msgErrChainIsNotImplemented))))))"

section \<open>Resynchronisation\<close>

definition resync_message :: "string \<Rightarrow> string \<Rightarrow> int \<Rightarrow> int \<Rightarrow> WatchAddress" where
  "resync_message address userid walletIndex addressIndex =
     \<lparr>wa_Address = address, wa_UserID = userid, wa_WalletIndex = wrap32 walletIndex,
      wa_AddressIndex = wrap32 addressIndex\<rparr>"

fun resync_btc ::
  "mongo \<Rightarrow> watch_chan \<Rightarrow> int \<Rightarrow> int \<Rightarrow> string \<Rightarrow> int \<Rightarrow> Address list \<Rightarrow> rest_state \<Rightarrow> rest_state" where
  "resync_btc M ch currencyID networkID userid walletIndex [] s = s"
| "resync_btc M ch currencyID networkID userid walletIndex (address # addresses) s =
     resync_btc M ch currencyID networkID userid walletIndex addresses
       (s\<lparr>rs_db := DeleteHistory M currencyID networkID (adr_Address address) (rs_db s),
          rs_resync := (if adr_Address address \<in> set (rs_resync s) then rs_resync s
                        else adr_Address address # rs_resync s),
          rs_calls := rs_calls s @ [(ch, resync_message (adr_Address address) userid walletIndex
            (adr_AddressIndex address))]\<rparr>)"

text \<open>The client \<open>resync\<close> is a nil interface on a network other than the two: a call on it panics.\<close>

fun resync_eth :: "watch_chan option \<Rightarrow> string list \<Rightarrow> rest_state \<Rightarrow> panic + rest_state" where
  "resync_eth ch [] s = Inr s"
| "resync_eth None (address # addresses) s = Inl NilDereference"
| "resync_eth (Some ch) (address # addresses) s =
     resync_eth (Some ch) addresses (s\<lparr>rs_calls := rs_calls s @ [(ch, resync_message address [] 0 0)]\<rparr>)"

definition wallet_to_resync :: "int \<Rightarrow> int \<Rightarrow> int \<Rightarrow> User \<Rightarrow> Wallet" where
  "wallet_to_resync currencyID networkID walletIndex user =
     fold (\<lambda>w r. if wallet_key currencyID networkID walletIndex w then w else r) (usr_Wallets user) zero_wallet"

definition resync_background ::
  "mongo \<Rightarrow> User \<Rightarrow> int \<Rightarrow> int \<Rightarrow> int \<Rightarrow> int \<Rightarrow> string \<Rightarrow> Wallet \<Rightarrow> rest_state \<Rightarrow> panic + rest_state" where
  "resync_background M user assetType currencyID networkID walletIndex derivationPath wallet s =
     (if currencyID = Bitcoin then
        if networkID = Main_net then
          Inr (resync_btc M BtcMain currencyID networkID (usr_UserID user) walletIndex (wal_Adresses wallet) s)
        else if networkID = Test_net then
          Inr (resync_btc M BtcTest currencyID networkID (usr_UserID user) walletIndex (wal_Adresses wallet) s)
        else Inr s
      else if currencyID = Ether then
        if assetType = AssetTypeMultyAddress
        then resync_eth (eth_chan networkID) (map adr_Address (wal_Adresses wallet)) s
        else if assetType = AssetTypeImportedAddress then resync_eth (eth_chan networkID) [derivationPath] s
        else Inr s
      else Inr s)"

text \<open>A panic in a goroutine of the handler ends the process.\<close>

definition resyncWallet ::
  "mongo \<Rightarrow> string \<Rightarrow> string \<Rightarrow> string \<Rightarrow> string \<Rightarrow> string \<Rightarrow> rest_state \<Rightarrow> panic + (rest_state \<times> unit http_reply)" where
  "resyncWallet M header walletindex typ currencyid networkid s =
     (case getToken header of
        Inl e \<Rightarrow> Inr (s, bad_reply e)
      | Inr token \<Rightarrow>
      (let (walletIndex, derivationPath) = wallet_param walletindex in
       case type_param typ of
         Inl e \<Rightarrow> Inr (s, bad_reply e)
       | Inr assetType \<Rightarrow>
      (case int_param msgErrDecodeCurIndexErr currencyid of
         Inl e \<Rightarrow> Inr (s, bad_reply e)
       | Inr currencyID \<Rightarrow>
      (case int_param msgErrDecodenetworkidErr networkid of
         Inl e \<Rightarrow> Inr (s, bad_reply e)
       | Inr networkID \<Rightarrow>
      (case FindUser M (by_jwt token) (rs_db s) of
         Inl e \<Rightarrow> Inr (s, reply StatusUnauthorized StatusUnauthorized msgErrUserNotFound)
       | Inr user \<Rightarrow>
           (let wallet = wallet_to_resync currencyID networkID walletIndex user in
            if wal_Adresses wallet = [] \<and> derivationPath = [] then Inr (s, bad_reply msgErrUserHaveNoTxs)
            else bind_p (resync_background M user assetType currencyID networkID walletIndex derivationPath wallet s)
                   (\<lambda>s'. Inr (s', reply StatusOK StatusOK ''OK''))))))))"

section \<open>Broken wallets\<close>

definition convertToBroken ::
  "mongo \<Rightarrow> string \<Rightarrow> string list option \<Rightarrow> rest_state \<Rightarrow> rest_state \<times> unit http_reply" where
  "convertToBroken M header body s =
     (case getToken header of
        Inl e \<Rightarrow> (s, bad_reply e)
      | Inr token \<Rightarrow>
      (case FindUser M (by_jwt token) (rs_db s) of
         Inl e \<Rightarrow> (s, reply StatusUnauthorized StatusUnauthorized msgErrUserNotFound)
       | Inr user \<Rightarrow>
      (case body of
         None \<Rightarrow> (s, bad_reply msgErrRequestBodyError)
       | Some addresses \<Rightarrow>
           (s\<lparr>rs_db := ConvertToBroken M addresses (usr_UserID user) (rs_db s)\<rparr>, reply StatusOK StatusOK ''OK''))))"

end
