(* ===== verification/Multisig_Ws_Facts.thy ===== *)
theory Multisig_Ws_Facts
  imports Multisig_Ws
begin

text \<open>
  Correctness of the multisig messages: who may change what, what a refused request leaves,
  and the agreement of the copies of a multisig that its users hold.
\<close>

section \<open>The owner lists\<close>

definition owner_inv :: "(string \<times> AddressExtended) list \<Rightarrow> bool" where
  "owner_inv m \<longleftrightarrow> distinct (map fst m) \<and> (\<forall>k v. map_of m k = Some v \<longrightarrow> ae_Address v = k)"

lemma owner_inv_update: "owner_inv m \<Longrightarrow> ae_Address v = k \<Longrightarrow> owner_inv (AList.update k v m)"
  by (auto simp: owner_inv_def distinct_update update_conv' split: if_splits)

lemma keys_update: "fst ` set (AList.update k v m) = insert k (fst ` set m)"
  using dom_update [of k v m] by (simp add: dom_map_of_conv_image_fst)

lemma owner_map_fold:
  "owner_inv m \<Longrightarrow>
   owner_inv (fold (\<lambda>owner. AList.update (ae_Address owner) (clean_owner owner)) os m) \<and>
   fst ` set (fold (\<lambda>owner. AList.update (ae_Address owner) (clean_owner owner)) os m) = fst ` set m \<union> ae_Address ` set os"
proof (induction os arbitrary: m)
  case Nil
  then show ?case by simp
next
  case (Cons ow os)
  have a: "ae_Address (clean_owner ow) = ae_Address ow" by (simp add: clean_owner_def)
  let ?m = "AList.update (ae_Address ow) (clean_owner ow) m"
  have k: "fst ` set ?m = insert (ae_Address ow) (fst ` set m)" by (rule keys_update)
  have "fold (\<lambda>owner. AList.update (ae_Address owner) (clean_owner owner)) (ow # os) m =
      fold (\<lambda>owner. AList.update (ae_Address owner) (clean_owner owner)) os ?m" by simp
  with Cons.IH [OF owner_inv_update [OF Cons.prems a]] k show ?case by auto
qed

lemma owner_map_inv: "owner_inv (owner_map os)" "fst ` set (owner_map os) = ae_Address ` set os"
proof -
  have "owner_inv []" by (simp add: owner_inv_def)
  from owner_map_fold [OF this, of os]
  show "owner_inv (owner_map os)" "fst ` set (owner_map os) = ae_Address ` set os"
    by (simp_all add: owner_map_def)
qed

lemma associate_inv:
  "owner_inv m \<Longrightarrow> owner_inv (associate user w m) \<and> fst ` set (associate user w m) = fst ` set m"
proof (cases "wal_Adresses w")
  case Nil
  assume "owner_inv m"
  with Nil show ?thesis by (simp add: associate_def)
next
  case (Cons a as)
  assume m: "owner_inv m"
  show ?thesis
  proof (cases "map_of m (adr_Address a)")
    case None
    with Cons m show ?thesis by (simp add: associate_def)
  next
    case (Some ow)
    then have "adr_Address a \<in> fst ` set m" by (force dest: map_of_SomeD)
    with Cons m Some show ?thesis by (auto simp: associate_def owner_inv_update keys_update)
  qed
qed

lemma associate_fold_inv:
  "owner_inv m \<Longrightarrow> owner_inv (fold (associate user) ws m) \<and> fst ` set (fold (associate user) ws m) = fst ` set m"
  by (induction ws arbitrary: m) (auto simp: associate_inv)

lemma owner_inv_values: "owner_inv m \<Longrightarrow> ae_Address ` snd ` set m = fst ` set m"
  by (force simp: owner_inv_def image_iff)

lemma user_owners_addresses:
  assumes "\<And>xs. set (ord xs) = set xs"
  shows "ae_Address ` set (user_owners ord user os) = ae_Address ` set os"
proof -
  let ?m = "fold (associate user) (usr_Wallets user) (owner_map os)"
  have "owner_inv ?m" "fst ` set ?m = ae_Address ` set os"
    using associate_fold_inv [OF owner_map_inv(1)] owner_map_inv(2) by simp_all
  with owner_inv_values [of ?m] assms show ?thesis by (simp add: user_owners_def)
qed

section \<open>Sharing the owners\<close>

lemma tell_db [simp]: "ws_db (tell u mth p s) = ws_db s"
  by (simp add: tell_def)

lemma tell_fold_db [simp]: "ws_db (fold (\<lambda>u. tell (f u) mth p) us s) = ws_db s"
  by (induction us arbitrary: s) simp_all

definition shared :: "owner_order \<Rightarrow> Multisig \<Rightarrow> int \<Rightarrow> User \<Rightarrow> User" where
  "shared ord ms st u = at_first_multisig (\<lambda>m. ms_InviteCode m = ms_InviteCode ms)
     (\<lambda>m. m\<lparr>ms_Owners := user_owners ord u (ms_Owners ms), ms_DeployStatus := st\<rparr>) u"

lemma shared_UserID [simp]: "usr_UserID (shared ord ms st u) = usr_UserID u"
  by (simp add: shared_def)

lemma distinct_ids_eq:
  "distinct (map usr_UserID us) \<Longrightarrow> x \<in> set us \<Longrightarrow> y \<in> set us \<Longrightarrow> usr_UserID x = usr_UserID y \<Longrightarrow> x = y"
  by (simp add: distinct_map inj_on_def)

context mongo_live
begin

lemma update_owner_users:
  assumes "distinct (map usr_UserID (db_users d))" "u \<in> set (db_users d)" "has_invite (ms_InviteCode ms) u"
  shows "db_users (fst (updateUserOwners M ord u ms st d)) =
     map (\<lambda>y. if y = u then shared ord ms st u else y) (db_users d)"
proof -
  let ?sel = "\<lambda>v. by_userID (usr_UserID u) v \<and> has_invite (ms_InviteCode ms) v"
  have ex: "list_ex ?sel (db_users d)" using assms(2,3) by (auto simp: list_ex_iff by_userID_def)
  have "update_first ?sel f (db_users d) = update_first (\<lambda>v. usr_UserID v = usr_UserID u) f (db_users d)" for f
    by (rule update_first_cong) (use distinct_ids_eq [OF assms(1) _ assms(2)] assms(3) in \<open>auto simp: by_userID_def\<close>)
  with ex update_first_key [OF assms(1,2)] show ?thesis
    by (simp add: updateUserOwners_def UpdateMultisigOwners_def users_update_live shared_def)
qed

lemma share_owners_users:
  assumes "distinct (map usr_UserID (db_users (ws_db s)))" "set us \<subseteq> set (db_users (ws_db s))"
    and "distinct (map usr_UserID us)" "\<forall>u \<in> set us. has_invite (ms_InviteCode ms) u"
  shows "db_users (ws_db (share_owners M ord mth p ms st us s)) =
     map (\<lambda>x. if x \<in> set us then shared ord ms st x else x) (db_users (ws_db s))"
  using assms
proof (induction us arbitrary: s)
  case Nil
  then show ?case by simp
next
  case (Cons u us)
  let ?d = "fst (updateUserOwners M ord u ms st (ws_db s))"
  let ?s = "tell (usr_UserID u) mth p (s\<lparr>ws_db := ?d\<rparr>)"
  have us: "db_users ?d = map (\<lambda>y. if y = u then shared ord ms st u else y) (db_users (ws_db s))"
    using Cons.prems by (intro update_owner_users) auto
  have ids: "map usr_UserID (db_users ?d) = map usr_UserID (db_users (ws_db s))" by (simp add: us)
  have new: "usr_UserID u \<notin> usr_UserID ` set us" using Cons.prems(3) by auto
  then have sub: "set us \<subseteq> set (db_users ?d)" using Cons.prems(2) by (auto simp: us)
  have "shared ord ms st u \<notin> set us" using new by (metis shared_UserID image_eqI)
  moreover have "u \<notin> set us" using new by auto
  ultimately have "map (\<lambda>x. if x \<in> set us then shared ord ms st x else x) (db_users ?d) =
      map (\<lambda>x. if x \<in> set (u # us) then shared ord ms st x else x) (db_users (ws_db s))"
    by (auto simp: us)
  then show ?case
    using Cons.IH [of ?s] Cons.prems(1,3,4) ids sub by simp
qed

lemma FindMultisigUsers_live: "FindMultisigUsers M code d = filter (has_invite code) (db_users d)"
  by (simp add: FindMultisigUsers_def all_or_def live_simps)

lemma DeleteMultisig_loop_ok:
  "set (map usr_UserID us) \<subseteq> set (map usr_UserID (db_users d)) \<Longrightarrow>
   snd (DeleteMultisig_loop M code us (d, None)) = None"
proof (induction us arbitrary: d)
  case Nil
  then show ?case by simp
next
  case (Cons u us)
  let ?r = "users_update M (by_userID (usr_UserID u)) (set_multisigs (without_invite code u)) d"
  have ex: "list_ex (by_userID (usr_UserID u)) (db_users d)"
    using Cons.prems by (auto simp: list_ex_iff by_userID_def)
  then have r: "?r = (fst ?r, None)" by (simp add: users_update_live)
  have "map usr_UserID (db_users (fst ?r)) = map usr_UserID (db_users d)"
    using ex by (simp add: users_update_live by_userID_def)
  with Cons.prems have "set (map usr_UserID us) \<subseteq> set (map usr_UserID (db_users (fst ?r)))" by simp
  from Cons.IH [OF this] show ?case by (subst DeleteMultisig_loop.simps(2), subst r)
qed

lemma DeleteMultisig_ok: "snd (DeleteMultisig M code d) = None"
  unfolding DeleteMultisig_def by (rule DeleteMultisig_loop_ok) (auto simp: all_or_def live_simps)

lemma users_update_failed: "snd (users_update M sel f d) = Some e \<Longrightarrow> fst (users_update M sel f d) = d"
  by (simp add: users_update_live split: if_splits)

end

section \<open>Joining\<close>

lemma joined_code [simp]: "ms_InviteCode (joined_multisig msg m) = ms_InviteCode m"
  by (simp add: joined_multisig_def Let_def)

lemma joined_addresses:
  "ae_Address ` set (ms_Owners (joined_multisig msg m)) = insert (mm_Address msg) (ae_Address ` set (ms_Owners m))"
  by (auto simp: joined_multisig_def Let_def clean_owner_def image_iff)

lemma getMultisig_None: "getMultisig M msg k d = (m, None) \<longleftrightarrow> FindMultisig M (mm_UserID msg) (mm_InviteCode msg) d = (m, None)"
  by (simp add: getMultisig_def split: prod.split option.split)

lemma getMultisig_text: "getMultisig M msg k d = (m, Some (r, e)) \<Longrightarrow> wr_Payload r \<noteq> WText ''ok''"
  by (auto simp: getMultisig_def makeErr_def split: prod.splits option.splits)

lemma on_join_ok:
  assumes "on_join M ord msg s = (s', r)" "wr_Payload r = WText ''ok''"
  shows "\<exists>old. FindMultisig M (mm_UserID msg) (mm_InviteCode msg) (ws_db s) = (old, None) \<and>
     int (length (ms_Owners old)) < ms_OwnersCount old \<and>
     \<not> list_ex (\<lambda>u. usr_UserID u = mm_UserID msg) (FindMultisigUsers M (mm_InviteCode msg) (ws_db s)) \<and>
     IsRelatedAddress M (mm_UserID msg) (mm_Address msg) (ws_db s) \<and>
     join_accepted M ord msg old s = (s', r)"
  using assms
  by (auto simp: on_join_def Let_def makeErr_def getMultisig_None split: if_splits prod.splits option.splits
      dest: getMultisig_text)

lemma on_join_changed:
  assumes "ws_db (fst (on_join M ord msg s)) \<noteq> ws_db s"
  shows "\<exists>old. FindMultisig M (mm_UserID msg) (mm_InviteCode msg) (ws_db s) = (old, None) \<and>
     int (length (ms_Owners old)) < ms_OwnersCount old \<and>
     \<not> list_ex (\<lambda>u. usr_UserID u = mm_UserID msg) (FindMultisigUsers M (mm_InviteCode msg) (ws_db s)) \<and>
     IsRelatedAddress M (mm_UserID msg) (mm_Address msg) (ws_db s) \<and>
     CheckMultisigCurrency M (mm_InviteCode msg) (mm_CurrencyID msg) (mm_NetworkID msg) (ws_db s)"
  using assms
  by (auto simp: on_join_def Let_def getMultisig_None split: if_splits prod.splits option.splits)

lemma push_code: "\<not> has_invite code u \<Longrightarrow> ms_InviteCode m = code \<Longrightarrow>
   find (\<lambda>x. ms_InviteCode x = code) (usr_Multisigs (set_multisigs (usr_Multisigs u @ [m]) u)) = Some m"
  by (simp add: set_multisigs_def has_invite_def list_ex_iff find_append_None find_None_iff)

context mongo_live
begin

lemma join_accepted_users:
  assumes "join_accepted M ord msg old s = (s', r)" "wr_Payload r = WText ''ok''"
    and "distinct (map usr_UserID (db_users (ws_db s)))" "ms_InviteCode old = mm_InviteCode msg"
    and "\<not> list_ex (\<lambda>u. usr_UserID u = mm_UserID msg) (FindMultisigUsers M (mm_InviteCode msg) (ws_db s))"
  shows "\<exists>uj \<in> set (db_users (ws_db s)). \<not> has_invite (mm_InviteCode msg) uj \<and>
     db_users (ws_db s') = map (\<lambda>x. if x = uj then set_multisigs (usr_Multisigs uj @ [joined_multisig msg old]) uj
       else if has_invite (mm_InviteCode msg) x then shared ord (joined_multisig msg old) (join_status old) x else x)
       (db_users (ws_db s))"
proof -
  let ?ms = "joined_multisig msg old" and ?users = "db_users (ws_db s)" and ?code = "mm_InviteCode msg"
  let ?us = "filter (has_invite ?code) ?users"
  let ?r = "JoinMultisig M (mm_UserID msg) ?ms (ws_db s)"
  have e: "snd ?r = None"
    using assms(1,2) by (auto simp: join_accepted_def Let_def makeErr_def case_prod_beta split: option.splits)
  then have "list_ex (by_userID (mm_UserID msg)) ?users"
    by (simp add: JoinMultisig_def users_update_live split: if_splits)
  then obtain uj where uj: "uj \<in> set ?users" "usr_UserID uj = mm_UserID msg"
    by (auto simp: list_ex_iff by_userID_def)
  let ?push = "set_multisigs (usr_Multisigs uj @ [?ms]) uj"
  have no: "\<not> has_invite ?code uj"
    using assms(5) uj by (auto simp: FindMultisigUsers_live list_ex_iff)
  have key: "by_userID (mm_UserID msg) = (\<lambda>y. usr_UserID y = usr_UserID uj)"
    by (simp add: by_userID_def uj fun_eq_iff)
  have users1: "db_users (fst ?r) = map (\<lambda>y. if y = uj then ?push else y) ?users"
    using update_first_key [OF assms(3) uj(1), of "\<lambda>u. set_multisigs (usr_Multisigs u @ [?ms]) u"]
      \<open>list_ex (by_userID (mm_UserID msg)) ?users\<close>
    by (simp add: JoinMultisig_def users_update_live key)
  have s': "s' = share_owners M ord JoinMultisig_msg (WMultisig ?ms) ?ms (join_status old) ?us (s\<lparr>ws_db := fst ?r\<rparr>)"
    using assms(1) e by (simp add: join_accepted_def Let_def case_prod_beta FindMultisigUsers_live)
  have sub: "set ?us \<subseteq> set (db_users (fst ?r))" using no by (auto simp: users1)
  have d: "distinct (map usr_UserID (db_users (fst ?r)))"
  proof -
    have "(\<lambda>x. if x = uj then usr_UserID uj else usr_UserID x) = usr_UserID" by auto
    with assms(3) show ?thesis by (simp add: users1 comp_def if_distrib cong: if_cong)
  qed
  have "db_users (ws_db s') = map (\<lambda>x. if x \<in> set ?us then shared ord ?ms (join_status old) x else x) (db_users (fst ?r))"
    unfolding s' using share_owners_users [of "s\<lparr>ws_db := fst ?r\<rparr>" ?us ?ms ord] d sub
      distinct_map_filter_key [OF assms(3)] assms(4) by simp
  moreover have "?push \<notin> set ?us"
    using distinct_ids_eq [OF assms(3), of ?push uj] uj(1) no by auto
  ultimately have "db_users (ws_db s') = map (\<lambda>x. if x = uj then ?push
       else if has_invite ?code x then shared ord ?ms (join_status old) x else x) ?users"
    using no by (auto simp: users1)
  with uj(1) no show ?thesis by blast
qed

end

section \<open>Properties\<close>

text \<open>
  C20: on a database without errors in which no two accounts have the same user identity, after a successful
  join the copies of the multisig agree: whichever user holds the invite code, the owners of the multisig they
  hold have the same addresses, those of the multisig that was joined and the joining address. (The handler
  drops the errors of the updates of the members' copies and answers with success nevertheless.)
\<close>

theorem join_copies_agree:
  assumes "mongo_live M" "\<And>xs. set (ord xs) = set xs"
    and "distinct (map usr_UserID (db_users (ws_db s)))"
    and "on_join M ord msg s = (s', r)" "wr_Payload r = WText ''ok''"
  shows "\<exists>old. FindMultisig M (mm_UserID msg) (mm_InviteCode msg) (ws_db s) = (old, None) \<and>
     (\<forall>v \<in> set (db_users (ws_db s')). has_invite (mm_InviteCode msg) v \<longrightarrow>
        (\<exists>m. find (\<lambda>m. ms_InviteCode m = mm_InviteCode msg) (usr_Multisigs v) = Some m \<and>
             ae_Address ` set (ms_Owners m) = insert (mm_Address msg) (ae_Address ` set (ms_Owners old))))"
proof -
  let ?code = "mm_InviteCode msg"
  obtain old where old: "FindMultisig M (mm_UserID msg) ?code (ws_db s) = (old, None)"
    "\<not> list_ex (\<lambda>u. usr_UserID u = mm_UserID msg) (FindMultisigUsers M ?code (ws_db s))"
    "join_accepted M ord msg old s = (s', r)"
    using on_join_ok [OF assms(4,5)] by blast
  have code: "ms_InviteCode old = ?code"
    using mongo_live.FindMultisig_spec(2) [OF assms(1), of "mm_UserID msg" ?code "ws_db s"] old(1) by simp
  let ?ms = "joined_multisig msg old"
  obtain uj where uj: "\<not> has_invite ?code uj"
    "db_users (ws_db s') = map (\<lambda>x. if x = uj then set_multisigs (usr_Multisigs uj @ [?ms]) uj
       else if has_invite ?code x then shared ord ?ms (join_status old) x else x) (db_users (ws_db s))"
    using mongo_live.join_accepted_users [OF assms(1) old(3) assms(5,3) code old(2)] by blast
  have "\<exists>m. find (\<lambda>m. ms_InviteCode m = ?code) (usr_Multisigs v) = Some m \<and>
      ae_Address ` set (ms_Owners m) = insert (mm_Address msg) (ae_Address ` set (ms_Owners old))"
    if v: "v \<in> set (db_users (ws_db s'))" "has_invite ?code v" for v
  proof -
    from v(1) obtain x where x: "v = (if x = uj then set_multisigs (usr_Multisigs uj @ [?ms]) uj
       else if has_invite ?code x then shared ord ?ms (join_status old) x else x)"
      unfolding uj(2) set_map by (rule imageE)
    show ?thesis
    proof (cases "x = uj")
      case True
      with x push_code [OF uj(1), of ?ms] code show ?thesis by (simp add: joined_addresses)
    next
      case False
      with x v(2) have h: "has_invite ?code x" "v = shared ord ?ms (join_status old) x" by (auto split: if_splits)
      then obtain m where m: "find (\<lambda>m. ms_InviteCode m = ?code) (usr_Multisigs x) = Some m"
        using find_Some_iff_ex [of "\<lambda>m. ms_InviteCode m = ?code" "usr_Multisigs x"]
        by (auto simp: has_invite_def list_ex_iff)
      let ?f = "\<lambda>m. m\<lparr>ms_Owners := user_owners ord x (ms_Owners ?ms), ms_DeployStatus := join_status old\<rparr>"
      have "find (\<lambda>m. ms_InviteCode m = ?code) (update_first (\<lambda>m. ms_InviteCode m = ?code) ?f (usr_Multisigs x)) = Some (?f m)"
        by (rule find_update_first [OF m]) (use find_SomeD [OF m] in simp)
      then show ?thesis
        using user_owners_addresses [OF assms(2), of x "ms_Owners ?ms"]
        by (simp add: h(2) shared_def at_first_multisig_def code joined_addresses)
    qed
  qed
  with old(1) show ?thesis by blast
qed

definition ex_open_ms :: Multisig where
  "ex_open_ms = ex_multisig\<lparr>ms_Owners := [zero_ae\<lparr>ae_Address := ''a0'', ae_Creator := True\<rparr>], ms_DeployStatus := 1\<rparr>"

definition ex_ws :: ws_state where
  "ex_ws = \<lparr>ws_db = empty_db\<lparr>db_users := [ex_user\<lparr>usr_Multisigs := [ex_open_ms]\<rparr>, ex_user2\<lparr>usr_Multisigs := []\<rparr>]\<rparr>,
     ws_online = [''u1''], ws_sent = []\<rparr>"

definition ex_msg :: "string \<Rightarrow> string \<Rightarrow> MultisigMsg" where
  "ex_msg uid a = \<lparr>mm_UserID = uid, mm_Address = a, mm_InviteCode = ''inv'', mm_AddressToKick = ''b0'',
     mm_WalletIndex = 0, mm_CurrencyID = 60, mm_NetworkID = 1, mm_TxID = []\<rparr>"

lemmas ex_ws_defs = ex_ws_def ex_open_ms_def ex_msg_def ex_user_def ex_user2_def ex_multisig_def ex_wallet_def
  zero_wallet_def zero_multisig_def empty_db_def

lemmas ex_ws_eval = on_join_def Let_def refm.CheckInviteCode_iff refm.FindMultisigUsers_live IsRelatedAddress_def
  CheckMultisigCurrency_def getMultisig_def FindMultisig_def join_accepted_def JoinMultisig_def
  refm.users_update_live ref_simps doc_one_def one_or_def has_invite_def by_userID_def user_has_addr_def
  has_addr_def no_invite_info_def ok_reply_def

lemma ex_join_ok: "wr_Payload (snd (on_join ref_mongo (\<lambda>xs. xs) (ex_msg ''u2'' ''b0'') ex_ws)) = WText ''ok''"
  by (simp add: ex_ws_eval ex_ws_defs)

theorem join_copies_agree_witness:
  "map (\<lambda>v. map_option (\<lambda>m. ae_Address ` set (ms_Owners m)) (find (\<lambda>m. ms_InviteCode m = ''inv'') (usr_Multisigs v)))
     (db_users (ws_db (fst (on_join ref_mongo (\<lambda>xs. xs) (ex_msg ''u2'' ''b0'') ex_ws)))) = [Some {''a0'', ''b0''}, Some {''a0'', ''b0''}]"
proof -
  let ?us = "db_users (ws_db (fst (on_join ref_mongo (\<lambda>xs. xs) (ex_msg ''u2'' ''b0'') ex_ws)))"
  have i: "map (has_invite ''inv'') ?us = [True, True]"
    by (simp add: ex_ws_eval ex_ws_defs updateUserOwners_def UpdateMultisigOwners_def set_multisigs_def
        joined_multisig_def at_first_multisig_def)
  have f: "FindMultisig ref_mongo ''u2'' ''inv'' (ws_db ex_ws) = (ex_open_ms, None)"
    by (simp add: FindMultisig_def ref_simps has_invite_def ex_ws_defs)
  have "distinct (map usr_UserID (db_users (ws_db ex_ws)))" by (simp add: ex_ws_defs)
  from join_copies_agree [OF refm.mongo_live_axioms, of "\<lambda>xs. xs", OF refl this surjective_pairing ex_join_ok]
  have m: "\<exists>m. find (\<lambda>m. ms_InviteCode m = ''inv'') (usr_Multisigs v) = Some m \<and> ae_Address ` set (ms_Owners m) = {''a0'', ''b0''}"
    if "v \<in> set ?us" "has_invite ''inv'' v" for v
    using that f by (auto simp: ex_msg_def ex_open_ms_def)
  from i obtain v1 v2 where v: "?us = [v1, v2]" "has_invite ''inv'' v1" "has_invite ''inv'' v2" by (auto simp: map_eq_Cons_conv)
  with m [of v1] m [of v2] show ?thesis by auto
qed

lemma find_filter_head: "find P xs = Some x \<Longrightarrow> \<exists>rest. filter P xs = x # rest"
  by (induction xs) (auto split: if_splits)

context mongo_live
begin

lemma IsRelatedAddress_live:
  "IsRelatedAddress M uid a d \<longleftrightarrow> (\<exists>u \<in> set (db_users d). usr_UserID u = uid \<and> user_has_addr a u)"
  by (auto simp: IsRelatedAddress_def live_simps doc_one_def by_userID_def find_None_iff split: option.split dest!: find_SomeD)

lemma info_fold:
  "fold (\<lambda>m info. if ms_InviteCode m = code
      then \<lparr>ic_CurrencyID = ms_CurrencyID m, ic_NetworkID = ms_NetworkID m, ic_Exists = True\<rparr> else info) ms i = i \<or>
   (\<exists>m \<in> set ms. ms_InviteCode m = code \<and> fold (\<lambda>m info. if ms_InviteCode m = code
      then \<lparr>ic_CurrencyID = ms_CurrencyID m, ic_NetworkID = ms_NetworkID m, ic_Exists = True\<rparr> else info) ms i =
      \<lparr>ic_CurrencyID = ms_CurrencyID m, ic_NetworkID = ms_NetworkID m, ic_Exists = True\<rparr>)"
proof (induction ms arbitrary: i)
  case (Cons m ms)
  show ?case
  proof (cases "ms_InviteCode m = code")
    case True
    with Cons [of "\<lparr>ic_CurrencyID = ms_CurrencyID m, ic_NetworkID = ms_NetworkID m, ic_Exists = True\<rparr>"] show ?thesis by auto
  next
    case False
    with Cons [of i] show ?thesis by auto
  qed
qed simp

lemma CheckMultisigCurrency_live:
  assumes "CheckMultisigCurrency M code c n d" "find (has_invite code) (db_users d) = Some h"
  shows "\<exists>m \<in> set (usr_Multisigs h). ms_InviteCode m = code \<and> ms_CurrencyID m = c \<and> ms_NetworkID m = n"
  using assms info_fold [of code "usr_Multisigs h" no_invite_info]
  by (auto simp: CheckMultisigCurrency_def one_or_def live_simps doc_one_def no_invite_info_def)

lemma FindMultisig_live:
  assumes "FindMultisig M uid code d = (old, None)"
  shows "\<exists>h. find (has_invite code) (db_users d) = Some h \<and> find (\<lambda>m. ms_InviteCode m = code) (usr_Multisigs h) = Some old"
proof (cases "find (has_invite code) (db_users d)")
  case None
  with assms show ?thesis by (auto simp: FindMultisig_def live_simps find_None_iff filter_empty_conv split: list.splits dest: filter_eq_ConsD)
next
  case (Some h)
  then obtain rest where f: "filter (has_invite code) (db_users d) = h # rest"
    using find_filter_head [OF Some] by blast
  obtain m where "find (\<lambda>m. ms_InviteCode m = code) (usr_Multisigs h) = Some m"
    using find_SomeD [OF Some] find_Some_iff_ex [of "\<lambda>m. ms_InviteCode m = code" "usr_Multisigs h"]
    by (auto simp: has_invite_def list_ex_iff)
  with assms f Some show ?thesis by (simp add: FindMultisig_def live_simps)
qed

end

text \<open>
  C21: on a database without errors, a join message that changes the database comes from a user of whom no
  account held the code, for an address in a wallet of theirs; the first user who holds the code holds a
  multisig of it with the currency and the network named, and the multisig of it joined has a free place, so
  that it gets no more owners than it was created for.
\<close>

theorem join_guarded:
  assumes "mongo_live M" "ws_db (fst (on_join M ord msg s)) \<noteq> ws_db s"
  shows "(\<forall>v \<in> set (db_users (ws_db s)). has_invite (mm_InviteCode msg) v \<longrightarrow> usr_UserID v \<noteq> mm_UserID msg) \<and>
    (\<exists>u \<in> set (db_users (ws_db s)). usr_UserID u = mm_UserID msg \<and>
      (\<exists>w \<in> set (usr_Wallets u). \<exists>a \<in> set (wal_Adresses w). adr_Address a = mm_Address msg)) \<and>
    (\<exists>h old. find (has_invite (mm_InviteCode msg)) (db_users (ws_db s)) = Some h \<and>
      find (\<lambda>m. ms_InviteCode m = mm_InviteCode msg) (usr_Multisigs h) = Some old \<and>
      int (length (ms_Owners old)) < ms_OwnersCount old \<and>
      int (length (ms_Owners (joined_multisig msg old))) \<le> ms_OwnersCount old \<and>
      (\<exists>m \<in> set (usr_Multisigs h). ms_InviteCode m = mm_InviteCode msg \<and>
         ms_CurrencyID m = mm_CurrencyID msg \<and> ms_NetworkID m = mm_NetworkID msg))"
proof -
  let ?d = "ws_db s" and ?code = "mm_InviteCode msg"
  obtain old where old: "FindMultisig M (mm_UserID msg) ?code ?d = (old, None)" "int (length (ms_Owners old)) < ms_OwnersCount old"
    "\<not> list_ex (\<lambda>u. usr_UserID u = mm_UserID msg) (FindMultisigUsers M ?code ?d)"
    "IsRelatedAddress M (mm_UserID msg) (mm_Address msg) ?d" "CheckMultisigCurrency M ?code (mm_CurrencyID msg) (mm_NetworkID msg) ?d"
    using on_join_changed [OF assms(2)] by blast
  obtain h where h: "find (has_invite ?code) (db_users ?d) = Some h" "find (\<lambda>m. ms_InviteCode m = ?code) (usr_Multisigs h) = Some old"
    using mongo_live.FindMultisig_live [OF assms(1) old(1)] by blast
  have "int (length (ms_Owners (joined_multisig msg old))) \<le> ms_OwnersCount old"
    using old(2) by (simp add: joined_multisig_def Let_def)
  moreover note mongo_live.CheckMultisigCurrency_live [OF assms(1) old(5) h(1)]
  moreover have "\<forall>v \<in> set (db_users ?d). has_invite ?code v \<longrightarrow> usr_UserID v \<noteq> mm_UserID msg"
    using old(3) by (auto simp: mongo_live.FindMultisigUsers_live [OF assms(1)] list_ex_iff)
  moreover have "\<exists>u \<in> set (db_users ?d). usr_UserID u = mm_UserID msg \<and>
      (\<exists>w \<in> set (usr_Wallets u). \<exists>a \<in> set (wal_Adresses w). adr_Address a = mm_Address msg)"
    using old(4) unfolding mongo_live.IsRelatedAddress_live [OF assms(1)]
    by (fastforce simp: user_has_addr_def has_addr_def list_ex_iff)
  ultimately show ?thesis using h old(2) by blast
qed

theorem join_guarded_witness:
  "\<exists>h old. find (has_invite ''inv'') (db_users (ws_db ex_ws)) = Some h \<and> old \<in> set (usr_Multisigs h) \<and>
     int (length (ms_Owners old)) < ms_OwnersCount old"
proof -
  have "map (length \<circ> usr_Multisigs) (db_users (ws_db (fst (on_join ref_mongo (\<lambda>xs. xs) (ex_msg ''u2'' ''b0'') ex_ws)))) = [1, 1]"
    by (simp add: ex_ws_eval ex_ws_defs updateUserOwners_def UpdateMultisigOwners_def set_multisigs_def
        joined_multisig_def at_first_multisig_def)
  moreover have "map (length \<circ> usr_Multisigs) (db_users (ws_db ex_ws)) = [1, 0]" by (simp add: ex_ws_defs)
  ultimately have "ws_db (fst (on_join ref_mongo (\<lambda>xs. xs) (ex_msg ''u2'' ''b0'') ex_ws)) \<noteq> ws_db ex_ws" by auto
  from join_guarded [OF refm.mongo_live_axioms this]
  obtain h old where "find (has_invite (mm_InviteCode (ex_msg ''u2'' ''b0''))) (db_users (ws_db ex_ws)) = Some h"
    "find (\<lambda>m. ms_InviteCode m = mm_InviteCode (ex_msg ''u2'' ''b0'')) (usr_Multisigs h) = Some old"
    "int (length (ms_Owners old)) < ms_OwnersCount old" by blast
  then show ?thesis by (auto simp: ex_msg_def dest: find_SomeD)
qed

lemma admin_changed:
  "ws_db (fst (on_kick M ord msg s)) \<noteq> ws_db s \<Longrightarrow>
   \<exists>m. FindMultisig M (mm_UserID msg) (mm_InviteCode msg) (ws_db s) = (m, None) \<and> is_admin msg m"
  "ws_db (fst (on_delete M msg s)) \<noteq> ws_db s \<Longrightarrow>
   \<exists>m. FindMultisig M (mm_UserID msg) (mm_InviteCode msg) (ws_db s) = (m, None) \<and> is_admin msg m"
  by (auto simp: on_kick_def on_delete_def Let_def getMultisig_None split: if_splits prod.splits option.splits)

text \<open>
  C22: only the creator kicks and deletes: a kick or delete message that changes the database
  names an address that is an owner of the multisig with the creator's mark.
\<close>

theorem only_creator_kicks_or_deletes:
  assumes "ws_db (fst (on_kick M ord msg s)) \<noteq> ws_db s \<or> ws_db (fst (on_delete M msg s)) \<noteq> ws_db s"
  shows "\<exists>m. FindMultisig M (mm_UserID msg) (mm_InviteCode msg) (ws_db s) = (m, None) \<and>
     (\<exists>owner \<in> set (ms_Owners m). ae_Address owner = mm_Address msg \<and> ae_Creator owner)"
  using assms admin_changed [of M] by (auto simp: is_admin_def list_ex_iff)

lemma ex_delete_changed: "ws_db (fst (on_delete ref_mongo (ex_msg ''u1'' ''a0'') ex_ws)) \<noteq> ws_db ex_ws"
proof -
  have i: "ex_user\<lparr>usr_Multisigs := [ex_open_ms]\<rparr> \<in> set (db_users (ws_db ex_ws))" by (simp add: ex_ws_def)
  have o: "FindMultisig ref_mongo ''u1'' ''inv'' (ws_db ex_ws) = (ex_open_ms, None)"
    by (simp add: FindMultisig_def ref_simps has_invite_def ex_ws_defs)
  have "db_users (fst (DeleteMultisig ref_mongo ''inv'' (ws_db ex_ws))) = map (strip ''inv'') (db_users (ws_db ex_ws))"
    by (rule refm.DeleteMultisig_users) (simp add: ex_ws_defs)
  moreover have "map (length \<circ> usr_Multisigs) (map (strip ''inv'') (db_users (ws_db ex_ws))) = [0, 0]"
    by (simp add: ex_ws_defs strip_def set_multisigs_def without_invite_def)
  moreover have "map (length \<circ> usr_Multisigs) (db_users (ws_db ex_ws)) = [1, 0]" by (simp add: ex_ws_defs)
  ultimately have "fst (DeleteMultisig ref_mongo ''inv'' (ws_db ex_ws)) \<noteq> ws_db ex_ws" by auto
  moreover have "\<not> CheckInviteCode ref_mongo ''inv'' (ws_db ex_ws)"
  proof -
    have "has_invite ''inv'' (ex_user\<lparr>usr_Multisigs := [ex_open_ms]\<rparr>)"
      by (simp add: has_invite_def ex_open_ms_def ex_multisig_def)
    with i have "\<exists>u \<in> set (db_users (ws_db ex_ws)). has_invite ''inv'' u" by blast
    then show ?thesis unfolding refm.CheckInviteCode_iff by blast
  qed
  ultimately show ?thesis
    using o refm.DeleteMultisig_ok [of "''inv''" "ws_db ex_ws"]
    by (simp add: on_delete_def Let_def ex_msg_def getMultisig_def is_admin_def case_prod_beta)
      (simp add: ex_open_ms_def)
qed

theorem only_creator_kicks_or_deletes_witness:
  "\<exists>m. FindMultisig ref_mongo ''u1'' ''inv'' (ws_db ex_ws) = (m, None) \<and>
     (\<exists>owner \<in> set (ms_Owners m). ae_Address owner = ''a0'' \<and> ae_Creator owner)"
  using only_creator_kicks_or_deletes [of ref_mongo _ "ex_msg ''u1'' ''a0''" ex_ws] ex_delete_changed
  by (auto simp: ex_msg_def)

context mongo_live
begin

lemma JoinMultisig_failed: "snd (JoinMultisig M u m d) = Some e \<Longrightarrow> fst (JoinMultisig M u m d) = d"
  unfolding JoinMultisig_def by (rule users_update_failed)

lemma LeaveMultisig_failed: "snd (LeaveMultisig M u code d) = Some e \<Longrightarrow> fst (LeaveMultisig M u code d) = d"
  by (auto simp: LeaveMultisig_def users_update_failed split: sum.splits)

lemma KickMultisig_failed: "snd (KickMultisig M a code d) = Some e \<Longrightarrow> fst (KickMultisig M a code d) = d"
  by (auto simp: KickMultisig_def users_update_failed split: sum.splits)

lemma join_refused: "wr_Payload (snd (on_join M ord msg s)) \<noteq> WText ''ok'' \<Longrightarrow> fst (on_join M ord msg s) = s"
  using JoinMultisig_failed
  by (auto simp: on_join_def join_accepted_def Let_def ok_reply_def case_prod_beta split: if_splits option.splits)

lemma leave_refused: "wr_Payload (snd (on_leave M ord msg s)) \<noteq> WText ''ok'' \<Longrightarrow> fst (on_leave M ord msg s) = s"
  using LeaveMultisig_failed
  by (auto simp: on_leave_def Let_def ok_reply_def case_prod_beta split: if_splits option.splits)

lemma kick_refused: "wr_Payload (snd (on_kick M ord msg s)) \<noteq> WText ''ok'' \<Longrightarrow> fst (on_kick M ord msg s) = s"
  using KickMultisig_failed
  by (auto simp: on_kick_def Let_def ok_reply_def case_prod_beta split: if_splits option.splits)

lemma delete_refused: "wr_Payload (snd (on_delete M msg s)) \<noteq> WText ''ok'' \<Longrightarrow> fst (on_delete M msg s) = s"
  by (auto simp: on_delete_def Let_def ok_reply_def DeleteMultisig_ok case_prod_beta split: if_splits option.splits)

end



section \<open>Declining and viewing\<close>

definition owner_status :: "string \<Rightarrow> TransactionETH \<Rightarrow> int option" where
  "owner_status a t = (case etx_Multisig t of None \<Rightarrow> None
     | Some m \<Rightarrow> map_option oh_ConfirmationStatus (find (\<lambda>oh. oh_Address oh = a) (mst_Owners m)))"

lemma at_owner_key: "(\<And>oh. oh_Address (f oh) = oh_Address oh) \<Longrightarrow> has_tx_owner h a t \<Longrightarrow> has_tx_owner h a (at_owner a f t)"
proof -
  assume f: "\<And>oh. oh_Address (f oh) = oh_Address oh" and h: "has_tx_owner h a t"
  then obtain m where m: "etx_Multisig t = Some m" "etx_Hash t = h" "\<exists>oh \<in> set (mst_Owners m). oh_Address oh = a"
    by (auto simp: has_tx_owner_def list_ex_iff split: option.splits)
  have "map oh_Address (update_first (\<lambda>oh. oh_Address oh = a) f (mst_Owners m)) = map oh_Address (mst_Owners m)"
    by (rule map_update_first) (simp add: f)
  then have "a \<in> set (map oh_Address (update_first (\<lambda>oh. oh_Address oh = a) f (mst_Owners m)))"
    using m(3) by (simp only:) auto
  then obtain oh where "oh \<in> set (update_first (\<lambda>oh. oh_Address oh = a) f (mst_Owners m))" "oh_Address oh = a"
    by auto
  then have "list_ex (\<lambda>oh. oh_Address oh = a) (update_first (\<lambda>oh. oh_Address oh = a) f (mst_Owners m))"
    unfolding list_ex_iff by blast
  with m(1,2) show ?thesis by (simp add: has_tx_owner_def at_owner_def)
qed

lemma at_owner_status:
  assumes "has_tx_owner h a t" "\<And>oh. oh_Address (f oh) = oh_Address oh" "\<And>oh. oh_ConfirmationStatus (f oh) = st"
  shows "owner_status a (at_owner a f t) = Some st"
proof -
  from assms(1) obtain m where m: "etx_Multisig t = Some m" "\<exists>oh \<in> set (mst_Owners m). oh_Address oh = a"
    by (auto simp: has_tx_owner_def list_ex_iff split: option.splits)
  then obtain oh where oh: "find (\<lambda>oh. oh_Address oh = a) (mst_Owners m) = Some oh"
    using find_Some_iff_ex [of "\<lambda>oh. oh_Address oh = a"] by blast
  have "find (\<lambda>oh. oh_Address oh = a) (update_first (\<lambda>oh. oh_Address oh = a) f (mst_Owners m)) = Some (f oh)"
    by (rule find_update_first [OF oh]) (use find_SomeD [OF oh] assms(2) in simp)
  with m(1) assms(3) show ?thesis by (simp add: owner_status_def at_owner_def)
qed

lemma at_owner_seen:
  assumes "etx_Multisig t = Some m" "\<not> already_seen a (mst_Owners m)"
  shows "\<exists>m'. etx_Multisig (at_owner a declined_owner t) = Some m' \<and> \<not> already_seen a (mst_Owners m')"
proof -
  have "\<not> already_seen a (update_first (\<lambda>oh. oh_Address oh = a) declined_owner os)"
    if "\<not> already_seen a os" for os
    using that by (induction os) (auto simp: already_seen_def declined_owner_def)
  with assms show ?thesis by (simp add: at_owner_def)
qed

text \<open>
  Viewing a transaction takes back the refusal of an owner: after an owner declines a
  transaction and opens it again their recorded status is \<open>seen\<close>, not \<open>declined\<close>.
\<close>

theorem view_undoes_decline:
  assumes "mongo_live M" "find (has_tx_owner txid a) (db_msMain d) = Some t"
    and "etx_Multisig t = Some m" "\<not> already_seen a (mst_Owners m)"
  shows "snd (DeclineTransaction M txid a Ether ETHMain d) = None \<and>
     (\<exists>t'. find (has_tx_owner txid a) (db_msMain (fst (DeclineTransaction M txid a Ether ETHMain d))) = Some t' \<and>
        owner_status a t' = Some MultisigOwnerStatusDeclined) \<and>
     (\<exists>d' t'. ViewTransaction M now txid a Ether ETHMain (fst (DeclineTransaction M txid a Ether ETHMain d)) = Inr (d', None) \<and>
        find (has_tx_owner txid a) (db_msMain d') = Some t' \<and>
        owner_status a t' = Some MultisigOwnerStatusSeen)"
proof -
  let ?P = "has_tx_owner txid a"
  let ?c1 = "update_first ?P (at_owner a declined_owner) (db_msMain d)"
  let ?t1 = "at_owner a declined_owner t" and ?t2 = "at_owner a (seen_owner now) (at_owner a declined_owner t)"
  have t: "?P t" using find_SomeD [OF assms(2)] by simp
  have t1: "?P ?t1" by (rule at_owner_key [OF _ t]) (simp add: declined_owner_def)
  have t2: "?P ?t2" by (rule at_owner_key [OF _ t1]) (simp add: seen_owner_def)
  have f1: "find ?P ?c1 = Some ?t1" using find_update_first [of ?P "db_msMain d" t "at_owner a declined_owner"] assms(2) t1 by blast
  have f2: "find ?P (update_first ?P (at_owner a (seen_owner now)) ?c1) = Some ?t2"
    using find_update_first [of ?P ?c1 ?t1 "at_owner a (seen_owner now)"] f1 t2 by blast
  obtain m' where m': "etx_Multisig ?t1 = Some m'" "\<not> already_seen a (mst_Owners m')"
    using at_owner_seen [OF assms(3,4)] by blast
  have dec: "DeclineTransaction M txid a Ether ETHMain d = (d\<lparr>db_msMain := ?c1\<rparr>, None)"
    by (simp add: DeclineTransaction_def ms_update_main_def mongo_live.live_simps [OF assms(1)] doc_update_def
        mongo_live.find_list_ex [OF assms(1,2)] mgo_err_def)
  have view: "ViewTransaction M now txid a Ether ETHMain (d\<lparr>db_msMain := ?c1\<rparr>) =
      Inr (d\<lparr>db_msMain := update_first ?P (at_owner a (seen_owner now)) ?c1\<rparr>, None)"
    by (simp add: ViewTransaction_def ms_update_main_def mongo_live.live_simps [OF assms(1)] doc_update_def doc_one_def
        f1 m' mongo_live.find_list_ex [OF assms(1) f1] mgo_err_def)
  have "owner_status a ?t1 = Some MultisigOwnerStatusDeclined"
    by (rule at_owner_status [OF t]) (simp_all add: declined_owner_def)
  moreover have "owner_status a ?t2 = Some MultisigOwnerStatusSeen"
    by (rule at_owner_status [OF t1]) (simp_all add: seen_owner_def)
  ultimately show ?thesis using f1 f2 dec view by simp
qed

theorem view_undoes_decline_witness:
  "\<exists>d' t'. ViewTransaction ref_mongo 7 ''h'' ''a0'' Ether ETHMain (fst (DeclineTransaction ref_mongo ''h'' ''a0'' Ether ETHMain ex_db)) = Inr (d', None) \<and>
     find (has_tx_owner ''h'' ''a0'') (db_msMain d') = Some t' \<and> owner_status ''a0'' t' = Some MultisigOwnerStatusSeen"
proof -
  have "find (has_tx_owner ''h'' ''a0'') (db_msMain ex_db) = Some ex_multisig_tx"
    by (simp add: ex_defs has_tx_owner_def)
  from view_undoes_decline [OF refm.mongo_live_axioms this, of _ 7]
  show ?thesis by (simp add: ex_multisig_tx_def already_seen_def)
qed

end
