(* ===== verification/Rest_Parts.thy ===== *)
theory Rest_Parts
  imports Wallet_Ops Multisig_Ws_Facts
begin

text \<open>
  What the wallet handlers keep of the database, whatever it and the nodes answer. The locale
  \<open>db_view\<close> is a view of the database that depends neither on the collections besides that of the
  users nor on the multisigs of a user nor on what a handler changes of a wallet; \<open>account_view\<close> is
  one that does not depend on the wallets at all. A part of the user documents (\<open>user_part\<close>,
  \<open>account_part\<close>) is such a view: the wallet identities of a user are one of the first kind, the
  devices of a user one of the second. The outputs of a Bitcoin network are a view too.
\<close>

section \<open>Identity of a wallet\<close>

definition wallet_id :: "Wallet \<Rightarrow> int \<times> int \<times> int \<times> bool" where
  "wallet_id w = (wal_CurrencyID w, wal_NetworkID w, wal_WalletIndex w, wal_IsImported w)"

lemma wallet_id_simps [simp]:
  "wallet_id (w\<lparr>wal_Status := st\<rparr>) = wallet_id w" "wallet_id (w\<lparr>wal_BrokenStatus := b\<rparr>) = wallet_id w"
  "wallet_id (rename_wallet n w) = wallet_id w" "wallet_id (push_address a w) = wallet_id w"
  by (simp_all add: wallet_id_def rename_wallet_def push_address_def)

lemma NewAddressNode_db [simp]: "rs_db (NewAddressNode a u c n i j s) = rs_db s"
  by (simp add: NewAddressNode_def watch_def Let_def)

lemma rest_update_db [simp]: "rs_db (fst (rest_update M sel f s)) = fst (users_update M sel f (rs_db s))"
  by (simp add: rest_update_def case_prod_beta)

lemma rest_update_err [simp]: "snd (rest_update M sel f s) = snd (users_update M sel f (rs_db s))"
  by (simp add: rest_update_def case_prod_beta)

lemma new_wallet_watch: "new_wallet now nano wp e user = Inr (w, g) \<Longrightarrow> rs_db (g s) = rs_db s"
  by (auto simp: new_wallet_def Let_def split: if_splits)

section \<open>Resynchronisation\<close>

text \<open>All that a resynchronisation does to the database is to delete histories.\<close>

lemma resync_eth_db: "resync_eth ch as s = Inr s' \<Longrightarrow> rs_db s' = rs_db s"
  by (induction ch as s rule: resync_eth.induct) auto

lemma resync_btc_history:
  assumes "\<And>c n a d. P d \<Longrightarrow> P (DeleteHistory M c n a d)"
  shows "P (rs_db s) \<Longrightarrow> P (rs_db (resync_btc M ch c n uid i as s))"
  by (induction as arbitrary: s) (simp_all add: assms)

lemma resync_background_history:
  assumes "\<And>c n a d. P d \<Longrightarrow> P (DeleteHistory M c n a d)"
  shows "resync_background M u t c n i p w s = Inr s' \<Longrightarrow> P (rs_db s) \<Longrightarrow> P (rs_db s')"
  using resync_btc_history [of P M, OF assms]
  by (auto simp: resync_background_def dest!: resync_eth_db split: if_splits)

lemma resyncWallet_history:
  assumes "\<And>c n a d. P d \<Longrightarrow> P (DeleteHistory M c n a d)"
  shows "resyncWallet M header w t c n s = Inr (s', r) \<Longrightarrow> P (rs_db s) \<Longrightarrow> P (rs_db s')"
  using resync_background_history [of P M, OF assms]
  by (auto simp: resyncWallet_def bind_p_Inr Let_def split: sum.splits prod.splits if_splits)

section \<open>Views of the database\<close>

locale db_view = mongo_srv M for M :: mongo +
  fixes view :: "db \<Rightarrow> 'b" and same :: "User \<Rightarrow> User \<Rightarrow> bool"
  assumes users_update_view: "(\<And>u. sel u \<Longrightarrow> same (f u) u) \<Longrightarrow> view (fst (users_update M sel f d)) = view d"
    and same_multisigs [simp]: "same (set_multisigs ms u) u" "same (push_multisig m u) u" "same (at_first_multisig P h u) u"
    and same_at_wallet: "(\<And>w. wallet_id (g w) = wallet_id w) \<Longrightarrow> same (at_wallet i g u) u"
    and same_at_first_wallet: "(\<And>w. wallet_id (g w) = wallet_id w) \<Longrightarrow> same (at_first_wallet Q g u) u"
    and frame [simp]: "view (d\<lparr>db_rates := rs\<rparr>) = view d" "view (d\<lparr>db_btcMain := ts\<rparr>) = view d"
      "view (d\<lparr>db_btcTest := ts\<rparr>) = view d" "view (d\<lparr>db_ethMain := es\<rparr>) = view d" "view (d\<lparr>db_ethTest := es\<rparr>) = view d"
      "view (d\<lparr>db_msMain := es\<rparr>) = view d" "view (d\<lparr>db_msTest := es\<rparr>) = view d" "view (d\<lparr>db_restore := ls\<rparr>) = view d"
begin

lemma createCustomMultisig_view: "view (rs_db (fst (createCustomMultisig M now wp token s))) = view (rs_db s)"
  by (auto simp: createCustomMultisig_def Let_def case_prod_beta users_update_view split: sum.split)

lemma tell_members_view: "view (rs_db (tell_members M ord m us s)) = view (rs_db s)"
  by (induction us arbitrary: s)
    (simp_all add: updateUserOwners_def UpdateMultisigOwners_def users_update_view)

lemma join_imported_view: "view (rs_db (fst (join_imported M ord u a i j code us s))) = view (rs_db s)"
  by (auto simp: join_imported_def Let_def JoinMultisig_def case_prod_beta users_update_view tell_members_view
      split: option.split)

lemma insert_imported_view: "view (rs_db (fst (insert_imported M N now wp token c k code os s))) = view (rs_db s)"
  by (auto simp: insert_imported_def Let_def case_prod_beta users_update_view split: option.split)

lemma import_view: "view (rs_db (fst (import_multisig_wallet M N ord now wp token s))) = view (rs_db s)"
  by (auto simp: import_multisig_wallet_def Let_def case_prod_beta join_imported_view insert_imported_view
      split: option.split sum.split)

lemma changeName_view: "view (rs_db (fst (changeName M cn token s))) = view (rs_db s)"
  by (auto simp: changeName_def Let_def case_prod_beta users_update_view same_at_wallet same_at_first_wallet split: sum.split)

lemma addAddressToWallet_view:
  "view (rs_db (fst (addAddressToWallet M now a token c n i j s))) = view (rs_db s)"
  by (auto simp: addAddressToWallet_def Let_def case_prod_beta users_update_view same_at_wallet split: sum.split)

lemma DeleteWallet_view: "view (fst (DeleteWallet M uid a i c n t d)) = view d"
  by (auto simp: DeleteWallet_def users_update_view same_at_wallet case_prod_beta split: sum.split option.split)

lemma delete_stored_view: "view (rs_db (fst (delete_stored M uid a i c n t s))) = view (rs_db s)"
  by (auto simp: delete_stored_def Let_def case_prod_beta DeleteWallet_view split: option.split)

lemma ConvertToBroken_view: "view (ConvertToBroken M as uid d) = view d"
  by (induction as arbitrary: d) (simp_all add: users_update_view same_at_first_wallet)

lemma send_btc_view: "send_btc M N now ch tx token uid s = Inr (s', r) \<Longrightarrow> view (rs_db s') = view (rs_db s)"
  using addAddressToWallet_view
  by (auto simp: send_btc_def Let_def case_prod_beta split: prod.splits option.splits if_splits)
    (metis NewAddressNode_db fst_conv)+

lemma wallet_handlers_view:
  "view (rs_db (fst (changeWalletName M header cn s))) = view (rs_db s)"
  "view (rs_db (fst (addAddress M now header sw s))) = view (rs_db s)"
  "view (rs_db (fst (convertToBroken M header as s))) = view (rs_db s)"
  using changeName_view addAddressToWallet_view ConvertToBroken_view
  by (auto simp: changeWalletName_def addAddress_def convertToBroken_def split: sum.split option.split prod.split)
    (metis fst_conv)+

lemma deleteWallet_view:
  "deleteWallet M N header w t c n s = Inr (s', r) \<Longrightarrow> view (rs_db s') = view (rs_db s)"
  using delete_stored_view
  by (auto simp: deleteWallet_def bind_p_Inr split: sum.splits prod.splits if_splits) (metis fst_conv)+

lemma sendRawHDTransaction_view:
  "sendRawHDTransaction fuel M N now header body s = Some (Inr (s', r)) \<Longrightarrow> view (rs_db s') = view (rs_db s)"
  by (auto simp: sendRawHDTransaction_def bind_p_Inr send_eth_def send_btc_view
      split: sum.splits prod.splits if_splits option.splits)

end

locale account_view = db_view M view same for M :: mongo and view :: "db \<Rightarrow> 'b" and same :: "User \<Rightarrow> User \<Rightarrow> bool" +
  assumes same_push_wallet [simp]: "same (push_wallet w u) u"
begin

lemma createCustomWallet_view: "view (rs_db (fst (createCustomWallet M now nano wp token e s))) = view (rs_db s)"
  by (auto simp: createCustomWallet_def case_prod_beta users_update_view new_wallet_watch split: sum.split)

lemma addWallet_view: "view (rs_db (fst (addWallet M N ord now nano header body s))) = view (rs_db s)"
  using createCustomWallet_view createCustomMultisig_view import_view
  by (auto simp: addWallet_def create_multisig_wallet_def Let_def split: sum.split option.split prod.split)
    (metis fst_conv)+

lemma discover_loop_view: "view (rs_db (fst (discover_loop M N now nano token c n as s))) = view (rs_db s)"
proof (induction as arbitrary: s)
  case Nil
  then show ?case by simp
next
  case (Cons a as)
  with createCustomWallet_view show ?case by (simp split: prod.split option.split) (metis fst_conv)
qed

lemma discoverWallets_view:
  "view (rs_db (fst (discoverWallets M N now nano header body s))) = view (rs_db s)"
  using discover_loop_view
  by (auto simp: discoverWallets_def split: sum.split option.split prod.split) (metis fst_conv)+

end

section \<open>Parts of a document\<close>

definition parts :: "(User \<Rightarrow> 'a) \<Rightarrow> db \<Rightarrow> 'a list" where
  "parts part d = map part (db_users d)"

locale user_part = mongo_srv M for M :: mongo +
  fixes part :: "User \<Rightarrow> 'a"
  assumes part_set_multisigs: "part (set_multisigs ms u) = part u"
    and part_push_multisig: "part (push_multisig m u) = part u"
    and part_first_multisig: "part (at_first_multisig P h u) = part u"
    and part_at_wallet: "(\<And>w. wallet_id (f w) = wallet_id w) \<Longrightarrow> part (at_wallet i f u) = part u"
    and part_at_first_wallet: "(\<And>w. wallet_id (f w) = wallet_id w) \<Longrightarrow> part (at_first_wallet Q f u) = part u"
begin

lemma users_update_part: "(\<And>u. sel u \<Longrightarrow> part (f u) = part u) \<Longrightarrow> parts part (fst (users_update M sel f d)) = parts part d"
  using users.update_map [of sel part f "db_users d"] by (simp add: users_update_def parts_def case_prod_beta)

end

sublocale user_part \<subseteq> db_view M "parts part" "\<lambda>u' u. part u' = part u"
  by (unfold_locales, rule users_update_part, blast)
    (simp_all add: part_set_multisigs part_push_multisig part_first_multisig part_at_wallet part_at_first_wallet
      parts_def)

context user_part
begin

lemma DeleteHistory_part: "parts part (DeleteHistory M c n a d) = parts part d"
  by (simp add: DeleteHistory_def parts_def)

lemma resyncWallet_part:
  "resyncWallet M header w t c n s = Inr (s', r) \<Longrightarrow> parts part (rs_db s') = parts part (rs_db s)"
  by (erule resyncWallet_history [where P = "\<lambda>d. parts part d = parts part (rs_db s)", rotated]) (simp_all add: DeleteHistory_part)

end

locale account_part = user_part M part for M :: mongo and part :: "User \<Rightarrow> 'a" +
  assumes part_push_wallet: "part (push_wallet w u) = part u"

sublocale account_part \<subseteq> account_view M "parts part" "\<lambda>u' u. part u' = part u"
  by unfold_locales (rule part_push_wallet)

end
