(* ===== verification/Wallet_Facts.thy ===== *)
theory Wallet_Facts
  imports Rest_Parts Btc
begin

text \<open>
  The wallet handlers as steps on the state: what every handler keeps, whatever the database
  reports (context \<open>mongo_srv\<close>), and the behaviour of single handlers.
\<close>

section \<open>No wallet index is given out twice\<close>

definition ids :: "User \<Rightarrow> (int \<times> int \<times> int \<times> bool) list" where
  "ids u = map wallet_id (usr_Wallets u)"

definition own_ids :: "(int \<times> int \<times> int \<times> bool) list \<Rightarrow> (int \<times> int \<times> int \<times> bool) list" where
  "own_ids l = filter (\<lambda>(c, n, i, imported). \<not> imported) l"

abbreviation user_ids :: "db \<Rightarrow> (int \<times> int \<times> int \<times> bool) list list" where
  "user_ids d \<equiv> parts ids d"

text \<open>No user has two wallets of their own with the same currency, network and index.\<close>

definition indexes_unique :: "db \<Rightarrow> bool" where
  "indexes_unique d \<longleftrightarrow> list_all (\<lambda>l. distinct (own_ids l)) (user_ids d)"

lemma ids_simps [simp]:
  "ids (set_multisigs ms u) = ids u"
  "ids (push_multisig m u) = ids u"
  "ids (at_first_multisig P g u) = ids u"
  by (simp_all add: ids_def set_multisigs_def push_multisig_def at_first_multisig_def)

lemma ids_at_wallet: "(\<And>w. wallet_id (f w) = wallet_id w) \<Longrightarrow> ids (at_wallet i f u) = ids u"
  by (simp add: ids_def at_wallet_def map_nth_update)

lemma ids_at_first_wallet: "(\<And>w. wallet_id (f w) = wallet_id w) \<Longrightarrow> ids (at_first_wallet P f u) = ids u"
  by (simp add: ids_def at_first_wallet_def)


sublocale mongo_srv \<subseteq> ids: user_part M ids
  by unfold_locales (simp_all add: ids_at_wallet ids_at_first_wallet)

lemma new_wallet_unique:
  assumes "new_wallet now nano wp e user = Inr (w, g)" "distinct (own_ids (ids user))"
  shows "distinct (own_ids (ids (push_wallet w user)))"
proof (cases "wp_IsImported wp")
  case True
  with assms have "wal_IsImported w" by (auto simp: new_wallet_def createWallet_def split: if_splits)
  with assms(2) show ?thesis by (simp add: ids_def own_ids_def push_wallet_def wallet_id_def)
next
  case False
  with assms have k: "\<not> list_ex (wallet_key (wp_CurrencyID wp) (wp_NetworkID wp) (wp_WalletIndex wp)) (usr_Wallets user)"
    "wallet_id w = (wp_CurrencyID wp, wp_NetworkID wp, wp_WalletIndex wp, False)"
    by (auto simp: new_wallet_def createWallet_def wallet_id_def Let_def split: if_splits)
  then have "wallet_id w \<notin> set (ids user)"
    by (auto simp: ids_def wallet_id_def list_ex_iff wallet_key_def)
  with assms(2) show ?thesis by (simp add: ids_def own_ids_def push_wallet_def)
qed

context mongo_srv
begin

lemma createCustomWallet_unique:
  assumes "indexes_unique (rs_db s)"
  shows "indexes_unique (rs_db (fst (createCustomWallet M now nano wp token e s)))"
proof (cases "FindUser M (by_jwt token) (rs_db s)")
  case (Inl err)
  with assms show ?thesis by (simp add: createCustomWallet_def)
next
  case (Inr user)
  then have f: "find (by_jwt token) (db_users (rs_db s)) = Some user"
    by (auto simp: FindUser_def intro: users.one_found)
  show ?thesis
  proof (cases "new_wallet now nano wp e user")
    case (Inl err)
    with Inr assms show ?thesis by (simp add: createCustomWallet_def)
  next
    case (Inr r)
    obtain w g where r: "r = (w, g)" by (cases r)
    note w = Inr [unfolded r]
    let ?d = "rs_db (fst (createCustomWallet M now nano wp token e s))"
    have "db_users ?d = fst (c_update (M_users M) (by_jwt token) (push_wallet w) (db_users (rs_db s)))"
      using \<open>FindUser M (by_jwt token) (rs_db s) = Inr user\<close> w
      by (simp add: createCustomWallet_def case_prod_beta users_update_def new_wallet_watch [OF w])
    then have "set (db_users ?d) \<subseteq> insert (push_wallet w user) (set (db_users (rs_db s)))"
      using users.update_cases [of "by_jwt token" "push_wallet w" "db_users (rs_db s)"] set_update_first_found [OF f, of "push_wallet w"] by auto
    moreover have "distinct (own_ids (ids (push_wallet w user)))"
      using new_wallet_unique [OF w] find_SomeD [OF f] assms by (simp add: indexes_unique_def parts_def list_all_iff)
    ultimately show ?thesis using assms by (auto simp: indexes_unique_def parts_def list_all_iff)
  qed
qed

lemma addWallet_unique:
  assumes "indexes_unique (rs_db s)"
  shows "indexes_unique (rs_db (fst (addWallet M N ord now nano header body s)))"
  using assms createCustomWallet_unique [OF assms] ids.createCustomMultisig_view ids.import_view
  by (auto simp: addWallet_def create_multisig_wallet_def Let_def indexes_unique_def split: sum.split option.split prod.split)
    (metis fst_conv)+

lemma discover_loop_unique:
  "indexes_unique (rs_db s) \<Longrightarrow> indexes_unique (rs_db (fst (discover_loop M N now nano token c n as s)))"
proof (induction as arbitrary: s)
  case Nil
  then show ?case by simp
next
  case (Cons a as)
  from createCustomWallet_unique [OF Cons.prems] Cons.IH show ?case
    by (simp split: prod.split option.split) (metis fst_conv)
qed

lemma discoverWallets_unique:
  "indexes_unique (rs_db s) \<Longrightarrow> indexes_unique (rs_db (fst (discoverWallets M N now nano header body s)))"
  using discover_loop_unique [of s]
  by (auto simp: discoverWallets_def split: sum.split option.split prod.split) (metis fst_conv)+


end

text \<open>One request to the wallet handlers, with any parameters and any answers of the nodes.\<close>

inductive rest_step :: "mongo \<Rightarrow> rest_state \<Rightarrow> rest_state \<Rightarrow> bool" for M where
  AddWallet: "rest_step M s (fst (addWallet M N ord now nano header body s))"
| DiscoverWallets: "rest_step M s (fst (discoverWallets M N now nano header dw s))"
| ChangeWalletName: "rest_step M s (fst (changeWalletName M header cn s))"
| AddAddress: "rest_step M s (fst (addAddress M now header sw s))"
| DeleteWallet: "deleteWallet M N header w t c n s = Inr (s', r) \<Longrightarrow> rest_step M s s'"
| SendRawHDTransaction: "sendRawHDTransaction fuel M N now header tx s = Some (Inr (s', r')) \<Longrightarrow> rest_step M s s'"
| ResyncWallet: "resyncWallet M header w t c n s = Inr (s', r) \<Longrightarrow> rest_step M s s'"
| ConvertToBroken: "rest_step M s (fst (convertToBroken M header as s))"

context mongo_srv
begin

lemma rest_step_unique: "rest_step M s s' \<Longrightarrow> indexes_unique (rs_db s) \<Longrightarrow> indexes_unique (rs_db s')"
  by (erule rest_step.cases)
    (use addWallet_unique discoverWallets_unique ids.wallet_handlers_view
       ids.deleteWallet_view ids.sendRawHDTransaction_view ids.resyncWallet_part
     in \<open>auto simp: indexes_unique_def\<close>)

end

section \<open>Properties\<close>

definition ex_nodes :: nodes where
  "ex_nodes = \<lparr>n_send = (\<lambda>ch tx. (''err: rejected'', None)), n_balance = (\<lambda>a. (Some ''5'', None)),
     n_multisig_info = (\<lambda>ch a. (\<lparr>ci_ConfirmationsRequired = 1, ci_ContractOwners = [''a0'']\<rparr>, None)),
     n_add_multisig = (\<lambda>ch a. None), n_is_empty = (\<lambda>ch a. False)\<rparr>"

definition rest_on :: "db \<Rightarrow> rest_state" where
  "rest_on d = \<lparr>rs_db = d, rs_watch = [], rs_sent = [], rs_resync = [], rs_calls = []\<rparr>"

definition ex_params :: "string \<Rightarrow> bool \<Rightarrow> WalletParams" where
  "ex_params a imported = \<lparr>wp_CurrencyID = Ether, wp_NetworkID = ETHMain, wp_Address = a, wp_AddressIndex = 0,
     wp_WalletIndex = 7, wp_WalletName = ''w'', wp_IsImported = imported, wp_Multisig = no_multisig\<rparr>"

lemmas ex_param_defs = wallet_param_def type_param_def go_simps asset_type_defs Ether_def Bitcoin_def ETHTest_def

lemmas ex_rest_defs = ex_nodes_def rest_on_def ex_params_def no_multisig_def

context mongo_srv
begin

lemma CheckTx_true: "CheckTx M tx d"
  using users.one_found_mem [of "\<lambda>u. False" "db_users d"] by (auto simp: CheckTx_def split: sum.split)

end

text \<open>
  The loop that waits for a transaction on the test net would run until its 64-bit counter wraps around to 4, but
  one test is enough fuel: the transaction is looked for among the users and never found. The calls of the
  node and the send on the channel of watched addresses return in the model.
\<close>

lemma sendRawHDTransaction_fuel: "mongo_srv M \<Longrightarrow> sendRawHDTransaction (Suc 0) M N now header body s \<noteq> None"
  using mongo_srv.CheckTx_true [of M]
  by (auto simp: sendRawHDTransaction_def split: sum.splits option.splits prod.splits)

text \<open>
  An error answer of the node is taken for success: the check has its arguments the
  wrong way round, so an answer that starts with \<open>err:\<close> and goes on is passed to the client with
  status 200, and an empty answer stops the request by a nil dereference.
\<close>

theorem error_answer_accepted:
  assumes "getToken header = Inr token" "FindUser M (by_jwt token) (rs_db s) = Inr user"
    and "rt_CurrencyID rawTx = Bitcoin" "rt_NetworkID rawTx = Main_net" "\<not> rt_IsHD rawTx"
    and "n_send N BtcMain (rt_Transaction rawTx) = (answer, None)" "answer = [] \<or> answer = ''err:'' @ c # m"
  shows "sendRawHDTransaction fuel M N now header (Some rawTx) s =
    (if answer = [] then Some (Inl NilDereference)
     else Some (Inr (NewAddressNode (rt_Address rawTx) (usr_UserID user) Bitcoin Main_net (rt_WalletIndex rawTx)
                       (rt_AddressIndex rawTx) s,
                     Some (reply StatusOK StatusOK answer))))"
proof -
  have "\<not> answer_is_error (''err:'' @ c # m)"
    using Contains_length [of "''err:''" "''err:'' @ c # m"] by (auto simp: answer_is_error_def)
  moreover have "answer_is_error []" by (simp add: answer_is_error_def)
  ultimately show ?thesis using assms by (auto simp: sendRawHDTransaction_def send_btc_def Let_def)
qed

definition ex_raw_tx :: RawHDTx where
  "ex_raw_tx = \<lparr>rt_CurrencyID = Bitcoin, rt_NetworkID = Main_net, rt_Address = ''b9'', rt_AddressIndex = 1,
     rt_WalletIndex = 1, rt_Transaction = ''00'', rt_IsHD = False\<rparr>"

lemma ex_token: "getToken ''Bearer jwt'' = Inr ''jwt''"
  by (simp add: getToken_def)

lemma ex_find_token: "FindUser ref_mongo (by_jwt ''jwt'') (rs_db (rest_on ex_db)) = Inr ex_user"
  by (simp add: FindUser_def ref_simps doc_one_def rest_on_def ex_defs by_jwt_def)

theorem error_answer_accepted_witness:
  "\<exists>s'. sendRawHDTransaction 1 ref_mongo ex_nodes 1 ''Bearer jwt'' (Some ex_raw_tx) (rest_on ex_db) =
     Some (Inr (s', Some (reply StatusOK StatusOK ''err: rejected'')))"
  using error_answer_accepted [OF ex_token ex_find_token, of ex_raw_tx ex_nodes "''err: rejected''" "CHR '' ''" "''rejected''" 1 1]
  by (simp add: ex_raw_tx_def ex_nodes_def)

text \<open>
  C28: a request to resynchronise an imported address on an Ethereum network the back end does not
  know stops the process: the client of the node stays a nil interface and the call on it
  is made in a goroutine of its own, where no handler recovers the panic.
\<close>

theorem resync_unknown_network_crashes:
  assumes "getToken header = Inr token" "FindUser M (by_jwt token) (rs_db s) = Inr user"
    and "wallet_param walletindex = (i, path)" "path \<noteq> []"
    and "type_param typ = Inr AssetTypeImportedAddress" "Atoi currencyid = (Ether, None)"
    and "Atoi networkid = (n, None)" "eth_chan n = None"
  shows "resyncWallet M header walletindex typ currencyid networkid s = Inl NilDereference"
  using assms by (simp add: resyncWallet_def int_param_def resync_background_def Let_def asset_type_defs
      Ether_def Bitcoin_def)

theorem resync_unknown_network_crashes_witness:
  "resyncWallet ref_mongo ''Bearer jwt'' ''0xabc'' ''/2'' ''60'' ''99'' (rest_on ex_db) = Inl NilDereference"
proof -
  have p: "wallet_param ''0xabc'' = (0, ''0xabc'')" "type_param ''/2'' = Inr AssetTypeImportedAddress"
    "Atoi ''60'' = (Ether, None)" "Atoi ''99'' = (99, None)"
    by (simp_all add: ex_param_defs)
  have "eth_chan 99 = None" by (simp add: eth_chan_def ETHMain_def ETHTest_def)
  from resync_unknown_network_crashes [OF ex_token ex_find_token p(1) _ p(2-4) this] show ?thesis by simp
qed

text \<open>
  The balance of an Ethereum wallet on the test net is never looked at: whatever the node
  answers, the request deletes the wallet as if it were empty.
\<close>

theorem test_net_deleted_unseen:
  assumes "getToken header = Inr token" "FindUser M (by_jwt token) (rs_db s) = Inr user"
    and "wallet_param walletindex = (i, path)" "type_param typ = Inr assetType"
    and "Atoi currencyid = (Ether, None)" "Atoi networkid = (ETHTest, None)"
  shows "deleteWallet M N header walletindex typ currencyid networkid s =
    Inr (delete_stored M (usr_UserID user) path i Ether ETHTest assetType s)"
  using assms by (simp add: deleteWallet_def int_param_def eth_balance_def Let_def Ether_def Bitcoin_def
      ETHMain_def ETHTest_def)

theorem test_net_deleted_unseen_witness:
  "deleteWallet ref_mongo ex_nodes ''Bearer jwt'' ''0'' [] ''60'' ''4'' (rest_on ex_db) =
    Inr (delete_stored ref_mongo ''u1'' [] 0 Ether ETHTest AssetTypeMultyAddress (rest_on ex_db))"
proof -
  have p: "wallet_param ''0'' = (0, [])" "type_param [] = Inr AssetTypeMultyAddress"
    "Atoi ''60'' = (Ether, None)" "Atoi ''4'' = (ETHTest, None)"
    by (simp_all add: ex_param_defs)
  from test_net_deleted_unseen [OF ex_token ex_find_token p] show ?thesis by (simp add: ex_user_def)
qed

section \<open>Deleting only empty wallets\<close>

definition address_sum :: "int \<Rightarrow> string \<Rightarrow> db \<Rightarrow> int" where
  "address_sum n a d = sum_list (map so_TxOutAmount (filter (\<lambda>o'. so_Address o' = a) (btc_sp n d)))"

definition index_addresses :: "int \<Rightarrow> User \<Rightarrow> string list" where
  "index_addresses i user =
     concat (map (\<lambda>w. map adr_Address (wal_Adresses w)) (filter (\<lambda>w. wal_WalletIndex w = i) (usr_Wallets user)))"

context mongo_live
begin

lemma checkBTC_sum:
  assumes "n = Main_net \<or> n = Test_net"
  shows "checkBTCAddressbalance M a Bitcoin n d = wrap64 (address_sum n a d)"
  using fold_wrap64 [of so_TxOutAmount "filter (\<lambda>o'. so_Address o' = a) (btc_sp n d)" 0] assms
  by (auto simp: checkBTCAddressbalance_def GetAddressSpendableOutputs_def all_res_def live_simps address_sum_def
      int64_range_def btc_sp_def)

lemma wallet_sum:
  assumes "n = Main_net \<or> n = Test_net"
  shows "fold (\<lambda>a t. wrap64 (t + checkBTCAddressbalance M (adr_Address a) Bitcoin n d)) as (wrap64 t) =
   wrap64 (t + sum_list (map (\<lambda>a. address_sum n a d) (map adr_Address as)))"
proof -
  have "fold (\<lambda>a t. wrap64 (t + checkBTCAddressbalance M (adr_Address a) Bitcoin n d)) as (wrap64 t) =
      fold (\<lambda>a t. wrap64 (t + address_sum n (adr_Address a) d)) as (wrap64 t)"
    by (simp add: checkBTC_sum [OF assms])
  also have "\<dots> = wrap64 (t + sum_list (map (\<lambda>a. address_sum n (adr_Address a) d) as))" by (rule fold_wrap64)
  finally show ?thesis by (simp add: comp_def)
qed

lemma index_balance_sum:
  assumes "n = Main_net \<or> n = Test_net"
  shows "index_balance M i Bitcoin n user d = wrap64 (sum_list (map (\<lambda>a. address_sum n a d) (index_addresses i user)))"
proof -
  have "fold (\<lambda>w t. if wal_WalletIndex w = i
           then fold (\<lambda>a t. wrap64 (t + checkBTCAddressbalance M (adr_Address a) Bitcoin n d)) (wal_Adresses w) t
           else t) ws (wrap64 t) =
      wrap64 (t + sum_list (map (\<lambda>a. address_sum n a d)
        (concat (map (\<lambda>w. map adr_Address (wal_Adresses w)) (filter (\<lambda>w. wal_WalletIndex w = i) ws)))))" for ws t
    by (induction ws arbitrary: t) (simp_all add: wallet_sum [OF assms] add.assoc)
  from this [of "usr_Wallets user" 0] show ?thesis
    by (simp add: index_balance_def index_addresses_def int64_range_def)
qed

end

lemma sum_list_zero: "(\<And>x. x \<in> set xs \<Longrightarrow> 0 \<le> x) \<Longrightarrow> sum_list xs = (0 :: int) \<Longrightarrow> x \<in> set xs \<Longrightarrow> x = 0"
  by (metis sum_list_nonneg_eq_0_iff)

text \<open>
  C24: on a database without errors, a Bitcoin wallet of either network is deleted only when it is empty: if the
  request is answered with success, no stored output of the network that pays to an address of a wallet of the
  user with this index has a positive amount, provided that no stored amount is negative and the sum of those of
  the user's addresses of this index is below 2 ^ 63. (With a failing database the look-up that fails counts as
  zero.)
\<close>

theorem deleted_wallet_empty:
  assumes "mongo_live M" "getToken header = Inr token" "FindUser M (by_jwt token) (rs_db s) = Inr user"
    and "wallet_param walletindex = (i, path)" "Atoi currencyid = (Bitcoin, None)" "Atoi networkid = (n, None)"
    and net: "n = Main_net \<or> n = Test_net"
    and "deleteWallet M N header walletindex typ currencyid networkid s = Inr (s', r)" "hr_status r = StatusOK"
    and nonneg: "\<And>o'. o' \<in> set (btc_sp n (rs_db s)) \<Longrightarrow> 0 \<le> so_TxOutAmount o'"
    and fits: "sum_list (map (\<lambda>a. address_sum n a (rs_db s)) (index_addresses i user)) < 2 ^ 63"
    and w: "w \<in> set (usr_Wallets user)" "wal_WalletIndex w = i" "ad \<in> set (wal_Adresses w)"
    and o': "o' \<in> set (btc_sp n (rs_db s))" "so_Address o' = adr_Address ad"
  shows "so_TxOutAmount o' = 0"
proof -
  let ?sums = "map (\<lambda>a. address_sum n a (rs_db s)) (index_addresses i user)"
  have pos: "0 \<le> address_sum n a (rs_db s)" for a
    unfolding address_sum_def by (rule sum_list_nonneg) (auto dest: nonneg)
  then have "0 \<le> sum_list ?sums" by (intro sum_list_nonneg) auto
  with fits have range: "int64_range (sum_list ?sums)" by (simp add: int64_range_def)
  have "btc_total M i Bitcoin n user (rs_db s) = 0"
    using assms(2-6,8,9) by (auto simp: deleteWallet_def int_param_def reply_defs status_defs split: sum.splits if_splits)
  then have "sum_list ?sums = 0"
    by (simp add: btc_total_def mongo_live.index_balance_sum [OF assms(1) net] net wrap64_id [OF range])
  moreover have "address_sum n (adr_Address ad) (rs_db s) \<in> set ?sums"
    using w by (auto simp: index_addresses_def)
  moreover have "0 \<le> x" if "x \<in> set ?sums" for x
    using that unfolding set_map by (elim imageE) (simp only: pos)
  ultimately have "address_sum n (adr_Address ad) (rs_db s) = 0" using sum_list_zero [of ?sums] by blast
  moreover have "so_TxOutAmount o' \<in> set (map so_TxOutAmount (filter (\<lambda>x. so_Address x = adr_Address ad) (btc_sp n (rs_db s))))"
    using o' by auto
  moreover have "0 \<le> x" if "x \<in> set (map so_TxOutAmount (filter (\<lambda>x. so_Address x = adr_Address ad) (btc_sp n (rs_db s))))" for x
    using that nonneg by auto
  ultimately show ?thesis
    unfolding address_sum_def using sum_list_zero by blast
qed

definition ex_out :: SpendableOutputs where
  "ex_out = \<lparr>so_TxID = ''t'', so_TxOutID = 0, so_TxOutAmount = 0, so_TxOutScript = [], so_Address = ''c0'',
     so_UserID = ''u3'', so_WalletIndex = 1, so_AddressIndex = 0, so_TxStatus = 1, so_StockExchangeRate = []\<rparr>"

definition ex_btc_user :: User where
  "ex_btc_user = ex_user\<lparr>usr_Wallets := [ex_wallet 0 0 1 ''c0'']\<rparr>"

definition ex_btc_db :: db where
  "ex_btc_db = empty_db\<lparr>db_users := [ex_btc_user], db_spMain := [ex_out]\<rparr>"

theorem deleted_wallet_empty_witness: "so_TxOutAmount ex_out = 0"
proof -
  let ?s = "rest_on ex_btc_db"
  have u: "FindUser ref_mongo (by_jwt ''jwt'') (rs_db ?s) = Inr ex_btc_user"
    by (simp add: FindUser_def ref_simps doc_one_def rest_on_def ex_btc_db_def ex_btc_user_def ex_defs by_jwt_def)
  have p: "wallet_param ''1'' = (1, [])" "Atoi ''0'' = (Bitcoin, None)" "Atoi ''0'' = (Main_net, None)"
    by (simp_all add: ex_param_defs Main_net_def)
  have sp: "btc_sp Main_net (rs_db ?s) = [ex_out]" by (simp add: rest_on_def ex_btc_db_def btc_sp_def)
  have addr: "index_addresses 1 ex_btc_user = [''c0'']"
    by (simp add: index_addresses_def ex_btc_user_def ex_wallet_def)
  have z: "address_sum Main_net ''c0'' (rs_db ?s) = 0" by (simp add: address_sum_def sp ex_out_def)
  let ?r = "delete_stored ref_mongo ''u1'' [] 1 Bitcoin Main_net AssetTypeMultyAddress ?s"
  have "btc_total ref_mongo 1 Bitcoin Main_net ex_btc_user (rs_db ?s) = 0"
    by (simp add: btc_total_def refm.index_balance_sum addr z int64_range_def)
  then have d: "deleteWallet ref_mongo ex_nodes ''Bearer jwt'' ''1'' [] ''0'' ''0'' ?s = Inr (fst ?r, snd ?r)"
    using p u ex_token by (simp add: deleteWallet_def int_param_def type_param_def ex_btc_user_def ex_user_def Main_net_def Bitcoin_def)
  have k: "hr_status (snd ?r) = StatusOK"
    by (simp add: delete_stored_def DeleteWallet_def users_update_def ref_simps doc_one_def doc_update_def rest_on_def
        ex_btc_db_def ex_btc_user_def ex_defs by_userID_def wallet_sel_def mgo_err_def reply_def asset_type_defs
        Bitcoin_def Main_net_def)
  show ?thesis
    by (rule deleted_wallet_empty [OF refm.mongo_live_axioms ex_token u p _ d k,
          where w = "ex_wallet 0 0 1 ''c0''" and ad = "\<lparr>adr_AddressIndex = 0, adr_Address = ''c0'', adr_LastActionTime = 0\<rparr>"])
      (simp_all add: sp addr z, simp_all add: ex_out_def ex_btc_user_def ex_wallet_def)
qed

section \<open>Imports and invite codes\<close>

lemma by_jwt_docs [simp]:
  "by_jwt t (push_wallet w u) = by_jwt t u" "by_jwt t (push_multisig m u) = by_jwt t u"
  "by_jwt t (at_wallet i f u) = by_jwt t u"
  by (simp_all add: by_jwt_def push_wallet_def push_multisig_def set_multisigs_def at_wallet_def)

context mongo_live
begin

lemma FindUser_iff: "FindUser M q d = Inr u \<longleftrightarrow> find q (db_users d) = Some u"
  by (auto simp: FindUser_def live_simps doc_one_def split: option.splits)

lemma users_update_live:
  assumes "find q (db_users d) = Some u"
  shows "users_update M q f d = (d\<lparr>db_users := update_first q f (db_users d)\<rparr>, None)"
  using find_SomeD [OF assms] by (auto simp: users_update_def live_simps doc_update_def list_ex_iff)

lemma createCustomWallet_live:
  assumes u: "find (by_jwt token) (db_users (rs_db s)) = Some user"
    and w: "new_wallet now nano wp e user = Inr (w, g)"
  shows "\<exists>s'. createCustomWallet M now nano wp token e s = (s', None) \<and>
     find (by_jwt token) (db_users (rs_db s')) = Some (push_wallet w user)"
proof -
  have "find (by_jwt token) (update_first (by_jwt token) (push_wallet w) (db_users (rs_db s))) = Some (push_wallet w user)"
    using find_update_first [of "by_jwt token" _ user "push_wallet w"] u find_SomeD [OF u] by simp
  then show ?thesis
    using u w by (simp add: createCustomWallet_def FindUser_iff [THEN iffD2] rest_update_def new_wallet_watch [OF w]
        users_update_live)
qed

end

text \<open>
  An address is imported twice when it is sent with upper-case letters: the stored address is
  in lower case and the look-up compares it with the address as it was sent.
\<close>

theorem imported_twice:
  assumes "mongo_live M" "find (by_jwt token) (db_users (rs_db s)) = Some user"
    and "wp_IsImported wp" "2 \<le> length (wp_Address wp)" "ToLower (wp_Address wp) \<noteq> wp_Address wp"
    and "\<not> list_ex (first_address_is (wp_Address wp)) (usr_Wallets user)"
  shows "\<exists>w s1 s2. createCustomWallet M now nano wp token False s = (s1, None) \<and>
     createCustomWallet M now nano wp token False s1 = (s2, None) \<and>
     first_address_is (ToLower (wp_Address wp)) w \<and>
     find (by_jwt token) (db_users (rs_db s2)) = Some (push_wallet w (push_wallet w user))"
proof -
  let ?w = "createWallet now nano (wp_CurrencyID wp) (wp_NetworkID wp) (ToLower (wp_Address wp)) 0 (- 1)
    (wp_WalletName wp) (wp_IsImported wp) WalletStatusOK"
  have new: "\<exists>g. new_wallet now nano wp False u = Inr (?w, g)"
    if "\<not> list_ex (first_address_is (wp_Address wp)) (usr_Wallets u)" for u
    using that assms(3,4) by (auto simp: new_wallet_def list_ex_iff)
  obtain g1 where g1: "new_wallet now nano wp False user = Inr (?w, g1)" using new [OF assms(6)] by blast
  have fresh: "\<not> list_ex (first_address_is (wp_Address wp)) (usr_Wallets (push_wallet ?w user))"
    using assms(5,6) by (simp add: push_wallet_def first_address_is_def createWallet_def)
  obtain g2 where g2: "new_wallet now nano wp False (push_wallet ?w user) = Inr (?w, g2)" using new [OF fresh] by blast
  note live = mongo_live.createCustomWallet_live [OF assms(1)]
  obtain s1 where s1: "createCustomWallet M now nano wp token False s = (s1, None)"
    "find (by_jwt token) (db_users (rs_db s1)) = Some (push_wallet ?w user)"
    using live [OF assms(2) g1] by blast
  obtain s2 where "createCustomWallet M now nano wp token False s1 = (s2, None)"
    "find (by_jwt token) (db_users (rs_db s2)) = Some (push_wallet ?w (push_wallet ?w user))"
    using live [OF s1(2) g2] by blast
  moreover have "first_address_is (ToLower (wp_Address wp)) ?w" by (simp add: first_address_is_def createWallet_def)
  ultimately show ?thesis using s1(1) by blast
qed

lemma ex_lower: "ToLower ''0xA'' = ''0xa''" "ToLower ''INV'' = ''inv''"
  by code_simp+

theorem imported_twice_witness:
  "\<exists>s2. snd (createCustomWallet ref_mongo 1 1 (ex_params ''0xA'' True) ''jwt'' False
      (fst (createCustomWallet ref_mongo 1 1 (ex_params ''0xA'' True) ''jwt'' False (rest_on ex_db)))) = None"
proof -
  have u: "find (by_jwt ''jwt'') (db_users (rs_db (rest_on ex_db))) = Some ex_user"
    using ex_find_token by (simp only: refm.FindUser_iff)
  have "\<not> list_ex (first_address_is (wp_Address (ex_params ''0xA'' True))) (usr_Wallets ex_user)"
    "ToLower (wp_Address (ex_params ''0xA'' True)) \<noteq> wp_Address (ex_params ''0xA'' True)"
    by (simp add: ex_user_def ex_wallet_def first_address_is_def ex_params_def) (simp add: ex_params_def ex_lower)
  from imported_twice [OF refm.mongo_live_axioms u _ _ this(2,1), of 1 1] show ?thesis
    by (auto simp: ex_params_def)
qed

text \<open>
  An invite code with upper-case letters is checked as sent and stored in lower case: a new
  multisig is accepted under a code that is in use, and both users then hold it.
\<close>

theorem invite_code_reused:
  assumes "mongo_live M" "find (by_jwt token) (db_users (rs_db s)) = Some user"
    and "2 \<le> mw_OwnersCount (wp_Multisig wp)" "mw_SignaturesRequired (wp_Multisig wp) \<le> mw_OwnersCount (wp_Multisig wp)"
    and "CheckInviteCode M (mw_InviteCode (wp_Multisig wp)) (rs_db s)"
    and "v \<in> set (db_users (rs_db s))" "has_invite (ToLower (mw_InviteCode (wp_Multisig wp))) v" "v \<noteq> user"
  shows "\<exists>s' multisig. create_multisig_wallet M now wp token s = (s', reply_with StatusCreated StatusOK [] multisig) \<and>
     {v, push_multisig multisig user} \<subseteq> set (FindMultisigUsers M (ToLower (mw_InviteCode (wp_Multisig wp))) (rs_db s'))"
proof -
  let ?code = "ToLower (mw_InviteCode (wp_Multisig wp))"
  let ?m = "createMultisig now (wp_CurrencyID wp) (wp_NetworkID wp) (wp_AddressIndex wp) (wp_WalletIndex wp)
    (mw_SignaturesRequired (wp_Multisig wp)) (mw_OwnersCount (wp_Multisig wp)) (usr_UserID user)
    (ToLower (wp_Address wp)) (wp_WalletName wp) ?code"
  let ?us = "update_first (by_jwt token) (push_multisig ?m) (db_users (rs_db s))"
  have "v \<in> set ?us" using assms(2,6,8) by (rule update_first_keeps)
  moreover have "push_multisig ?m user \<in> set ?us" using assms(2) by (rule update_first_in)
  moreover have "has_invite ?code (push_multisig ?m user)"
    by (simp add: has_invite_def push_multisig_def set_multisigs_def createMultisig_def)
  ultimately have "{v, push_multisig ?m user} \<subseteq> set (filter (has_invite ?code) ?us)" using assms(7) by simp
  moreover have "create_multisig_wallet M now wp token s =
      (s\<lparr>rs_db := (rs_db s)\<lparr>db_users := ?us\<rparr>\<rparr>, reply_with StatusCreated StatusOK [] ?m)"
    using assms(2-5) by (simp add: create_multisig_wallet_def createCustomMultisig_def Let_def rest_update_def
        mongo_live.FindUser_iff [OF assms(1), THEN iffD2] mongo_live.users_update_live [OF assms(1)])
  ultimately show ?thesis
    by (intro exI conjI) (assumption, simp add: FindMultisigUsers_def all_or_def mongo_live.live_simps [OF assms(1)])
qed

definition ex_invite_params :: WalletParams where
  "ex_invite_params = (ex_params ''a0'' False)\<lparr>wp_Multisig := no_multisig\<lparr>mw_IsMultisig := True,
     mw_SignaturesRequired := 1, mw_OwnersCount := 2, mw_InviteCode := ''INV''\<rparr>\<rparr>"

theorem invite_code_reused_witness:
  "\<exists>s' m. create_multisig_wallet ref_mongo 1 ex_invite_params ''jwt'' (rest_on ex_db) = (s', reply_with StatusCreated StatusOK [] m) \<and>
     {ex_user2, push_multisig m ex_user} \<subseteq> set (FindMultisigUsers ref_mongo ''inv'' (rs_db s'))"
proof -
  have u: "find (by_jwt ''jwt'') (db_users (rs_db (rest_on ex_db))) = Some ex_user"
    using ex_find_token by (simp only: refm.FindUser_iff)
  have free: "CheckInviteCode ref_mongo ''INV'' (rs_db (rest_on ex_db))"
    by (simp add: refm.CheckInviteCode_iff rest_on_def ex_defs has_invite_def)
  have v: "ex_user2 \<in> set (db_users (rs_db (rest_on ex_db)))" "has_invite ''inv'' ex_user2" "ex_user2 \<noteq> ex_user"
    by (simp_all add: rest_on_def ex_defs has_invite_def)
  have p: "mw_InviteCode (wp_Multisig ex_invite_params) = ''INV''" "mw_OwnersCount (wp_Multisig ex_invite_params) = 2"
    "mw_SignaturesRequired (wp_Multisig ex_invite_params) = 1"
    by (simp_all add: ex_invite_params_def)
  from invite_code_reused [OF refm.mongo_live_axioms u, of ex_invite_params ex_user2, unfolded p ex_lower] free v
  show ?thesis by simp
qed

end
