(* ===== verification/Auth_Facts.thy ===== *)
theory Auth_Facts
  imports Auth Wallet_Facts
begin

text \<open>
  What authentication rests on: the laws of the token library (locale \<open>jwt_lib\<close>) with an instance, the
  sessions stored in the user documents, and how the middleware, the login and the handlers fit together.
\<close>

context mongo_live
begin

lemma live_srv: "mongo_srv M"
  by (rule mongo_srv_axioms)

end

section \<open>The laws of the library\<close>

text \<open>
  \<open>signed_by alg key t m\<close>: the token carries the claims and a signature made with the key. A token
  is accepted exactly when it is signed with the key that the key function gives and its times hold; it is made
  of three texts in an alphabet without spaces.
\<close>

definition in_time :: "int \<Rightarrow> (string \<Rightarrow> claim option) \<Rightarrow> bool" where
  "in_time now m \<longleftrightarrow>
     (case m ''exp'' of Some (CNum e) \<Rightarrow> e = 0 \<or> now \<le> e | _ \<Rightarrow> True) \<and>
     (case m ''iat'' of Some (CNum i) \<Rightarrow> i = 0 \<or> i \<le> now | _ \<Rightarrow> True) \<and>
     (case m ''nbf'' of Some (CNum b) \<Rightarrow> b = 0 \<or> b \<le> now | _ \<Rightarrow> True)"

locale jwt_lib =
  fixes J :: jwt and signed_by :: "string \<Rightarrow> string \<Rightarrow> string \<Rightarrow> (string \<Rightarrow> claim option) \<Rightarrow> bool"
  assumes method_law: "j_method J ''HS256''"
    and sign_law: "j_sign J alg key c = Inr t \<Longrightarrow> signed_by alg key t (map_of c)"
    and parse_law: "j_parse J kf now t = TokenOk c \<Longrightarrow>
      \<exists>alg key. kf alg = Inr key \<and> signed_by alg key t (map_of c) \<and> in_time now (map_of c)"
    and accept_law: "signed_by alg key t m \<Longrightarrow> kf alg = Inr key \<Longrightarrow> in_time now m \<Longrightarrow>
      \<exists>c. j_parse J kf now t = TokenOk c \<and> map_of c = m"
    and claims_law: "signed_by alg key t m \<Longrightarrow> signed_by alg' key' t m' \<Longrightarrow> m = m'"
    and space_law: "signed_by alg key t m \<Longrightarrow> CHR '' '' \<notin> set t"

section \<open>An instance\<close>

text \<open>
  Texts in unary: a token is the list of its algorithm, its key and its claims. It stands for the
  library where a witness needs one.
\<close>

definition enc :: "string \<Rightarrow> string" where
  "enc s = concat (map (\<lambda>c. replicate (of_char c) (CHR ''x'') @ ''y'') s) @ ''z''"

fun dec :: "nat \<Rightarrow> string \<Rightarrow> string \<Rightarrow> string list" where
  "dec n cur [] = []"
| "dec n cur (x # s) =
     (if x = CHR ''x'' then dec (Suc n) cur s
      else if x = CHR ''y'' then dec 0 (cur @ [char_of n]) s
      else cur # dec 0 [] s)"

lemma dec_replicate [simp]: "dec n cur (replicate k (CHR ''x'') @ s) = dec (n + k) cur s"
  by (induction k arbitrary: n) simp_all

lemma dec_enc [simp]: "dec 0 cur (enc w @ s) = (cur @ w) # dec 0 [] s"
  by (induction w arbitrary: cur) (simp_all add: enc_def)

lemma dec_encs [simp]: "dec 0 [] (concat (map enc l)) = l"
  by (induction l) simp_all

lemma enc_no_space: "CHR '' '' \<notin> set (enc s)"
  by (auto simp: enc_def)

fun claim_text :: "claim \<Rightarrow> string" where
  "claim_text CNil = ''n''"
| "claim_text (CStr s) = CHR ''s'' # s"
| "claim_text (CNum i) = (if 0 \<le> i then CHR ''p'' else CHR ''m'') # replicate (nat \<bar>i\<bar>) (CHR ''a'')"

definition text_claim :: "string \<Rightarrow> claim" where
  "text_claim s = (case s of [] \<Rightarrow> CNil
     | x # r \<Rightarrow> if x = CHR ''s'' then CStr r else if x = CHR ''p'' then CNum (int (length r))
                else if x = CHR ''m'' then CNum (- int (length r)) else CNil)"

lemma text_claim_text [simp]: "text_claim (claim_text v) = v"
  by (cases v) (simp_all add: text_claim_def)

fun texts_claims :: "string list \<Rightarrow> claims" where
  "texts_claims (k # v # r) = (k, text_claim v) # texts_claims r"
| "texts_claims _ = []"

definition claims_texts :: "claims \<Rightarrow> string list" where
  "claims_texts c = concat (map (\<lambda>(k, v). [k, claim_text v]) c)"

lemma texts_claims_texts [simp]: "texts_claims (claims_texts c) = c"
  by (induction c) (auto simp: claims_texts_def)

definition ref_token :: "string \<Rightarrow> string \<Rightarrow> claims \<Rightarrow> string" where
  "ref_token alg key c = concat (map enc (alg # key # claims_texts c))"

definition ref_parse :: "(string \<Rightarrow> string + string) \<Rightarrow> int \<Rightarrow> string \<Rightarrow> parsed" where
  "ref_parse kf now t =
     (case dec 0 [] t of
        alg # key # r \<Rightarrow>
          (let c = texts_claims r in
           if t \<noteq> ref_token alg key c then NoToken ''malformed''
           else case kf alg of
             Inl err \<Rightarrow> TokenErr (Some c) err
           | Inr key' \<Rightarrow> if key' = key \<and> in_time now (map_of c) then TokenOk c else TokenErr (Some c) ''invalid'')
      | _ \<Rightarrow> NoToken ''malformed'')"

definition ref_jwt :: jwt where
  "ref_jwt = \<lparr>j_method = (\<lambda>alg. alg = ''HS256''), j_sign = (\<lambda>alg key c. Inr (ref_token alg key c)), j_parse = ref_parse\<rparr>"

definition ref_signed :: "string \<Rightarrow> string \<Rightarrow> string \<Rightarrow> (string \<Rightarrow> claim option) \<Rightarrow> bool" where
  "ref_signed alg key t m \<longleftrightarrow> (\<exists>c. t = ref_token alg key c \<and> m = map_of c)"

lemma ref_token_parts: "dec 0 [] (ref_token alg key c) = alg # key # claims_texts c"
  using dec_encs [of "alg # key # claims_texts c"] by (simp add: ref_token_def)

lemma ref_token_inj: "ref_token alg key c = ref_token alg' key' c' \<Longrightarrow> alg = alg' \<and> key = key' \<and> c = c'"
  by (metis ref_token_parts list.inject texts_claims_texts)

lemma ref_parse_token:
  "ref_parse kf now (ref_token alg key c) =
     (case kf alg of
        Inl err \<Rightarrow> TokenErr (Some c) err
      | Inr key' \<Rightarrow> if key' = key \<and> in_time now (map_of c) then TokenOk c else TokenErr (Some c) ''invalid'')"
  by (simp add: ref_parse_def ref_token_parts)

lemma ref_token_no_space: "CHR '' '' \<notin> set (ref_token alg key c)"
  by (auto simp: ref_token_def enc_no_space)

interpretation refj: jwt_lib ref_jwt ref_signed
proof unfold_locales
  show "\<exists>alg key. kf alg = Inr key \<and> ref_signed alg key t (map_of c) \<and> in_time now (map_of c)"
    if "j_parse ref_jwt kf now t = TokenOk c" for kf now t c
    using that by (auto simp: ref_jwt_def ref_parse_def ref_signed_def Let_def split: list.splits sum.splits if_splits)
  show "m = m'" if "ref_signed alg key t m" "ref_signed alg' key' t m'" for alg key t m alg' key' m'
    using that by (auto simp: ref_signed_def dest: ref_token_inj)
qed (auto simp: ref_jwt_def ref_signed_def ref_parse_token ref_token_no_space)

section \<open>The server's middleware\<close>

definition server :: "mongo \<Rightarrow> string \<Rightarrow> GinJWTMiddleware" where
  "server M key = fst (MiddlewareInit (initMiddlewareJWT M key))"

lemma TrimSpace_Bearer [simp]: "TrimSpace ''Bearer'' = ''Bearer''"
  by (simp add: TrimSpace_def white_def)

lemma server_eq:
  "MiddlewareInit (initMiddlewareJWT M key) =
     (\<lparr>gm_Realm = ''test zone'', gm_SigningAlgorithm = ''HS256'', gm_Key = Some key, gm_Timeout = Hour,
       gm_MaxRefresh = Hour, gm_Authenticator = Some (Authenticator M), gm_Authorizator = Some (\<lambda>userID. True),
       gm_PayloadFunc = None, gm_Unauthorized = Some (\<lambda>code message. (code, Message code message)),
       gm_IdentityHandler = Some default_identity, gm_TokenLookup = ''header:Authorization'',
       gm_TokenHeadName = ''Bearer''\<rparr>, None)"
  unfolding MiddlewareInit_def Let_def by (simp add: initMiddlewareJWT_def Hour_def)

lemma server_simps [simp]:
  "gm_Realm (server M key) = ''test zone''" "gm_SigningAlgorithm (server M key) = ''HS256''"
  "gm_Key (server M key) = Some key" "gm_Timeout (server M key) = Hour" "gm_MaxRefresh (server M key) = Hour"
  "gm_Authenticator (server M key) = Some (Authenticator M)" "gm_PayloadFunc (server M key) = None"
  "gm_TokenLookup (server M key) = ''header:Authorization''" "gm_TokenHeadName (server M key) = ''Bearer''"
  "gm_Authorizator (server M key) = Some (\<lambda>userID. True)" "gm_IdentityHandler (server M key) = Some default_identity"
  "gm_Unauthorized (server M key) = Some (\<lambda>code message. (code, Message code message))"
  by (simp_all add: server_def server_eq)

lemma MiddlewareInit_server [simp]: "MiddlewareInit (initMiddlewareJWT M key) = (server M key, None)"
  by (simp add: server_def server_eq)

lemma server_unauthorized [simp]:
  "unauthorized (server M key) code message =
     Inr \<lparr>ar_status = code, ar_body = Message code message, ar_realm = Some ''test zone''\<rparr>"
  by (simp add: unauthorized_def)

lemma server_lookup: "lookup_token (server M key) rq = Inr (jwtFromHeader (server M key) rq ''Authorization'')"
  by (simp add: lookup_token_def index_def)

lemma SplitN2_two: "length (SplitN2 c s) = 2 \<Longrightarrow> s = SplitN2 c s ! 0 @ c # SplitN2 c s ! 1"
  using takeWhile_dropWhile_id [of "\<lambda>x. x \<noteq> c" s] hd_dropWhile [of "\<lambda>x. x \<noteq> c" s]
  by (cases "dropWhile (\<lambda>x. x \<noteq> c) s") (auto simp: SplitN2_def dropWhile_eq_Nil_conv split: if_splits)

lemma jwtFromHeader_Inr:
  assumes "jwtFromHeader (server M key) rq k = Inr t"
  shows "rq_header rq k = ''Bearer '' @ t"
  using assms SplitN2_two [of "CHR '' ''" "rq_header rq k"]
  by (simp add: jwtFromHeader_def Let_def split: if_splits)

lemma jwtFromHeader_Bearer: "rq_header rq k = ''Bearer '' @ t \<Longrightarrow> jwtFromHeader (server M key) rq k = Inr t"
  using SplitN2_append [of "CHR '' ''" "''Bearer''" t] by (simp add: jwtFromHeader_def)

fun_cases parse_error_InlE: "parse_error p = Inl c"

lemma server_identity: "default_identity c = Inr uid \<longleftrightarrow> map_of c ''id'' = Some (CStr uid)"
  by (auto simp: default_identity_def split: option.split claim.split)

context jwt_lib
begin

lemma admitted_signed:
  assumes "MiddlewareFunc J (initMiddlewareJWT M key) now rq = Inr (Admitted uid c)"
  shows "\<exists>t. rq_header rq ''Authorization'' = ''Bearer '' @ t \<and> signed_by ''HS256'' key t (map_of c) \<and>
     map_of c ''id'' = Some (CStr uid) \<and> in_time (unix now) (map_of c)"
proof -
  from assms obtain t where t: "jwtFromHeader (server M key) rq ''Authorization'' = Inr t"
    "j_parse J (keyfunc (server M key)) (unix now) t = TokenOk c" "map_of c ''id'' = Some (CStr uid)"
    by (auto simp: MiddlewareFunc_def middlewareImpl_def parseToken_def server_lookup bind_p_Inr server_identity
        split: sum.splits elim!: parse_error_InlE)
  from parse_law [OF t(2)] have "signed_by ''HS256'' key t (map_of c) \<and> in_time (unix now) (map_of c)"
    by (auto simp: keyfunc_def split: if_splits)
  with jwtFromHeader_Inr [OF t(1)] t(3) show ?thesis by blast
qed

lemma getToken_Bearer: "signed_by alg key t m \<Longrightarrow> getToken (''Bearer '' @ t) = Inr t"
  using Split_none [OF space_law] by (simp add: getToken_def)

lemma admits:
  assumes "signed_by ''HS256'' key t m" "m ''id'' = Some (CStr uid)" "in_time (unix now) m"
    and "rq_header rq ''Authorization'' = ''Bearer '' @ t"
  shows "\<exists>c. MiddlewareFunc J (initMiddlewareJWT M key) now rq = Inr (Admitted uid c)"
proof -
  obtain c where "j_parse J (keyfunc (server M key)) (unix now) t = TokenOk c" "map_of c = m"
    using accept_law [OF assms(1) _ assms(3), of "keyfunc (server M key)"] by (auto simp: keyfunc_def)
  then show ?thesis
    using assms(2) jwtFromHeader_Bearer [OF assms(4), of M key]
    by (simp add: MiddlewareFunc_def middlewareImpl_def parseToken_def server_lookup default_identity_def)
qed

end

section \<open>Sessions\<close>

definition logins :: "User \<Rightarrow> string \<times> Device list" where
  "logins u = (usr_UserID u, usr_Devices u)"

lemma logins_push [simp]: "logins (push_wallet w u) = logins u" "logins (push_multisig m u) = logins u"
  by (simp_all add: logins_def push_wallet_def push_multisig_def set_multisigs_def)

sublocale mongo_srv \<subseteq> logins: account_part M logins
  by unfold_locales
    (simp_all add: logins_def push_wallet_def push_multisig_def set_multisigs_def at_first_multisig_def at_wallet_def at_first_wallet_def)

text \<open>Every token stored with a device was signed by the server for the user of the document.\<close>

definition session_ok :: "(string \<Rightarrow> (string \<Rightarrow> claim option) \<Rightarrow> bool) \<Rightarrow> string \<times> Device list \<Rightarrow> bool" where
  "session_ok valid l \<longleftrightarrow> (\<forall>dev \<in> set (snd l). \<exists>m. valid (dev_JWT dev) m \<and> m ''id'' = Some (CStr (fst l)))"

definition sessions_signed :: "(string \<Rightarrow> (string \<Rightarrow> claim option) \<Rightarrow> bool) \<Rightarrow> db \<Rightarrow> bool" where
  "sessions_signed valid d \<longleftrightarrow> list_all (session_ok valid) (parts logins d)"

lemma sessions_signedD:
  "sessions_signed valid d \<Longrightarrow> u \<in> set (db_users d) \<Longrightarrow> dev \<in> set (usr_Devices u) \<Longrightarrow>
   \<exists>m. valid (dev_JWT dev) m \<and> m ''id'' = Some (CStr (usr_UserID u))"
  by (auto simp: sessions_signed_def parts_def list_all_iff session_ok_def logins_def)

text \<open>The login handler of the server, once the token is signed.\<close>

lemma login_reads_server:
  "login_reads M J (initMiddlewareJWT M key) now ip None d = Inr (Inl \<lparr>ar_status = StatusBadRequest,
     ar_body = Message StatusBadRequest ''Missing UserID, DeviceID, PushToken, AppVersion or DeviceType'',
     ar_realm = Some ''test zone''\<rparr>)"
  "login_reads M J (initMiddlewareJWT M key) now ip (Some l) d =
     (if \<not> j_method J ''HS256'' then Inl NilDereference
      else Inr (case j_sign J ''HS256'' key (new_claims (server M key) (lg_UserID l) now) of
          Inl err \<Rightarrow> Inl \<lparr>ar_status = StatusUnauthorized, ar_body = Message StatusUnauthorized ''Create JWT Token faild'',
            ar_realm = Some ''test zone''\<rparr>
        | Inr tok \<Rightarrow> Inr \<lparr>pn_login = l, pn_now = now, pn_ip = ip, pn_user = fst (Authenticator M (lg_UserID l) d),
            pn_known = snd (Authenticator M (lg_UserID l) d), pn_token = tok, pn_expire = now + Hour\<rparr>))"
  by (cases "Authenticator M (lg_UserID l) d"; simp add: login_reads_def sign_token_def split: sum.split)+

lemma login_reads_pending:
  assumes "login_reads M J (initMiddlewareJWT M key) now ip lg d = Inr (Inr p)"
  obtains l user ok tok where "lg = Some l" "Authenticator M (lg_UserID l) d = (user, ok)"
    "j_sign J ''HS256'' key (new_claims (server M key) (lg_UserID l) now) = Inr tok"
    "p = \<lparr>pn_login = l, pn_now = now, pn_ip = ip, pn_user = user, pn_known = ok, pn_token = tok, pn_expire = now + Hour\<rparr>"
proof (cases lg)
  case (Some l)
  show ?thesis
    by (cases "j_sign J ''HS256'' key (new_claims (server M key) (lg_UserID l) now)";
        rule that [OF Some prod.collapse [symmetric]])
      (use assms Some in \<open>auto simp: login_reads_server split: if_splits\<close>)
qed (use assms in \<open>simp add: login_reads_server\<close>)

lemma login_reads_refused: "login_reads M J (initMiddlewareJWT M key) now ip lg d = Inr (Inl r) \<Longrightarrow> ar_status r \<noteq> StatusOK"
  by (cases lg) (auto simp: login_reads_server status_defs split: if_splits sum.splits)

lemma LoginHandler_cases:
  assumes "LoginHandler M J (initMiddlewareJWT M key) now ip lg d = Inr (r, d')"
  obtains "d' = d" "ar_status r \<noteq> StatusOK"
  | l tok user ok where "lg = Some l" "Authenticator M (lg_UserID l) d = (user, ok)"
      "j_sign J ''HS256'' key (new_claims (server M key) (lg_UserID l) now) = Inr tok"
      "(r, d') = (if \<not> ok then new_user_login M now ip l tok (now + Hour) d
                  else old_user_login M now ip l user tok (now + Hour) d)"
proof -
  from assms obtain a where a: "login_reads M J (initMiddlewareJWT M key) now ip lg d = Inr a"
    "(r, d') = (case a of Inl answer \<Rightarrow> (answer, d) | Inr p \<Rightarrow> login_writes M p d)"
    by (auto simp: LoginHandler_def bind_p_Inr)
  show ?thesis
  proof (cases a)
    case (Inl answer)
    with a that(1) login_reads_refused [of M J key now ip lg d answer] show ?thesis by simp
  next
    case (Inr p)
    with a(1) have "login_reads M J (initMiddlewareJWT M key) now ip lg d = Inr (Inr p)" by simp
    then show ?thesis
      by (rule login_reads_pending) (use a(2) Inr in \<open>auto simp: login_writes_def split: if_splits intro: that(2)\<close>)
  qed
qed

lemma snd_saved_reply [simp]: "snd (saved_reply tok e r) = fst r"
  by (simp add: saved_reply_def split: option.split)

lemma new_claims_server:
  "map_of (new_claims (server M key) uid now) =
     [''id'' \<mapsto> CStr uid, ''exp'' \<mapsto> CNum (unix (now + Hour)), ''orig_iat'' \<mapsto> CNum (unix now)]"
  by (simp add: new_claims_def)

text \<open>The device a pending login stores, and whether it is a new one of a known account.\<close>

definition pending_device :: "pending_login \<Rightarrow> Device" where
  "pending_device p = createDevice (unix (pn_now p)) (lg_DeviceID (pn_login p)) (pn_ip p) (pn_token p)
     (lg_PushToken (pn_login p)) (lg_AppVersion (pn_login p)) (lg_DeviceType (pn_login p))"

definition new_device :: "pending_login \<Rightarrow> bool" where
  "new_device p \<longleftrightarrow> find (\<lambda>dev. dev_DeviceID dev = lg_DeviceID (pn_login p)) (usr_Devices (pn_user p)) = None"

context mongo_srv
begin

lemma authenticated:
  assumes "Authenticator M uid d = (user, ok)" ok
  shows "user \<in> set (db_users d)" "usr_UserID user = uid"
  using assms by (auto simp: Authenticator_def FindUser_def by_userID_def dest: users.one_found_mem split: sum.splits)

text \<open>What the write of a login does to the accounts, and that an answer of success means it was done.\<close>

lemma login_writes_users:
  assumes "login_writes M p d = (r, d')"
  obtains (none) "db_users d' = db_users d" "ar_status r \<noteq> StatusOK"
  | (insert) "\<not> pn_known p" "db_users d' = db_users d @ [createUser (lg_UserID (pn_login p)) [pending_device p] []
      (lg_SeedPhraseType (pn_login p))]"
  | (refresh) dev where "pn_known p" "find (\<lambda>dev. dev_DeviceID dev = lg_DeviceID (pn_login p)) (usr_Devices (pn_user p)) = Some dev"
      "db_users d' = update_first (\<lambda>u. by_userID (usr_UserID (pn_user p)) u \<and> by_jwt (dev_JWT dev) u)
        (refresh_device (dev_JWT dev) (pn_token p)) (db_users d)"
      "ar_status r = StatusOK \<Longrightarrow> list_ex (\<lambda>u. by_userID (usr_UserID (pn_user p)) u \<and> by_jwt (dev_JWT dev) u) (db_users d)"
  | (replace) "pn_known p" "new_device p"
      "db_users d' = update_first (by_userID (lg_UserID (pn_login p)))
        (\<lambda>_. (pn_user p)\<lparr>usr_Devices := usr_Devices (pn_user p) @ [pending_device p]\<rparr>) (db_users d)"
      "ar_status r = StatusOK \<Longrightarrow> list_ex (by_userID (lg_UserID (pn_login p))) (db_users d)"
proof (cases "pn_known p")
  case False
  then show ?thesis
    using assms users.insert_law [of "createUser (lg_UserID (pn_login p)) [pending_device p] [] (lg_SeedPhraseType (pn_login p))" "db_users d"] that(1,2)
    by (auto simp: login_writes_def new_user_login_def pending_device_def Let_def saved_reply_def Insert_def db_failed_def token_reply_def
        status_defs split: if_splits option.splits mgo_error.splits prod.splits)
next
  case True
  have up: "db_users e = db_users d \<and> ar_status r \<noteq> StatusOK \<or>
      db_users e = update_first q f (db_users d) \<and> (ar_status r = StatusOK \<longrightarrow> list_ex q (db_users d))"
    if "saved_reply tok x (users_update M q f d) = (r, e)" for tok x q f e
    using that users.update_law [of q f "db_users d"]
    by (auto simp: saved_reply_def users_update_def doc_update_def db_failed_def token_reply_def status_defs
        split: if_splits option.splits mgo_error.splits prod.splits)
  show ?thesis
  proof (cases "find (\<lambda>dev. dev_DeviceID dev = lg_DeviceID (pn_login p)) (usr_Devices (pn_user p))")
    case None
    with True assms have "saved_reply (pn_token p) (pn_expire p) (users_update M (by_userID (lg_UserID (pn_login p)))
        (\<lambda>_. (pn_user p)\<lparr>usr_Devices := usr_Devices (pn_user p) @ [pending_device p]\<rparr>) d) = (r, d')"
      by (simp add: login_writes_def old_user_login_def pending_device_def UpdateUser_def Let_def)
    from up [OF this] that(1,4) True None show ?thesis by (auto simp: new_device_def)
  next
    case (Some dev)
    with True assms have "saved_reply (pn_token p) (pn_expire p) (users_update M
        (\<lambda>u. by_userID (usr_UserID (pn_user p)) u \<and> by_jwt (dev_JWT dev) u) (refresh_device (dev_JWT dev) (pn_token p)) d) = (r, d')"
      by (simp add: login_writes_def old_user_login_def)
    from up [OF this] that(1) that(3) [OF True Some] show ?thesis by blast
  qed
qed

end

locale auth_server = mongo_srv M + jwt_lib J signed_by for M J signed_by
begin

lemma new_user_sessions:
  assumes "sessions_signed valid d" "valid tok m" "m ''id'' = Some (CStr (lg_UserID l))"
  shows "sessions_signed valid (snd (new_user_login M now ip l tok e d))"
proof -
  let ?u = "createUser (lg_UserID l) [createDevice (unix now) (lg_DeviceID l) ip tok (lg_PushToken l)
    (lg_AppVersion l) (lg_DeviceType l)] [] (lg_SeedPhraseType l)"
  have "session_ok valid (logins ?u)"
    using assms(2,3) by (auto simp: session_ok_def logins_def createUser_def createDevice_def)
  then show ?thesis
    using assms(1) users.insert_cases [of ?u "db_users d"]
    by (auto simp: new_user_login_def Let_def saved_reply_def Insert_def case_prod_beta sessions_signed_def parts_def
        split: option.split)
qed

lemma users_update_sessions:
  assumes "sessions_signed valid d" "\<And>u. u \<in> set (db_users d) \<Longrightarrow> sel u \<Longrightarrow> session_ok valid (logins (f u))"
  shows "sessions_signed valid (fst (users_update M sel f d))"
  using assms users.update_cases [of sel f "db_users d"]
  by (auto simp: sessions_signed_def parts_def users_update_def case_prod_beta list_all_iff
      dest!: set_update_first)

lemma old_user_sessions:
  assumes "sessions_signed valid d" "valid tok m" "m ''id'' = Some (CStr (lg_UserID l))"
    and "usr_UserID user = lg_UserID l" "session_ok valid (logins user)"
  shows "sessions_signed valid (snd (old_user_login M now ip l user tok e d))"
proof -
  note u = assms(4)
  have new: "session_ok valid (logins (user\<lparr>usr_Devices := usr_Devices user @ [dev]\<rparr>))" if "dev_JWT dev = tok" for dev
    using assms(5) u that assms(2,3) by (auto simp: session_ok_def logins_def)
  have re: "session_ok valid (logins (refresh_device old tok v))"
    if "v \<in> set (db_users d)" "usr_UserID v = lg_UserID l" for v old
    using sessions_signedD [OF assms(1) that(1)] that(2) assms(2,3)
    by (auto simp: session_ok_def logins_def refresh_device_def dest!: set_update_first)
  show ?thesis
  proof (cases "find (\<lambda>dev. dev_DeviceID dev = lg_DeviceID l) (usr_Devices user)")
    case None
    have "session_ok valid (logins (user\<lparr>usr_Devices := usr_Devices user @ [createDevice (unix now)
        (lg_DeviceID l) ip tok (lg_PushToken l) (lg_AppVersion l) (lg_DeviceType l)]\<rparr>))"
      by (rule new) (simp add: createDevice_def)
    with None show ?thesis
      by (auto simp: old_user_login_def Let_def UpdateUser_def intro: users_update_sessions [OF assms(1)])
  next
    case (Some dev)
    with re u show ?thesis
      by (auto simp: old_user_login_def by_userID_def intro: users_update_sessions [OF assms(1)])
  qed
qed

lemma login_sessions:
  assumes "LoginHandler M J (initMiddlewareJWT M key) now ip lg d = Inr (r, d')"
    and "sessions_signed (signed_by ''HS256'' key) d"
  shows "sessions_signed (signed_by ''HS256'' key) d'"
  using assms(1)
proof (cases rule: LoginHandler_cases)
  case 1
  with assms(2) show ?thesis by simp
next
  case (2 l tok user ok)
  note s = sign_law [OF 2(3)]
  have u: "usr_UserID user = lg_UserID l" "session_ok (signed_by ''HS256'' key) (logins user)" if ok
    using authenticated [OF 2(2) that] assms(2) by (auto simp: sessions_signed_def parts_def list_all_iff)
  show ?thesis
  proof (cases ok)
    case True
    with old_user_sessions [OF assms(2) s _ u, of now ip "now + Hour"] 2(4) show ?thesis
      by (simp add: new_claims_server) (metis snd_conv)
  next
    case False
    with new_user_sessions [OF assms(2) s, of l now ip "now + Hour"] 2(4) show ?thesis
      by (simp add: new_claims_server) (metis snd_conv)
  qed
qed

end

interpretation refa: auth_server ref_mongo ref_jwt ref_signed
  by unfold_locales

section \<open>The sessions as a map\<close>

definition session :: "db \<Rightarrow> string \<times> string \<Rightarrow> string option" where
  "session d k = (case find (by_userID (fst k)) (db_users d) of
       None \<Rightarrow> None
     | Some u \<Rightarrow> map_option dev_JWT (find (\<lambda>dev. dev_DeviceID dev = snd k) (usr_Devices u)))"

lemma update_first_same:
  "(\<And>x. Q x \<Longrightarrow> P x) \<Longrightarrow> find P xs = Some u \<Longrightarrow> Q u \<Longrightarrow> update_first Q f xs = update_first P f xs"
  by (induction xs) (auto split: if_splits)

lemma find_update_first_other:
  "(\<And>x. P x \<Longrightarrow> \<not> Q x \<and> \<not> Q (f x)) \<Longrightarrow> find Q (update_first P f xs) = find Q xs"
  by (induction xs) auto

lemma session_update:
  assumes "find (by_userID uid) (db_users d) = Some u" "usr_UserID (f u) = uid"
    and "\<And>v. usr_UserID v = uid \<Longrightarrow> usr_UserID (f v) = uid"
    and "\<And>i. map_option dev_JWT (find (\<lambda>dev. dev_DeviceID dev = i) (usr_Devices (f u))) =
       (if i = dev then Some tok else map_option dev_JWT (find (\<lambda>dev. dev_DeviceID dev = i) (usr_Devices u)))"
  shows "session (d\<lparr>db_users := update_first (by_userID uid) f (db_users d)\<rparr>) = (session d)((uid, dev) \<mapsto> tok)"
proof
  fix k :: "string \<times> string"
  show "session (d\<lparr>db_users := update_first (by_userID uid) f (db_users d)\<rparr>) k = ((session d)((uid, dev) \<mapsto> tok)) k"
  proof (cases "fst k = uid")
    case True
    have "find (by_userID uid) (update_first (by_userID uid) f (db_users d)) = Some (f u)"
      by (rule find_update_first [OF assms(1)]) (simp add: by_userID_def assms(2))
    with True assms(1,4) show ?thesis by (cases k) (simp add: session_def)
  next
    case False
    then have "find (by_userID (fst k)) (update_first (by_userID uid) f (db_users d)) = find (by_userID (fst k)) (db_users d)"
      using assms(3) by (intro find_update_first_other) (auto simp: by_userID_def)
    with False show ?thesis by (cases k) (simp add: session_def)
  qed
qed

lemma refreshed_device:
  assumes "find (\<lambda>dev. dev_DeviceID dev = i) ds = Some x" "distinct (map dev_JWT ds)"
  shows "map_option dev_JWT (find (\<lambda>dev. dev_DeviceID dev = i')
      (update_first (\<lambda>d. dev_JWT d = dev_JWT x) (\<lambda>d. d\<lparr>dev_JWT := tok\<rparr>) ds)) =
    (if i' = i then Some tok else map_option dev_JWT (find (\<lambda>dev. dev_DeviceID dev = i') ds))"
  using assms
proof (induction ds)
  case Nil
  then show ?case by simp
next
  case (Cons a ds)
  then show ?case
    by (cases "dev_DeviceID a = i") (auto dest!: find_SomeD simp: image_iff)
qed

context mongo_live
begin

lemma new_user_session:
  assumes "find (by_userID (lg_UserID l)) (db_users d) = None"
    and "new_user_login M now ip l tok e d = (r, d')" "ar_status r = StatusOK"
  shows "session d' = (session d)((lg_UserID l, lg_DeviceID l) \<mapsto> tok) \<and> ar_body r = TokenBody tok (Some e)"
proof -
  let ?u = "createUser (lg_UserID l) [createDevice (unix now) (lg_DeviceID l) ip tok (lg_PushToken l)
    (lg_AppVersion l) (lg_DeviceType l)] [] (lg_SeedPhraseType l)"
  have r: "d' = d\<lparr>db_users := db_users d @ [?u]\<rparr>" "ar_body r = TokenBody tok (Some e)"
    using assms(2,3) by (auto simp: new_user_login_def Let_def saved_reply_def Insert_def live_simps token_reply_def
        status_defs split: if_splits)
  have "session d' k = ((session d)((lg_UserID l, lg_DeviceID l) \<mapsto> tok)) k" for k
  proof (cases "find (by_userID (fst k)) (db_users d)")
    case None
    then show ?thesis
      by (cases k) (auto simp: r(1) session_def find_append_None by_userID_def createUser_def createDevice_def)
  next
    case (Some v)
    then have "fst k \<noteq> lg_UserID l" using assms(1) by auto
    moreover have "find (by_userID (fst k)) (db_users d @ [?u]) = Some v" using Some by (rule find_append_Some)
    ultimately show ?thesis using Some by (cases k) (simp add: r(1) session_def)
  qed
  with r(2) show ?thesis by blast
qed

lemma old_user_session:
  assumes u: "find (by_userID (lg_UserID l)) (db_users d) = Some user" and dist: "distinct (map dev_JWT (usr_Devices user))"
  shows "session (snd (old_user_login M now ip l user tok e d)) = (session d)((lg_UserID l, lg_DeviceID l) \<mapsto> tok) \<and>
     ar_body (fst (old_user_login M now ip l user tok e d)) = TokenBody tok (Some e)"
proof -
  from find_SomeD [OF u] have uid: "usr_UserID user = lg_UserID l" by (simp add: by_userID_def)
  show ?thesis
  proof (cases "find (\<lambda>dev. dev_DeviceID dev = lg_DeviceID l) (usr_Devices user)")
    case None
    let ?f = "\<lambda>_ :: User. user\<lparr>usr_Devices := usr_Devices user @ [createDevice (unix now)
        (lg_DeviceID l) ip tok (lg_PushToken l) (lg_AppVersion l) (lg_DeviceType l)]\<rparr>"
    have "map_option dev_JWT (find (\<lambda>dev. dev_DeviceID dev = i) (usr_Devices (?f user))) =
       (if i = lg_DeviceID l then Some tok else map_option dev_JWT (find (\<lambda>dev. dev_DeviceID dev = i) (usr_Devices user)))" for i
      using None by (cases "find (\<lambda>dev. dev_DeviceID dev = i) (usr_Devices user)")
        (auto simp: find_append_None find_append_Some createDevice_def)
    from session_update [OF u, of ?f, OF _ _ this] uid None show ?thesis
      by (simp add: old_user_login_def UpdateUser_def users_update_live [OF u] saved_reply_def token_reply_def)
  next
    case (Some x)
    let ?f = "refresh_device (dev_JWT x) tok" and ?Q = "\<lambda>v. usr_UserID v = lg_UserID l \<and> by_jwt (dev_JWT x) v"
    have q: "?Q user" using uid find_SomeD [OF Some] by (auto simp: by_jwt_def list_ex_iff)
    have "update_first ?Q ?f (db_users d) = update_first (by_userID (lg_UserID l)) ?f (db_users d)"
      using update_first_same [where Q = ?Q, OF _ u] q by (simp add: by_userID_def)
    moreover have "\<exists>v. find ?Q (db_users d) = Some v" using q find_SomeD [OF u] by (auto simp: find_Some_iff_ex)
    ultimately have "users_update M ?Q ?f d = (d\<lparr>db_users := update_first (by_userID (lg_UserID l)) ?f (db_users d)\<rparr>, None)"
      using users_update_live by fastforce
    moreover have "session (d\<lparr>db_users := update_first (by_userID (lg_UserID l)) ?f (db_users d)\<rparr>) =
        (session d)((lg_UserID l, lg_DeviceID l) \<mapsto> tok)"
      by (rule session_update [OF u]) (simp_all add: refresh_device_def uid refreshed_device [OF Some dist])
    ultimately show ?thesis
      using Some uid by (simp add: old_user_login_def by_userID_def saved_reply_def token_reply_def)
  qed
qed

end

lemma login_session:
  assumes "mongo_live M" "LoginHandler M J (initMiddlewareJWT M key) now ip (Some l) d = Inr (r, d')"
    and "ar_status r = StatusOK" "lg_UserID l \<noteq> []"
    and "list_all (\<lambda>u. distinct (map dev_JWT (usr_Devices u))) (db_users d)"
  shows "\<exists>tok. j_sign J ''HS256'' key (new_claims (server M key) (lg_UserID l) now) = Inr tok \<and>
    ar_body r = TokenBody tok (Some (now + Hour)) \<and> session d' = (session d)((lg_UserID l, lg_DeviceID l) \<mapsto> tok)"
  using assms(2)
proof (cases rule: LoginHandler_cases)
  case 1
  with assms(3) show ?thesis by simp
next
  case (2 k tok user ok)
  then have l: "k = l" by simp
  note found = mongo_live.FindUser_iff [OF assms(1)]
  show ?thesis
  proof (cases "find (by_userID (lg_UserID l)) (db_users d)")
    case None
    then have "\<not> ok" using 2(2) found by (auto simp: l Authenticator_def split: sum.splits)
    then have "new_user_login M now ip l tok (now + Hour) d = (r, d')" using 2(4) by (simp add: l)
    from mongo_live.new_user_session [OF assms(1) None this assms(3)] 2(3) show ?thesis by (auto simp: l)
  next
    case (Some u)
    then have a: "user = u" "ok"
      using 2(2) found [of "by_userID (lg_UserID l)" d u] find_SomeD [OF Some] assms(4)
      by (auto simp: l Authenticator_def by_userID_def)
    have "distinct (map dev_JWT (usr_Devices u))" using assms(5) find_SomeD [OF Some] by (auto simp: list_all_iff)
    from mongo_live.old_user_session [OF assms(1) Some this, of now ip tok "now + Hour"] 2(3,4) a show ?thesis
      by (auto simp: l dest: sym)
  qed
qed

lemma distinct_update_first:
  "distinct (map g xs) \<Longrightarrow> t \<notin> g ` set xs \<Longrightarrow> (\<And>x. g (f x) = t) \<Longrightarrow> distinct (map g (update_first P f xs))"
proof (induction xs)
  case (Cons x xs)
  have "g ` set (update_first P f xs) \<subseteq> insert t (g ` set xs)" using set_update_first [of _ P f xs] Cons(4) by fastforce
  with Cons show ?case by auto
qed simp

context mongo_srv
begin

lemma login_writes_distinct:
  assumes "login_writes M p d = (r, d')" "list_all (\<lambda>u. distinct (map dev_JWT (usr_Devices u))) (db_users d)"
    and "pn_known p \<Longrightarrow> pn_user p \<in> set (db_users d) \<and> usr_UserID (pn_user p) = uid"
    and "list_all (\<lambda>u. usr_UserID u = uid \<longrightarrow> pn_token p \<notin> dev_JWT ` set (usr_Devices u)) (db_users d)"
  shows "list_all (\<lambda>u. distinct (map dev_JWT (usr_Devices u))) (db_users d')"
  using assms(1)
proof (cases rule: login_writes_users)
  case (refresh dev)
  have "distinct (map dev_JWT (usr_Devices (refresh_device old (pn_token p) u)))" if "u \<in> set (db_users d)" "usr_UserID u = uid" for u old
    unfolding refresh_device_def using that assms(2,4) by (auto simp: list_all_iff intro!: distinct_update_first)
  with refresh assms(2,3) show ?thesis by (auto simp: list_all_iff by_userID_def dest!: set_update_first)
next
  case replace
  have "dev_JWT (pending_device p) = pn_token p" by (simp add: pending_device_def createDevice_def)
  with replace assms(2-4) show ?thesis by (auto simp: list_all_iff dest!: set_update_first)
qed (use assms(2) in \<open>simp_all add: createUser_def\<close>)

lemma login_distinct:
  assumes "LoginHandler M J (initMiddlewareJWT M key) now ip (Some l) d = Inr (r, d')"
    and "j_sign J ''HS256'' key (new_claims (server M key) (lg_UserID l) now) = Inr tok"
    and "list_all (\<lambda>u. distinct (map dev_JWT (usr_Devices u))) (db_users d)"
    and "list_all (\<lambda>u. usr_UserID u = lg_UserID l \<longrightarrow> tok \<notin> dev_JWT ` set (usr_Devices u)) (db_users d)"
  shows "list_all (\<lambda>u. distinct (map dev_JWT (usr_Devices u))) (db_users d')"
proof -
  let ?a = "Authenticator M (lg_UserID l) d"
  let ?p = "\<lparr>pn_login = l, pn_now = now, pn_ip = ip, pn_user = fst ?a, pn_known = snd ?a, pn_token = tok, pn_expire = now + Hour\<rparr>"
  have w: "login_writes M ?p d = (r, d')"
    using assms(1,2) by (simp add: LoginHandler_def login_reads_server split: if_splits)
  show ?thesis
    by (rule login_writes_distinct [OF w assms(3), where uid = "lg_UserID l"])
      (use assms(4) authenticated [OF prod.collapse [symmetric]] in auto)
qed

end

section \<open>Properties\<close>

text \<open>
  C29: on a database without errors in which no account stores a token twice, a successful login (with an
  identity that is not empty, and with nothing else happening during it) sets the session of its user and device
  to the token it answers with and changes no other session of anybody, as an update of a map; and if the
  account did not store this token already, as it does for a second login within a second, no account stores a
  token twice afterwards.
\<close>

theorem login_refines:
  assumes "mongo_live M" "LoginHandler M J (initMiddlewareJWT M key) now ip (Some l) d = Inr (r, d')"
    and "ar_status r = StatusOK" "lg_UserID l \<noteq> []"
    and "list_all (\<lambda>u. distinct (map dev_JWT (usr_Devices u))) (db_users d)"
  shows "\<exists>tok. ar_body r = TokenBody tok (Some (now + Hour)) \<and> session d' = (session d)((lg_UserID l, lg_DeviceID l) \<mapsto> tok) \<and>
    (list_all (\<lambda>u. usr_UserID u = lg_UserID l \<longrightarrow> tok \<notin> dev_JWT ` set (usr_Devices u)) (db_users d) \<longrightarrow>
      list_all (\<lambda>u. distinct (map dev_JWT (usr_Devices u))) (db_users d'))"
proof -
  obtain tok where tok: "j_sign J ''HS256'' key (new_claims (server M key) (lg_UserID l) now) = Inr tok"
    "ar_body r = TokenBody tok (Some (now + Hour))" "session d' = (session d)((lg_UserID l, lg_DeviceID l) \<mapsto> tok)"
    using login_session [OF assms] by blast
  with mongo_srv.login_distinct [OF mongo_live.live_srv [OF assms(1)] assms(2) tok(1) assms(5)] show ?thesis by blast
qed

definition ex_login :: Login where
  "ex_login = \<lparr>lg_UserID = ''u1'', lg_DeviceID = ''d2'', lg_PushToken = ''p'', lg_AppVersion = ''1'',
     lg_DeviceType = 1, lg_SeedPhraseType = 0\<rparr>"

definition ex_jwt_token :: string where
  "ex_jwt_token = ref_token ''HS256'' ''k'' (new_claims (server ref_mongo ''k'') ''u1'' 0)"

definition ex_logged_in :: db where
  "ex_logged_in = ex_db\<lparr>db_users := [ex_user\<lparr>usr_Devices := usr_Devices ex_user @
     [createDevice 0 ''d2'' ''ip'' ex_jwt_token ''p'' ''1'' 1]\<rparr>, ex_user2]\<rparr>"

lemma ex_login_reply:
  "LoginHandler ref_mongo ref_jwt (initMiddlewareJWT ref_mongo ''k'') 0 ''ip'' (Some ex_login) ex_db =
     Inr (token_reply StatusOK ex_jwt_token (Some Hour), ex_logged_in)"
proof -
  have u: "find (by_userID ''u1'') (db_users ex_db) = Some ex_user" by (simp add: ex_defs by_userID_def)
  have a: "Authenticator ref_mongo ''u1'' ex_db = (ex_user, True)"
    using refm.FindUser_iff [of "by_userID ''u1''" ex_db ex_user] u by (simp add: Authenticator_def ex_user_def)
  have s: "j_method ref_jwt ''HS256''" "j_sign ref_jwt ''HS256'' ''k'' (new_claims (server ref_mongo ''k'') ''u1'' 0) = Inr ex_jwt_token"
    by (simp_all add: ref_jwt_def ex_jwt_token_def)
  have l: "lg_UserID ex_login = ''u1''" by (simp add: ex_login_def)
  have "old_user_login ref_mongo 0 ''ip'' ex_login ex_user ex_jwt_token Hour ex_db =
      (token_reply StatusOK ex_jwt_token (Some Hour), ex_logged_in)"
    using refm.users_update_live [OF u]
    by (simp add: old_user_login_def ex_login_def UpdateUser_def saved_reply_def unix_def ex_user_def)
      (simp add: ex_logged_in_def ex_defs by_userID_def)
  then show ?thesis using a s by (simp add: LoginHandler_def login_reads_server login_writes_def l)
qed

theorem login_refines_witness: "session ex_logged_in = (session ex_db)((''u1'', ''d2'') \<mapsto> ex_jwt_token)"
  using login_refines [OF refm.mongo_live_axioms ex_login_reply]
  by (simp add: token_reply_def ex_login_def ex_defs)

context mongo_srv
begin

lemma rest_step_logins: "rest_step M s s' \<Longrightarrow> parts logins (rs_db s') = parts logins (rs_db s)"
  by (erule rest_step.cases)
    (auto simp: logins.addWallet_view logins.discoverWallets_view logins.wallet_handlers_view
      dest: logins.deleteWallet_view logins.sendRawHDTransaction_view logins.resyncWallet_part)

end

context auth_server
begin

lemma found_by_token:
  assumes "sessions_signed (signed_by ''HS256'' key) d" "FindUser M (by_jwt t) d = Inr user" "signed_by ''HS256'' key t m"
  shows "m ''id'' = Some (CStr (usr_UserID user))"
proof -
  from assms(2) have u: "user \<in> set (db_users d)" "by_jwt t user"
    by (auto simp: FindUser_def dest: users.one_found_mem)
  then obtain dev where "dev \<in> set (usr_Devices user)" "dev_JWT dev = t" by (auto simp: by_jwt_def list_ex_iff)
  with sessions_signedD [OF assms(1) u(1)] obtain m' where "signed_by ''HS256'' key t m'" "m' ''id'' = Some (CStr (usr_UserID user))"
    by blast
  with claims_law [OF assms(3)] show ?thesis by simp
qed

end

definition ex_request :: request where
  "ex_request = \<lparr>rq_header = (\<lambda>k. ''Bearer '' @ ex_jwt_token), rq_query = (\<lambda>k. []), rq_cookie = (\<lambda>k. [])\<rparr>"

definition ex_account :: User where
  "ex_account = createUser ''u1'' [createDevice 0 ''d2'' ''ip'' ex_jwt_token ''p'' ''1'' 1] [] 0"

lemma ex_signed:
  "ref_signed ''HS256'' ''k'' ex_jwt_token
     [''id'' \<mapsto> CStr ''u1'', ''exp'' \<mapsto> CNum 3600, ''orig_iat'' \<mapsto> CNum 0]"
  using new_claims_server [of ref_mongo "''k''" "''u1''" 0]
  by (auto simp: ref_signed_def ex_jwt_token_def unix_def Hour_def intro!: exI [of _ "new_claims (server ref_mongo ''k'') ''u1'' 0"])

lemma ex_first_login:
  "LoginHandler ref_mongo ref_jwt (initMiddlewareJWT ref_mongo ''k'') 0 ''ip'' (Some ex_login) empty_db =
     Inr (token_reply StatusOK ex_jwt_token (Some Hour), empty_db\<lparr>db_users := [ex_account]\<rparr>)"
proof -
  have a: "Authenticator ref_mongo ''u1'' empty_db = (zero_user, False)"
    by (simp add: Authenticator_def FindUser_def ref_mongo_def ref_simps doc_one_def empty_db_def)
  have s: "j_method ref_jwt ''HS256''" "j_sign ref_jwt ''HS256'' ''k'' (new_claims (server ref_mongo ''k'') ''u1'' 0) = Inr ex_jwt_token"
    by (simp_all add: ref_jwt_def ex_jwt_token_def)
  have l: "lg_UserID ex_login = ''u1''" by (simp add: ex_login_def)
  have "new_user_login ref_mongo 0 ''ip'' ex_login ex_jwt_token Hour empty_db =
      (token_reply StatusOK ex_jwt_token (Some Hour), empty_db\<lparr>db_users := [ex_account]\<rparr>)"
    by (simp add: new_user_login_def ex_login_def Insert_def saved_reply_def unix_def ref_simps ex_account_def
        IsSeedPhraseTypeValid_def MultySeed_def empty_db_def ref_mongo_def)
  then show ?thesis using a s by (simp add: LoginHandler_def login_reads_server login_writes_def l)
qed

text \<open>
  C34: when the database fails while the user of a login is looked up, the login takes the user for a new
  one: it answers with success and inserts a second account with the same user identity.
\<close>

theorem login_error_doubles_account:
  assumes "FindUser M (by_userID (lg_UserID l)) d = Inl err" "j_method J ''HS256''"
    and "j_sign J ''HS256'' key (new_claims (server M key) (lg_UserID l) now) = Inr tok"
    and "IsSeedPhraseTypeValid (lg_SeedPhraseType l)"
    and "\<And>user. c_insert (M_users M) user (db_users d) = (db_users d @ [user], None)"
  shows "\<exists>r d'. LoginHandler M J (initMiddlewareJWT M key) now ip (Some l) d = Inr (r, d') \<and> ar_status r = StatusOK \<and>
    length (filter (by_userID (lg_UserID l)) (db_users d')) = length (filter (by_userID (lg_UserID l)) (db_users d)) + 1"
  using assms by (simp add: LoginHandler_def login_reads_server login_writes_def Authenticator_def sign_token_def new_user_login_def Insert_def Let_def
      saved_reply_def token_reply_def by_userID_def createUser_def)

definition ex_slow_mongo :: mongo where
  "ex_slow_mongo = ref_mongo\<lparr>M_users := ref_ops\<lparr>c_one := \<lambda>q c. Inl (ErrDb ''timeout'')\<rparr>\<rparr>"

theorem login_error_doubles_account_witness:
  "\<exists>r d'. LoginHandler ex_slow_mongo ref_jwt (initMiddlewareJWT ex_slow_mongo ''k'') 0 ''ip'' (Some ex_login) ex_db = Inr (r, d') \<and>
     ar_status r = StatusOK \<and> length (filter (by_userID ''u1'') (db_users d')) = 2"
proof -
  have l: "lg_UserID ex_login = ''u1''" "IsSeedPhraseTypeValid (lg_SeedPhraseType ex_login)"
    by (simp_all add: ex_login_def IsSeedPhraseTypeValid_def MultySeed_def)
  have f: "FindUser ex_slow_mongo (by_userID (lg_UserID ex_login)) ex_db = Inl (ErrDb ''timeout'')"
    and i: "c_insert (M_users ex_slow_mongo) user (db_users ex_db) = (db_users ex_db @ [user], None)" for user
    by (simp_all add: FindUser_def ex_slow_mongo_def ref_simps)
  have s: "j_method ref_jwt ''HS256''"
    "j_sign ref_jwt ''HS256'' ''k'' (new_claims (server ex_slow_mongo ''k'') (lg_UserID ex_login) 0) =
       Inr (ref_token ''HS256'' ''k'' (new_claims (server ex_slow_mongo ''k'') (lg_UserID ex_login) 0))"
    by (simp_all add: ref_jwt_def)
  have "length (filter (by_userID ''u1'') (db_users ex_db)) = 1" by (simp add: ex_defs by_userID_def)
  with login_error_doubles_account [OF f s l(2) i, of "''ip''"] show ?thesis by (simp add: l(1) numeral_2_eq_2)
qed

end
