(* ===== verification/Server.thy ===== *)
theory Server
  imports Btc_Facts Eth_Facts Auth_Facts "HOL-Library.Sublist"
begin

text \<open>
  The server as a whole: its parts share the database, and every login, request, socket message,
  stream message and store operation is a step on it. What the handlers of the streams and of the socket
  keep is shown once for every view of the database (\<open>db_view\<close>); the steps of all parts together keep the
  identities of users and wallets and the sessions, and the outputs of both Bitcoin networks consistent.
\<close>

section \<open>Outputs of a Bitcoin network\<close>

text \<open>A view that the outputs of a network do not matter to.\<close>

definition leaves_outputs :: "(db \<Rightarrow> 'b) \<Rightarrow> int \<Rightarrow> bool" where
  "leaves_outputs view net \<longleftrightarrow>
     (\<forall>d xs. view (set_btc_sp net xs d) = view d) \<and> (\<forall>d ys. view (set_btc_spent net ys d) = view d)"

lemma leaves_outputsD [simp]:
  "leaves_outputs view net \<Longrightarrow> view (set_btc_sp net xs d) = view d"
  "leaves_outputs view net \<Longrightarrow> view (set_btc_spent net ys d) = view d"
  by (simp_all add: leaves_outputs_def)

section \<open>The streams\<close>

context db_view
begin

lemma collections_view [simp]:
  "view (set_btc_txs net ts d) = view d" "view (set_eth_txs net es d) = view d" "view (set_eth_ms net es d) = view d"
  by (simp_all add: set_btc_txs_def set_eth_txs_def set_eth_ms_def)

lemma save_height_view [simp]: "view (save_height M c net h d) = view d"
  by (simp add: save_height_def)

lemma wallet_id_touch [simp]: "wallet_id (touch_wallet now j w) = wallet_id w"
  by (simp add: touch_wallet_def wallet_id_def)

lemma touch_view: "users_update M sel (at_wallet i (touch_wallet now j)) d = (d', e) \<Longrightarrow> view d' = view d"
  using users_update_view [of sel "at_wallet i (touch_wallet now j)" d] by (simp add: same_at_wallet)

lemma update_dates_view: "view (fst (update_dates M now ws d)) = view d"
  by (induction ws arbitrary: d) (auto simp: Let_def dest: touch_view split: option.split prod.split)

lemma updateWallet_view: "view (fst (updateWalletAndAddressDate M now tx d)) = view d"
  using update_dates_view
  by (auto simp: updateWalletAndAddressDate_def split: prod.split option.split) (metis fst_conv)+

lemma record_tx_view: "record_tx M now net tx d = Inr d' \<Longrightarrow> view d' = view d"
  by (auto simp: record_tx_def bind_p_Inr saveMultyTransaction_def updateWallet_view split: if_splits)

lemma add_spendable_view: "leaves_outputs view net \<Longrightarrow> view (fst (add_spendable M net g d)) = view d"
  by (auto simp: add_spendable_def add_unspent_def Let_def split: sum.split mgo_error.split)

lemma delete_loop_view: "leaves_outputs view net \<Longrightarrow> view (delete_loop k M net del d) = view d"
  by (induction k arbitrary: d) (auto simp: delete_attempt_def Let_def split: prod.split bool.split)

lemma resync_txs_view: "view (fst (resync_txs M now net gs d)) = view d"
  by (induction gs arbitrary: d) (auto dest: record_tx_view split: sum.split)

lemma resync_spouts_view: "leaves_outputs view net \<Longrightarrow> view (fst (resync_spouts M net gs d)) = view d"
proof (induction gs arbitrary: d)
  case (Cons g gs)
  with add_spendable_view [of net g d] show ?case by (cases "add_spendable M net g d") (simp split: bool.split)
qed simp

lemma resync_dels_view: "leaves_outputs view net \<Longrightarrow> view (resync_dels M net dels d) = view d"
  by (induction dels arbitrary: d) (simp_all add: delete_loop_view)

lemma ResyncAddress_view:
  assumes "leaves_outputs view net"
  shows "view (bs_db (outcome_state (ResyncAddress M now net r s))) = view (bs_db s)"
proof -
  obtain d1 p where t: "resync_txs M now net (pr_Txs r) (bs_db s) = (d1, p)" by fastforce
  with resync_txs_view [of now net "pr_Txs r" "bs_db s"] have d1: "view d1 = view (bs_db s)" by simp
  obtain d2 b where u: "resync_spouts M net (pr_SpOuts r) d1 = (d2, b)" by fastforce
  with resync_spouts_view [OF assms, of "pr_SpOuts r" d1] d1 have d2: "view d2 = view (bs_db s)" by simp
  show ?thesis
    using d1 d2 resync_dels_view [OF assms, of "pr_SpOutDelete r" d2] t u
    by (cases p; cases b; cases "pr_SpOuts r") (auto simp: ResyncAddress_def Let_def unqueue_def)
qed

lemma btc_step_view: "btc_step M net s s' \<Longrightarrow> leaves_outputs view net \<Longrightarrow> view (bs_db s') = view (bs_db s)"
proof (induction rule: btc_step.cases)
  case (AddSpendable s g)
  with add_spendable_view [of net g "bs_db s"] show ?case
    by (cases "add_spendable M net g (bs_db s)") (simp add: EventAddSpendableOut_def split: bool.split)
next
  case (NewTx s now g)
  then show ?case
    by (cases "record_tx M now net (prepare_tx M (bs_db s) g) (bs_db s)"; cases "sendNotifyToClients (prepare_tx M (bs_db s) g) net")
      (simp_all add: NewTx_def Let_def record_tx_view)
next
  case (Resync s now r)
  then show ?case by (simp add: ResyncAddress_view)
qed (simp_all add: mempool_store_def mempool_delete_def EventDeleteSpendableOut_def delete_loop_view EventNewBlock_def Let_def)

lemma saveTransaction_view [simp]: "view (fst (saveTransaction M tx net d)) = view d"
  by (simp add: saveTransaction_def split: prod.split)

lemma update_date_view [simp]: "view (fst (update_date M now uid a net d)) = view d"
  by (auto simp: update_date_def Let_def dest: touch_view split: option.split prod.split)

lemma eth_updateWallet_view [simp]: "view (fst (eth_updateWalletAndAddressDate M now tx net d)) = view d"
  by (simp add: eth_updateWalletAndAddressDate_def case_prod_beta split: option.split)

lemma insert_views [simp]:
  "view (es_db (insert_tx M net t s)) = view (es_db s)"
  "view (es_db (insert_ms M net t s)) = view (es_db s)"
  "view (es_db (update_ms_all M net sel f s)) = view (es_db s)"
  "view (es_db (mark_failed M net h s)) = view (es_db s)"
  "view (es_db (broadcast_ok us s)) = view (es_db s)"
  "view (es_db (snd (fail_check M net tx m s))) = view (es_db s)"
  by (simp_all add: insert_tx_def insert_ms_def update_ms_all_def mark_failed_def fail_check_def broadcast_ok_def)

lemma submit_internal_view [simp]:
  "view (es_db (fst (submit_internal M now net contract address amount tx m s))) = view (es_db s)"
  by (simp add: submit_internal_def Let_def split: option.split)

lemma confirm_internal_view [simp]:
  "view (es_db (snd (snd (confirm_internal M now net contract input tx m s)))) = view (es_db s)"
  by (simp add: confirm_internal_def Let_def split: option.split prod.split)

lemma confirm_executed_view [simp]:
  "view (es_db (snd (snd (confirm_executed M now net us contract o1 input ohs tx m s)))) = view (es_db s)"
  by (simp add: confirm_executed_def Let_def case_prod_beta split: sum.split mgo_error.split)

lemma submit_case_view: "view (es_db (fst (submit_case M now net us contract tx m s))) = view (es_db s)"
proof -
  have f: "view (es_db s1) = view (es_db s)" if "fail_check M net tx m s = (tx1, s1)" for tx1 s1
    using insert_views(6) [of net tx m s] that by simp
  have i: "view (es_db s2) = view (es_db s1)"
    if "submit_internal M now net contract a v tx' m' s1 = (s2, r)" for a v tx' m' s1 s2 r
    using submit_internal_view [of now net contract a v tx' m' s1] that by simp
  show ?thesis
    by (auto simp: submit_case_def Let_def dest!: f i split: option.split sum.split mgo_error.split prod.split)
qed

lemma confirm_case_view: "view (es_db (fst (confirm_case M now net us contract tx m s))) = view (es_db s)"
  by (simp add: confirm_case_def Let_def case_prod_beta split: option.split sum.split)

lemma revoke_case_view: "view (es_db (fst (revoke_case M now net contract tx m s))) = view (es_db s)"
  by (simp add: revoke_case_def Let_def case_prod_beta split: option.split sum.split)

lemma ParseMultisigInput_view: "view (es_db (fst (ParseMultisigInput M now net tx s))) = view (es_db s)"
  by (simp add: ParseMultisigInput_def Let_def case_prod_beta submit_case_view confirm_case_view revoke_case_view
      split: option.split)

lemma processMultisig_view: "view (es_db (fst (processMultisig M now net tx s))) = view (es_db s)"
proof -
  have "view (es_db s1) = view (es_db s)" if "ParseMultisigInput M now net tx' s = (s1, r)" for tx' s1 r
    using ParseMultisigInput_view [of now net tx' s] that by simp
  then show ?thesis
    by (auto simp: processMultisig_def Let_def split: option.split sum.split mgo_error.split prod.split)
qed

lemma eth_NewTx_view: "view (es_db (outcome_state (eth_NewTx M now net g s))) = view (es_db s)"
  using processMultisig_view
  by (simp add: eth_NewTx_def NewTx_saved_def NewTx_multisig_def Let_def case_prod_beta split: sum.split)

lemma deploy_user_view [simp]: "view (es_db (deploy_user M ordA as code ms u s)) = view (es_db s)"
  by (simp add: deploy_user_def Let_def users_update_view)

lemma deploy_users_view [simp]:
  "view (es_db (fold (\<lambda>(a, u). deploy_user M ordA as code ms u) us s)) = view (es_db s)"
  by (induction us arbitrary: s) (simp_all add: case_prod_beta)

lemma eth_step_view: "eth_step M net s s' \<Longrightarrow> view (es_db s') = view (es_db s)"
  by (erule eth_step.cases)
    (simp_all add: eth_mempool_store_def eth_mempool_delete_def eth_EventNewBlock_def AddMultisig_def Let_def eth_NewTx_view)

lemma store_views:
  "view (fst (JoinMultisig M uid m d)) = view d"
  "view (fst (LeaveMultisig M uid code d)) = view d"
  "view (fst (KickMultisig M a code d)) = view d"
  "view (fst (UpdateMultisigOwners M uid code os st d)) = view d"
  "view (fst (DeclineTransaction M tx a c n d)) = view d"
  "view (fst (InsertExchangeRate M now r stock d)) = view d"
  by (simp_all add: JoinMultisig_def LeaveMultisig_def KickMultisig_def UpdateMultisigOwners_def users_update_view
      DeclineTransaction_def ms_update_main_def ms_update_test_def InsertExchangeRate_def case_prod_beta split: sum.split)

lemma DeleteMultisig_loop_view: "view (fst (DeleteMultisig_loop M code us r)) = view (fst r)"
proof (induction us arbitrary: r)
  case (Cons u us)
  then show ?case by (cases r) (simp add: users_update_view)
qed simp

lemma DeleteMultisig_view: "view (fst (DeleteMultisig M code d)) = view d"
  by (simp add: DeleteMultisig_def DeleteMultisig_loop_view)

lemma ViewTransaction_view: "ViewTransaction M now tx a c n d = Inr r \<Longrightarrow> view (fst r) = view d"
  by (auto simp: ViewTransaction_def ms_update_main_def ms_update_test_def case_prod_beta
      split: if_splits option.splits)

lemma store_step_view:
  assumes "store_step M d d'"
  obtains c n a where "d' = DeleteHistory M c n a d" | "view d' = view d"
  using assms
  by (cases rule: store_step.cases) (auto simp: store_views DeleteMultisig_view DeleteWallet_view ConvertToBroken_view dest: ViewTransaction_view)

section \<open>The socket messages\<close>

lemma share_owners_view [simp]: "view (ws_db (share_owners M ord m p ms st us s)) = view (ws_db s)"
  by (induction us arbitrary: s) (simp_all add: updateUserOwners_def store_views)

lemma on_join_view: "view (ws_db (fst (on_join M ord msg s))) = view (ws_db s)"
  by (simp add: on_join_def join_accepted_def Let_def case_prod_beta store_views split: option.split)

lemma on_leave_view: "view (ws_db (fst (on_leave M ord msg s))) = view (ws_db s)"
  by (simp add: on_leave_def Let_def case_prod_beta store_views split: option.split)

lemma on_kick_view: "view (ws_db (fst (on_kick M ord msg s))) = view (ws_db s)"
  by (simp add: on_kick_def Let_def case_prod_beta store_views split: option.split)

lemma on_delete_view: "view (ws_db (fst (on_delete M msg s))) = view (ws_db s)"
  by (simp add: on_delete_def Let_def case_prod_beta DeleteMultisig_view split: option.split)

lemma on_decline_view: "view (ws_db (fst (on_decline M msg s))) = view (ws_db s)"
  by (simp add: on_decline_def Let_def case_prod_beta store_views split: option.split)

lemma on_view_view: "on_view M now msg s = Inr (s', r) \<Longrightarrow> view (ws_db s') = view (ws_db s)"
  by (auto simp: on_view_def Let_def dest!: ViewTransaction_view split: sum.splits prod.splits option.splits)

lemma on_message_view: "on_message M ord now method decoded s = Inr (s', r) \<Longrightarrow> view (ws_db s') = view (ws_db s)"
  using on_join_view [of ord "fst decoded" s] on_leave_view [of ord "fst decoded" s] on_kick_view [of ord "fst decoded" s]
    on_delete_view [of "fst decoded" s] on_decline_view [of "fst decoded" s]
  by (cases decoded) (auto simp: on_message_def on_check_def dest: on_view_view split: if_splits option.splits)

end

context user_part
begin

lemma leaves_outputs_part [simp]: "leaves_outputs (parts part) net"
  by (simp add: leaves_outputs_def parts_def)

lemma store_step_part: "store_step M d d' \<Longrightarrow> parts part d' = parts part d"
  by (erule store_step_view) (auto simp: DeleteHistory_part)

end

section \<open>Steps of the server\<close>

text \<open>
  A login, a request to the wallet handlers, a message of the socket, of a Bitcoin or of an Ethereum
  stream, or an operation of the store, each with any arguments and any other state of its part.
\<close>

inductive server_step :: "mongo \<Rightarrow> jwt \<Rightarrow> string \<Rightarrow> db \<Rightarrow> db \<Rightarrow> bool" for M J key where
  LogIn: "LoginHandler M J (initMiddlewareJWT M key) now ip lg d = Inr (r, d') \<Longrightarrow> server_step M J key d d'"
| Request: "rest_step M s s' \<Longrightarrow> server_step M J key (rs_db s) (rs_db s')"
| SocketMessage: "on_message M ord now method decoded w = Inr (w', r') \<Longrightarrow> server_step M J key (ws_db w) (ws_db w')"
| BtcMessage: "btc_step M net b b' \<Longrightarrow> server_step M J key (bs_db b) (bs_db b')"
| EthMessage: "eth_step M net e e' \<Longrightarrow> server_step M J key (es_db e) (es_db e')"
| StoreOp: "store_step M d d' \<Longrightarrow> server_step M J key d d'"

context user_part
begin

text \<open>Only logins and requests write a part of this kind.\<close>

lemma server_step_part:
  "server_step M J key d d' \<Longrightarrow>
   (\<And>now ip lg r. LoginHandler M J (initMiddlewareJWT M key) now ip lg d = Inr (r, d') \<Longrightarrow> Q) \<Longrightarrow>
   (\<And>s s'. rest_step M s s' \<Longrightarrow> d = rs_db s \<Longrightarrow> d' = rs_db s' \<Longrightarrow> Q) \<Longrightarrow>
   (parts part d' = parts part d \<Longrightarrow> Q) \<Longrightarrow> Q"
  by (erule server_step.cases)
    (auto dest: on_message_view btc_step_view eth_step_view store_step_part)

end

section \<open>Accounts and wallets\<close>

definition grown :: "User \<Rightarrow> User \<Rightarrow> bool" where
  "grown u u' \<longleftrightarrow> usr_UserID u' = usr_UserID u \<and> prefix (ids u) (ids u')"

text \<open>Every account is at its place with its wallets; there may be new accounts after them.\<close>

definition accounts_kept :: "db \<Rightarrow> db \<Rightarrow> bool" where
  "accounts_kept d d' \<longleftrightarrow> list_all2 grown (db_users d) (take (length (db_users d)) (db_users d'))"

definition holdings :: "User \<Rightarrow> string \<times> (int \<times> int \<times> int \<times> bool) list" where
  "holdings u = (usr_UserID u, ids u)"

lemma usr_UserID_simps [simp]:
  "usr_UserID (at_wallet i f u) = usr_UserID u" "usr_UserID (at_first_wallet P f u) = usr_UserID u"
  "usr_UserID (set_multisigs ms u) = usr_UserID u" "usr_UserID (push_multisig m u) = usr_UserID u"
  "usr_UserID (at_first_multisig Q g u) = usr_UserID u" "usr_UserID (push_wallet w u) = usr_UserID u"
  by (simp_all add: at_wallet_def at_first_wallet_def set_multisigs_def push_multisig_def at_first_multisig_def push_wallet_def)

lemma grown_refl [simp]: "grown u u"
  by (simp add: grown_def)

lemma grown_trans: "grown u v \<Longrightarrow> grown v w \<Longrightarrow> grown u w"
  by (auto simp: grown_def intro: prefix_order.trans)

lemma accounts_kept_refl [simp]: "accounts_kept d d"
  by (simp add: accounts_kept_def list_all2_same)

lemma accounts_kept_trans:
  assumes "accounts_kept d d'" "accounts_kept d' d''"
  shows "accounts_kept d d''"
  using assms by (auto simp: accounts_kept_def list_all2_conv_all_nth min_def intro: grown_trans split: if_splits)

lemma accounts_kept_parts:
  assumes "parts holdings d' = parts holdings d"
  shows "accounts_kept d d'"
proof -
  have l: "length (db_users d') = length (db_users d)" using arg_cong [OF assms, of length] by (simp add: parts_def)
  have "holdings (db_users d' ! k) = holdings (db_users d ! k)" if "k < length (db_users d)" for k
    using arg_cong [OF assms, of "\<lambda>xs. xs ! k"] that l by (simp add: parts_def)
  then show ?thesis
    using l by (auto simp: accounts_kept_def list_all2_conv_all_nth grown_def holdings_def)
qed

lemma list_all2_update_first:
  "(\<And>u. find P us = Some u \<Longrightarrow> grown u (f u)) \<Longrightarrow> list_all2 grown us (update_first P f us)"
  by (induction us) (auto simp: list_all2_same)

sublocale mongo_srv \<subseteq> holdings: user_part M holdings
  by unfold_locales (simp_all add: holdings_def ids_at_wallet ids_at_first_wallet)

context mongo_srv
begin

lemma users_update_kept:
  assumes "\<And>u. find sel (db_users d) = Some u \<Longrightarrow> grown u (f u)"
  shows "accounts_kept d (fst (users_update M sel f d))"
  using users.update_cases [of sel f "db_users d"] list_all2_update_first [of sel "db_users d" f] assms
  by (auto simp: users_update_def accounts_kept_def case_prod_beta list_all2_same)

lemma createCustomWallet_kept:
  "accounts_kept (rs_db s) (rs_db (fst (createCustomWallet M now nano wp token e s)))"
proof -
  have "grown u (push_wallet w u)" for w u by (simp add: grown_def ids_def push_wallet_def)
  then show ?thesis
    by (auto simp: createCustomWallet_def case_prod_beta new_wallet_watch users_update_kept split: sum.split)
qed

lemma addWallet_kept: "accounts_kept (rs_db s) (rs_db (fst (addWallet M N ord now nano header body s)))"
  by (simp add: addWallet_def create_multisig_wallet_def Let_def case_prod_beta createCustomWallet_kept
      accounts_kept_parts [OF holdings.createCustomMultisig_view] accounts_kept_parts [OF holdings.import_view]
      split: sum.split option.split)

lemma discover_loop_kept: "accounts_kept (rs_db s) (rs_db (fst (discover_loop M N now nano token c n as s)))"
proof (induction as arbitrary: s)
  case (Cons a as)
  have "accounts_kept (rs_db s) (rs_db t)" if "createCustomWallet M now nano wp token e s = (t, r)" for wp e t r
    using createCustomWallet_kept [of s now nano wp token e] that by simp
  with Cons accounts_kept_trans show ?case by (simp split: prod.split option.split) blast
qed simp

lemma discoverWallets_kept: "accounts_kept (rs_db s) (rs_db (fst (discoverWallets M N now nano header body s)))"
proof -
  have "accounts_kept (rs_db s) (rs_db t)" if "discover_loop M N now nano token c n as s = (t, r)" for token c n as t r
    using discover_loop_kept [of s N now nano token c n as] that by simp
  then show ?thesis by (auto simp: discoverWallets_def split: sum.split option.split prod.split)
qed

lemma rest_step_kept: "rest_step M s s' \<Longrightarrow> accounts_kept (rs_db s) (rs_db s')"
  by (erule rest_step.cases)
    (auto simp: addWallet_kept discoverWallets_kept holdings.wallet_handlers_view intro!: accounts_kept_parts
      dest: holdings.deleteWallet_view holdings.sendRawHDTransaction_view holdings.resyncWallet_part)

text \<open>A login adds an account without wallets or changes one in place, keeping its wallets.\<close>

lemma login_users:
  assumes "LoginHandler M J (initMiddlewareJWT M key) now ip lg d = Inr (r, d')"
  shows "db_users d' = db_users d \<or> (\<exists>u. db_users d' = db_users d @ [u] \<and> usr_Wallets u = []) \<or>
    (\<exists>P f. db_users d' = update_first P f (db_users d) \<and> (\<forall>u. find P (db_users d) = Some u \<longrightarrow> holdings (f u) = holdings u))"
  using assms
proof (cases rule: LoginHandler_cases)
  case 1
  then show ?thesis by simp
next
  case (2 l tok user ok)
  show ?thesis
  proof (cases ok)
    case False
    let ?u = "createUser (lg_UserID l) [createDevice (unix now) (lg_DeviceID l) ip tok (lg_PushToken l)
      (lg_AppVersion l) (lg_DeviceType l)] [] (lg_SeedPhraseType l)"
    have "d' = d \<or> d' = fst (Insert M ?u d)" using 2(4) False by (auto simp: new_user_login_def Let_def saved_reply_def split: if_splits option.splits)
    with users.insert_cases [of ?u "db_users d"] show ?thesis
      by (auto simp: Insert_def case_prod_beta createUser_def)
  next
    case True
    have u: "find (by_userID (lg_UserID l)) (db_users d) = Some user" using 2(2) True
      by (auto simp: Authenticator_def FindUser_def users.one_found split: sum.splits)
    have h: "holdings (refresh_device old new v) = holdings v" "holdings (v\<lparr>usr_Devices := ds\<rparr>) = holdings v" for old new v ds
      by (simp_all add: holdings_def ids_def refresh_device_def)
    have up: ?thesis if "d' = fst (users_update M P f d)" "\<And>v. find P (db_users d) = Some v \<Longrightarrow> holdings (f v) = holdings v" for P f
      using users.update_cases [of P f "db_users d"] that by (auto simp: users_update_def case_prod_beta)
    show ?thesis
    proof (cases "find (\<lambda>dev. dev_DeviceID dev = lg_DeviceID l) (usr_Devices user)")
      case None
      with 2(4) True up [of "by_userID (lg_UserID l)"] u h show ?thesis
        by (auto simp: old_user_login_def Let_def UpdateUser_def saved_reply_def split: option.splits)
    next
      case (Some dev)
      with 2(4) True up [OF _ h(1)] show ?thesis
        by (auto simp: old_user_login_def Let_def saved_reply_def split: option.splits)
    qed
  qed
qed

lemma login_kept: "LoginHandler M J (initMiddlewareJWT M key) now ip lg d = Inr (r, d') \<Longrightarrow> accounts_kept d d'"
  using login_users [of J key now ip lg d r d'] list_all2_update_first
  by (auto simp: accounts_kept_def list_all2_same grown_def holdings_def)

lemma server_step_kept: "server_step M J key d d' \<Longrightarrow> accounts_kept d d'"
  by (erule holdings.server_step_part) (auto intro: login_kept rest_step_kept accounts_kept_parts)

lemma indexes_unique_parts: "user_ids d' = user_ids d \<Longrightarrow> indexes_unique d' = indexes_unique d"
  by (simp add: indexes_unique_def)

lemma login_unique:
  assumes "LoginHandler M J (initMiddlewareJWT M key) now ip lg d = Inr (r, d')" "indexes_unique d"
  shows "indexes_unique d'"
proof -
  have "distinct (own_ids (ids v))" if "v \<in> set (update_first P f (db_users d))"
    and "\<And>u. find P (db_users d) = Some u \<Longrightarrow> holdings (f u) = holdings u" for v P f
  proof (cases "find P (db_users d)")
    case None
    then have "update_first P f (db_users d) = db_users d" by (simp add: find_None_iff)
    with that assms(2) show ?thesis by (auto simp: indexes_unique_def parts_def list_all_iff)
  next
    case (Some u)
    with that(2) have "ids (f u) = ids u" by (simp add: holdings_def)
    with that(1) set_update_first_found [OF Some, of f] find_SomeD [OF Some] assms(2) show ?thesis
      by (auto simp: indexes_unique_def parts_def list_all_iff)
  qed
  with login_users [OF assms(1)] assms(2) show ?thesis
    by (auto simp: indexes_unique_def parts_def list_all_iff ids_def own_ids_def)
qed

lemma server_step_unique: "server_step M J key d d' \<Longrightarrow> indexes_unique d \<Longrightarrow> indexes_unique d'"
  by (erule ids.server_step_part) (auto intro: login_unique rest_step_unique dest: indexes_unique_parts)

end

context auth_server
begin

lemma server_step_sessions:
  "server_step M J key d d' \<Longrightarrow> sessions_signed (signed_by ''HS256'' key) d \<Longrightarrow> sessions_signed (signed_by ''HS256'' key) d'"
  by (erule logins.server_step_part)
    (auto simp: rest_step_logins sessions_signed_def dest: login_sessions [unfolded sessions_signed_def])

lemma server_steps_sessions:
  assumes "(server_step M J key)\<^sup>*\<^sup>* d d'" "sessions_signed (signed_by ''HS256'' key) d"
  shows "sessions_signed (signed_by ''HS256'' key) d'"
  using assms server_step_sessions by (rule steps_keep)

lemma served_as:
  assumes "(server_step M J key)\<^sup>*\<^sup>* d d'" "sessions_signed (signed_by ''HS256'' key) d"
    and "MiddlewareFunc J (initMiddlewareJWT M key) now rq = Inr (Admitted uid c)"
    and "getToken (rq_header rq ''Authorization'') = Inr t" "FindUser M (by_jwt t) d' = Inr user"
  shows "usr_UserID user = uid"
proof -
  obtain t' where t': "rq_header rq ''Authorization'' = ''Bearer '' @ t'" "signed_by ''HS256'' key t' (map_of c)"
    "map_of c ''id'' = Some (CStr uid)"
    using admitted_signed [OF assms(3)] by blast
  have "t' = t" using assms(4) getToken_Bearer [OF t'(2)] by (simp add: t'(1))
  with t'(2) have "signed_by ''HS256'' key t (map_of c)" by simp
  from found_by_token [OF server_steps_sessions [OF assms(1,2)] assms(5) this] t'(3) show ?thesis by simp
qed

end

section \<open>Properties\<close>

text \<open>
  C4: after any sequence of logins, requests, socket and stream messages and store operations, whatever
  the database reports, a request that the middleware admits as a user is served as that user: the
  handlers, which look up the token by themselves, find no other account.
\<close>

theorem admitted_user_is_served:
  assumes "mongo_srv M" "jwt_lib J signed_by" "(server_step M J key)\<^sup>*\<^sup>* d d'" "sessions_signed (signed_by ''HS256'' key) d"
    and "MiddlewareFunc J (initMiddlewareJWT M key) now rq = Inr (Admitted uid c)"
    and "getToken (rq_header rq ''Authorization'') = Inr t" "FindUser M (by_jwt t) d' = Inr user"
  shows "usr_UserID user = uid"
  using assms(3-7) by (rule auth_server.served_as [OF auth_server.intro [OF assms(1,2)]])

theorem admitted_user_is_served_witness:
  "usr_UserID ex_account = ''u1'' \<and> FindUser ref_mongo (by_jwt ex_jwt_token) (empty_db\<lparr>db_users := [ex_account]\<rparr>) = Inr ex_account"
proof -
  let ?d' = "empty_db\<lparr>db_users := [ex_account]\<rparr>"
  have s: "(server_step ref_mongo ref_jwt ''k'')\<^sup>*\<^sup>* empty_db ?d'"
    by (rule r_into_rtranclp, rule server_step.LogIn, rule ex_first_login)
  have e: "sessions_signed (ref_signed ''HS256'' ''k'') empty_db"
    by (simp add: sessions_signed_def parts_def empty_db_def)
  obtain c where m: "MiddlewareFunc ref_jwt (initMiddlewareJWT ref_mongo ''k'') 0 ex_request = Inr (Admitted ''u1'' c)"
    using refj.admits [OF ex_signed, of "''u1''" 0 ex_request ref_mongo] by (auto simp: in_time_def unix_def ex_request_def)
  have t: "getToken (rq_header ex_request ''Authorization'') = Inr ex_jwt_token"
    using refj.getToken_Bearer [OF ex_signed] by (simp add: ex_request_def)
  have f: "FindUser ref_mongo (by_jwt ex_jwt_token) ?d' = Inr ex_account"
    by (simp add: refm.FindUser_iff by_jwt_def ex_account_def createUser_def createDevice_def)
  from admitted_user_is_served [OF refm.mongo_srv_axioms refj.jwt_lib_axioms s e m t f] f show ?thesis by simp
qed

text \<open>
  C3: no sequence of logins, requests, socket and stream messages and store operations, whatever the
  database and the nodes answer, leaves a user with two wallets of their own (not imported ones) on the
  same currency, network and index.
\<close>

theorem wallet_indexes_unique:
  assumes "mongo_srv M" "(server_step M J key)\<^sup>*\<^sup>* d d'" "indexes_unique d"
  shows "indexes_unique d'"
  using assms(2,3) mongo_srv.server_step_unique [OF assms(1)] by (rule steps_keep)

theorem wallet_indexes_unique_witness:
  "indexes_unique (rs_db (fst (addWallet ref_mongo ex_nodes (\<lambda>xs. xs) 1 1 ''Bearer jwt'' (Some (ex_params ''x1'' False)) (rest_on ex_db))))"
proof -
  have "indexes_unique (rs_db (rest_on ex_db))"
    by (simp add: indexes_unique_def parts_def ids_def own_ids_def wallet_id_def rest_on_def ex_defs)
  then show ?thesis
    by (rule wallet_indexes_unique [OF refm.mongo_srv_axioms, rotated])
      (rule r_into_rtranclp, rule server_step.Request, rule rest_step.AddWallet)
qed

end
