(* ===== verification/Outputs.thy ===== *)
theory Outputs
  imports Server
begin

text \<open>
  The outputs of a Bitcoin network over the steps of the whole server: only the streams of the network itself
  and the deletion of a history write them. An addition looks among the spent outputs before it writes, so
  that a deletion in between is missed; otherwise a spent output comes back only after its records are erased.
\<close>

section \<open>The outputs as a view of the database\<close>

definition outs :: "int \<Rightarrow> db \<Rightarrow> SpendableOutputs list \<times> DeleteSpendableOutput list" where
  "outs net d = (btc_sp net d, btc_spent net d)"

lemma outs_users [simp]: "outs net (d\<lparr>db_users := us\<rparr>) = outs net d"
  by (simp add: outs_def btc_sp_def btc_spent_def)

lemma sp_inv_outs: "outs net d' = outs net d \<Longrightarrow> sp_inv net d \<Longrightarrow> sp_inv net d'"
  unfolding outs_def by (metis prod.inject sp_inv_cong)

lemma leaves_other: "(net' = Main_net) \<noteq> (net = Main_net) \<Longrightarrow> leaves_outputs (outs net) net'"
  by (auto simp: leaves_outputs_def outs_def btc_sp_def btc_spent_def set_btc_sp_def set_btc_spent_def)

lemma sp_inv_same: "(net' = Main_net) = (net = Main_net) \<Longrightarrow> sp_inv net' = sp_inv net"
  by (auto simp: sp_inv_def btc_sp_def btc_spent_def fun_eq_iff)

sublocale mongo_srv \<subseteq> outputs: account_view M "outs net" "\<lambda>u' u. True" for net
  by unfold_locales (simp_all add: users_update_def case_prod_beta outs_def btc_sp_def btc_spent_def)

lemma login_outs: "LoginHandler M J (initMiddlewareJWT M key) now ip lg d = Inr (r, d') \<Longrightarrow> outs net d' = outs net d"
  by (erule LoginHandler_cases)
    (auto simp: old_user_login_def new_user_login_def Let_def Insert_def UpdateUser_def users_update_def saved_reply_def
      case_prod_beta split: if_splits option.splits)

text \<open>Fewer outputs of both kinds are still consistent.\<close>

lemma sp_inv_filter:
  assumes "btc_sp net d' = filter P (btc_sp net d)" "btc_spent net d' = filter Q (btc_spent net d)" "sp_inv net d"
  shows "sp_inv net d'"
proof -
  have "distinct (map so_id (btc_sp net d'))" using assms(1,3) by (simp add: sp_inv_def distinct_map_filter)
  moreover have "set (btc_sp net d') \<subseteq> set (btc_sp net d)" "set (btc_spent net d') \<subseteq> set (btc_spent net d)" using assms(1,2) by auto
  ultimately show ?thesis using assms(3) by (fastforce simp: sp_inv_def)
qed

section \<open>Steps of the server\<close>

context mongo_live
begin

lemma DeleteHistory_outputs:
  assumes "sp_inv net d"
  shows "sp_inv net (DeleteHistory M c n a d)"
proof (cases "c = Bitcoin \<and> (n = Main_net \<and> net = Main_net \<or> n = Test_net \<and> net \<noteq> Main_net)")
  case True
  have "Test_net \<noteq> Main_net" by (simp add: Main_net_def Test_net_def)
  with True have "btc_sp net (DeleteHistory M c n a d) = filter (\<lambda>s. so_Address s \<noteq> a) (btc_sp net d)"
    "btc_spent net (DeleteHistory M c n a d) = filter (\<lambda>s. dso_Address s \<noteq> a) (btc_spent net d)"
    by (auto simp: DeleteHistory_def btc_sp_def btc_spent_def sp.live_remove_all spent.live_remove_all doc_remove_all_def)
  then show ?thesis using assms by (rule sp_inv_filter)
next
  case False
  then have "outs net (DeleteHistory M c n a d) = outs net d"
    by (auto simp: DeleteHistory_def outs_def btc_sp_def btc_spent_def)
  then show ?thesis using assms by (rule sp_inv_outs)
qed

lemma rest_step_outputs: "rest_step M s s' \<Longrightarrow> sp_inv net (rs_db s) \<Longrightarrow> sp_inv net (rs_db s')"
proof (induction rule: rest_step.cases)
  case (DeleteWallet N header w t c n s s' r)
  from outputs.deleteWallet_view [OF DeleteWallet(3), of net] DeleteWallet show ?case by (auto intro: sp_inv_outs)
next
  case (SendRawHDTransaction fuel N now header tx s s' r')
  from outputs.sendRawHDTransaction_view [OF SendRawHDTransaction(3), of net] SendRawHDTransaction show ?case by (auto intro: sp_inv_outs)
next
  case (ResyncWallet header w t c n s s' r)
  from resyncWallet_history [of "sp_inv net" M, OF DeleteHistory_outputs ResyncWallet(3)] ResyncWallet show ?case by simp
qed (auto simp: outputs.addWallet_view outputs.discoverWallets_view outputs.wallet_handlers_view intro: sp_inv_outs)

lemma server_step_outputs: "server_step M J key d d' \<Longrightarrow> sp_inv net d \<Longrightarrow> sp_inv net d'"
proof (induction rule: server_step.cases)
  case (LogIn now ip lg d r d')
  from login_outs [OF LogIn(3), of net] LogIn show ?case by (auto intro: sp_inv_outs)
next
  case (Request s s')
  then show ?case by (simp add: rest_step_outputs)
next
  case (SocketMessage ord now meth decoded w w' r')
  from outputs.on_message_view [OF SocketMessage(3), of net] SocketMessage show ?case by (auto intro: sp_inv_outs)
next
  case (BtcMessage net' b b')
  show ?case
  proof (cases "(net' = Main_net) = (net = Main_net)")
    case True
    with btc_step_inv [OF BtcMessage(3)] BtcMessage(1,2,4) show ?thesis by (simp add: sp_inv_same [OF True])
  next
    case False
    from outputs.btc_step_view [OF BtcMessage(3) leaves_other [OF False]] BtcMessage(1,2,4) show ?thesis by (auto intro: sp_inv_outs)
  qed
next
  case (EthMessage net' e e')
  from outputs.eth_step_view [OF EthMessage(3), of net] EthMessage show ?case by (auto intro: sp_inv_outs)
next
  case (StoreOp d d')
  show ?case
    by (rule outputs.store_step_view [OF StoreOp(3), where net = net])
      (use StoreOp DeleteHistory_outputs sp_inv_outs in auto)
qed

lemma server_steps_outputs:
  assumes "(server_step M J key)\<^sup>*\<^sup>* d d'" "sp_inv net d"
  shows "sp_inv net d'"
  using assms server_step_outputs by (rule steps_keep)

text \<open>
  An output that is recorded as spent and not listed is not listed by any step, and only a resynchronisation
  or the deletion of a history erases a record.
\<close>

lemma DeleteHistory_sp: "set (btc_sp net (DeleteHistory M c n a d)) \<subseteq> set (btc_sp net d)"
  by (auto simp: DeleteHistory_def btc_sp_def sp.live_remove_all doc_remove_all_def)

lemma outs_spends: "outs net d' = outs net d \<Longrightarrow> spends net d d'"
  by (simp add: outs_def spends_same)

lemma server_step_spends:
  assumes "server_step M J key d d'"
  obtains "spends net d d'"
  | "set (btc_sp net d') \<subseteq> set (btc_sp net d)" "\<exists>c n a. d' = DeleteHistory M c n a d"
  | "set (btc_sp net d') \<subseteq> set (btc_sp net d)"
      "\<exists>header w t c n s s' r. resyncWallet M header w t c n s = Inr (s', r) \<and> d = rs_db s \<and> d' = rs_db s'"
  using assms
proof (cases rule: server_step.cases)
  case (LogIn now ip lg r)
  from login_outs [OF LogIn, of net] that(1) show ?thesis by (simp add: outs_spends)
next
  case (Request s s')
  from Request(3) show ?thesis
  proof (cases rule: rest_step.cases)
    case (DeleteWallet N header w t c n r)
    with Request outputs.deleteWallet_view [OF DeleteWallet, of net] that(1) show ?thesis by (simp add: outs_spends)
  next
    case (SendRawHDTransaction fuel N now header tx r')
    with Request outputs.sendRawHDTransaction_view [OF SendRawHDTransaction, of net] that(1) show ?thesis by (simp add: outs_spends)
  next
    case (ResyncWallet header w t c n r)
    have "set (btc_sp net (rs_db s')) \<subseteq> set (btc_sp net (rs_db s))"
      by (rule resyncWallet_history [of "\<lambda>e. set (btc_sp net e) \<subseteq> set (btc_sp net (rs_db s))" M, OF _ ResyncWallet])
        (use DeleteHistory_sp in \<open>blast+\<close>)
    with Request ResyncWallet that(3) show ?thesis by blast
  qed (use Request in \<open>auto simp: outputs.addWallet_view outputs.discoverWallets_view outputs.wallet_handlers_view intro!: that(1) outs_spends\<close>)
next
  case (SocketMessage ord now meth decoded w w' r')
  with outputs.on_message_view [OF SocketMessage(3), of net] that(1) show ?thesis by (simp add: outs_spends)
next
  case (BtcMessage net' b b')
  show ?thesis
  proof (cases "(net' = Main_net) = (net = Main_net)")
    case True
    then have "spends net' = spends net" by (auto simp: spends_def btc_sp_def btc_spent_def fun_eq_iff)
    with btc_step_spends [OF BtcMessage(3)] BtcMessage that(1) show ?thesis by simp
  next
    case False
    from outputs.btc_step_view [OF BtcMessage(3) leaves_other [OF False]] BtcMessage that(1) show ?thesis by (simp add: outs_spends)
  qed
next
  case (EthMessage net' e e')
  with outputs.eth_step_view [OF EthMessage(3), of net] that(1) show ?thesis by (simp add: outs_spends)
next
  case StoreOp
  show ?thesis
    by (rule outputs.store_step_view [OF StoreOp, where net = net]) (use that(1,2) DeleteHistory_sp outs_spends in blast)+
qed

end

section \<open>Interleaved additions\<close>

text \<open>
  Every stream has a goroutine of its own, and one that adds an output looks for it among the spent ones first.
  The state is the database and the messages of the network for which this look-up has found nothing and the
  rest of the handler (\<open>add_unspent\<close>) is still to come; any steps of the server may happen in between.
  \<open>may d d'\<close> says which steps the server takes.
\<close>

type_synonym output_state = "db \<times> pb_AddSpOut list"

inductive output_step ::
  "mongo \<Rightarrow> jwt \<Rightarrow> string \<Rightarrow> int \<Rightarrow> (db \<Rightarrow> db \<Rightarrow> bool) \<Rightarrow> output_state \<Rightarrow> output_state \<Rightarrow> bool" for M J key net may where
  Server: "server_step M J key d d' \<Longrightarrow> may d d' \<Longrightarrow> output_step M J key net may (d, gs) (d', gs)"
| Looks: "c_one (M_spent M) (spent_key (ps_UserID g) (ps_TxID g) (ps_Address g)) (btc_spent net d) = Inl ErrNotFound \<Longrightarrow>
    output_step M J key net may (d, gs) (d, g # gs)"
| Adds: "g \<in> set gs \<Longrightarrow> output_step M J key net may (d, gs) (fst (add_unspent M net g d), remove1 g gs)"

definition add_id :: "pb_AddSpOut \<Rightarrow> string \<times> string \<times> string" where
  "add_id g = (ps_UserID g, ps_TxID g, ps_Address g)"

text \<open>
  The spent records of an address stay; by \<open>server_step_spends\<close> only steps that delete its history
  erase them.
\<close>

definition keeps_spent :: "int \<Rightarrow> string \<Rightarrow> db \<Rightarrow> db \<Rightarrow> bool" where
  "keeps_spent net a d d' \<longleftrightarrow> list_all (\<lambda>x. dso_Address x = a \<longrightarrow> x \<in> set (btc_spent net d')) (btc_spent net d)"

context mongo_live
begin

lemma output_step_spent:
  assumes "output_step M J key net (keeps_spent net (dso_Address del)) s t"
    and "del \<in> set (btc_spent net (fst s)) \<and> dso_id del \<notin> so_id ` set (btc_sp net (fst s)) \<and> dso_id del \<notin> add_id ` set (snd s)"
  shows "del \<in> set (btc_spent net (fst t)) \<and> dso_id del \<notin> so_id ` set (btc_sp net (fst t)) \<and> dso_id del \<notin> add_id ` set (snd t)"
  using assms
proof (cases rule: output_step.cases)
  case (Server d d' gs)
  have "del \<in> set (btc_spent net d')"
    using Server assms(2) by (auto simp: keeps_spent_def list_all_iff filter_empty_conv)
  moreover have "dso_id del \<notin> so_id ` set (btc_sp net d')"
    by (rule server_step_spends [OF Server(3), where net = net]) (use Server(1) assms(2) in \<open>auto simp: spends_def\<close>)
  ultimately show ?thesis using Server assms(2) by simp
next
  case (Looks g d gs)
  then have "add_id g \<noteq> dso_id del"
    using assms(2) by (auto simp: spent_key_id add_id_def dest: spent.one_notfound_mem)
  with Looks assms(2) show ?thesis by auto
next
  case (Adds g gs d)
  then have "dso_id del \<noteq> add_id g" using assms(2) by auto
  with Adds assms(2) add_unspent_ids [of net g d] show ?thesis
    by (auto simp: add_id_def dest: set_remove1_subset [THEN subsetD])
qed

text \<open>An addition that looked before a deletion and goes on after it lists the spent output.\<close>

lemma add_unspent_lists: "add_id g \<in> so_id ` set (btc_sp net (fst (add_unspent M net g d)))"
proof -
  let ?o = "(generatedSpOutsToStore g)\<lparr>so_StockExchangeRate := rates_or_nil (GetLatestExchangeRate M d)\<rparr>"
  have o: "so_id ?o = add_id g" "so_UserID ?o = ps_UserID g" "so_TxID ?o = ps_TxID g" "so_Address ?o = ps_Address g"
    by (simp add: so_id_stored add_id_def) (simp_all add: generatedSpOutsToStore_def)
  show ?thesis
  proof (cases "find (\<lambda>s. so_id s = add_id g) (btc_sp net d)")
    case None
    with o show ?thesis
      by (auto simp: add_unspent_def live_simps doc_one_def sp_key_id add_id_def so_id_def generatedSpOutsToStore_def Let_def split: option.split)
  next
    case (Some s)
    then have "add_id g \<in> set (map so_id (btc_sp net d))" using find_SomeD [OF Some] by (auto dest: sym)
    with Some o show ?thesis
      by (simp add: add_unspent_def live_simps doc_one_def sp_key_id add_id_def Let_def ids_set so_ids_status del: set_map split: option.split)
  qed
qed

lemma late_addition:
  assumes "length (filter (\<lambda>s. so_id s = dso_id del) (btc_sp net d)) \<le> 1" "add_id g = dso_id del"
  shows "dso_id del \<in> so_id ` set (btc_sp net (fst (add_unspent M net g (delete_loop 4 M net del d)))) \<and>
    del \<in> set (btc_spent net (fst (add_unspent M net g (delete_loop 4 M net del d))))"
  using add_unspent_lists [of g net] delete_loop_deletes [OF assms(1), of 3] assms(2) add_unspent_ids(2) [of net g]
  by (simp add: eval_nat_numeral del: delete_loop.simps)

end

section \<open>Properties\<close>

text \<open>
  C1: on a database without errors, once the message that an output was spent has been handled, the output is
  not listed as spendable again as long as the spent records of its address are not erased, which only a
  resynchronisation of the address (the deletion of its history) does: not by any sequence of logins, requests,
  socket messages, messages of the streams of both networks and both currencies and store operations, and not by
  additions whose look-up of the spent outputs and whose writing are separated by such steps. At the time of the
  deletion the output is listed at most once, and no addition of it is between the two; such an addition would
  list it (\<open>late_addition\<close>).
\<close>

theorem spent_never_spendable:
  assumes "mongo_live M" "length (filter (\<lambda>s. so_id s = dso_id del) (btc_sp net (bs_db s))) \<le> 1" "dso_id del \<notin> add_id ` set gs"
    and "(output_step M J key net (keeps_spent net (dso_Address del)))\<^sup>*\<^sup>* (bs_db (EventDeleteSpendableOut M net del s), gs) (d', gs')"
  shows "\<forall>o1 \<in> set (btc_sp net d'). (so_UserID o1, so_TxID o1, so_Address o1) \<noteq> (dso_UserID del, dso_TxID del, dso_Address del)"
proof -
  have "del \<in> set (btc_spent net (fst (d', gs'))) \<and> dso_id del \<notin> so_id ` set (btc_sp net (fst (d', gs'))) \<and> dso_id del \<notin> add_id ` set (snd (d', gs'))"
    using assms(4)
  proof (rule steps_keep)
    show "del \<in> set (btc_spent net (fst (bs_db (EventDeleteSpendableOut M net del s), gs))) \<and>
        dso_id del \<notin> so_id ` set (btc_sp net (fst (bs_db (EventDeleteSpendableOut M net del s), gs))) \<and>
        dso_id del \<notin> add_id ` set (snd (bs_db (EventDeleteSpendableOut M net del s), gs))"
      using mongo_live.delete_loop_deletes [OF assms(1,2), of 3] assms(3)
      by (simp add: EventDeleteSpendableOut_def eval_nat_numeral del: delete_loop.simps)
  qed (rule mongo_live.output_step_spent [OF assms(1)])
  then show ?thesis by (auto simp: so_id_def dso_id_def image_iff)
qed

theorem spent_never_spendable_witness:
  "btc_sp 1 (bs_db (outcome_state (EventAddSpendableOut ref_mongo 1 (ex_spout 0)
     (EventDeleteSpendableOut ref_mongo 1 ex_del (outcome_state (EventAddSpendableOut ref_mongo 1 (ex_spout 0) ex_state)))))) = []"
proof -
  let ?s1 = "outcome_state (EventAddSpendableOut ref_mongo 1 (ex_spout 0) ex_state)"
  let ?s2 = "EventDeleteSpendableOut ref_mongo 1 ex_del ?s1"
  let ?s3 = "outcome_state (EventAddSpendableOut ref_mongo 1 (ex_spout 0) ?s2)"
  let ?step = "output_step ref_mongo ref_jwt ''k'' 1 (keeps_spent 1 (dso_Address ex_del))"
  have one: "length (filter (\<lambda>s. so_id s = dso_id ex_del) (btc_sp 1 (bs_db ?s1))) \<le> 1" by code_simp
  have "server_step ref_mongo ref_jwt ''k'' (bs_db ?s2) (bs_db ?s3)" by (rule server_step.BtcMessage, rule btc_step.AddSpendable)
  moreover have "keeps_spent 1 (dso_Address ex_del) (bs_db ?s2) (bs_db ?s3)" by code_simp
  ultimately have "?step\<^sup>*\<^sup>* (bs_db ?s2, []) (bs_db ?s3, [])" by (intro r_into_rtranclp output_step.Server)
  note kept = spent_never_spendable [OF refm.mongo_live_axioms one _ this, simplified]
  define xs where "xs = btc_sp 1 (bs_db ?s3)"
  have "so_id o1 \<noteq> dso_id ex_del" if "o1 \<in> set xs" for o1
    using kept that by (simp add: xs_def so_id_def dso_id_def)
  moreover have "list_all (\<lambda>o1. so_id o1 = dso_id ex_del) xs" unfolding xs_def by code_simp
  ultimately have "xs = []" by (cases xs) auto
  then show ?thesis by (simp only: xs_def)
qed

end
