(* ===== verification/Logins.thy ===== *)
theory Logins
  imports Server
begin

text \<open>
  Logins among the other steps of the server. A login reads the account and writes it later, and a login on a
  new device writes the whole document back, so here the two are separate steps and anything may happen
  between them: what every interleaving keeps, what it may lose, and what the token of a login is good for.
\<close>

section \<open>Interleaved logins\<close>

text \<open>A step of the server that is not a login.\<close>

inductive other_step :: "mongo \<Rightarrow> db \<Rightarrow> db \<Rightarrow> bool" for M where
  Request: "rest_step M s s' \<Longrightarrow> other_step M (rs_db s) (rs_db s')"
| SocketMessage: "on_message M ord now method decoded w = Inr (w', r') \<Longrightarrow> other_step M (ws_db w) (ws_db w')"
| BtcMessage: "btc_step M net b b' \<Longrightarrow> other_step M (bs_db b) (bs_db b')"
| EthMessage: "eth_step M net e e' \<Longrightarrow> other_step M (es_db e) (es_db e')"
| StoreOp: "store_step M d d' \<Longrightarrow> other_step M d d'"

lemma other_step_server: "other_step M d d' \<Longrightarrow> server_step M J key d d'"
  by (erule other_step.cases) (auto intro: server_step.intros)

lemma server_step_split:
  "server_step M J key d d' \<longleftrightarrow>
     (\<exists>now ip lg r. LoginHandler M J (initMiddlewareJWT M key) now ip lg d = Inr (r, d')) \<or> other_step M d d'"
  by (auto intro: server_step.LogIn other_step_server elim!: server_step.cases intro: other_step.intros)

text \<open>
  The state is the database and the logins that have read and have not written. \<open>may p d\<close> says which of
  them may write on which database, so that a property can exclude some.
\<close>

type_synonym login_state = "db \<times> pending_login list"

inductive login_step ::
  "mongo \<Rightarrow> jwt \<Rightarrow> string \<Rightarrow> (pending_login \<Rightarrow> db \<Rightarrow> bool) \<Rightarrow> login_state \<Rightarrow> login_state \<Rightarrow> bool" for M J key may where
  Other: "other_step M d d' \<Longrightarrow> login_step M J key may (d, ps) (d', ps)"
| Reads: "login_reads M J (initMiddlewareJWT M key) now ip lg d = Inr (Inr p) \<Longrightarrow> login_step M J key may (d, ps) (d, p # ps)"
| Writes: "p \<in> set ps \<Longrightarrow> may p d \<Longrightarrow> login_writes M p d = (r, d') \<Longrightarrow> login_step M J key may (d, ps) (d', remove1 p ps)"

inductive_cases login_stepE: "login_step M J key may (d, ps) t"

lemma login_step_mono: "login_step M J key may s t \<Longrightarrow> login_step M J key (\<lambda>p d. True) s t"
  by (induction rule: login_step.induct) (auto intro: login_step.intros)

lemma login_steps_mono: "(login_step M J key may)\<^sup>*\<^sup>* s t \<Longrightarrow> (login_step M J key (\<lambda>p d. True))\<^sup>*\<^sup>* s t"
  using login_step_mono by (metis mono_rtranclp)

text \<open>A login during which nothing else happens is a reading and a writing.\<close>

lemma whole_login:
  assumes "LoginHandler M J (initMiddlewareJWT M key) now ip lg d = Inr (r, d')"
  shows "(login_step M J key (\<lambda>p d. True))\<^sup>*\<^sup>* (d, ps) (d', ps)"
proof -
  from assms obtain a where a: "login_reads M J (initMiddlewareJWT M key) now ip lg d = Inr a"
    "(case a of Inl answer \<Rightarrow> (answer, d) | Inr p \<Rightarrow> login_writes M p d) = (r, d')"
    by (auto simp: LoginHandler_def bind_p_Inr)
  show ?thesis
  proof (cases a)
    case (Inr p)
    with a have "login_step M J key (\<lambda>p d. True) (d, ps) (d, p # ps)" by (simp add: login_step.Reads)
    moreover have "login_step M J key (\<lambda>p d. True) (d, p # ps) (d', remove1 p (p # ps))"
      by (rule login_step.Writes) (use a(2) Inr in auto)
    ultimately show ?thesis by (simp add: converse_rtranclp_into_rtranclp)
  qed (use a in simp)
qed

lemma server_steps_login_steps: "(server_step M J key)\<^sup>*\<^sup>* d d' \<Longrightarrow> (login_step M J key (\<lambda>p d. True))\<^sup>*\<^sup>* (d, ps) (d', ps)"
proof (induction rule: rtranclp_induct)
  case (step d1 d2)
  from step(2) have "(login_step M J key (\<lambda>p d. True))\<^sup>*\<^sup>* (d1, ps) (d2, ps)"
    unfolding server_step_split by (auto intro: whole_login login_step.Other)
  with step(3) show ?case by (rule rtranclp_trans)
qed simp

lemma saved_reply_answer: "saved_reply tok e x = (r, d') \<Longrightarrow> ar_status r = StatusOK \<Longrightarrow> ar_body r = TokenBody tok (Some e)"
  by (auto simp: saved_reply_def token_reply_def status_defs split: option.splits)

lemma login_writes_answer:
  "login_writes M p d = (r, d') \<Longrightarrow> ar_status r = StatusOK \<Longrightarrow> ar_body r = TokenBody (pn_token p) (Some (pn_expire p))"
  unfolding login_writes_def new_user_login_def old_user_login_def Let_def
  by (auto dest: saved_reply_answer simp: status_defs split: if_splits option.splits)

section \<open>Accounts\<close>

text \<open>
  A login on a new device of a known account, about to write on a database in which the account has other
  wallets than it had when the login read it.
\<close>

definition overtaken :: "pending_login \<Rightarrow> db \<Rightarrow> bool" where
  "overtaken p d \<longleftrightarrow> pn_known p \<and> new_device p \<and>
     (case find (by_userID (lg_UserID (pn_login p))) (db_users d) of
        None \<Rightarrow> False | Some u \<Rightarrow> ids u \<noteq> ids (pn_user p))"

definition read_right :: "pending_login \<Rightarrow> bool" where
  "read_right p \<longleftrightarrow> (pn_known p \<longrightarrow> usr_UserID (pn_user p) = lg_UserID (pn_login p))"

context mongo_srv
begin

lemma server_steps_kept: "(server_step M J key)\<^sup>*\<^sup>* d d' \<Longrightarrow> accounts_kept d d'"
  by (induction rule: rtranclp_induct) (auto intro: server_step_kept accounts_kept_trans)

lemma login_reads_right: "login_reads M J (initMiddlewareJWT M key) now ip lg d = Inr (Inr p) \<Longrightarrow> read_right p"
  by (erule login_reads_pending) (auto simp: read_right_def dest: authenticated)

lemma login_writes_kept:
  assumes "login_writes M p d = (r, d')" "\<not> overtaken p d" "read_right p"
  shows "accounts_kept d d'"
  using assms(1)
proof (cases rule: login_writes_users)
  case (refresh dev)
  have "grown u (refresh_device old new u)" for old new u by (simp add: grown_def ids_def refresh_device_def)
  with refresh(3) list_all2_update_first show ?thesis by (simp add: accounts_kept_def)
next
  case replace
  have "grown u ((pn_user p)\<lparr>usr_Devices := ds\<rparr>)" if "find (by_userID (lg_UserID (pn_login p))) (db_users d) = Some u" for u ds
    using that assms(2,3) replace(1,2) find_SomeD [OF that]
    by (simp add: overtaken_def read_right_def grown_def by_userID_def) (simp add: ids_def)
  with replace(3) list_all2_update_first show ?thesis by (simp add: accounts_kept_def)
qed (simp_all add: accounts_kept_def list_all2_same)

end

lemma accounts_kept_found:
  assumes "accounts_kept d d1" "find (by_userID uid) (db_users d) = Some u"
  shows "\<exists>v. find (by_userID uid) (db_users d1) = Some v"
proof -
  obtain k where k: "k < length (db_users d)" "db_users d ! k = u" "usr_UserID u = uid"
    using find_SomeD [OF assms(2)] by (auto simp: in_set_conv_nth by_userID_def)
  then have "k < length (db_users d1)" "usr_UserID (db_users d1 ! k) = uid"
    using assms(1) by (auto simp: accounts_kept_def list_all2_conv_all_nth min_def grown_def split: if_splits)
  then show ?thesis by (auto simp: find_Some_iff_ex by_userID_def)
qed

section \<open>Sessions\<close>

definition pending_ok :: "mongo \<Rightarrow> (string \<Rightarrow> string \<Rightarrow> string \<Rightarrow> (string \<Rightarrow> claim option) \<Rightarrow> bool) \<Rightarrow> string \<Rightarrow> pending_login \<Rightarrow> bool" where
  "pending_ok M signed_by key p \<longleftrightarrow>
     signed_by ''HS256'' key (pn_token p) (map_of (new_claims (server M key) (lg_UserID (pn_login p)) (pn_now p))) \<and>
     (pn_known p \<longrightarrow> usr_UserID (pn_user p) = lg_UserID (pn_login p) \<and> session_ok (signed_by ''HS256'' key) (logins (pn_user p)))"

text \<open>The devices of the accounts of one user.\<close>

definition user_logins :: "string \<Rightarrow> db \<Rightarrow> (string \<times> Device list) list" where
  "user_logins uid d = filter (\<lambda>l. fst l = uid) (parts logins d)"

lemma filter_update_first_other:
  "(\<And>x. P x \<Longrightarrow> \<not> Q x \<and> \<not> Q (f x)) \<Longrightarrow> filter Q (update_first P f xs) = filter Q xs"
  by (induction xs) auto

lemma update_first_mem: "list_ex P xs \<Longrightarrow> \<exists>x. P x \<and> x \<in> set xs \<and> f x \<in> set (update_first P f xs)"
  by (induction xs) auto

lemma user_logins_users: "db_users d' = db_users d \<Longrightarrow> user_logins uid d' = user_logins uid d"
  by (simp add: user_logins_def parts_def)

lemma user_logins_eq: "user_logins uid d = map logins (filter (\<lambda>u. usr_UserID u = uid) (db_users d))"
  by (simp add: user_logins_def parts_def filter_map comp_def logins_def)

context auth_server
begin

lemma other_step_logins: "other_step M d d' \<Longrightarrow> parts logins d' = parts logins d"
  by (erule other_step.cases)
    (auto simp: rest_step_logins dest: logins.on_message_view logins.btc_step_view logins.eth_step_view logins.store_step_part)

lemma login_reads_ok:
  assumes "login_reads M J (initMiddlewareJWT M key) now ip lg d = Inr (Inr p)" "sessions_signed (signed_by ''HS256'' key) d"
  shows "pending_ok M signed_by key p"
  using assms(1)
proof (rule login_reads_pending)
  fix l user ok tok
  assume *: "Authenticator M (lg_UserID l) d = (user, ok)" "j_sign J ''HS256'' key (new_claims (server M key) (lg_UserID l) now) = Inr tok"
    "p = \<lparr>pn_login = l, pn_now = now, pn_ip = ip, pn_user = user, pn_known = ok, pn_token = tok, pn_expire = now + Hour\<rparr>"
  with authenticated [OF *(1)] sign_law [OF *(2)] assms(2) show ?thesis
    by (auto simp: pending_ok_def sessions_signed_def parts_def list_all_iff)
qed

lemma login_writes_sessions:
  assumes "login_writes M p d = (r, d')" "pending_ok M signed_by key p" "sessions_signed (signed_by ''HS256'' key) d"
  shows "sessions_signed (signed_by ''HS256'' key) d'"
proof -
  note t = assms(2) [unfolded pending_ok_def, THEN conjunct1]
  have i: "map_of (new_claims (server M key) (lg_UserID (pn_login p)) (pn_now p)) ''id'' = Some (CStr (lg_UserID (pn_login p)))"
    by (simp add: new_claims_server)
  show ?thesis
    using assms new_user_sessions [OF assms(3) t i] old_user_sessions [OF assms(3) t i]
    by (simp add: login_writes_def pending_ok_def split: if_splits) (metis snd_conv)+
qed

lemma login_writes_others:
  assumes "login_writes M p d = (r, d')" "pending_ok M signed_by key p" "lg_UserID (pn_login p) \<noteq> uid"
  shows "user_logins uid d' = user_logins uid d"
  using assms(1)
proof (cases rule: login_writes_users)
  case none
  then show ?thesis by (simp add: user_logins_eq)
next
  case insert
  with assms(3) show ?thesis by (simp add: user_logins_eq createUser_def)
next
  case (refresh dev)
  with assms(2,3) show ?thesis
    by (auto simp: user_logins_eq pending_ok_def by_userID_def refresh_device_def intro!: arg_cong [of _ _ "map logins"] filter_update_first_other)
next
  case replace
  with assms(2,3) show ?thesis
    by (auto simp: user_logins_eq pending_ok_def by_userID_def intro!: arg_cong [of _ _ "map logins"] filter_update_first_other)
qed

lemma login_writes_stored:
  assumes "login_writes M p d = (r, d')" "ar_status r = StatusOK" "pending_ok M signed_by key p"
  shows "\<exists>l \<in> set (user_logins (lg_UserID (pn_login p)) d'). pn_token p \<in> dev_JWT ` set (snd l)"
proof -
  have d: "dev_JWT (pending_device p) = pn_token p" by (simp add: pending_device_def createDevice_def)
  have "\<exists>u. u \<in> set (db_users d') \<and> usr_UserID u = lg_UserID (pn_login p) \<and> pn_token p \<in> dev_JWT ` set (usr_Devices u)"
    using assms(1)
  proof (cases rule: login_writes_users)
    case none
    with assms(2) show ?thesis by simp
  next
    case insert
    with d show ?thesis by (auto simp: createUser_def)
  next
    case (refresh dev)
    then obtain u where u: "usr_UserID u = usr_UserID (pn_user p)" "by_jwt (dev_JWT dev) u"
      "refresh_device (dev_JWT dev) (pn_token p) u \<in> set (db_users d')"
      using update_first_mem [OF refresh(4) [OF assms(2)]] by (auto simp: by_userID_def)
    from u(2) have "pn_token p \<in> dev_JWT ` set (usr_Devices (refresh_device (dev_JWT dev) (pn_token p) u))"
      using update_first_mem [of "\<lambda>d. dev_JWT d = dev_JWT dev" "usr_Devices u" "\<lambda>d. d\<lparr>dev_JWT := pn_token p\<rparr>"]
      by (force simp: by_jwt_def refresh_device_def)
    with u refresh(1) assms(3) show ?thesis by (auto simp: pending_ok_def refresh_device_def)
  next
    case replace
    then show ?thesis
      using update_first_mem [OF replace(4) [OF assms(2)]] assms(3) d by (fastforce simp: pending_ok_def)
  qed
  then show ?thesis by (force simp: user_logins_eq logins_def)
qed

lemma login_step_sessions:
  assumes "login_step M J key may s t" "sessions_signed (signed_by ''HS256'' key) (fst s) \<and> list_all (pending_ok M signed_by key) (snd s)"
  shows "sessions_signed (signed_by ''HS256'' key) (fst t) \<and> list_all (pending_ok M signed_by key) (snd t)"
  using assms
proof (cases rule: login_step.cases)
  case (Other d d' ps)
  with assms(2) other_step_logins [OF Other(3)] show ?thesis by (simp add: sessions_signed_def)
next
  case (Reads now ip lg d p ps)
  with assms(2) login_reads_ok [OF Reads(3)] show ?thesis by simp
next
  case (Writes p ps d r d')
  with assms(2) have "pending_ok M signed_by key p" by (auto simp: list_all_iff)
  with Writes assms(2) login_writes_sessions [OF Writes(5)] show ?thesis
    by (auto simp: list_all_iff dest: set_remove1_subset [THEN subsetD])
qed

lemma login_step_others:
  assumes "login_step M J key (\<lambda>q d. lg_UserID (pn_login q) \<noteq> uid) s t" "list_all (pending_ok M signed_by key) (snd s)"
  shows "user_logins uid (fst t) = user_logins uid (fst s)"
  using assms
proof (cases rule: login_step.cases)
  case (Other d d' ps)
  with other_step_logins [OF Other(3)] show ?thesis by (simp add: user_logins_def)
next
  case (Writes p ps d r d')
  with assms(2) login_writes_others [OF Writes(5)] show ?thesis by (auto simp: list_all_iff)
qed simp

lemma login_steps_sessions:
  assumes "(login_step M J key may)\<^sup>*\<^sup>* s t" "sessions_signed (signed_by ''HS256'' key) (fst s) \<and> list_all (pending_ok M signed_by key) (snd s)"
  shows "sessions_signed (signed_by ''HS256'' key) (fst t) \<and> list_all (pending_ok M signed_by key) (snd t)"
  using assms by (induction rule: rtranclp_induct) (auto dest: login_step_sessions)

lemma login_steps_others:
  assumes "(login_step M J key (\<lambda>q d. lg_UserID (pn_login q) \<noteq> uid))\<^sup>*\<^sup>* s t"
    and "sessions_signed (signed_by ''HS256'' key) (fst s) \<and> list_all (pending_ok M signed_by key) (snd s)"
  shows "user_logins uid (fst t) = user_logins uid (fst s)"
  using assms
proof (induction rule: rtranclp_induct)
  case (step t t')
  from login_steps_sessions [OF step(1) assms(2)] login_step_others [OF step(2)] step(3,4) show ?case by simp
qed simp

text \<open>The handlers' look-up of a stored token.\<close>

lemma find_stored_token:
  assumes "l \<in> set (user_logins uid d)" "tok \<in> dev_JWT ` set (snd l)" "sessions_signed (signed_by ''HS256'' key) d"
    and "signed_by ''HS256'' key tok m" "m ''id'' = Some (CStr uid)"
  shows "case FindUser M (by_jwt tok) d of Inr user \<Rightarrow> usr_UserID user = uid | Inl err \<Rightarrow> err \<noteq> ErrNotFound"
proof -
  obtain u where "u \<in> set (db_users d)" "tok \<in> dev_JWT ` set (usr_Devices u)"
    using assms(1,2) by (auto simp: user_logins_eq logins_def)
  then have "u \<in> set (db_users d)" "by_jwt tok u" by (auto simp: by_jwt_def list_ex_iff)
  then have "FindUser M (by_jwt tok) d \<noteq> Inl ErrNotFound"
    by (auto simp: FindUser_def dest: users.one_notfound_mem)
  moreover have "usr_UserID user = uid" if "FindUser M (by_jwt tok) d = Inr user" for user
    using found_by_token [OF assms(3) that assms(4)] assms(5) by simp
  ultimately show ?thesis by (auto split: sum.split)
qed

end

section \<open>Properties\<close>

definition ex_pending :: pending_login where
  "ex_pending = \<lparr>pn_login = ex_login, pn_now = 0, pn_ip = ''ip'', pn_user = ex_user, pn_known = True,
     pn_token = ex_jwt_token, pn_expire = Hour\<rparr>"

definition ex_grown :: "db \<Rightarrow> db" where
  "ex_grown d = rs_db (fst (addWallet ref_mongo ex_nodes (\<lambda>xs. xs) 1 1 ''Bearer jwt'' (Some (ex_params ''x1'' False)) (rest_on d)))"

lemma ex_grows: "other_step ref_mongo d (ex_grown d)"
  using other_step.Request [OF rest_step.AddWallet, of ref_mongo "rest_on d"]
  by (simp add: ex_grown_def rest_on_def)

lemma ex_reads: "login_reads ref_mongo ref_jwt (initMiddlewareJWT ref_mongo ''k'') 0 ''ip'' (Some ex_login) ex_db = Inr (Inr ex_pending)"
proof -
  have "find (by_userID ''u1'') (db_users ex_db) = Some ex_user" by (simp add: ex_defs by_userID_def)
  then have "Authenticator ref_mongo ''u1'' ex_db = (ex_user, True)"
    using refm.FindUser_iff [of "by_userID ''u1''" ex_db ex_user] by (simp add: Authenticator_def ex_user_def)
  moreover have "lg_UserID ex_login = ''u1''" by (simp add: ex_login_def)
  moreover have "j_method ref_jwt ''HS256''" "j_sign ref_jwt ''HS256'' ''k'' (new_claims (server ref_mongo ''k'') ''u1'' 0) = Inr ex_jwt_token"
    by (simp_all add: ref_jwt_def ex_jwt_token_def)
  ultimately show ?thesis by (simp add: login_reads_server ex_pending_def)
qed

lemma ex_writes: "login_writes ref_mongo ex_pending ex_db = (token_reply StatusOK ex_jwt_token (Some Hour), ex_logged_in)"
  using ex_login_reply by (simp add: LoginHandler_def ex_reads)

lemma ex_new_device: "new_device ex_pending"
  by (simp add: new_device_def ex_pending_def ex_login_def ex_defs)

lemma ex_not_overtaken: "\<not> overtaken ex_pending ex_db"
  by (simp add: overtaken_def ex_pending_def ex_login_def ex_defs by_userID_def)

text \<open>
  C2: no order in which logins, requests, socket and stream messages and store operations are served loses an
  account or a wallet, whatever the database answers: every account stays at its place with its identity and its
  wallets, to which wallets are only added at the end; deleting one only changes its status. A login is two
  steps, its reading and its writing, with any other steps between them, other logins included; all other
  handlers are one step each. Excluded is one kind of step: a login on a new device of a known account that
  writes the account back after its wallets have changed.
\<close>

theorem accounts_never_lost:
  assumes "mongo_srv M" "(login_step M J key (\<lambda>p d. \<not> overtaken p d))\<^sup>*\<^sup>* (d, []) (d', ps)"
  shows "accounts_kept d d'"
proof -
  have "accounts_kept d (fst t) \<and> list_all read_right (snd t)"
    if "(login_step M J key (\<lambda>p d. \<not> overtaken p d))\<^sup>*\<^sup>* (d, []) t" for t
    using that
  proof (induction rule: rtranclp_induct)
    case (step s t)
    from step(2) show ?case
    proof (cases rule: login_step.cases)
      case (Other d1 d2 qs)
      with step(3) mongo_srv.server_step_kept [OF assms(1) other_step_server [OF Other(3)]] accounts_kept_trans
      show ?thesis by fastforce
    next
      case (Reads now ip lg d1 p qs)
      with step(3) mongo_srv.login_reads_right [OF assms(1) Reads(3)] show ?thesis by simp
    next
      case (Writes p qs d1 r d2)
      with step(3) have "accounts_kept d1 d2"
        by (auto simp: list_all_iff intro: mongo_srv.login_writes_kept [OF assms(1)])
      with Writes step(3) accounts_kept_trans show ?thesis
        by (auto simp: list_all_iff dest: set_remove1_subset [THEN subsetD])
    qed
  qed simp
  from this [OF assms(2)] show ?thesis by simp
qed

theorem accounts_never_lost_witness: "accounts_kept ex_db (ex_grown ex_logged_in)"
proof -
  let ?step = "login_step ref_mongo ref_jwt ''k'' (\<lambda>p d. \<not> overtaken p d)"
  have "?step (ex_db, []) (ex_db, [ex_pending])" using ex_reads by (rule login_step.Reads)
  moreover have "?step (ex_db, [ex_pending]) (ex_logged_in, remove1 ex_pending [ex_pending])"
    using ex_not_overtaken ex_writes by (intro login_step.Writes) auto
  moreover have "?step (ex_logged_in, []) (ex_grown ex_logged_in, [])" using ex_grows by (rule login_step.Other)
  ultimately have "?step\<^sup>*\<^sup>* (ex_db, []) (ex_grown ex_logged_in, [])" by (simp add: converse_rtranclp_into_rtranclp)
  then show ?thesis by (rule accounts_never_lost [OF refm.mongo_srv_axioms])
qed

text \<open>
  C27: a login on a new device of a known account undoes what was stored in the account while it was
  under way: it writes the account back as it was when it read it, with the new device, whatever steps the
  server took between its reading and its writing, and answers with success.
\<close>

theorem new_device_login_overwrites:
  assumes "mongo_live M" "login_reads M J (initMiddlewareJWT M key) now ip (Some l) d = Inr (Inr p)" "pn_known p" "new_device p"
    and "(server_step M J key)\<^sup>*\<^sup>* d d1" "login_writes M p d1 = (r, d2)"
  shows "ar_status r = StatusOK \<and> (\<exists>u dev. FindUser M (by_userID (lg_UserID l)) d = Inr u \<and>
    FindUser M (by_userID (lg_UserID l)) d2 = Inr (u\<lparr>usr_Devices := usr_Devices u @ [dev]\<rparr>))"
  using assms(2)
proof (rule login_reads_pending)
  fix l' user ok tok
  assume p: "Some l = Some l'" "Authenticator M (lg_UserID l') d = (user, ok)"
    "p = \<lparr>pn_login = l', pn_now = now, pn_ip = ip, pn_user = user, pn_known = ok, pn_token = tok, pn_expire = now + Hour\<rparr>"
  note iff = mongo_live.FindUser_iff [OF assms(1)]
  have l: "l' = l" ok using p(1,3) assms(3) by simp_all
  have "FindUser M (by_userID (lg_UserID l)) d = Inr user"
    using p(2) l by (simp add: Authenticator_def split: sum.splits)
  then have u: "find (by_userID (lg_UserID l)) (db_users d) = Some user" "usr_UserID user = lg_UserID l"
    using iff mongo_srv.authenticated(2) [OF mongo_live.live_srv [OF assms(1)] p(2) l(2)] l(1) by simp_all
  obtain v where v: "find (by_userID (lg_UserID l)) (db_users d1) = Some v"
    using accounts_kept_found [OF mongo_srv.server_steps_kept [OF mongo_live.live_srv [OF assms(1)] assms(5)] u(1)] by blast
  let ?u = "user\<lparr>usr_Devices := usr_Devices user @ [pending_device p]\<rparr>"
  have w: "UpdateUser M (by_userID (lg_UserID l)) ?u d1 = (d1\<lparr>db_users := update_first (by_userID (lg_UserID l)) (\<lambda>_. ?u) (db_users d1)\<rparr>, None)"
    using mongo_live.users_update_live [OF assms(1) v] by (simp add: UpdateUser_def)
  have f: "find (by_userID (lg_UserID l)) (update_first (by_userID (lg_UserID l)) (\<lambda>_. ?u) (db_users d1)) = Some ?u"
    by (rule find_update_first [OF v]) (simp add: by_userID_def u(2))
  have q: "pn_login p = l" "pn_user p = user" using p l by simp_all
  have "login_writes M p d1 = saved_reply (pn_token p) (pn_expire p) (UpdateUser M (by_userID (lg_UserID l)) ?u d1)"
    using assms(3) assms(4) [unfolded new_device_def]
    by (simp add: login_writes_def old_user_login_def q) (simp add: pending_device_def q Let_def)
  with assms(6) w have "ar_status r = StatusOK" "d2 = d1\<lparr>db_users := update_first (by_userID (lg_UserID l)) (\<lambda>_. ?u) (db_users d1)\<rparr>"
    by (auto simp: saved_reply_def token_reply_def)
  with f u(1) iff show ?thesis by auto
qed

theorem new_device_login_overwrites_witness:
  "map (length \<circ> usr_Wallets) (db_users (ex_grown ex_db)) = [3, 1] \<and>
   (\<exists>dev. FindUser ref_mongo (by_userID ''u1'') (snd (login_writes ref_mongo ex_pending (ex_grown ex_db))) =
      Inr (ex_user\<lparr>usr_Devices := usr_Devices ex_user @ [dev]\<rparr>))"
proof
  show "map (length \<circ> usr_Wallets) (db_users (ex_grown ex_db)) = [3, 1]" by code_simp
  have "(server_step ref_mongo ref_jwt ''k'')\<^sup>*\<^sup>* ex_db (ex_grown ex_db)"
    using other_step_server [OF ex_grows] by (rule r_into_rtranclp)
  from new_device_login_overwrites [OF refm.mongo_live_axioms ex_reads _ ex_new_device this prod.collapse [symmetric]]
  show "\<exists>dev. FindUser ref_mongo (by_userID ''u1'') (snd (login_writes ref_mongo ex_pending (ex_grown ex_db))) =
      Inr (ex_user\<lparr>usr_Devices := usr_Devices ex_user @ [dev]\<rparr>)"
    using refm.FindUser_iff [of "by_userID ''u1''" ex_db] by (auto simp: ex_pending_def ex_login_def ex_defs by_userID_def)
qed

text \<open>
  C30: the token that a login answers with opens the service until it expires: every request within the hour of
  the login's start that carries it is admitted as the user, and unless the database reports an error the
  handlers find the user's account by it. Before the login anything may have happened, with any logins
  interleaved, and after it any steps may follow, but for the writing of another login of the same user, which
  may replace the token or the whole account.
\<close>

theorem login_gives_access:
  assumes "mongo_srv M" "jwt_lib J signed_by" "sessions_signed (signed_by ''HS256'' key) d0"
    and "(login_step M J key (\<lambda>q d. True))\<^sup>*\<^sup>* (d0, []) (d, ps)" "p \<in> set ps" "login_writes M p d = (r, d')" "ar_status r = StatusOK"
    and "(login_step M J key (\<lambda>q d. lg_UserID (pn_login q) \<noteq> lg_UserID (pn_login p)))\<^sup>*\<^sup>* (d', remove1 p ps) (d'', ps')"
    and "rq_header rq ''Authorization'' = ''Bearer '' @ pn_token p" "now' \<le> pn_now p + Hour"
  shows "ar_body r = TokenBody (pn_token p) (Some (pn_expire p)) \<and>
    (\<exists>c. MiddlewareFunc J (initMiddlewareJWT M key) now' rq = Inr (Admitted (lg_UserID (pn_login p)) c)) \<and>
    getToken (rq_header rq ''Authorization'') = Inr (pn_token p) \<and>
    (case FindUser M (by_jwt (pn_token p)) d'' of Inr user \<Rightarrow> usr_UserID user = lg_UserID (pn_login p) | Inl err \<Rightarrow> err \<noteq> ErrNotFound)"
proof -
  note as = auth_server.intro [OF assms(1,2)]
  let ?key = "signed_by ''HS256'' key" and ?uid = "lg_UserID (pn_login p)"
  let ?I = "\<lambda>t. sessions_signed ?key (fst t) \<and> list_all (pending_ok M signed_by key) (snd t)"
  have "?I (d, ps)" using auth_server.login_steps_sessions [OF as assms(4)] assms(3) by simp
  then have i: "sessions_signed ?key d" "list_all (pending_ok M signed_by key) ps" by simp_all
  with assms(5) have p: "pending_ok M signed_by key p" by (auto simp: list_all_iff)
  have i': "sessions_signed ?key d'" "list_all (pending_ok M signed_by key) (remove1 p ps)"
    using auth_server.login_writes_sessions [OF as assms(6) p i(1)] i(2)
    by (auto simp: list_all_iff dest: set_remove1_subset [THEN subsetD])
  obtain k where k: "k \<in> set (user_logins ?uid d')" "pn_token p \<in> dev_JWT ` set (snd k)"
    using auth_server.login_writes_stored [OF as assms(6,7) p] by blast
  have "?I (d'', ps') \<and> user_logins ?uid d'' = user_logins ?uid d'"
    using auth_server.login_steps_sessions [OF as assms(8)] auth_server.login_steps_others [OF as assms(8)] i' by simp
  with k have k: "k \<in> set (user_logins ?uid d'')" "sessions_signed ?key d''" "pn_token p \<in> dev_JWT ` set (snd k)" by simp_all
  note s = p [unfolded pending_ok_def, THEN conjunct1, unfolded new_claims_server]
  have u: "unix now' \<le> unix (pn_now p + Hour)" using assms(10) by (simp add: unix_def zdiv_mono1)
  have "\<exists>c. MiddlewareFunc J (initMiddlewareJWT M key) now' rq = Inr (Admitted ?uid c)"
    by (rule jwt_lib.admits [OF assms(2), OF s _ _ assms(9)]) (simp_all add: in_time_def u)
  moreover have "getToken (rq_header rq ''Authorization'') = Inr (pn_token p)"
    unfolding assms(9) by (rule jwt_lib.getToken_Bearer [OF assms(2), OF s])
  moreover have "ar_body r = TokenBody (pn_token p) (Some (pn_expire p))"
    using assms(6,7) by (rule login_writes_answer)
  moreover have id: "map_of (new_claims (server M key) ?uid (pn_now p)) ''id'' = Some (CStr ?uid)"
    by (simp add: new_claims_server)
  note auth_server.find_stored_token [OF as k(1,3,2) p [unfolded pending_ok_def, THEN conjunct1] id]
  ultimately show ?thesis by blast
qed

theorem login_gives_access_witness:
  "\<exists>c. MiddlewareFunc ref_jwt (initMiddlewareJWT ref_mongo ''k'') 0 ex_request = Inr (Admitted ''u1'' c)"
proof -
  let ?step = "login_step ref_mongo ref_jwt ''k''" and ?p = "ex_pending\<lparr>pn_user := zero_user, pn_known := False\<rparr>"
  let ?d = "empty_db\<lparr>db_users := [ex_account]\<rparr>"
  have l: "lg_UserID ex_login = ''u1''" by (simp add: ex_login_def)
  have "Authenticator ref_mongo ''u1'' empty_db = (zero_user, False)"
    by (simp add: Authenticator_def FindUser_def ref_mongo_def ref_simps doc_one_def empty_db_def)
  moreover have "j_method ref_jwt ''HS256''" "j_sign ref_jwt ''HS256'' ''k'' (new_claims (server ref_mongo ''k'') ''u1'' 0) = Inr ex_jwt_token"
    by (simp_all add: ref_jwt_def ex_jwt_token_def)
  ultimately have r: "login_reads ref_mongo ref_jwt (initMiddlewareJWT ref_mongo ''k'') 0 ''ip'' (Some ex_login) empty_db = Inr (Inr ?p)"
    by (simp add: login_reads_server l ex_pending_def)
  then have w: "login_writes ref_mongo ?p empty_db = (token_reply StatusOK ex_jwt_token (Some Hour), ?d)"
    using ex_first_login by (simp add: LoginHandler_def)
  have "?step (\<lambda>q d. True) (empty_db, []) (empty_db, [?p])" using r by (rule login_step.Reads)
  then have run: "(?step (\<lambda>q d. True))\<^sup>*\<^sup>* (empty_db, []) (empty_db, [?p])" by (rule r_into_rtranclp)
  have "?step (\<lambda>q d. lg_UserID (pn_login q) \<noteq> lg_UserID (pn_login ?p)) (?d, remove1 ?p [?p]) (ex_grown ?d, remove1 ?p [?p])"
    using ex_grows by (rule login_step.Other)
  then have rest: "(?step (\<lambda>q d. lg_UserID (pn_login q) \<noteq> lg_UserID (pn_login ?p)))\<^sup>*\<^sup>* (?d, remove1 ?p [?p]) (ex_grown ?d, remove1 ?p [?p])"
    by (rule r_into_rtranclp)
  have "sessions_signed (ref_signed ''HS256'' ''k'') empty_db" by (simp add: sessions_signed_def parts_def empty_db_def)
  from login_gives_access [OF refm.mongo_srv_axioms refj.jwt_lib_axioms this run _ w _ rest, of ex_request 0]
  show ?thesis by (auto simp: ex_request_def ex_pending_def l Hour_def token_reply_def)
qed

end
