(* ===== verification/Routes.thy ===== *)
theory Routes
  imports Auth
begin

text \<open>
  The routes of the REST API (\<open>SetRestHandlers\<close> in \<open>client/rest.go\<close>) and its constant
  answers. The router of the web framework is a parameter: it picks one of the registered routes for a method
  and a path. A route of the group \<open>/api/v1\<close> runs the JWT middleware before its handler.
\<close>

section \<open>The table\<close>

datatype handler =
    H_LoginHandler | H_getServerConfig | H_donations | H_addWallet | H_discoverWallets | H_deleteWallet | H_addAddress
  | H_getFeeRate | H_getSpendableOutputs | H_sendRawHDTransaction | H_getWalletVerbose | H_getAllWalletsVerbose
  | H_getWalletTransactionsHistory | H_changeWalletName | H_resyncWallet | H_estimateMultisig | H_convertToBroken
  | H_GetExchangerSupportedCurrencies | H_GetExchangerAmountExchange | H_CreateExchangerTransaction

record route =
  rt_method :: string
  rt_path :: string
  rt_middleware :: bool
  rt_handler :: handler

definition v1 :: "string \<Rightarrow> string \<Rightarrow> handler \<Rightarrow> route" where
  "v1 method path h = \<lparr>rt_method = method, rt_path = ''/api/v1'' @ path, rt_middleware = True, rt_handler = h\<rparr>"

definition SetRestHandlers :: "route list" where
  "SetRestHandlers =
     [\<lparr>rt_method = ''POST'', rt_path = ''/auth'', rt_middleware = False, rt_handler = H_LoginHandler\<rparr>,
      \<lparr>rt_method = ''GET'', rt_path = ''/server/config'', rt_middleware = False, rt_handler = H_getServerConfig\<rparr>,
      \<lparr>rt_method = ''GET'', rt_path = ''/donations'', rt_middleware = False, rt_handler = H_donations\<rparr>,
      v1 ''POST'' ''/wallet'' H_addWallet,
      v1 ''POST'' ''/discover/wallets'' H_discoverWallets,
      v1 ''DELETE'' ''/wallet/:currencyid/:networkid/:walletindex'' H_deleteWallet,
      v1 ''DELETE'' ''/wallet/:currencyid/:networkid/:walletindex/*type'' H_deleteWallet,
      v1 ''POST'' ''/address'' H_addAddress,
      v1 ''GET'' ''/transaction/feerate/:currencyid/:networkid'' H_getFeeRate,
      v1 ''GET'' ''/transaction/feerate/:currencyid/:networkid/*address'' H_getFeeRate,
      v1 ''GET'' ''/outputs/spendable/:currencyid/:networkid/:addr'' H_getSpendableOutputs,
      v1 ''POST'' ''/transaction/send'' H_sendRawHDTransaction,
      v1 ''GET'' ''/wallet/:walletindex/verbose/:currencyid/:networkid/*type'' H_getWalletVerbose,
      v1 ''GET'' ''/wallet/:walletindex/verbose/:currencyid/:networkid'' H_getWalletVerbose,
      v1 ''GET'' ''/wallets/verbose'' H_getAllWalletsVerbose,
      v1 ''GET'' ''/wallets/transactions/:currencyid/:networkid/:walletindex/*type'' H_getWalletTransactionsHistory,
      v1 ''GET'' ''/wallets/transactions/:currencyid/:networkid/:walletindex'' H_getWalletTransactionsHistory,
      v1 ''POST'' ''/wallet/name'' H_changeWalletName,
      v1 ''POST'' ''/resync/wallet/:currencyid/:networkid/:walletindex/*type'' H_resyncWallet,
      v1 ''GET'' ''/multisig/estimate/:contractaddress'' H_estimateMultisig,
      v1 ''POST'' ''/wallet/convert/broken'' H_convertToBroken,
      v1 ''GET'' ''/exchanger/supported_currencies'' H_GetExchangerSupportedCurrencies,
      v1 ''POST'' ''/exchanger/exchange_amount'' H_GetExchangerAmountExchange,
      v1 ''POST'' ''/exchanger/transaction'' H_CreateExchangerTransaction]"

section \<open>A request\<close>

type_synonym router = "route list \<Rightarrow> string \<Rightarrow> string \<Rightarrow> route option"

datatype dispatched = NoRoute | Stopped auth_reply | Runs handler "string option"

text \<open>What is done with a request; a handler behind the middleware runs for the user it names.\<close>

definition serve :: "jwt \<Rightarrow> router \<Rightarrow> GinJWTMiddleware \<Rightarrow> int \<Rightarrow> string \<Rightarrow> string \<Rightarrow> request \<Rightarrow> panic + dispatched" where
  "serve J lookup mw now method path rq =
     (case lookup SetRestHandlers method path of
        None \<Rightarrow> Inr NoRoute
      | Some r \<Rightarrow>
          if rt_middleware r then
            bind_p (MiddlewareFunc J mw now rq) (\<lambda>a.
              Inr (case a of Refused ans \<Rightarrow> Stopped ans | Admitted uid c \<Rightarrow> Runs (rt_handler r) (Some uid)))
          else Inr (Runs (rt_handler r) None))"

section \<open>Constant answers\<close>

record server_config =
  cg_stockexchanges :: "(string \<times> string list) list"
  cg_servertime :: int
  cg_api :: string
  cg_version :: ServerConfig
  cg_donate :: "(int \<times> string) list"
  cg_multisigfactory :: "(string \<times> string) list"
  cg_erc20tokenlist :: "VerifiedToken list"
  cg_android :: "(string \<times> int) list"
  cg_ios :: "(string \<times> int) list"
  cg_browserdefault :: BrowserDefault

text \<open>What \<open>SetRestHandlers\<close> puts into the client beside the store and the nodes.\<close>

record rest_settings =
  rc_donationAddresses :: "(int \<times> string) list"
  rc_MultyVersion :: ServerConfig
  rc_Secretkey :: string
  rc_mobileVersions :: MobileVersions
  rc_ERC20TokenList :: "VerifiedToken list"
  rc_BrowserDefault :: BrowserDefault

definition getServerConfig :: "int \<Rightarrow> rest_settings \<Rightarrow> server_config" where
  "getServerConfig now rc =
     \<lparr>cg_stockexchanges = [(''poloniex'', [''usd_btc'', ''eth_btc'', ''eth_usd'', ''btc_usd'']),
        (''gdax'', [''eur_btc'', ''usd_btc'', ''eth_btc'', ''eth_usd'', ''eth_eur'', ''btc_usd''])],
      cg_servertime = unix now, cg_api = ''1.2'', cg_version = rc_MultyVersion rc, cg_donate = rc_donationAddresses rc,
      cg_multisigfactory = [(''ethtestnet'', ''0x04f68589f53cfdf408025cd7cea8a40dbf488e49''),
        (''ethmainnet'', ''0xc2cbdd9b58502cff1db5f9cce48ac17a9a550185'')],
      cg_erc20tokenlist = rc_ERC20TokenList rc,
      cg_android = [(''soft'', mv_AndroidSoft (rc_mobileVersions rc)), (''hard'', mv_AndroidHard (rc_mobileVersions rc))],
      cg_ios = [(''soft'', mv_IosSoft (rc_mobileVersions rc)), (''hard'', mv_IosHard (rc_mobileVersions rc))],
      cg_browserdefault =
        \<lparr>bd_URL = bd_URL (rc_BrowserDefault rc), bd_CurrencyID = bd_CurrencyID (rc_BrowserDefault rc),
         bd_NetworkID = bd_NetworkID (rc_BrowserDefault rc)\<rparr>\<rparr>"

text \<open>The same estimate for every contract.\<close>

definition estimateMultisig :: "string \<Rightarrow> (string \<times> int) list" where
  "estimateMultisig contractaddress =
     [(''submitTransaction'', 400000), (''confirmTransaction'', 400000), (''revokeConfirmation'', 400000),
      (''deployMultisig'', 5000000), (''priceOfCreation'', 100000000000000000)]"

end
