(* ===== verification/Routes_Facts.thy ===== *)
theory Routes_Facts
  imports Routes Server
begin

text \<open>
  The guard of the API: what a router must keep (locale \<open>router_law\<close>), an instance that matches paths
  segment by segment, and the routes that need no token.
\<close>

section \<open>The table\<close>

instantiation handler :: enum
begin

definition enum_handler :: "handler list" where
  "enum_handler =
     [H_LoginHandler, H_getServerConfig, H_donations, H_addWallet, H_discoverWallets, H_deleteWallet, H_addAddress,
      H_getFeeRate, H_getSpendableOutputs, H_sendRawHDTransaction, H_getWalletVerbose, H_getAllWalletsVerbose,
      H_getWalletTransactionsHistory, H_changeWalletName, H_resyncWallet, H_estimateMultisig, H_convertToBroken,
      H_GetExchangerSupportedCurrencies, H_GetExchangerAmountExchange, H_CreateExchangerTransaction]"

definition enum_all_handler :: "(handler \<Rightarrow> bool) \<Rightarrow> bool" where
  "enum_all_handler P \<longleftrightarrow> list_all P (Enum.enum :: handler list)"

definition enum_ex_handler :: "(handler \<Rightarrow> bool) \<Rightarrow> bool" where
  "enum_ex_handler P \<longleftrightarrow> list_ex P (Enum.enum :: handler list)"

lemma in_enum_handler: "(h :: handler) \<in> set Enum.enum"
  by (cases h) (simp_all add: enum_handler_def)

instance
proof
  show "UNIV = set (Enum.enum :: handler list)" using in_enum_handler by blast
  show "distinct (Enum.enum :: handler list)" by (simp add: enum_handler_def)
qed (use in_enum_handler in \<open>auto simp: enum_all_handler_def enum_ex_handler_def list_all_iff list_ex_iff\<close>)

end

text \<open>Every handler has a route, no route is registered twice, and three handlers are outside the group.\<close>

lemma handlers_registered: "\<forall>h. list_ex (\<lambda>r. rt_handler r = h) SetRestHandlers"
  by code_simp

lemma routes_distinct: "distinct (map (\<lambda>r. (rt_method r, rt_path r)) SetRestHandlers)"
  by code_simp

lemma open_handlers:
  "map rt_handler (filter (\<lambda>r. \<not> rt_middleware r) SetRestHandlers) = [H_LoginHandler, H_getServerConfig, H_donations]"
  by code_simp

section \<open>Routers\<close>

locale router_law =
  fixes lookup :: router
  assumes registered: "lookup rs method path = Some r \<Longrightarrow> r \<in> set rs \<and> rt_method r = method"
begin

lemma serve_Runs:
  assumes "serve J lookup mw now method path rq = Inr (Runs h who)"
  obtains r where "r \<in> set SetRestHandlers" "rt_handler r = h" "rt_middleware r = (who \<noteq> None)"
    "\<And>uid. who = Some uid \<Longrightarrow> \<exists>c. MiddlewareFunc J mw now rq = Inr (Admitted uid c)"
proof -
  obtain r where r: "lookup SetRestHandlers method path = Some r" using assms by (auto simp: serve_def split: option.splits)
  note m = registered [OF r]
  show thesis
  proof (cases "rt_middleware r")
    case True
    with assms r obtain a where a: "MiddlewareFunc J mw now rq = Inr a" by (auto simp: serve_def bind_p_Inr)
    with True assms r m show thesis by (cases a) (auto simp: serve_def intro: that [of r])
  next
    case False
    with assms r m show thesis by (intro that [of r]) (auto simp: serve_def)
  qed
qed

end

fun path_match :: "string list \<Rightarrow> string list \<Rightarrow> bool" where
  "path_match [] [] = True"
| "path_match ((CHR ''*'' # name) # []) (s # ss) = True"
| "path_match ((CHR '':'' # name) # ps) (s # ss) = (s \<noteq> [] \<and> path_match ps ss)"
| "path_match (p # ps) (s # ss) = (p = s \<and> path_match ps ss)"
| "path_match ps ss = False"

definition ref_lookup :: router where
  "ref_lookup rs method path =
     find (\<lambda>r. rt_method r = method \<and> path_match (Split (CHR ''/'') (rt_path r)) (Split (CHR ''/'') path)) rs"

interpretation refr: router_law ref_lookup
  by unfold_locales (auto simp: ref_lookup_def dest: find_SomeD)

section \<open>Properties\<close>

text \<open>
  C5: apart from the login, the server's configuration and the donations, no handler of the API runs unless
  the request carries in its header a token that the server signed for a user and that has not expired, and
  it runs for that user.
\<close>

theorem api_guarded:
  assumes "router_law lookup" "jwt_lib J signed_by"
    and "serve J lookup (initMiddlewareJWT M key) now method path rq = Inr (Runs h who)"
    and "h \<notin> {H_LoginHandler, H_getServerConfig, H_donations}"
  shows "\<exists>t m uid. who = Some uid \<and> rq_header rq ''Authorization'' = ''Bearer '' @ t \<and>
    signed_by ''HS256'' key t m \<and> m ''id'' = Some (CStr uid) \<and> in_time (unix now) m"
proof -
  obtain r where r: "r \<in> set SetRestHandlers" "rt_handler r = h" "rt_middleware r = (who \<noteq> None)"
    "\<And>uid. who = Some uid \<Longrightarrow> \<exists>c. MiddlewareFunc J (initMiddlewareJWT M key) now rq = Inr (Admitted uid c)"
    using router_law.serve_Runs [OF assms(1,3)] by blast
  have "rt_middleware r" using r(1,2) assms(4) by (auto simp: SetRestHandlers_def v1_def)
  with r(3) obtain uid where who: "who = Some uid" by auto
  with r(4) obtain c where "MiddlewareFunc J (initMiddlewareJWT M key) now rq = Inr (Admitted uid c)" by blast
  from jwt_lib.admitted_signed [OF assms(2) this] who show ?thesis by blast
qed

theorem api_guarded_witness:
  "\<exists>t m uid. Some ''u1'' = Some uid \<and> rq_header ex_request ''Authorization'' = ''Bearer '' @ t \<and>
    ref_signed ''HS256'' ''k'' t m \<and> m ''id'' = Some (CStr uid) \<and> in_time (unix 0) m"
proof -
  obtain c where "MiddlewareFunc ref_jwt (initMiddlewareJWT ref_mongo ''k'') 0 ex_request = Inr (Admitted ''u1'' c)"
    using refj.admits [OF ex_signed, of "''u1''" 0 ex_request ref_mongo] by (auto simp: in_time_def unix_def ex_request_def)
  moreover have "ref_lookup SetRestHandlers ''GET'' ''/api/v1/wallets/verbose'' = Some (v1 ''GET'' ''/wallets/verbose'' H_getAllWalletsVerbose)"
    by code_simp
  ultimately have "serve ref_jwt ref_lookup (initMiddlewareJWT ref_mongo ''k'') 0 ''GET'' ''/api/v1/wallets/verbose'' ex_request =
      Inr (Runs H_getAllWalletsVerbose (Some ''u1''))"
    by (simp add: serve_def v1_def)
  from api_guarded [OF refr.router_law_axioms refj.jwt_lib_axioms this] show ?thesis by simp
qed

end
