(* ===== verification/Startup.thy ===== *)
theory Startup
  imports Wallet_Ops
begin

text \<open>
  Start-up (\<open>multy-back.go\<close>): the addresses given to the node services
  (\<open>SetUserData\<close>), the restoration of the last state (\<open>restoreState\<close>) and
  \<open>fetchCoinType\<close> of the stream handlers. The answers of the node services are a parameter; an
  answer that is missing after a failed call has the empty text of a nil message.
\<close>

record ServiceInfo =
  si_Branch :: string
  si_Commit :: string
  si_Buildtime :: string
  si_Lasttag :: string

record node_address =
  na_UserID :: string
  na_WalletIndex :: int
  na_AddressIndex :: int

type_synonym users_data = "(string \<rightharpoonup> node_address) \<times> (string \<rightharpoonup> string)"

record node_services =
  ns_EventInitialAdd :: "watch_chan \<Rightarrow> users_data \<Rightarrow> string option"
  ns_ServiceInfo :: "watch_chan \<Rightarrow> string + ServiceInfo"
  ns_SyncState :: "watch_chan \<Rightarrow> int \<Rightarrow> string \<times> string option"

definition fetchCoinType :: "CoinType list \<Rightarrow> int \<Rightarrow> int \<Rightarrow> string + CoinType" where
  "fetchCoinType coinTypes currencyID networkID =
     (case find (\<lambda>ct. ct_CurrencyID ct = currencyID \<and> ct_NetworkID ct = networkID) coinTypes of
        Some ct \<Rightarrow> Inr ct
      | None \<Rightarrow> Inl ''fetchCoinType: no such coin in config'')"

definition btc_chan :: "int \<Rightarrow> watch_chan option" where
  "btc_chan networkID =
     (if networkID = Main_net then Some BtcMain else if networkID = Test_net then Some BtcTest else None)"

section \<open>Restoring the last state\<close>

text \<open>
  The heights asked of the node services. The arguments of \<open>Contains\<close> are swapped, so an answer with
  the empty text reads the text of an error that may be nil.
\<close>

definition sync_state :: "node_services \<Rightarrow> watch_chan option \<Rightarrow> int \<Rightarrow> panic + (watch_chan \<times> int) list" where
  "sync_state N cli height =
     (case cli of
        None \<Rightarrow> Inl TypeAssertion
      | Some ch \<Rightarrow>
          (case ns_SyncState N ch height of
             (message, err) \<Rightarrow>
               if Contains ''err:'' message \<and> err = None then Inl NilDereference else Inr [(ch, height)]))"

definition restoreState ::
  "mongo \<Rightarrow> node_services \<Rightarrow> CoinType \<Rightarrow> watch_chan option \<Rightarrow> db \<Rightarrow> panic + (watch_chan \<times> int) list" where
  "restoreState M N coinType cli d =
     (if ct_AccuracyRange coinType > 0 then
        (let height = wrap64 (fst (FetchLastSyncBlockState M (ct_NetworkID coinType) (ct_CurrencyID coinType) d)
                        - ct_AccuracyRange coinType)
         in if height > 0 then
              if ct_CurrencyID coinType = Ether then sync_state N cli height
              else if ct_CurrencyID coinType = Bitcoin then sync_state N cli height
              else Inr []
            else Inr [])
      else Inr [])"

section \<open>The addresses of the users\<close>

definition node_entry :: "string \<Rightarrow> AddressExtended \<Rightarrow> node_address" where
  "node_entry userid ex =
     \<lparr>na_UserID = userid, na_WalletIndex = wrap32 (ae_WalletIndex ex), na_AddressIndex = wrap32 (ae_AddressIndex ex)\<rparr>"

definition btc_users_data :: "(string \<rightharpoonup> AddressExtended) \<Rightarrow> users_data" where
  "btc_users_data usersData = (map_option (\<lambda>ex. node_entry (ae_UserID ex) ex) \<circ> usersData, Map.empty)"

definition eth_users_data :: "(string \<rightharpoonup> AddressExtended) \<Rightarrow> (string \<rightharpoonup> string) \<Rightarrow> users_data" where
  "eth_users_data usersData usersContracts =
     (map_option (\<lambda>ex. node_entry (if ae_WalletIndex ex = - 1 then ''imported'' else ae_UserID ex) ex) \<circ> usersData,
      usersContracts)"

text \<open>
  What start-up did: the data sent, the restorations started, the services that answered and the error
  that ended it. The list of the services is returned with an error only.
\<close>

record startup =
  st_sent :: "(watch_chan \<times> users_data) list"
  st_restores :: "(CoinType \<times> watch_chan option) list"
  st_services :: "ServiceInfo list"
  st_error :: "string option"

definition failed :: "string \<Rightarrow> CoinType \<Rightarrow> string \<Rightarrow> startup \<Rightarrow> startup" where
  "failed what conCred err st =
     st\<lparr>st_error := Some (''SetUserData: '' @ what @ '': curID :'' @ Itoa (ct_CurrencyID conCred) @ '' netID :'' @
       Itoa (ct_NetworkID conCred) @ '' err ='' @ err)\<rparr>"

text \<open>One chain; a client that stays nil for an unknown network is called.\<close>

definition introduce ::
  "node_services \<Rightarrow> string \<Rightarrow> CoinType \<Rightarrow> watch_chan option \<Rightarrow> users_data \<Rightarrow> startup \<Rightarrow> panic + startup" where
  "introduce N what conCred cli genUd st =
     (case cli of
        None \<Rightarrow> Inl NilDereference
      | Some ch \<Rightarrow>
          (let st = st\<lparr>st_restores := st_restores st @ [(conCred, cli)], st_sent := st_sent st @ [(ch, genUd)]\<rparr> in
           case ns_EventInitialAdd N ch genUd of
             Some err \<Rightarrow> Inr (failed what conCred err st)
           | None \<Rightarrow>
               (case ns_ServiceInfo N ch of
                  Inl err \<Rightarrow> Inr (failed '' cli.ServiceInfo'' conCred err st)
                | Inr sv \<Rightarrow> Inr (st\<lparr>st_services := st_services st @ [sv]\<rparr>))))"

definition set_chain :: "mongo \<Rightarrow> node_services \<Rightarrow> db \<Rightarrow> CoinType \<Rightarrow> startup \<Rightarrow> panic + startup" where
  "set_chain M N d conCred st =
     (case FindUserDataChain M (ct_CurrencyID conCred) (ct_NetworkID conCred) d of
        (_, Some err) \<Rightarrow> Inr (failed ''userStore.FindUserDataChain'' conCred (mgo_text err) st)
      | (usersData, None) \<Rightarrow>
          (case FindUsersContractsChain M (ct_CurrencyID conCred) (ct_NetworkID conCred) d of
             (_, Some err) \<Rightarrow> Inr (failed ''userStore.FindUsersContractsChain'' conCred (mgo_text err) st)
           | (usersContracts, None) \<Rightarrow>
               if ct_CurrencyID conCred = Bitcoin
               then introduce N '' btcCli.CliMain.EventInitialAdd'' conCred (btc_chan (ct_NetworkID conCred)) (btc_users_data usersData) st
               else if ct_CurrencyID conCred = Ether
               then introduce N ''Ether.EventInitialAdd'' conCred (eth_chan (ct_NetworkID conCred)) (eth_users_data usersData usersContracts) st
               else Inr st))"

fun set_chains :: "mongo \<Rightarrow> node_services \<Rightarrow> db \<Rightarrow> CoinType list \<Rightarrow> startup \<Rightarrow> panic + startup" where
  "set_chains M N d [] st = Inr (st\<lparr>st_services := []\<rparr>)"
| "set_chains M N d (conCred # ct) st =
     bind_p (set_chain M N d conCred st) (\<lambda>st. if st_error st \<noteq> None then Inr st else set_chains M N d ct st)"

definition SetUserData :: "mongo \<Rightarrow> node_services \<Rightarrow> CoinType list \<Rightarrow> db \<Rightarrow> panic + startup" where
  "SetUserData M N ct d =
     set_chains M N d ct \<lparr>st_sent = [], st_restores = [], st_services = [], st_error = None\<rparr>"

end
