(* ===== verification/Streams.thy ===== *)
theory Streams
  imports Btc_Handlers Eth_Handlers Startup
begin

text \<open>
  The loops around the handlers of the streams (\<open>setGRPCHandlers\<close> in \<open>btc/handlers.go\<close>
  and \<open>eth/handlers.go\<close>). A receive gives a message, the end of the stream, or an error. Only the
  end leaves a loop (and one of the loops is left into a panic): an error is logged, and the body goes on with
  the nil message, whose getters give zero values and whose fields cannot be read. A stream that has failed
  fails on every further receive.
\<close>

datatype 'm recv = EOF | Failed | Got 'm

type_synonym ('m, 's) body = "'m recv \<Rightarrow> 's \<Rightarrow> 's outcome"

text \<open>
  The loop over the receives \<open>st 0\<close>, \<open>st 1\<close>, \<open>\<dots>\<close>;
  \<open>Goes\<close> after the fuel: it is still running.
\<close>

fun stream_loop :: "nat \<Rightarrow> ('m, 's) body \<Rightarrow> (nat \<Rightarrow> 'm recv) \<Rightarrow> nat \<Rightarrow> 's \<Rightarrow> 's outcome" where
  "stream_loop 0 h st k s = Goes s"
| "stream_loop (Suc fuel) h st k s =
     (case h (st k) s of Goes s' \<Rightarrow> stream_loop fuel h st (Suc k) s' | Leaves s' \<Rightarrow> Leaves s' | Dies p s' \<Rightarrow> Dies p s')"

text \<open>The code does not stop when the stream could not be opened: the first receive is on a nil stream.\<close>

definition run_stream :: "nat \<Rightarrow> ('m, 's) body \<Rightarrow> (nat \<Rightarrow> 'm recv) option \<Rightarrow> 's \<Rightarrow> 's outcome" where
  "run_stream fuel h stream s =
     (case stream of None \<Rightarrow> Dies NilDereference s | Some st \<Rightarrow> stream_loop fuel h st 0 s)"

section \<open>Bitcoin\<close>

definition no_record :: MempoolRecord where
  "no_record = \<lparr>mpr_Category = 0, mpr_HashTX = []\<rparr>"

text \<open>The whole mempool on connection and then every new transaction, in two streams with the same body.\<close>

definition EventGetAllMempool :: "(MempoolRecord, btc_state) body" where
  "EventGetAllMempool r s =
     (case r of EOF \<Rightarrow> Leaves s | Failed \<Rightarrow> Goes (mempool_store no_record s) | Got mpRec \<Rightarrow> Goes (mempool_store mpRec s))"

definition EventAddMempoolRecord :: "(MempoolRecord, btc_state) body" where
  "EventAddMempoolRecord r s =
     (case r of EOF \<Rightarrow> Leaves s | Failed \<Rightarrow> Goes (mempool_store no_record s) | Got mpRec \<Rightarrow> Goes (mempool_store mpRec s))"

definition EventDeleteMempool :: "(string, btc_state) body" where
  "EventDeleteMempool r s =
     (case r of EOF \<Rightarrow> Leaves s | Failed \<Rightarrow> Goes (mempool_delete [] s) | Got h \<Rightarrow> Goes (mempool_delete h s))"

definition stream_NewBlock ::
  "mongo \<Rightarrow> (string list \<Rightarrow> string list option) \<Rightarrow> int \<Rightarrow> int \<Rightarrow> (int, btc_state) body" where
  "stream_NewBlock M CheckRejectTxs net accuracyRange r s =
     (case r of
        EOF \<Rightarrow> Leaves s
      | Failed \<Rightarrow> Goes (EventNewBlock M CheckRejectTxs net accuracyRange 0 s)
      | Got height \<Rightarrow> Goes (EventNewBlock M CheckRejectTxs net accuracyRange height s))"

definition no_spout :: pb_AddSpOut where
  "no_spout = \<lparr>ps_TxID = [], ps_TxOutID = 0, ps_TxOutAmount = 0, ps_TxOutScript = [], ps_Address = [],
     ps_UserID = [], ps_TxStatus = 0, ps_WalletIndex = 0, ps_AddressIndex = 0\<rparr>"

definition stream_AddSpendableOut :: "mongo \<Rightarrow> int \<Rightarrow> (pb_AddSpOut, btc_state) body" where
  "stream_AddSpendableOut M net r s =
     (case r of
        EOF \<Rightarrow> Leaves s
      | Failed \<Rightarrow> EventAddSpendableOut M net no_spout s
      | Got gSpOut \<Rightarrow> EventAddSpendableOut M net gSpOut s)"

text \<open>A nil document is not inserted; the selector then reads the fields of the nil message.\<close>

definition stream_DeleteSpendableOut :: "mongo \<Rightarrow> int \<Rightarrow> (DeleteSpendableOutput, btc_state) body" where
  "stream_DeleteSpendableOut M net r s =
     (case r of
        EOF \<Rightarrow> Leaves s
      | Failed \<Rightarrow> Dies NilDereference s
      | Got del \<Rightarrow> Goes (EventDeleteSpendableOut M net del s))"

text \<open>The only receive error that is not ignored: \<open>log.Fatalf\<close>.\<close>

definition stream_NewTx :: "mongo \<Rightarrow> int \<Rightarrow> int \<Rightarrow> (pb_BTCTransaction, btc_state) body" where
  "stream_NewTx M now net r s =
     (case r of EOF \<Rightarrow> Leaves s | Failed \<Rightarrow> Dies (Exit 1) s | Got gTx \<Rightarrow> NewTx M now net gTx s)"

definition no_resync :: pb_Resync where
  "no_resync = \<lparr>pr_DeleteFromQueue = [], pr_Txs = [], pr_SpOuts = [], pr_SpOutDelete = []\<rparr>"

definition stream_ResyncAddress :: "mongo \<Rightarrow> int \<Rightarrow> int \<Rightarrow> (pb_Resync, btc_state) body" where
  "stream_ResyncAddress M now net r s =
     (case r of
        EOF \<Rightarrow> Leaves s
      | Failed \<Rightarrow> ResyncAddress M now net no_resync s
      | Got rTxs \<Rightarrow> ResyncAddress M now net rTxs s)"

section \<open>Ethereum\<close>

definition eth_EventGetAllMempool :: "(MempoolRecord, eth_state) body" where
  "eth_EventGetAllMempool r s =
     (case r of EOF \<Rightarrow> Leaves s | Failed \<Rightarrow> Dies NilDereference s | Got mpRec \<Rightarrow> Goes (eth_mempool_store mpRec s))"

definition eth_EventAddMempoolRecord :: "(MempoolRecord, eth_state) body" where
  "eth_EventAddMempoolRecord r s =
     (case r of EOF \<Rightarrow> Leaves s | Failed \<Rightarrow> Dies NilDereference s | Got mpRec \<Rightarrow> Goes (eth_mempool_store mpRec s))"

definition eth_EventDeleteMempool :: "(string, eth_state) body" where
  "eth_EventDeleteMempool r s =
     (case r of EOF \<Rightarrow> Leaves s | Failed \<Rightarrow> Dies NilDereference s | Got h \<Rightarrow> Goes (eth_mempool_delete h s))"

text \<open>The end of the stream leaves the loop for the call \<open>log.Panicf\<close> behind it.\<close>

definition stream_AddMultisig ::
  "mongo \<Rightarrow> ((string \<times> User) list \<Rightarrow> (string \<times> User) list) \<Rightarrow> ((string \<times> User) list \<Rightarrow> (string \<times> User) list) \<Rightarrow>
   ((string \<times> AddressExtended) list \<Rightarrow> (string \<times> AddressExtended) list) \<Rightarrow> int \<Rightarrow> int \<Rightarrow> (pb_Multisig, eth_state) body" where
  "stream_AddMultisig M ord ord' ordA now net r s =
     (case r of
        EOF \<Rightarrow> Dies (Panicf ''AddMultisig'') s
      | Failed \<Rightarrow> Dies NilDereference s
      | Got multisigTx \<Rightarrow> Goes (AddMultisig M ord ord' ordA now net multisigTx s))"

text \<open>The record of the nil message is made by getters; the field \<open>Resync\<close> is then read.\<close>

definition stream_eth_NewTx :: "mongo \<Rightarrow> int \<Rightarrow> int \<Rightarrow> (pb_ETHTransaction, eth_state) body" where
  "stream_eth_NewTx M now net r s =
     (case r of EOF \<Rightarrow> Leaves s | Failed \<Rightarrow> Dies NilDereference s | Got gTx \<Rightarrow> eth_NewTx M now net gTx s)"

definition stream_eth_NewBlock ::
  "mongo \<Rightarrow> (string list \<Rightarrow> string list option) \<Rightarrow> int \<Rightarrow> int \<Rightarrow> (int, eth_state) body" where
  "stream_eth_NewBlock M CheckRejectTxs net accuracyRange r s =
     (case r of
        EOF \<Rightarrow> Leaves s
      | Failed \<Rightarrow> Goes (eth_EventNewBlock M CheckRejectTxs net accuracyRange 0 s)
      | Got height \<Rightarrow> Goes (eth_EventNewBlock M CheckRejectTxs net accuracyRange height s))"

end
