(* ===== verification/Startup_Facts.thy ===== *)
theory Startup_Facts
  imports Startup Store_Facts
begin

text \<open>What a successful start-up has told the node services, and when the restoration of a state crashes.\<close>

section \<open>What a node service is told\<close>

text \<open>The client of a configured chain, if the server has one.\<close>

definition chain_client :: "CoinType \<Rightarrow> watch_chan option" where
  "chain_client ct =
     (if ct_CurrencyID ct = Bitcoin then btc_chan (ct_NetworkID ct)
      else if ct_CurrencyID ct = Ether then eth_chan (ct_NetworkID ct) else None)"

text \<open>
  The addresses sent are those of the users' wallets on the chain, each with the user (or the mark of an
  imported one) and the indexes of a wallet that holds it, in 32 bits; the contracts, on Ethereum, are those of
  the users' multisigs on it.
\<close>

definition node_of :: "CoinType \<Rightarrow> User \<Rightarrow> Wallet \<Rightarrow> Address \<Rightarrow> node_address" where
  "node_of ct u w ad =
     \<lparr>na_UserID = (if ct_CurrencyID ct = Ether \<and> wal_WalletIndex w = - 1 then ''imported'' else usr_UserID u),
      na_WalletIndex = wrap32 (wal_WalletIndex w), na_AddressIndex = wrap32 (adr_AddressIndex ad)\<rparr>"

definition chain_addresses :: "db \<Rightarrow> CoinType \<Rightarrow> (string \<rightharpoonup> node_address) \<Rightarrow> bool" where
  "chain_addresses d ct m \<longleftrightarrow>
     (\<forall>a. m a = None \<longleftrightarrow> (\<forall>u \<in> set (db_users d). \<forall>w \<in> set (usr_Wallets u).
        wal_CurrencyID w = ct_CurrencyID ct \<and> wal_NetworkID w = ct_NetworkID ct \<longrightarrow> a \<notin> adr_Address ` set (wal_Adresses w))) \<and>
     (\<forall>a e. m a = Some e \<longrightarrow> (\<exists>u \<in> set (db_users d). \<exists>w \<in> set (usr_Wallets u). \<exists>ad \<in> set (wal_Adresses w).
        wal_CurrencyID w = ct_CurrencyID ct \<and> wal_NetworkID w = ct_NetworkID ct \<and> adr_Address ad = a \<and> e = node_of ct u w ad))"

definition chain_contracts :: "db \<Rightarrow> CoinType \<Rightarrow> (string \<rightharpoonup> string) \<Rightarrow> bool" where
  "chain_contracts d ct m \<longleftrightarrow>
     (if ct_CurrencyID ct = Ether
      then (\<forall>a. m a = None \<longleftrightarrow> (\<forall>u \<in> set (db_users d). \<forall>ms \<in> set (usr_Multisigs u).
             ms_CurrencyID ms = ct_CurrencyID ct \<and> ms_NetworkID ms = ct_NetworkID ct \<longrightarrow> ms_ContractAddress ms \<noteq> a)) \<and>
        (\<forall>a f. m a = Some f \<longrightarrow> (\<exists>u \<in> set (db_users d). \<exists>ms \<in> set (usr_Multisigs u).
             ms_CurrencyID ms = ct_CurrencyID ct \<and> ms_NetworkID ms = ct_NetworkID ct \<and>
             ms_ContractAddress ms = a \<and> ms_FactoryAddress ms = f))
      else m = Map.empty)"

text \<open>A message to the client of a chain, with all of the chain.\<close>

definition told :: "db \<Rightarrow> CoinType \<Rightarrow> watch_chan \<times> users_data \<Rightarrow> bool" where
  "told d ct s \<longleftrightarrow> chain_client ct = Some (fst s) \<and> chain_addresses d ct (fst (snd s)) \<and> chain_contracts d ct (snd (snd s))"

lemma chain_data_addresses:
  assumes "m = fold upd_entry (chain_entries (ct_CurrencyID ct) (ct_NetworkID ct) (db_users d)) Map.empty"
    and "\<And>u w ad. g (zero_ae\<lparr>ae_UserID := usr_UserID u, ae_WalletIndex := wal_WalletIndex w, ae_AddressIndex := adr_AddressIndex ad\<rparr>) = node_of ct u w ad"
  shows "chain_addresses d ct (map_option g \<circ> m)"
proof -
  let ?es = "chain_entries (ct_CurrencyID ct) (ct_NetworkID ct) (db_users d)"
  have n: "m a = None \<longleftrightarrow> (\<forall>e. (a, e) \<notin> set ?es)" for a
    unfolding assms(1) fold_upd_None by force
  have s: "(a, e) \<in> set ?es" if "m a = Some e" for a e
    using fold_upd_Some [of ?es Map.empty a e] that by (simp add: assms(1))
  show ?thesis
    unfolding chain_addresses_def
  proof (intro conjI allI impI)
    show "((map_option g \<circ> m) a = None) \<longleftrightarrow> (\<forall>u \<in> set (db_users d). \<forall>w \<in> set (usr_Wallets u).
        wal_CurrencyID w = ct_CurrencyID ct \<and> wal_NetworkID w = ct_NetworkID ct \<longrightarrow> a \<notin> adr_Address ` set (wal_Adresses w))" for a
      using n [of a] by (auto simp: chain_entries_iff same_chain_def)
    fix a e
    assume "(map_option g \<circ> m) a = Some e"
    then obtain x where "m a = Some x" "e = g x" by auto
    with s [of a x] assms(2) show "\<exists>u \<in> set (db_users d). \<exists>w \<in> set (usr_Wallets u). \<exists>ad \<in> set (wal_Adresses w).
        wal_CurrencyID w = ct_CurrencyID ct \<and> wal_NetworkID w = ct_NetworkID ct \<and> adr_Address ad = a \<and> e = node_of ct u w ad"
      by (fastforce simp: chain_entries_iff same_chain_def)
  qed
qed

definition contract_entries :: "int \<Rightarrow> int \<Rightarrow> User list \<Rightarrow> (string \<times> string) list" where
  "contract_entries c n us = concat (map (\<lambda>u. map (\<lambda>ms. (ms_ContractAddress ms, ms_FactoryAddress ms))
     (filter (\<lambda>ms. ms_CurrencyID ms = c \<and> ms_NetworkID ms = n) (usr_Multisigs u))) us)"

lemma contracts_fold:
  "fold (\<lambda>user m. fold (\<lambda>multisig m. if ms_CurrencyID multisig = c \<and> ms_NetworkID multisig = n
      then m(ms_ContractAddress multisig \<mapsto> ms_FactoryAddress multisig) else m) (usr_Multisigs user) m) us =
   fold upd_entry (contract_entries c n us)"
  by (simp add: contract_entries_def fold_concat fold_map_comp fold_filter upd_entry_fun cong: if_cong)

lemma contract_data:
  assumes "ct_CurrencyID ct = Ether"
  shows "chain_contracts d ct (fold upd_entry (contract_entries (ct_CurrencyID ct) (ct_NetworkID ct) (db_users d)) Map.empty)"
proof -
  let ?es = "contract_entries (ct_CurrencyID ct) (ct_NetworkID ct) (db_users d)"
  have i: "(a, f) \<in> set (contract_entries c n us) \<longleftrightarrow> (\<exists>u \<in> set us. \<exists>ms \<in> set (usr_Multisigs u).
      ms_CurrencyID ms = c \<and> ms_NetworkID ms = n \<and> ms_ContractAddress ms = a \<and> ms_FactoryAddress ms = f)" for a f c n us
    by (auto simp: contract_entries_def)
  have n: "fold upd_entry ?es Map.empty a = None \<longleftrightarrow> (\<forall>f. (a, f) \<notin> set ?es)" for a
    unfolding fold_upd_None by force
  have s: "(a, f) \<in> set ?es" if "fold upd_entry ?es Map.empty a = Some f" for a f
    using fold_upd_Some [OF that] by simp
  show ?thesis
    unfolding chain_contracts_def if_P [OF assms] n using s unfolding i by blast
qed

lemma introduce_Inr:
  assumes "introduce N what ct cli ud st = Inr st'" "st_error st' = None"
  shows "\<exists>ch. cli = Some ch \<and> st_sent st' = st_sent st @ [(ch, ud)]"
  using assms by (auto simp: introduce_def failed_def Let_def split: option.splits sum.splits)

context mongo_srv
begin

lemma all_found: "c_all (M_users M) (\<lambda>_. True) c = Inr us \<Longrightarrow> us = c"
  using users.all_law [of "\<lambda>_. True" c] by (auto simp: is_db_error_def)

lemma FindUserDataChain_found:
  "FindUserDataChain M c n d = (us, None) \<Longrightarrow> us = fold upd_entry (chain_entries c n (db_users d)) Map.empty"
  by (auto simp: FindUserDataChain_def chain_entries_def fold_concat fold_map_comp fold_filter wallet_entries_fold same_chain_def
      split: sum.splits dest!: all_found cong: if_cong)

lemma FindUsersContractsChain_found:
  "FindUsersContractsChain M c n d = (cs, None) \<Longrightarrow> cs = fold upd_entry (contract_entries c n (db_users d)) Map.empty"
  by (auto simp: FindUsersContractsChain_def contracts_fold split: sum.splits dest!: all_found)

lemma set_chain_Inr:
  assumes "set_chain M N d ct st = Inr st'" "st_error st' = None"
  shows "if ct_CurrencyID ct \<in> {Bitcoin, Ether} then \<exists>s. st_sent st' = st_sent st @ [s] \<and> told d ct s
     else st_sent st' = st_sent st"
proof -
  obtain us e where u: "FindUserDataChain M (ct_CurrencyID ct) (ct_NetworkID ct) d = (us, e)" by fastforce
  obtain cs e' where c: "FindUsersContractsChain M (ct_CurrencyID ct) (ct_NetworkID ct) d = (cs, e')" by fastforce
  have e: "e = None" "e' = None" using assms u c by (auto simp: set_chain_def failed_def split: option.splits)
  note us = FindUserDataChain_found [OF u [unfolded e]] and cs = FindUsersContractsChain_found [OF c [unfolded e]]
  have ne: "Ether \<noteq> Bitcoin" by (simp add: Bitcoin_def Ether_def)
  have b: "chain_addresses d ct (fst (btc_users_data us))" if "ct_CurrencyID ct = Bitcoin"
    unfolding btc_users_data_def fst_conv using us by (rule chain_data_addresses) (use that ne in \<open>simp add: node_of_def node_entry_def\<close>)
  have h: "chain_addresses d ct (fst (eth_users_data us cs))" if "ct_CurrencyID ct = Ether"
    unfolding eth_users_data_def fst_conv using us by (rule chain_data_addresses) (use that in \<open>simp add: node_of_def node_entry_def\<close>)
  have k: "chain_contracts d ct (snd (eth_users_data us cs))" if "ct_CurrencyID ct = Ether"
    using contract_data [OF that, of d] by (simp add: eth_users_data_def cs)
  have l: "chain_contracts d ct (snd (btc_users_data us))" if "ct_CurrencyID ct = Bitcoin"
    using that ne by (simp add: chain_contracts_def btc_users_data_def)
  show ?thesis
    using assms u c e b h k l ne
    by (auto simp: set_chain_def told_def chain_client_def simp del: split_paired_Ex dest!: introduce_Inr split: if_splits)
qed

lemma set_chains_Inr:
  "set_chains M N d cts st = Inr st' \<Longrightarrow> st_error st' = None \<Longrightarrow>
   \<exists>ss. st_sent st' = st_sent st @ ss \<and> list_all2 (told d) (filter (\<lambda>ct. ct_CurrencyID ct \<in> {Bitcoin, Ether}) cts) ss"
proof (induction cts arbitrary: st)
  case Nil
  then show ?case by auto
next
  case (Cons ct cts)
  from Cons.prems obtain s where s: "set_chain M N d ct st = Inr s"
    by (cases "set_chain M N d ct st") auto
  with Cons.prems have e: "st_error s = None" by (auto split: if_splits)
  with s Cons.prems Cons.IH [of s] set_chain_Inr [OF s e] show ?case by (auto split: if_splits)
qed

text \<open>
  A start-up that succeeds has sent to the service of every configured chain of Bitcoin and Ethereum, in the
  order of the configuration, the addresses and contracts that the store holds for it.
\<close>

lemma startup_sends:
  "SetUserData M N cts d = Inr st \<Longrightarrow> st_error st = None \<Longrightarrow>
   list_all2 (told d) (filter (\<lambda>ct. ct_CurrencyID ct \<in> {Bitcoin, Ether}) cts) (st_sent st)"
  using set_chains_Inr unfolding SetUserData_def by fastforce

end

definition ex_services :: node_services where
  "ex_services = \<lparr>ns_EventInitialAdd = (\<lambda>ch ud. None),
     ns_ServiceInfo = (\<lambda>ch. Inr \<lparr>si_Branch = [], si_Commit = [], si_Buildtime = [], si_Lasttag = []\<rparr>),
     ns_SyncState = (\<lambda>ch height. ([], None))\<rparr>"

text \<open>
  A node service that answers the restoration with an empty text and no error stops the process: the empty
  text is part of the prefix that is looked for, and the text of a nil error is read.
\<close>

lemma Contains_empty: "Contains s []"
  unfolding Contains_iff by (rule exI [of _ "[]"], rule exI [of _ s], simp)

theorem restore_empty_answer_crashes:
  assumes "ct_CurrencyID ct = Bitcoin \<or> ct_CurrencyID ct = Ether" "0 < ct_AccuracyRange ct"
    and "0 < wrap64 (fst (FetchLastSyncBlockState M (ct_NetworkID ct) (ct_CurrencyID ct) d) - ct_AccuracyRange ct)"
    and "ns_SyncState N ch (wrap64 (fst (FetchLastSyncBlockState M (ct_NetworkID ct) (ct_CurrencyID ct) d) - ct_AccuracyRange ct)) =
      ([], None)"
  shows "restoreState M N ct (Some ch) d = Inl NilDereference"
  using assms by (auto simp: restoreState_def sync_state_def Contains_empty Let_def)

end
