(* ===== verification/Streams_Facts.thy ===== *)
theory Streams_Facts
  imports Streams Server Startup_Facts
begin

text \<open>What a node connection that fails does to the state and to the next start-up.\<close>

section \<open>Loops that go on\<close>

text \<open>A body that goes on after every receive but the end.\<close>

lemma stream_loop_goes:
  assumes "\<And>r s. r \<noteq> EOF \<Longrightarrow> h r s = Goes (f r s)" "\<And>i. st i \<noteq> EOF"
  shows "stream_loop n h st k s = Goes (fold f (map st [k..<k + n]) s)"
proof (induction n arbitrary: k s)
  case 0
  then show ?case by simp
next
  case (Suc n)
  have "[k..<k + Suc n] = k # [Suc k..<Suc k + n]" by (simp add: upt_conv_Cons del: upt_Suc)
  then show ?case using Suc [of "Suc k"] assms by (simp del: upt_Suc)
qed

text \<open>Once the stream has failed, the loop is never left and its last receive is a failed one.\<close>

lemma failed_stream:
  assumes "\<And>r s. r \<noteq> EOF \<Longrightarrow> h r s = Goes (f r s)"
    and "\<forall>i<k. st i \<noteq> EOF" "\<forall>i\<ge>k. st i = Failed" "k < n"
  shows "\<exists>s1. stream_loop n h st 0 s = Goes (f Failed s1)"
proof -
  have e: "st i \<noteq> EOF" for i using assms(2,3) by (cases "i < k") auto
  obtain m where n: "n = Suc m" using assms(4) by (cases n) simp
  with assms(3,4) have "st m = Failed" by simp
  with stream_loop_goes [where h = h and f = f and st = st and n = n and k = 0 and s = s] assms(1) e show ?thesis
    by (simp add: n) blast
qed

text \<open>A stream whose messages the body takes is left at its end, in the state of the whole sequence.\<close>

definition sent :: "'m list \<Rightarrow> nat \<Rightarrow> 'm recv" where
  "sent ms i = (if i < length ms then Got (ms ! i) else EOF)"

lemma stream_ends_from:
  assumes "\<And>m s. h (Got m) s = Goes (f m s)" "k + n = length ms"
  shows "stream_loop (Suc n) h (sent ms) k s = h EOF (fold f (drop k ms) s)"
  using assms(2)
proof (induction n arbitrary: k s)
  case 0
  then show ?case by (simp add: sent_def split: outcome.split)
next
  case (Suc n)
  then have "drop k ms = ms ! k # drop (Suc k) ms" by (intro Cons_nth_drop_Suc [symmetric]) simp
  then show ?case using Suc.prems Suc.IH [of "Suc k"] by (simp add: sent_def assms(1) del: drop_Suc_Cons)
qed

lemma stream_ends:
  assumes "\<And>m s. h (Got m) s = Goes (f m s)"
  shows "stream_loop (Suc (length ms)) h (sent ms) 0 s = h EOF (fold f ms s)"
  using stream_ends_from [of h f 0 "length ms" ms s] assms by simp

section \<open>Loops as steps of the server\<close>

text \<open>
  Whatever a stream delivers, failed receives included, what its loop does to the state is a sequence of steps
  of the package: what holds of every step of the server holds of the loops.
\<close>

definition stepping :: "('s \<Rightarrow> 's \<Rightarrow> bool) \<Rightarrow> ('m, 's) body \<Rightarrow> bool" where
  "stepping R h \<longleftrightarrow> (\<forall>r s. R\<^sup>*\<^sup>* s (outcome_state (h r s)))"

lemma steppingI: "(\<And>r s. outcome_state (h r s) = s \<or> R s (outcome_state (h r s))) \<Longrightarrow> stepping R h"
  unfolding stepping_def by (metis r_into_rtranclp rtranclp.rtrancl_refl)

lemma stepping_loop: "stepping R h \<Longrightarrow> R\<^sup>*\<^sup>* s (outcome_state (stream_loop n h st k s))"
proof (induction n h st k s rule: stream_loop.induct)
  case (1 h st k s)
  show ?case by simp
next
  case (2 n h st k s)
  have step: "R\<^sup>*\<^sup>* s (outcome_state (h (st k) s))" using 2(2) by (simp add: stepping_def)
  show ?case
  proof (cases "h (st k) s")
    case (Goes s')
    with step 2(1) [OF Goes 2(2)] show ?thesis by (simp add: rtranclp_trans [of R s s'])
  qed (use step in simp_all)
qed

lemma stepping_stream: "stepping R h \<Longrightarrow> R\<^sup>*\<^sup>* s (outcome_state (run_stream n h stream s))"
  by (simp add: run_stream_def stepping_loop split: option.split)

lemma btc_stepping:
  "stepping (btc_step M net) EventGetAllMempool" "stepping (btc_step M net) EventAddMempoolRecord"
  "stepping (btc_step M net) EventDeleteMempool" "stepping (btc_step M net) (stream_NewBlock M check net acc)"
  "stepping (btc_step M net) (stream_AddSpendableOut M net)" "stepping (btc_step M net) (stream_DeleteSpendableOut M net)"
  "stepping (btc_step M net) (stream_NewTx M now net)" "stepping (btc_step M net) (stream_ResyncAddress M now net)"
  by (rule steppingI, simp add: EventGetAllMempool_def EventAddMempoolRecord_def EventDeleteMempool_def stream_NewBlock_def
      stream_AddSpendableOut_def stream_DeleteSpendableOut_def stream_NewTx_def stream_ResyncAddress_def btc_step.intros
      split: recv.split)+

lemma eth_stepping:
  "stepping (eth_step M net) eth_EventGetAllMempool" "stepping (eth_step M net) eth_EventAddMempoolRecord"
  "stepping (eth_step M net) eth_EventDeleteMempool" "stepping (eth_step M net) (stream_AddMultisig M ord ord' ordA now net)"
  "stepping (eth_step M net) (stream_eth_NewTx M now net)" "stepping (eth_step M net) (stream_eth_NewBlock M check net acc)"
  by (rule steppingI, simp add: eth_EventGetAllMempool_def eth_EventAddMempoolRecord_def eth_EventDeleteMempool_def
      stream_AddMultisig_def stream_eth_NewTx_def stream_eth_NewBlock_def eth_step.intros
      split: recv.split)+

lemma streams_are_server_steps:
  "stepping (btc_step M net) h \<Longrightarrow> (server_step M J key)\<^sup>*\<^sup>* (bs_db b) (bs_db (outcome_state (run_stream n h stream b)))"
  "stepping (eth_step M net) h' \<Longrightarrow> (server_step M J key)\<^sup>*\<^sup>* (es_db e) (es_db (outcome_state (run_stream n h' stream' e)))"
proof -
  have "(server_step M J key)\<^sup>*\<^sup>* (bs_db b) (bs_db b')" if "(btc_step M net)\<^sup>*\<^sup>* b b'" for b b'
    using that by induction (auto intro: server_step.BtcMessage rtranclp.rtrancl_into_rtrancl)
  then show "stepping (btc_step M net) h \<Longrightarrow>
      (server_step M J key)\<^sup>*\<^sup>* (bs_db b) (bs_db (outcome_state (run_stream n h stream b)))"
    by (blast intro: stepping_stream)
  have "(server_step M J key)\<^sup>*\<^sup>* (es_db e) (es_db e')" if "(eth_step M net)\<^sup>*\<^sup>* e e'" for e e'
    using that by induction (auto intro: server_step.EthMessage rtranclp.rtrancl_into_rtrancl)
  then show "stepping (eth_step M net) h' \<Longrightarrow>
      (server_step M J key)\<^sup>*\<^sup>* (es_db e) (es_db (outcome_state (run_stream n h' stream' e)))"
    by (blast intro: stepping_stream)
qed

section \<open>The height of the last block\<close>

context mongo_live
begin

lemma saved_height: "fst (FetchLastSyncBlockState M net cur (save_height M cur net h d)) = h"
proof -
  have key: "(\<lambda>s. ls_NetworkID s = net \<and> ls_CurrencyID s = cur) = state_key cur net"
    by (auto simp: state_key_def fun_eq_iff)
  have "\<exists>l. find (state_key cur net) (update_first (state_key cur net) (\<lambda>l. l\<lparr>ls_BlockHeight := h\<rparr>) c) = Some l \<and> ls_BlockHeight l = h"
    if "list_ex (state_key cur net) c" for c
    using that by (induction c) (auto simp: state_key_def)
  moreover have "find (state_key cur net) c = None" if "\<not> list_ex (state_key cur net) c" for c
    using that by (auto simp: find_None_iff list_ex_iff)
  moreover have "find (state_key cur net) (c @ [\<lparr>ls_BlockHeight = h, ls_CurrencyID = cur, ls_NetworkID = net\<rparr>]) =
      Some \<lparr>ls_BlockHeight = h, ls_CurrencyID = cur, ls_NetworkID = net\<rparr>" if "\<not> list_ex (state_key cur net) c" for c
    using that by (simp add: find_append_None calculation(2)) (simp add: state_key_def)
  ultimately show ?thesis
    unfolding FetchLastSyncBlockState_def key
    by (cases "list_ex (state_key cur net) (db_restore d)")
      (fastforce simp: save_height_def live_simps doc_one_def doc_upsert_def)+
qed

end

lemma height_of_block [simp]:
  "FetchLastSyncBlockState M net cur (bs_db (EventNewBlock M check net acc h s)) =
   FetchLastSyncBlockState M net cur (save_height M Bitcoin net h (bs_db s))"
  "FetchLastSyncBlockState M net cur (es_db (eth_EventNewBlock M check net acc h e)) =
   FetchLastSyncBlockState M net cur (save_height M Ether net h (es_db e))"
  by (simp_all add: EventNewBlock_def eth_EventNewBlock_def Let_def FetchLastSyncBlockState_def set_btc_txs_def set_eth_txs_def)

lemma nothing_restored:
  assumes "fst (FetchLastSyncBlockState M (ct_NetworkID ct) (ct_CurrencyID ct) d) = 0"
    and "0 < ct_AccuracyRange ct" "ct_AccuracyRange ct < 2 ^ 63"
  shows "restoreState M N ct cli d = Inr []"
proof -
  have "wrap64 (0 - ct_AccuracyRange ct) = 0 - ct_AccuracyRange ct" using assms(2,3) by (intro wrap64_id) (simp_all add: int64_range_def)
  with assms show ?thesis by (simp add: restoreState_def)
qed

section \<open>Properties\<close>

text \<open>
  C32: when the stream of the blocks fails, its loop never ends, and every further receive stores the height
  0 as that of the last block: at the next start-up the node is not asked for what was missed.
\<close>

theorem broken_stream_forgets_height:
  assumes "mongo_live M" "\<forall>i<k. st i \<noteq> EOF" "\<forall>i\<ge>k. st i = Failed" "k < n"
    and "ct_CurrencyID ct = Bitcoin" "ct_NetworkID ct = net" "0 < ct_AccuracyRange ct" "ct_AccuracyRange ct < 2 ^ 63"
  shows "\<exists>s'. stream_loop n (stream_NewBlock M check net acc) st 0 s = Goes s' \<and>
    restoreState M N ct cli (bs_db s') = Inr []"
proof -
  let ?f = "\<lambda>r. EventNewBlock M check net acc (case r of Got h \<Rightarrow> h | _ \<Rightarrow> 0)"
  have "stream_NewBlock M check net acc r s = Goes (?f r s)" if "r \<noteq> EOF" for r s
    using that by (simp add: stream_NewBlock_def split: recv.split)
  from failed_stream [where h = "stream_NewBlock M check net acc" and f = ?f and n = n and s = s, OF this assms(2-4)] obtain s1
    where "stream_loop n (stream_NewBlock M check net acc) st 0 s = Goes (?f Failed s1)" by blast
  moreover have "restoreState M N ct cli (bs_db (?f Failed s1)) = Inr []"
    by (rule nothing_restored) (use assms(7,8) in \<open>simp_all add: assms(5,6) mongo_live.saved_height [OF assms(1)]\<close>)
  ultimately show ?thesis by blast
qed

definition ex_btc_coin :: CoinType where
  "ex_btc_coin = \<lparr>ct_CurrencyID = Bitcoin, ct_NetworkID = Main_net, ct_AccuracyRange = 10, ct_GRPCUrl = []\<rparr>"

theorem broken_stream_forgets_height_witness:
  "\<exists>s'. stream_loop 1 (stream_NewBlock ref_mongo (\<lambda>_. None) Main_net 10) (\<lambda>i. Failed) 0 ex_state = Goes s' \<and>
    restoreState ref_mongo ex_services ex_btc_coin (Some BtcMain) (bs_db s') = Inr []"
  by (rule broken_stream_forgets_height [OF refm.mongo_live_axioms, where k = 0]) (simp_all add: ex_btc_coin_def)

text \<open>
  An Ethereum node that ends the stream of its multisig deployments, as it does when it is stopped in order,
  stops the server: all deployments sent are processed, and then the process panics.
\<close>

theorem multisig_stream_end_panics:
  "stream_loop (Suc (length ms)) (stream_AddMultisig M ord ord' ordA now net) (sent ms) 0 s =
   Dies (Panicf ''AddMultisig'') (fold (AddMultisig M ord ord' ordA now net) ms s)"
  by (subst stream_ends [where f = "AddMultisig M ord ord' ordA now net"]) (simp_all add: stream_AddMultisig_def)

text \<open>
  The stream of the Ethereum blocks does the same as that of the Bitcoin blocks; every other Ethereum stream
  ends the process.
\<close>

theorem broken_eth_stream_forgets_height:
  assumes "mongo_live M" "\<forall>i<k. st i \<noteq> EOF" "\<forall>i\<ge>k. st i = Failed" "k < n"
    and "ct_CurrencyID ct = Ether" "ct_NetworkID ct = net" "0 < ct_AccuracyRange ct" "ct_AccuracyRange ct < 2 ^ 63"
  shows "\<exists>s'. stream_loop n (stream_eth_NewBlock M check net acc) st 0 s = Goes s' \<and>
    restoreState M N ct cli (es_db s') = Inr []"
proof -
  let ?f = "\<lambda>r. eth_EventNewBlock M check net acc (case r of Got h \<Rightarrow> h | _ \<Rightarrow> 0)"
  have "stream_eth_NewBlock M check net acc r s = Goes (?f r s)" if "r \<noteq> EOF" for r s
    using that by (simp add: stream_eth_NewBlock_def split: recv.split)
  from failed_stream [where h = "stream_eth_NewBlock M check net acc" and f = ?f and n = n and s = s, OF this assms(2-4)]
  obtain s1 where "stream_loop n (stream_eth_NewBlock M check net acc) st 0 s = Goes (?f Failed s1)" by blast
  moreover have "restoreState M N ct cli (es_db (?f Failed s1)) = Inr []"
    by (rule nothing_restored) (use assms(7,8) in \<open>simp_all add: assms(5,6) mongo_live.saved_height [OF assms(1)]\<close>)
  ultimately show ?thesis by blast
qed

lemma eth_streams_die:
  "eth_EventGetAllMempool Failed s = Dies NilDereference s" "eth_EventAddMempoolRecord Failed s = Dies NilDereference s"
  "eth_EventDeleteMempool Failed s = Dies NilDereference s" "stream_AddMultisig M ord ord' ordA now net Failed s = Dies NilDereference s"
  "stream_eth_NewTx M now net Failed s = Dies NilDereference s"
  by (simp_all add: eth_EventGetAllMempool_def eth_EventAddMempoolRecord_def eth_EventDeleteMempool_def stream_AddMultisig_def
      stream_eth_NewTx_def)

end
