(* ===== verification/Exchanger.thy ===== *)
theory Exchanger
  imports Sha512 Rest "HOL-Library.AList" "HOL-Library.List_Lexorder" "HOL-Library.Char_ord"
begin

text \<open>
  The exchange service (\<open>exchanger/factory.go\<close>, \<open>exchanger/changelly_api.go\<close>,
  \<open>exchanger/common.go\<close>) and its handlers (\<open>client/rest-exchangers.go\<close>). The HTTP
  client is a parameter, and so is the decoder of the answers; the encoder of the requests is modelled, for the
  ASCII texts they are made of, since the signature is computed over it. A map is an association list.
\<close>

section \<open>Signed requests\<close>

record rpcPacket =
  rp_Id :: string
  rp_Jsonrpc :: string
  rp_Method :: string
  rp_Params :: "(string \<times> string) list"

definition quote :: string where "quote = [CHR 0x22]"

definition json_char :: "char \<Rightarrow> string" where
  "json_char c =
     (if c = CHR 0x22 \<or> c = CHR 0x5C then [CHR 0x5C, c]
      else if c = CHR 0x0A then [CHR 0x5C, CHR ''n'']
      else if c = CHR 0x0D then [CHR 0x5C, CHR ''r'']
      else if c = CHR 0x09 then [CHR 0x5C, CHR ''t'']
      else if of_char c < (32 :: nat) \<or> c \<in> {CHR ''<'', CHR ''>'', CHR ''&''}
      then [CHR 0x5C, CHR ''u'', CHR ''0'', CHR ''0''] @ hex_digits 2 (of_char c)
      else [c])"

definition json_string :: "string \<Rightarrow> string" where
  "json_string s = quote @ concat (map json_char s) @ quote"

fun commas :: "string list \<Rightarrow> string" where
  "commas [] = []"
| "commas [x] = x"
| "commas (x # xs) = x @ '','' @ commas xs"

text \<open>The keys of a map are written in their order.\<close>

definition json_map :: "(string \<times> string) list \<Rightarrow> string" where
  "json_map m = ''{'' @ commas (map (\<lambda>(k, v). json_string k @ '':'' @ json_string v) (sort_key fst m)) @ ''}''"

definition json_packet :: "rpcPacket \<Rightarrow> string" where
  "json_packet p = ''{'' @ commas
     [json_string ''id'' @ '':'' @ json_string (rp_Id p), json_string ''jsonrpc'' @ '':'' @ json_string (rp_Jsonrpc p),
      json_string ''method'' @ '':'' @ json_string (rp_Method p), json_string ''params'' @ '':'' @ json_map (rp_Params p)] @ ''}''"

definition GetRequestHash :: "string \<Rightarrow> rpcPacket \<Rightarrow> string" where
  "GetRequestHash secret request = hmac_sha512_hex secret (json_packet request)"

section \<open>The client of the exchange\<close>

datatype json = JNull | JStr string | JNum int | JBool bool | JArr "json list" | JObj "(string \<times> json) list"

record rpcPacketResponse =
  rr_Result :: json
  rr_ErrorCode :: int
  rr_ErrorMessage :: string

record http_request =
  hq_url :: string
  hq_api_key :: string
  hq_sign :: string
  hq_body :: string

record internet =
  in_do :: "http_request \<Rightarrow> string + string"
  in_decode :: "string \<Rightarrow> string + rpcPacketResponse"

record ExchangerChangelly =
  ec_name :: string
  ec_ApiUrl :: string
  ec_ApiKey :: string
  ec_ApiSecret :: string

record ExchangeTransaction =
  xt_Id :: string
  xt_PayInAddress :: string
  xt_PayOutAddress :: string
  xt_Error :: "(int \<times> string) option"

definition ExchangeChangellyCanonicalName :: string where "ExchangeChangellyCanonicalName = ''changelly''"

definition sendRequest :: "internet \<Rightarrow> ExchangerChangelly \<Rightarrow> string \<Rightarrow> (string \<times> string) list \<Rightarrow> string + string" where
  "sendRequest W ec methodName params =
     (let requestData = \<lparr>rp_Id = ''1'', rp_Jsonrpc = ''2.0'', rp_Method = methodName, rp_Params = params\<rparr>
      in in_do W \<lparr>hq_url = ec_ApiUrl ec, hq_api_key = ec_ApiKey ec,
           hq_sign = GetRequestHash (ec_ApiSecret ec) requestData, hq_body = json_packet requestData\<rparr>)"

text \<open>A type assertion that fails panics.\<close>

fun as_string :: "json \<Rightarrow> panic + string" where
  "as_string (JStr s) = Inr s"
| "as_string _ = Inl TypeAssertion"

fun as_strings :: "json list \<Rightarrow> panic + string list" where
  "as_strings [] = Inr []"
| "as_strings (j # js) = bind_p (as_string j) (\<lambda>s. bind_p (as_strings js) (\<lambda>ss. Inr (s # ss)))"

definition string_field :: "(string \<times> json) list \<Rightarrow> string \<Rightarrow> panic + string" where
  "string_field m k = (case map_of m k of None \<Rightarrow> Inl TypeAssertion | Some j \<Rightarrow> as_string j)"

definition GetSupportedCurrencies :: "internet \<Rightarrow> ExchangerChangelly \<Rightarrow> panic + string list \<times> string option" where
  "GetSupportedCurrencies W ec =
     (case sendRequest W ec ''getCurrencies'' [] of
        Inl err \<Rightarrow> Inr ([], Some err)
      | Inr responseData \<Rightarrow>
          (case in_decode W responseData of
             Inl err \<Rightarrow> Inr ([], Some err)
           | Inr responsePacket \<Rightarrow>
               (case rr_Result responsePacket of
                  JArr names \<Rightarrow> bind_p (as_strings names) (\<lambda>ss. Inr (ss, None))
                | _ \<Rightarrow> Inl TypeAssertion)))"

definition GetTransactionMinimumAmount :: "string \<Rightarrow> string \<Rightarrow> string \<times> string option" where
  "GetTransactionMinimumAmount from to = (''1.0'', None)"

text \<open>An error of the request is dropped.\<close>

definition GetExchangeAmount ::
  "internet \<Rightarrow> ExchangerChangelly \<Rightarrow> string \<Rightarrow> string \<Rightarrow> string \<Rightarrow> string \<times> string option" where
  "GetExchangeAmount W ec from to amount =
     (case sendRequest W ec ''getExchangeAmount'' [(''from'', from), (''to'', to), (''amount'', amount)] of
        Inl err \<Rightarrow> ([], None)
      | Inr responseData \<Rightarrow>
          (case in_decode W responseData of
             Inl err \<Rightarrow> ([], Some err)
           | Inr responsePacket \<Rightarrow> (case rr_Result responsePacket of JStr s \<Rightarrow> (s, None) | _ \<Rightarrow> ([], None))))"

definition no_transaction :: ExchangeTransaction where
  "no_transaction = \<lparr>xt_Id = [], xt_PayInAddress = [], xt_PayOutAddress = [], xt_Error = None\<rparr>"

definition CreateTransaction ::
  "internet \<Rightarrow> ExchangerChangelly \<Rightarrow> string \<Rightarrow> string \<Rightarrow> string \<Rightarrow> string \<Rightarrow>
   panic + ExchangeTransaction \<times> string option" where
  "CreateTransaction W ec from to amount address =
     (case sendRequest W ec ''createTransaction''
             [(''from'', from), (''to'', to), (''amount'', amount), (''address'', address)] of
        Inl err \<Rightarrow> Inr (no_transaction, None)
      | Inr responseData \<Rightarrow>
          (case in_decode W responseData of
             Inl err \<Rightarrow> Inr (no_transaction, Some err)
           | Inr responsePacket \<Rightarrow>
               if rr_ErrorCode responsePacket \<noteq> 0
               then Inr (no_transaction\<lparr>xt_Error := Some (rr_ErrorCode responsePacket, rr_ErrorMessage responsePacket)\<rparr>, None)
               else (case rr_Result responsePacket of
                  JObj m \<Rightarrow>
                    bind_p (string_field m ''id'') (\<lambda>i.
                    bind_p (string_field m ''payinAddress'') (\<lambda>payin.
                    bind_p (string_field m ''payoutAddress'') (\<lambda>payout.
                      Inr (no_transaction\<lparr>xt_Id := i, xt_PayInAddress := payin, xt_PayOutAddress := payout\<rparr>, None))))
                | _ \<Rightarrow> Inl TypeAssertion)))"

section \<open>The factory\<close>

text \<open>A configuration is an interface: \<open>None\<close> when it is not a map of texts to values.\<close>

record BasicExchangeConfiguration =
  bx_Name :: string
  bx_IsActive :: bool
  bx_Config :: "(string \<times> json) list option"

record FactoryExchanger =
  fe_Exchangers :: "ExchangerChangelly list"
  fe_Config :: "BasicExchangeConfiguration list"

definition SetExchangersConfig :: "BasicExchangeConfiguration list \<Rightarrow> FactoryExchanger \<Rightarrow> FactoryExchanger" where
  "SetExchangersConfig config fe = fe\<lparr>fe_Config := config\<rparr>"

definition GetSupportedExchangers :: "FactoryExchanger \<Rightarrow> string list" where
  "GetSupportedExchangers fe = [ExchangeChangellyCanonicalName]"

definition changelly_Init :: "(string \<times> json) list option \<Rightarrow> panic + ExchangerChangelly" where
  "changelly_Init config =
     (case config of
        None \<Rightarrow> Inl TypeAssertion
      | Some configMap \<Rightarrow>
          bind_p (string_field configMap ''apiUrl'') (\<lambda>url.
          bind_p (string_field configMap ''apiKey'') (\<lambda>key.
          bind_p (string_field configMap ''apiSecret'') (\<lambda>secret.
            Inr \<lparr>ec_name = ExchangeChangellyCanonicalName, ec_ApiUrl = url, ec_ApiKey = key, ec_ApiSecret = secret\<rparr>))))"

definition getConfigByExchangerName :: "FactoryExchanger \<Rightarrow> string \<Rightarrow> (string \<times> json) list option" where
  "getConfigByExchangerName fe exchangerName =
     (case find (\<lambda>config. bx_Name config = exchangerName) (fe_Config fe) of
        None \<Rightarrow> None | Some config \<Rightarrow> bx_Config config)"

text \<open>The exchanger of an unknown name is a nil interface.\<close>

definition GetExchanger :: "string \<Rightarrow> FactoryExchanger \<Rightarrow> panic + ExchangerChangelly \<times> FactoryExchanger" where
  "GetExchanger exchangerName fe =
     (case find (\<lambda>ex. ec_name ex = exchangerName) (fe_Exchangers fe) of
        Some exchanger \<Rightarrow> Inr (exchanger, fe)
      | None \<Rightarrow>
          if exchangerName = ExchangeChangellyCanonicalName then
            bind_p (changelly_Init (getConfigByExchangerName fe exchangerName)) (\<lambda>exchanger.
              Inr (exchanger, fe\<lparr>fe_Exchangers := fe_Exchangers fe @ [exchanger]\<rparr>))
          else Inl NilDereference)"

fun warm_up :: "BasicExchangeConfiguration list \<Rightarrow> FactoryExchanger \<Rightarrow> panic + FactoryExchanger" where
  "warm_up [] fe = Inr fe"
| "warm_up (config # configs) fe =
     (if bx_IsActive config then bind_p (GetExchanger (bx_Name config) fe) (\<lambda>(exchanger, fe). warm_up configs fe)
      else warm_up configs fe)"

definition ConfigureExchangers :: "BasicExchangeConfiguration list \<Rightarrow> FactoryExchanger \<Rightarrow> panic + FactoryExchanger" where
  "ConfigureExchangers configs fe = warm_up configs (SetExchangersConfig configs fe)"

section \<open>The handlers\<close>

definition GetExchangerSupportedCurrencies ::
  "internet \<Rightarrow> FactoryExchanger \<Rightarrow> panic + string list http_reply \<times> FactoryExchanger" where
  "GetExchangerSupportedCurrencies W fe =
     bind_p (GetExchanger ExchangeChangellyCanonicalName fe) (\<lambda>(ec, fe).
     bind_p (GetSupportedCurrencies W ec) (\<lambda>(names, err).
       Inr (case err of
              Some e \<Rightarrow> bad_reply msgErrHeaderError
            | None \<Rightarrow> reply_with StatusOK StatusOK ''OK'' names, fe)))"

record exchange_body =
  eb_From :: string
  eb_To :: string
  eb_Amount :: string
  eb_Address :: string

definition GetExchangerAmountExchange ::
  "internet \<Rightarrow> exchange_body option \<Rightarrow> FactoryExchanger \<Rightarrow> panic + string http_reply \<times> FactoryExchanger" where
  "GetExchangerAmountExchange W body fe =
     (case body of
        None \<Rightarrow> Inr (bad_reply msgErrRequestBodyError, fe)
      | Some b \<Rightarrow>
          bind_p (GetExchanger ExchangeChangellyCanonicalName fe) (\<lambda>(ec, fe).
            Inr (case GetExchangeAmount W ec (eb_From b) (eb_To b) (eb_Amount b) of
                   (_, Some e) \<Rightarrow> bad_reply msgErrServerError
                 | (exchangeAmount, None) \<Rightarrow> reply_with StatusOK StatusOK ''OK'' exchangeAmount, fe)))"

definition CreateExchangerTransaction ::
  "internet \<Rightarrow> exchange_body option \<Rightarrow> FactoryExchanger \<Rightarrow> panic + ExchangeTransaction http_reply \<times> FactoryExchanger" where
  "CreateExchangerTransaction W body fe =
     (case body of
        None \<Rightarrow> Inr (bad_reply msgErrRequestBodyError, fe)
      | Some b \<Rightarrow>
          bind_p (GetExchanger ExchangeChangellyCanonicalName fe) (\<lambda>(ec, fe).
          bind_p (CreateTransaction W ec (eb_From b) (eb_To b) (eb_Amount b) (eb_Address b)) (\<lambda>r.
            Inr (case r of
                   (_, Some e) \<Rightarrow> bad_reply msgErrServerError
                 | (transaction, None) \<Rightarrow> reply_with StatusOK StatusOK ''OK'' (transaction\<lparr>xt_Error := None\<rparr>), fe))))"

end
