(* ===== verification/Rates.thy ===== *)
theory Rates
  imports Store
begin

text \<open>
  Exchange rates (\<open>client/chart.go\<close>, \<open>client/exchange-api.go\<close>) and the reconnection of
  their web sockets (\<open>client/utils.go\<close>). A price is parsed and inverted by floating point
  operations, which are a parameter on bit patterns; the messages arrive decoded, \<open>None\<close> when the
  decoder fails.
\<close>

section \<open>Rates of the stocks\<close>

record floats =
  fl_parse :: "string \<Rightarrow> f64 option"
  fl_inverse :: "f64 \<Rightarrow> f64"

record SocketEvent =
  ge_ProductID :: string
  ge_Price :: string

record exchangeChart =
  ch_exchangeGdax :: ExchangeRates
  ch_exchangePoloniex :: ExchangeRates

definition no_rates :: ExchangeRates where
  "no_rates = \<lparr>er_EURtoBTC = 0, er_USDtoBTC = 0, er_ETHtoBTC = 0, er_ETHtoUSD = 0, er_ETHtoEUR = 0, er_BTCtoUSD = 0\<rparr>"

definition newExchangeChart :: exchangeChart where
  "newExchangeChart = \<lparr>ch_exchangeGdax = no_rates, ch_exchangePoloniex = no_rates\<rparr>"

definition gdax_updateRate :: "floats \<Rightarrow> SocketEvent \<Rightarrow> ExchangeRates \<Rightarrow> ExchangeRates" where
  "gdax_updateRate F rawRate ex =
     (case fl_parse F (ge_Price rawRate) of
        None \<Rightarrow> ex
      | Some floatPrice \<Rightarrow>
          if ge_ProductID rawRate = ''BTC-USD''
          then ex\<lparr>er_BTCtoUSD := floatPrice, er_USDtoBTC := fl_inverse F floatPrice\<rparr>
          else if ge_ProductID rawRate = ''BTC-EUR'' then ex\<lparr>er_EURtoBTC := fl_inverse F floatPrice\<rparr>
          else if ge_ProductID rawRate = ''ETH-BTC'' then ex\<lparr>er_ETHtoBTC := floatPrice\<rparr>
          else if ge_ProductID rawRate = ''ETH-USD'' then ex\<lparr>er_ETHtoUSD := floatPrice\<rparr>
          else if ge_ProductID rawRate = ''ETH-EUR'' then ex\<lparr>er_ETHtoEUR := floatPrice\<rparr>
          else ex)"

definition poloniex_updateRate :: "floats \<Rightarrow> SocketEvent \<Rightarrow> ExchangeRates \<Rightarrow> ExchangeRates" where
  "poloniex_updateRate F rateRaw ex =
     (case fl_parse F (ge_Price rateRaw) of
        None \<Rightarrow> ex
      | Some floatPrice \<Rightarrow>
          if ge_ProductID rateRaw = ''BTCUSD''
          then ex\<lparr>er_BTCtoUSD := floatPrice, er_USDtoBTC := fl_inverse F floatPrice\<rparr>
          else if ge_ProductID rateRaw = ''ETHBTC'' then ex\<lparr>er_ETHtoBTC := floatPrice\<rparr>
          else if ge_ProductID rateRaw = ''ETHUSD'' then ex\<lparr>er_ETHtoUSD := floatPrice\<rparr>
          else ex)"

text \<open>One message of a feed; a message that cannot be decoded is skipped.\<close>

definition gdax_listen :: "floats \<Rightarrow> SocketEvent option \<Rightarrow> exchangeChart \<Rightarrow> exchangeChart" where
  "gdax_listen F message ch =
     (case message of None \<Rightarrow> ch
      | Some rateRaw \<Rightarrow> ch\<lparr>ch_exchangeGdax := gdax_updateRate F rateRaw (ch_exchangeGdax ch)\<rparr>)"

definition poloniex_listen :: "floats \<Rightarrow> SocketEvent option \<Rightarrow> exchangeChart \<Rightarrow> exchangeChart" where
  "poloniex_listen F message ch =
     (case message of None \<Rightarrow> ch
      | Some rateRaw \<Rightarrow> ch\<lparr>ch_exchangePoloniex := poloniex_updateRate F rateRaw (ch_exchangePoloniex ch)\<rparr>)"

definition exchangeDdax :: string where "exchangeDdax = ''Gdax''"
definition exchangePoloniex :: string where "exchangePoloniex = ''Poloniex''"

text \<open>The errors of the two insertions are dropped.\<close>

definition saveToDB :: "mongo \<Rightarrow> int \<Rightarrow> exchangeChart \<Rightarrow> db \<Rightarrow> db" where
  "saveToDB M now ch d =
     fst (InsertExchangeRate M now (ch_exchangePoloniex ch) exchangePoloniex
       (fst (InsertExchangeRate M now (ch_exchangeGdax ch) exchangeDdax d)))"

section \<open>Reconnection\<close>

definition Second :: int where "Second = 1000000000"

definition backOffLimit :: int where "backOffLimit = 600 * Second"

text \<open>\<open>r\<close> is the random number below 10.\<close>

definition next_wait :: "int \<Rightarrow> int \<Rightarrow> int" where
  "next_wait secToRecon r = secToRecon * 2 + secToRecon div 100 * (20 + r)"

text \<open>
  \<open>dial k\<close>: the connection number \<open>k\<close> succeeds; \<open>rnd k\<close> is the random
  number drawn after its failure. The result, unless the fuel runs out, is the connection made, if any, and the
  time waited.
\<close>

fun reconnect_loop :: "nat \<Rightarrow> (nat \<Rightarrow> bool) \<Rightarrow> (nat \<Rightarrow> int) \<Rightarrow> nat \<Rightarrow> int \<Rightarrow> int \<Rightarrow> (nat option \<times> int) option" where
  "reconnect_loop 0 dial rnd k secToRecon waited = None"
| "reconnect_loop (Suc fuel) dial rnd k secToRecon waited =
     (if dial k then Some (Some k, waited)
      else if secToRecon < backOffLimit
      then reconnect_loop fuel dial rnd (Suc k) (next_wait secToRecon (rnd k mod 10)) (waited + secToRecon)
      else Some (None, waited + secToRecon))"

definition reconnectWebSocketConn :: "nat \<Rightarrow> (nat \<Rightarrow> bool) \<Rightarrow> (nat \<Rightarrow> int) \<Rightarrow> (nat option \<times> int) option" where
  "reconnectWebSocketConn fuel dial rnd = reconnect_loop fuel dial rnd 0 (2 * Second) 0"

end
