(* ===== verification/Wiring.thy ===== *)
theory Wiring
  imports Startup Exchanger Rates Routes
begin

text \<open>
  The start of the server (\<open>multy-back.go\<close>): the configuration, the collections that the store and
  the two stream packages open (\<open>InitUserStore\<close>, \<open>InitHandlers\<close> of
  \<open>btc/btc.go\<close> and \<open>eth/eth.go\<close>), the clients of the stocks and the order of the steps
  in \<open>Init\<close>. A collection is the name of its database with its own name. What dialling gives is the
  parameter \<open>world\<close>: the text of the error, if any.
\<close>

section \<open>Configuration\<close>

definition TableUsers :: string where "TableUsers = ''UserCollection''"
definition TableStockExchangeRate :: string where "TableStockExchangeRate = ''TableStockExchangeRate''"

record Conf =
  cf_Address :: string
  cf_DBUsers :: string
  cf_DBFeeRates :: string
  cf_DBTx :: string
  cf_DBStockExchangeRate :: string
  cf_TableTxsDataBTCMain :: string
  cf_TableSpendableOutputsBTCMain :: string
  cf_TableSpentOutputsBTCMain :: string
  cf_TableMempoolRatesBTCTest :: string
  cf_TableTxsDataBTCTest :: string
  cf_TableSpendableOutputsBTCTest :: string
  cf_TableSpentOutputsBTCTest :: string
  cf_TableMultisigTxsMain :: string
  cf_TableTxsDataETHMain :: string
  cf_TableMultisigTxsTest :: string
  cf_TableTxsDataETHTest :: string
  cf_DBRestoreState :: string
  cf_TableState :: string
  cf_Username :: string
  cf_Password :: string

record FirebaseConf =
  fc_Type :: string
  fc_ProjectID :: string
  fc_PrivateKeyID :: string
  fc_PrivateKey :: string
  fc_ClientEmail :: string
  fc_ClientID :: string
  fc_AuthURI :: string
  fc_TokenURI :: string
  fc_AuthProviderX509CertURL :: string
  fc_ClientX509CertURL :: string

record Configuration =
  co_Name :: string
  co_Database :: Conf
  co_SocketioAddr :: string
  co_RestAddress :: string
  co_Firebase :: FirebaseConf
  co_NSQAddress :: string
  co_BTCNodeAddress :: string
  co_DonationAddresses :: "(int \<times> string) list"
  co_MultyVerison :: ServerConfig
  co_ServicesInfo :: "ServiceInfo list"
  co_Secretkey :: string
  co_MobileVersions :: MobileVersions
  co_BrowserDefault :: BrowserDefault
  co_SupportedNodes :: "CoinType list"
  co_Exchangers :: "BasicExchangeConfiguration list"

text \<open>\<open>w_file\<close> reads and decodes the list of the tokens; a text that cannot be decoded is no error.\<close>

record world =
  w_mongo :: "string \<times> string \<times> string \<Rightarrow> string option"
  w_producer :: "string \<Rightarrow> string option"
  w_grpc :: "string \<Rightarrow> string option"
  w_file :: "string \<Rightarrow> string + VerifiedToken list"
  w_consumer :: "string \<Rightarrow> string option"
  w_nsqd :: "string \<Rightarrow> string option"
  w_push :: "string \<Rightarrow> string option"
  w_socket :: "string \<Rightarrow> nat \<Rightarrow> bool"
  w_refused :: string
  w_random :: "nat \<Rightarrow> int"

definition credentials :: "Conf \<Rightarrow> string \<times> string \<times> string" where
  "credentials conf = (cf_Address conf, cf_Username conf, cf_Password conf)"

section \<open>The collections of the store\<close>

type_synonym collection = "string \<times> string"

text \<open>The fields \<open>ethTxHistory\<close> and \<open>ETHTest\<close> are never set.\<close>

record MongoUserStore =
  us_usersData :: collection
  us_BTCMainTxsData :: collection
  us_BTCMainSpendableOutputs :: collection
  us_BTCMainSpentOutputs :: collection
  us_BTCTestTxsData :: collection
  us_BTCTestSpendableOutputs :: collection
  us_BTCTestSpentOutputs :: collection
  us_ETHMainTxsData :: collection
  us_ETHTestTxsData :: collection
  us_ETHTestMultisigTxsData :: collection
  us_ETHMainMultisigTxsData :: collection
  us_stockExchangeRate :: collection
  us_RestoreState :: collection

definition InitUserStore :: "world \<Rightarrow> Conf \<Rightarrow> string + MongoUserStore" where
  "InitUserStore W conf =
     (case w_mongo W (credentials conf) of
        Some err \<Rightarrow> Inl err
      | None \<Rightarrow> Inr \<lparr>
          us_usersData = (cf_DBUsers conf, TableUsers),
          us_BTCMainTxsData = (cf_DBTx conf, cf_TableTxsDataBTCMain conf),
          us_BTCMainSpendableOutputs = (cf_DBTx conf, cf_TableSpendableOutputsBTCMain conf),
          us_BTCMainSpentOutputs = (cf_DBTx conf, cf_TableSpentOutputsBTCMain conf),
          us_BTCTestTxsData = (cf_DBTx conf, cf_TableTxsDataBTCTest conf),
          us_BTCTestSpendableOutputs = (cf_DBTx conf, cf_TableSpendableOutputsBTCTest conf),
          us_BTCTestSpentOutputs = (cf_DBTx conf, cf_TableSpentOutputsBTCTest conf),
          us_ETHMainTxsData = (cf_DBTx conf, cf_TableTxsDataETHMain conf),
          us_ETHTestTxsData = (cf_DBTx conf, cf_TableTxsDataETHTest conf),
          us_ETHTestMultisigTxsData = (cf_DBTx conf, cf_TableMultisigTxsTest conf),
          us_ETHMainMultisigTxsData = (cf_DBTx conf, cf_TableMultisigTxsMain conf),
          us_stockExchangeRate = (cf_DBStockExchangeRate conf, TableStockExchangeRate),
          us_RestoreState = (cf_DBRestoreState conf, cf_TableState conf)\<rparr>)"

section \<open>The stream packages\<close>

text \<open>The variables of a package, the clients of its two nodes and the networks whose streams were started.\<close>

record btc_package =
  bp_usersData :: collection
  bp_exRate :: collection
  bp_txsData :: collection
  bp_spendableOutputs :: collection
  bp_spentOutputs :: collection
  bp_txsDataTest :: collection
  bp_spendableOutputsTest :: collection
  bp_spentOutputsTest :: collection
  bp_restoreState :: collection

record eth_package =
  ep_usersData :: collection
  ep_exRate :: collection
  ep_txsData :: collection
  ep_multisigData :: collection
  ep_txsDataTest :: collection
  ep_multisigDataTest :: collection
  ep_restoreState :: collection

record node_conn =
  nc_CliMain :: string
  nc_CliTest :: string
  nc_streams :: "(watch_chan option \<times> int) list"

definition initGrpcClient :: "world \<Rightarrow> string \<Rightarrow> string + string" where
  "initGrpcClient W url = (case w_grpc W url of Some err \<Rightarrow> Inl (''initGrpcClient: '' @ err) | None \<Rightarrow> Inr url)"

definition configured :: "CoinType list \<Rightarrow> int \<Rightarrow> int \<Rightarrow> string + CoinType" where
  "configured coinTypes currencyID networkID =
     (case FetchCoinType coinTypes currencyID networkID of
        (ct, None) \<Rightarrow> Inr ct | (ct, Some e) \<Rightarrow> Inl (''fetchCoinType: '' @ Error e))"

definition producer_and_session :: "world \<Rightarrow> Conf \<Rightarrow> string \<Rightarrow> string \<Rightarrow> string + unit" where
  "producer_and_session W dbConf nsqAddr what =
     (case w_producer W nsqAddr of
        Some err \<Rightarrow> Inl (''nsq producer: '' @ err)
      | None \<Rightarrow> (case w_mongo W (credentials dbConf) of Some err \<Rightarrow> Inl (what @ err) | None \<Rightarrow> Inr ()))"

definition btc_collections :: "Conf \<Rightarrow> btc_package" where
  "btc_collections dbConf = \<lparr>
     bp_usersData = (cf_DBUsers dbConf, TableUsers),
     bp_exRate = (cf_DBStockExchangeRate dbConf, ''TableStockExchangeRate''),
     bp_txsData = (cf_DBTx dbConf, cf_TableTxsDataBTCMain dbConf),
     bp_spendableOutputs = (cf_DBTx dbConf, cf_TableSpendableOutputsBTCMain dbConf),
     bp_spentOutputs = (cf_DBTx dbConf, cf_TableSpentOutputsBTCMain dbConf),
     bp_txsDataTest = (cf_DBTx dbConf, cf_TableTxsDataBTCTest dbConf),
     bp_spendableOutputsTest = (cf_DBTx dbConf, cf_TableSpendableOutputsBTCTest dbConf),
     bp_spentOutputsTest = (cf_DBTx dbConf, cf_TableSpentOutputsBTCTest dbConf),
     bp_restoreState = (cf_DBRestoreState dbConf, cf_TableState dbConf)\<rparr>"

definition eth_collections :: "Conf \<Rightarrow> eth_package" where
  "eth_collections dbConf = \<lparr>
     ep_usersData = (cf_DBUsers dbConf, TableUsers),
     ep_exRate = (cf_DBStockExchangeRate dbConf, ''TableStockExchangeRate''),
     ep_txsData = (cf_DBTx dbConf, cf_TableTxsDataETHMain dbConf),
     ep_multisigData = (cf_DBTx dbConf, cf_TableMultisigTxsMain dbConf),
     ep_txsDataTest = (cf_DBTx dbConf, cf_TableTxsDataETHTest dbConf),
     ep_multisigDataTest = (cf_DBTx dbConf, cf_TableMultisigTxsTest dbConf),
     ep_restoreState = (cf_DBRestoreState dbConf, cf_TableState dbConf)\<rparr>"

text \<open>Both clients are dialled before any stream starts; the test net's streams start first.\<close>

definition btc_InitHandlers ::
  "world \<Rightarrow> Conf \<Rightarrow> CoinType list \<Rightarrow> string \<Rightarrow> string + (btc_package \<times> node_conn)" where
  "btc_InitHandlers W dbConf coinTypes nsqAddr =
     bind_p (producer_and_session W dbConf nsqAddr []) (\<lambda>_.
     bind_p (configured coinTypes Bitcoin Main_net) (\<lambda>coinTypeMain.
     bind_p (initGrpcClient W (ct_GRPCUrl coinTypeMain)) (\<lambda>cliMain.
     bind_p (configured coinTypes Bitcoin Test_net) (\<lambda>coinTypeTest.
     bind_p (initGrpcClient W (ct_GRPCUrl coinTypeTest)) (\<lambda>cliTest.
       Inr (btc_collections dbConf,
            \<lparr>nc_CliMain = cliMain, nc_CliTest = cliTest,
             nc_streams = [(btc_chan Test_net, ct_AccuracyRange coinTypeTest),
                           (btc_chan Main_net, ct_AccuracyRange coinTypeMain)]\<rparr>))))))"

definition eth_InitHandlers ::
  "world \<Rightarrow> Conf \<Rightarrow> CoinType list \<Rightarrow> string \<Rightarrow> string + (eth_package \<times> node_conn)" where
  "eth_InitHandlers W dbConf coinTypes nsqAddr =
     bind_p (producer_and_session W dbConf nsqAddr ''mgo.Dial: '') (\<lambda>_.
     bind_p (configured coinTypes Ether ETHMain) (\<lambda>coinTypeMain.
     bind_p (initGrpcClient W (ct_GRPCUrl coinTypeMain)) (\<lambda>cliMain.
     bind_p (configured coinTypes Ether ETHTest) (\<lambda>coinTypeTest.
     bind_p (initGrpcClient W (ct_GRPCUrl coinTypeTest)) (\<lambda>cliTest.
       Inr (eth_collections dbConf,
            \<lparr>nc_CliMain = cliMain, nc_CliTest = cliTest,
             nc_streams = [(eth_chan ETHMain, ct_AccuracyRange coinTypeMain),
                           (eth_chan ETHTest, ct_AccuracyRange coinTypeTest)]\<rparr>))))))"

section \<open>The stocks\<close>

definition poloniexAPIAddr :: string where "poloniexAPIAddr = ''wss://api.hitbtc.com/api/2/ws''"
definition gdaxAPIAddr :: string where "gdaxAPIAddr = ''wss://ws-feed.gdax.com''"

text \<open>
  The address a client is connected to in the end. \<open>w_socket W addr k\<close>: the dial number
  \<open>k\<close> of the address succeeds; the first one is made outside the reconnection.
\<close>

definition reconnected :: "world \<Rightarrow> string \<Rightarrow> nat \<Rightarrow> string + string" where
  "reconnected W addr dialled =
     (case reconnectWebSocketConn 9 (\<lambda>k. w_socket W addr (dialled + k)) (w_random W) of
        Some (Some k, waited) \<Rightarrow> Inr addr | _ \<Rightarrow> Inl (w_refused W))"

definition newGdaxAPI :: "world \<Rightarrow> string + string" where
  "newGdaxAPI W = (if w_socket W gdaxAPIAddr 0 then Inr gdaxAPIAddr else reconnected W gdaxAPIAddr 1)"

text \<open>The reconnection names the address of the other stock; \<open>dialled\<close> is how often that was dialled before.\<close>

definition newPoloniexAPI :: "world \<Rightarrow> nat \<Rightarrow> string + string" where
  "newPoloniexAPI W dialled =
     (if w_socket W poloniexAPIAddr 0 then Inr poloniexAPIAddr else reconnected W gdaxAPIAddr dialled)"

definition chart_conns :: "world \<Rightarrow> nat \<Rightarrow> string + (string \<times> string)" where
  "chart_conns W dialled =
     (case newGdaxAPI W of
        Inl err \<Rightarrow> Inl (''initGdaxAPI: '' @ err)
      | Inr gdaxConn \<Rightarrow>
          (case newPoloniexAPI W dialled of
             Inl err \<Rightarrow> Inl (''initPoloniexAPI: '' @ err)
           | Inr poloniexConn \<Rightarrow> Inr (gdaxConn, poloniexConn)))"

section \<open>Communication services\<close>

text \<open>The consumer of the pool logs a failed connection to the queue; that of Firebase returns it.\<close>

definition SetSocketIOHandlers :: "world \<Rightarrow> string \<Rightarrow> nat \<Rightarrow> string + (string \<times> string)" where
  "SetSocketIOHandlers W nsqAddr dialled =
     (case w_consumer W ''socketio'' of
        Some err \<Rightarrow> Inl (''connection pool initialization: '' @ err)
      | None \<Rightarrow>
          (case chart_conns W dialled of
             Inl err \<Rightarrow> Inl (''exchange chart initialization: '' @ err) | Inr conns \<Rightarrow> Inr conns))"

definition InitFirebaseConn :: "world \<Rightarrow> string \<Rightarrow> string option" where
  "InitFirebaseConn W nsqAddr =
     (case w_push W ''./multy.config'' of
        Some err \<Rightarrow> Some (''NewPushService: '' @ err)
      | None \<Rightarrow>
          (case w_consumer W ''firebase'' of
             Some err \<Rightarrow> Some (''new nsq consumer: '' @ err)
           | None \<Rightarrow> map_option (\<lambda>err. ''connecting to nsq: '' @ err) (w_nsqd W nsqAddr)))"

definition SetRestHandlers_settings :: "Configuration \<Rightarrow> VerifiedToken list \<Rightarrow> rest_settings" where
  "SetRestHandlers_settings conf tokenList =
     \<lparr>rc_donationAddresses = co_DonationAddresses conf, rc_MultyVersion = co_MultyVerison conf,
      rc_Secretkey = co_Secretkey conf, rc_mobileVersions = co_MobileVersions conf, rc_ERC20TokenList = tokenList,
      rc_BrowserDefault = co_BrowserDefault conf\<rparr>"

definition initHttpRoutes :: "world \<Rightarrow> nat \<Rightarrow> Configuration \<Rightarrow> string + (rest_settings \<times> string \<times> string)" where
  "initHttpRoutes W dialled conf =
     (case w_file W ''../currencies/erc20tokens.json'' of
        Inl err \<Rightarrow> Inl err
      | Inr tokenList \<Rightarrow>
          (case SetSocketIOHandlers W (co_NSQAddress conf) dialled of
             Inl err \<Rightarrow> Inl err
           | Inr conns \<Rightarrow>
               (case InitFirebaseConn W (co_NSQAddress conf) of
                  Some err \<Rightarrow> Inl err | None \<Rightarrow> Inr (SetRestHandlers_settings conf tokenList, conns))))"

section \<open>Init\<close>

record Multy =
  mu_userStore :: MongoUserStore
  mu_BTC :: "btc_package \<times> node_conn"
  mu_ETH :: "eth_package \<times> node_conn"
  mu_started :: startup
  mu_restClient :: rest_settings
  mu_stocks :: "string \<times> string"
  mu_ExchangerFactory :: FactoryExchanger

text \<open>
  The steps in their order, each with the text it puts before its error; the outer sum is for panics. The
  versions asked of the two main nets are only logged.
\<close>

definition Init ::
  "world \<Rightarrow> nat \<Rightarrow> mongo \<Rightarrow> node_services \<Rightarrow> Configuration \<Rightarrow> db \<Rightarrow> panic + (string + Multy)" where
  "Init W dialled M N conf d =
     (case InitUserStore W (co_Database conf) of
        Inl err \<Rightarrow> Inr (Inl (''DB initialization: '' @ err @ '' on port '' @ cf_Address (co_Database conf)))
      | Inr userStore \<Rightarrow>
      (case btc_InitHandlers W (co_Database conf) (co_SupportedNodes conf) (co_NSQAddress conf) of
        Inl err \<Rightarrow> Inr (Inl (''Init: btc.InitHandlers: '' @ err))
      | Inr btcCli \<Rightarrow>
      (case eth_InitHandlers W (co_Database conf) (co_SupportedNodes conf) (co_NSQAddress conf) of
        Inl err \<Rightarrow> Inr (Inl (''Init: btc.InitHandlers: '' @ err))
      | Inr ethCli \<Rightarrow>
          bind_p (SetUserData M N (co_SupportedNodes conf) d) (\<lambda>st.
            case st_error st of
              Some err \<Rightarrow> Inr (Inl (''Init: multy.SetUserData: '' @ err))
            | None \<Rightarrow>
                (case initHttpRoutes W dialled conf of
                   Inl err \<Rightarrow> Inr (Inl (''Router initialization: '' @ err))
                 | Inr (restClient, stocks) \<Rightarrow>
                     bind_p (ConfigureExchangers (co_Exchangers conf) \<lparr>fe_Exchangers = [], fe_Config = []\<rparr>) (\<lambda>fe.
                       Inr (Inr \<lparr>mu_userStore = userStore, mu_BTC = btcCli, mu_ETH = ethCli, mu_started = st,
                                 mu_restClient = restClient, mu_stocks = stocks, mu_ExchangerFactory = fe\<rparr>)))))))"

section \<open>The process\<close>

text \<open>The built-in values (\<open>cmd/main.go\<close>); what the file of the configuration overrides is a parameter.\<close>

definition globalOpt :: Configuration where
  "globalOpt =
     \<lparr>co_Name = ''my-test-back'',
      co_Database =
        \<lparr>cf_Address = ''localhost:27017'', cf_DBUsers = ''userDB-test'', cf_DBFeeRates = ''BTCMempool-test'',
         cf_DBTx = ''DBTx-test'', cf_DBStockExchangeRate = ''dev-DBStockExchangeRate'',
         cf_TableTxsDataBTCMain = [], cf_TableSpendableOutputsBTCMain = [], cf_TableSpentOutputsBTCMain = [],
         cf_TableMempoolRatesBTCTest = [], cf_TableTxsDataBTCTest = [], cf_TableSpendableOutputsBTCTest = [],
         cf_TableSpentOutputsBTCTest = [], cf_TableMultisigTxsMain = [], cf_TableTxsDataETHMain = [],
         cf_TableMultisigTxsTest = [], cf_TableTxsDataETHTest = [], cf_DBRestoreState = [], cf_TableState = [],
         cf_Username = ''Username'', cf_Password = ''Password''\<rparr>,
      co_SocketioAddr = ''localhost:7780'', co_RestAddress = ''localhost:7778'',
      co_Firebase =
        \<lparr>fc_Type = [], fc_ProjectID = [], fc_PrivateKeyID = [], fc_PrivateKey = [], fc_ClientEmail = [], fc_ClientID = [],
         fc_AuthURI = [], fc_TokenURI = [], fc_AuthProviderX509CertURL = [], fc_ClientX509CertURL = []\<rparr>,
      co_NSQAddress = ''nsq:4150'', co_BTCNodeAddress = ''localhost:18334'', co_DonationAddresses = [],
      co_MultyVerison = \<lparr>sc_BranchName = [], sc_CommitHash = [], sc_Build = [], sc_Tag = []\<rparr>, co_ServicesInfo = [],
      co_Secretkey = [],
      co_MobileVersions = \<lparr>mv_AndroidHard = 0, mv_AndroidSoft = 0, mv_IosHard = 0, mv_IosSoft = 0\<rparr>,
      co_BrowserDefault = \<lparr>bd_URL = [], bd_CurrencyID = 0, bd_NetworkID = 0\<rparr>, co_SupportedNodes = [], co_Exchangers = []\<rparr>"

text \<open>The stamps of the build override the configured version; an error of \<open>Init\<close> exits the process.\<close>

definition main ::
  "world \<Rightarrow> nat \<Rightarrow> mongo \<Rightarrow> node_services \<Rightarrow> (Configuration \<Rightarrow> Configuration) \<Rightarrow> ServerConfig \<Rightarrow> db \<Rightarrow> panic + Multy" where
  "main W dialled M N ReadGlobalConfig stamps d =
     (case Init W dialled M N ((ReadGlobalConfig globalOpt)\<lparr>co_MultyVerison := stamps\<rparr>) d of
        Inl p \<Rightarrow> Inl p | Inr (Inl err) \<Rightarrow> Inl (Exit 1) | Inr (Inr mu) \<Rightarrow> Inr mu)"

end
