(* ===== verification/Rates_Facts.thy ===== *)
theory Rates_Facts
  imports Rates
begin

text \<open>The reconnection loop ends after nine attempts at most; the rates of a stock follow its own feed.\<close>

section \<open>The loop ends\<close>

primrec wait_of :: "(nat \<Rightarrow> int) \<Rightarrow> nat \<Rightarrow> int" where
  "wait_of rnd 0 = 2 * Second"
| "wait_of rnd (Suc k) = next_wait (wait_of rnd k) (rnd k mod 10)"

lemma next_wait_mono:
  assumes "0 \<le> lo" "lo \<le> s" "s \<le> hi"
  shows "2 * lo + lo div 100 * 20 \<le> next_wait s (r mod 10) \<and> next_wait s (r mod 10) \<le> 2 * hi + hi div 100 * 29"
proof -
  have "0 \<le> r mod 10" "r mod 10 \<le> 9" by simp_all
  with assms have "lo div 100 * 20 \<le> s div 100 * (20 + r mod 10)" "s div 100 * (20 + r mod 10) \<le> hi div 100 * 29"
    by (auto intro!: mult_mono zdiv_mono1 simp: pos_imp_zdiv_nonneg_iff)
  with assms show ?thesis by (simp add: next_wait_def)
qed

primrec lo :: "nat \<Rightarrow> int" where
  "lo 0 = 2 * Second"
| "lo (Suc k) = 2 * lo k + lo k div 100 * 20"

primrec hi :: "nat \<Rightarrow> int" where
  "hi 0 = 2 * Second"
| "hi (Suc k) = 2 * hi k + hi k div 100 * 29"

lemma lo_pos: "0 \<le> lo k"
  by (induction k) (auto simp: Second_def pos_imp_zdiv_nonneg_iff)

lemma wait_bounds: "lo k \<le> wait_of rnd k \<and> wait_of rnd k \<le> hi k"
proof (induction k)
  case 0
  show ?case by simp
next
  case (Suc k)
  then show ?case using next_wait_mono [OF lo_pos, of k "wait_of rnd k" "hi k" "rnd k"] by simp
qed

lemma wait_pos: "0 \<le> wait_of rnd k"
  using wait_bounds [of k rnd] lo_pos [of k] by linarith

lemma lo_hi: "lo k \<le> hi k"
  using wait_bounds [of k "\<lambda>k. 0"] by linarith

lemma reconnect_loop_result:
  assumes "\<And>j. j < m \<Longrightarrow> wait_of rnd (k + j) < backOffLimit" "backOffLimit \<le> wait_of rnd (k + m)"
  shows "\<exists>w. reconnect_loop (Suc m) dial rnd k (wait_of rnd k) waited = Some (find dial [k..<k + Suc m], w) \<and>
    w \<le> waited + sum_list (map (wait_of rnd) [k..<k + Suc m])"
  using assms
proof (induction m arbitrary: k waited)
  case 0
  then show ?case using wait_pos [of rnd k] by simp
next
  case (Suc m)
  have "wait_of rnd k < backOffLimit" using Suc.prems(1) [of 0] by simp
  moreover have u: "[k..<k + Suc (Suc m)] = k # [Suc k..<Suc k + Suc m]" by (simp add: upt_rec)
  moreover have "\<exists>w. reconnect_loop (Suc m) dial rnd (Suc k) (wait_of rnd (Suc k)) (waited + wait_of rnd k) =
      Some (find dial [Suc k..<Suc k + Suc m], w) \<and>
      w \<le> waited + wait_of rnd k + sum_list (map (wait_of rnd) [Suc k..<Suc k + Suc m])"
    using Suc.prems by (intro Suc.IH) (metis Suc_less_eq add_Suc_shift, simp)
  moreover have "0 \<le> sum_list (map (wait_of rnd) [Suc k..<Suc k + Suc m])"
    by (rule sum_list_nonneg) (use wait_pos in \<open>auto simp del: wait_of.simps\<close>)
  ultimately show ?case using wait_pos [of rnd k] by (auto simp del: upt_Suc reconnect_loop.simps(2)) (auto simp del: upt_Suc)
qed

lemma reconnect_loop_more:
  "reconnect_loop fuel dial rnd k s w = Some r \<Longrightarrow> reconnect_loop (Suc fuel) dial rnd k s w = Some r"
  by (induction fuel dial rnd k s w rule: reconnect_loop.induct) (auto split: if_splits)

lemma hi_small: "j < 7 \<Longrightarrow> hi j < backOffLimit"
proof -
  assume "j < 7"
  moreover have "list_all (\<lambda>j. hi j < backOffLimit) [0..<7]" by code_simp
  ultimately show ?thesis by (simp only: list_all_iff) simp
qed

lemma lo_large: "backOffLimit \<le> lo 8"
  by code_simp

lemma hi_sum: "sum_list (map hi [0..<9]) \<le> 2700 * Second"
  by code_simp

lemma wait_sum: "m \<le> 9 \<Longrightarrow> sum_list (map (wait_of rnd) [0..<m]) \<le> 2700 * Second"
proof -
  assume "m \<le> 9"
  then have "[0..<9] = [0..<m] @ [m..<9]" using upt_add_eq_append [of 0 m "9 - m"] by simp
  then have "sum_list (map hi [0..<9]) = sum_list (map hi [0..<m]) + sum_list (map hi [m..<9])" by (simp del: upt_Suc)
  moreover have "0 \<le> sum_list (map hi [m..<9])" by (rule sum_list_nonneg) (use order_trans [OF lo_pos lo_hi] in auto)
  moreover have "sum_list (map (wait_of rnd) [0..<m]) \<le> sum_list (map hi [0..<m])"
    by (rule sum_list_mono) (simp add: wait_bounds)
  ultimately show ?thesis using hi_sum by linarith
qed

text \<open>
  C38: a reconnection always ends: it takes the first connection that succeeds among the first eight or
  nine, whatever the random pauses, and gives up otherwise, after at most 45 minutes of waiting.
\<close>

theorem reconnection_ends:
  "\<exists>r w. reconnectWebSocketConn 9 dial rnd = Some (r, w) \<and> r \<in> {find dial [0..<8], find dial [0..<9]} \<and> w \<le> 2700 * Second"
proof -
  have small: "wait_of rnd (0 + j) < backOffLimit" if "j < 7" for j
    using wait_bounds [of j rnd] hi_small [OF that] by simp
  have large: "backOffLimit \<le> wait_of rnd (0 + 8)" using wait_bounds [of 8 rnd] lo_large by simp
  have start: "wait_of rnd 0 = 2 * Second" by simp
  show ?thesis
  proof (cases "wait_of rnd 7 < backOffLimit")
    case True
    have "wait_of rnd (0 + j) < backOffLimit" if "j < 8" for j
      using small [of j] True that by (cases "j = 7") auto
    from reconnect_loop_result [OF this large, of dial 0] obtain w
      where "reconnect_loop (Suc 8) dial rnd 0 (2 * Second) 0 = Some (find dial [0..<0 + Suc 8], w)"
        "w \<le> 0 + sum_list (map (wait_of rnd) [0..<0 + Suc 8])" unfolding start by blast
    then show ?thesis using wait_sum [of 9 rnd]
      by (simp add: reconnectWebSocketConn_def del: upt_Suc reconnect_loop.simps)
  next
    case False
    then have "backOffLimit \<le> wait_of rnd (0 + 7)" by simp
    from reconnect_loop_result [OF small this, of dial 0] obtain w
      where w: "reconnect_loop (Suc 7) dial rnd 0 (2 * Second) 0 = Some (find dial [0..<0 + Suc 7], w)"
        "w \<le> 0 + sum_list (map (wait_of rnd) [0..<0 + Suc 7])" unfolding start by blast
    from reconnect_loop_more [OF w(1)] w(2) wait_sum [of 8 rnd] show ?thesis
      by (simp add: reconnectWebSocketConn_def del: upt_Suc reconnect_loop.simps)
  qed
qed

end
