(* ===== verification/Exchanger_Facts.thy ===== *)
theory Exchanger_Facts
  imports Exchanger
begin

text \<open>
  The factory gives out one exchanger, whatever the sequence of requests; failures of the exchange that
  the handlers answer as success.
\<close>

section \<open>One exchanger, and errors that are answered as success\<close>

inductive factory_step :: "FactoryExchanger \<Rightarrow> FactoryExchanger \<Rightarrow> bool" where
  Get: "GetExchanger name fe = Inr (ec, fe') \<Longrightarrow> factory_step fe fe'"

inductive_simps factory_step_iff: "factory_step fe fe'"

definition factory_ok :: "FactoryExchanger \<Rightarrow> bool" where
  "factory_ok fe \<longleftrightarrow> (case fe_Exchangers fe of
       [] \<Rightarrow> True
     | [ec] \<Rightarrow> changelly_Init (getConfigByExchangerName fe ExchangeChangellyCanonicalName) = Inr ec
     | _ \<Rightarrow> False)"

lemma changelly_Init_name: "changelly_Init config = Inr ec \<Longrightarrow> ec_name ec = ExchangeChangellyCanonicalName"
  by (auto simp: changelly_Init_def bind_p_Inr split: option.splits)

lemma GetExchanger_ok:
  assumes "factory_ok fe" "GetExchanger name fe = Inr (ec, fe')"
  shows "factory_ok fe' \<and> fe_Config fe' = fe_Config fe \<and> fe_Exchangers fe' = [ec] \<and> ec_name ec = name"
proof (cases "fe_Exchangers fe")
  case Nil
  with assms show ?thesis
    by (auto simp: GetExchanger_def bind_p_Inr factory_ok_def getConfigByExchangerName_def changelly_Init_name split: if_splits)
next
  case (Cons e es)
  with assms(1) have e: "es = []" "changelly_Init (getConfigByExchangerName fe ExchangeChangellyCanonicalName) = Inr e"
    by (auto simp: factory_ok_def split: list.splits)
  from changelly_Init_name [OF e(2)] assms Cons e(1) show ?thesis
    by (auto simp: GetExchanger_def bind_p_Inr split: if_splits)
qed

lemma factory_steps_ok:
  assumes "factory_step\<^sup>*\<^sup>* fe fe'" "factory_ok fe"
  shows "factory_ok fe' \<and> fe_Config fe' = fe_Config fe"
proof (rule steps_keep [OF assms(1), where P = "\<lambda>f. factory_ok f \<and> fe_Config f = fe_Config fe"])
  show "factory_ok f' \<and> fe_Config f' = fe_Config fe" if "factory_step f f'" "factory_ok f \<and> fe_Config f = fe_Config fe" for f f'
    using that GetExchanger_ok [of f] by (metis factory_step_iff)
qed (simp add: assms(2))

text \<open>
  C39: however often the exchanger is asked for, the factory makes it once, with the configuration that
  carries its name, and gives out that one.
\<close>

theorem one_exchanger:
  assumes "factory_step\<^sup>*\<^sup>* (SetExchangersConfig configs \<lparr>fe_Exchangers = [], fe_Config = []\<rparr>) fe"
    and "GetExchanger name fe = Inr (ec, fe')"
  shows "fe_Exchangers fe' = [ec] \<and> ec_name ec = name \<and>
    changelly_Init (getConfigByExchangerName (SetExchangersConfig configs fe) name) = Inr ec"
proof -
  have i: "factory_ok fe \<and> fe_Config fe = configs"
    using factory_steps_ok [OF assms(1)] by (simp add: factory_ok_def SetExchangersConfig_def)
  with GetExchanger_ok [OF _ assms(2)] have e: "factory_ok fe'" "fe_Config fe' = configs" "fe_Exchangers fe' = [ec]" "ec_name ec = name"
    by auto
  then have "changelly_Init (getConfigByExchangerName fe' ExchangeChangellyCanonicalName) = Inr ec" by (simp add: factory_ok_def)
  moreover from changelly_Init_name [OF this] e(4) have "name = ExchangeChangellyCanonicalName" by simp
  ultimately show ?thesis using e by (simp add: getConfigByExchangerName_def SetExchangersConfig_def)
qed

definition ex_configs :: "BasicExchangeConfiguration list" where
  "ex_configs = [\<lparr>bx_Name = ''changelly'', bx_IsActive = True,
     bx_Config = Some [(''apiUrl'', JStr ''u''), (''apiKey'', JStr ''k''), (''apiSecret'', JStr ''s'')]\<rparr>]"

theorem one_exchanger_witness:
  "\<exists>ec fe'. GetExchanger ''changelly'' \<lparr>fe_Exchangers = [], fe_Config = ex_configs\<rparr> = Inr (ec, fe') \<and> fe_Exchangers fe' = [ec]"
proof -
  let ?fe = "SetExchangersConfig ex_configs \<lparr>fe_Exchangers = [], fe_Config = []\<rparr>"
  have "\<exists>ec fe'. GetExchanger ''changelly'' ?fe = Inr (ec, fe')"
    by (simp add: GetExchanger_def SetExchangersConfig_def ExchangeChangellyCanonicalName_def changelly_Init_def
        getConfigByExchangerName_def ex_configs_def string_field_def)
  then obtain ec fe' where g: "GetExchanger ''changelly'' ?fe = Inr (ec, fe')" by blast
  from one_exchanger [OF rtranclp.rtrancl_refl g] g show ?thesis by (auto simp: SetExchangersConfig_def)
qed

text \<open>
  A transaction that the exchange refused, or that never reached it, is answered to the client with
  success and an empty payment address.
\<close>

theorem failed_exchange_accepted:
  assumes "GetExchanger ExchangeChangellyCanonicalName fe = Inr (ec, fe')"
    and "(\<exists>err. sendRequest W ec ''createTransaction'' [(''from'', eb_From b), (''to'', eb_To b), (''amount'', eb_Amount b), (''address'', eb_Address b)] = Inl err) \<or>
      (\<exists>answer packet. sendRequest W ec ''createTransaction'' [(''from'', eb_From b), (''to'', eb_To b), (''amount'', eb_Amount b), (''address'', eb_Address b)] = Inr answer \<and>
        in_decode W answer = Inr packet \<and> rr_ErrorCode packet \<noteq> 0)"
  shows "CreateExchangerTransaction W (Some b) fe = Inr (reply_with StatusOK StatusOK ''OK'' no_transaction, fe')"
  using assms by (auto simp: CreateExchangerTransaction_def CreateTransaction_def no_transaction_def)

theorem failed_exchange_accepted_witness:
  "\<exists>fe'. CreateExchangerTransaction \<lparr>in_do = \<lambda>rq. Inl ''timeout'', in_decode = \<lambda>s. Inl []\<rparr>
      (Some \<lparr>eb_From = ''btc'', eb_To = ''eth'', eb_Amount = ''1'', eb_Address = ''a''\<rparr>)
      \<lparr>fe_Exchangers = [], fe_Config = ex_configs\<rparr> = Inr (reply_with StatusOK StatusOK ''OK'' no_transaction, fe')"
proof -
  let ?fe = "\<lparr>fe_Exchangers = [], fe_Config = ex_configs\<rparr>"
  have "\<exists>ec fe'. GetExchanger ExchangeChangellyCanonicalName ?fe = Inr (ec, fe')"
    by (simp add: GetExchanger_def ExchangeChangellyCanonicalName_def changelly_Init_def
        getConfigByExchangerName_def ex_configs_def string_field_def)
  then obtain ec fe' where g: "GetExchanger ExchangeChangellyCanonicalName ?fe = Inr (ec, fe')" by blast
  from failed_exchange_accepted [OF g, of "\<lparr>in_do = \<lambda>rq. Inl ''timeout'', in_decode = \<lambda>s. Inl []\<rparr>"
      "\<lparr>eb_From = ''btc'', eb_To = ''eth'', eb_Amount = ''1'', eb_Address = ''a''\<rparr>"] show ?thesis
    by (simp add: sendRequest_def Let_def)
qed

end
