(* ===== verification/Wiring_Facts.thy ===== *)
theory Wiring_Facts
  imports Wiring Startup_Facts Rates_Facts Exchanger_Facts
begin

text \<open>
  What a server that has started can rely on: its parts work on the same collections, all four chains are
  configured, and every node service has the addresses of the store.
\<close>

lemma btc_InitHandlers_Inr:
  assumes "btc_InitHandlers W conf cts nsq = Inr (bp, c)"
  shows "bp = btc_collections conf \<and> (\<exists>m t. find (\<lambda>ct. ct_CurrencyID ct = Bitcoin \<and> ct_NetworkID ct = Main_net) cts = Some m \<and>
    find (\<lambda>ct. ct_CurrencyID ct = Bitcoin \<and> ct_NetworkID ct = Test_net) cts = Some t \<and>
    nc_streams c = [(Some BtcTest, ct_AccuracyRange t), (Some BtcMain, ct_AccuracyRange m)])"
  using assms
  by (auto simp: btc_InitHandlers_def bind_p_Inr configured_def FetchCoinType_def btc_chan_def Main_net_def Test_net_def
      split: option.splits)

lemma eth_InitHandlers_Inr:
  assumes "eth_InitHandlers W conf cts nsq = Inr (ep, c)"
  shows "ep = eth_collections conf \<and> (\<exists>m t. find (\<lambda>ct. ct_CurrencyID ct = Ether \<and> ct_NetworkID ct = ETHMain) cts = Some m \<and>
    find (\<lambda>ct. ct_CurrencyID ct = Ether \<and> ct_NetworkID ct = ETHTest) cts = Some t \<and>
    nc_streams c = [(Some EthMain, ct_AccuracyRange m), (Some EthTest, ct_AccuracyRange t)])"
  using assms
  by (auto simp: eth_InitHandlers_def bind_p_Inr configured_def FetchCoinType_def eth_chan_def ETHMain_def ETHTest_def
      split: option.splits)


text \<open>A chain of the configuration.\<close>

definition supported :: "Configuration \<Rightarrow> int \<Rightarrow> int \<Rightarrow> bool" where
  "supported conf currency network \<longleftrightarrow>
     list_ex (\<lambda>ct. ct_CurrencyID ct = currency \<and> ct_NetworkID ct = network) (co_SupportedNodes conf)"

text \<open>The collections of the two packages are those of the store.\<close>

definition same_collections :: "MongoUserStore \<Rightarrow> btc_package \<Rightarrow> eth_package \<Rightarrow> bool" where
  "same_collections us bp ep \<longleftrightarrow>
     {bp_usersData bp, ep_usersData ep} = {us_usersData us} \<and> {bp_exRate bp, ep_exRate ep} = {us_stockExchangeRate us} \<and>
     {bp_restoreState bp, ep_restoreState ep} = {us_RestoreState us} \<and>
     (bp_txsData bp, bp_spendableOutputs bp, bp_spentOutputs bp) =
       (us_BTCMainTxsData us, us_BTCMainSpendableOutputs us, us_BTCMainSpentOutputs us) \<and>
     (bp_txsDataTest bp, bp_spendableOutputsTest bp, bp_spentOutputsTest bp) =
       (us_BTCTestTxsData us, us_BTCTestSpendableOutputs us, us_BTCTestSpentOutputs us) \<and>
     (ep_txsData ep, ep_multisigData ep) = (us_ETHMainTxsData us, us_ETHMainMultisigTxsData us) \<and>
     (ep_txsDataTest ep, ep_multisigDataTest ep) = (us_ETHTestTxsData us, us_ETHTestMultisigTxsData us)"

lemma Init_Inr:
  assumes "Init W k M N conf d = Inr (Inr mu)"
  obtains us btc eth st where "InitUserStore W (co_Database conf) = Inr us"
    "btc_InitHandlers W (co_Database conf) (co_SupportedNodes conf) (co_NSQAddress conf) = Inr btc"
    "eth_InitHandlers W (co_Database conf) (co_SupportedNodes conf) (co_NSQAddress conf) = Inr eth"
    "SetUserData M N (co_SupportedNodes conf) d = Inr st" "st_error st = None"
    "mu_userStore mu = us" "mu_BTC mu = btc" "mu_ETH mu = eth" "mu_started mu = st"
proof -
  obtain us btc eth where i: "InitUserStore W (co_Database conf) = Inr us"
    "btc_InitHandlers W (co_Database conf) (co_SupportedNodes conf) (co_NSQAddress conf) = Inr btc"
    "eth_InitHandlers W (co_Database conf) (co_SupportedNodes conf) (co_NSQAddress conf) = Inr eth"
    using assms by (auto simp: Init_def split: sum.splits)
  obtain st where st: "SetUserData M N (co_SupportedNodes conf) d = Inr st"
    using assms i by (cases "SetUserData M N (co_SupportedNodes conf) d") (auto simp: Init_def bind_p_Inr)
  have "st_error st = None" using assms i st by (auto simp: Init_def split: option.splits)
  moreover from this assms i st have "mu_userStore mu = us \<and> mu_BTC mu = btc \<and> mu_ETH mu = eth \<and> mu_started mu = st"
    by (auto simp: Init_def bind_p_Inr split: sum.splits)
  ultimately show thesis using that i st by blast
qed

lemma same_collections_conf:
  "InitUserStore W conf = Inr us \<Longrightarrow> same_collections us (btc_collections conf) (eth_collections conf)"
  by (auto simp: InitUserStore_def same_collections_def btc_collections_def eth_collections_def TableStockExchangeRate_def
      split: option.splits)

lemma initHttpRoutes_Inr:
  assumes "initHttpRoutes W k conf = Inr (rc, conns)"
  shows "rc_Secretkey rc = co_Secretkey conf" "rc_MultyVersion rc = co_MultyVerison conf"
  using assms by (auto simp: initHttpRoutes_def SetRestHandlers_settings_def split: sum.splits option.splits)

lemma Init_restClient:
  assumes "Init W k M N conf d = Inr (Inr mu)"
  shows "\<exists>conns. initHttpRoutes W k conf = Inr (mu_restClient mu, conns)"
proof -
  obtain us btc eth st where i: "InitUserStore W (co_Database conf) = Inr us"
    "btc_InitHandlers W (co_Database conf) (co_SupportedNodes conf) (co_NSQAddress conf) = Inr btc"
    "eth_InitHandlers W (co_Database conf) (co_SupportedNodes conf) (co_NSQAddress conf) = Inr eth"
    "SetUserData M N (co_SupportedNodes conf) d = Inr st" "st_error st = None"
    using assms by (rule Init_Inr)
  with assms show ?thesis by (auto simp: Init_def bind_p_Inr split: sum.splits)
qed

text \<open>The server shows the stamps of its build, whatever its file says; the built-in values alone start no server.\<close>

lemma main_version:
  assumes "main W k M N read stamps d = Inr mu"
  shows "cg_version (getServerConfig now (mu_restClient mu)) = stamps"
proof -
  have "Init W k M N ((read globalOpt)\<lparr>co_MultyVerison := stamps\<rparr>) d = Inr (Inr mu)"
    using assms by (simp add: main_def split: sum.splits)
  from Init_restClient [OF this] obtain conns
    where "initHttpRoutes W k ((read globalOpt)\<lparr>co_MultyVerison := stamps\<rparr>) = Inr (mu_restClient mu, conns)" by blast
  from initHttpRoutes_Inr(2) [OF this] show ?thesis by (simp add: getServerConfig_def)
qed

lemma defaults_do_not_start: "main W k M N (\<lambda>c. c) stamps d = Inl (Exit 1)"
proof -
  have "\<exists>err. Init W k M N (globalOpt\<lparr>co_MultyVerison := stamps\<rparr>) d = Inr (Inl err)"
    by (auto simp: Init_def btc_InitHandlers_def producer_and_session_def configured_def FetchCoinType_def globalOpt_def
        bind_p_def split: sum.split option.split)
  then show ?thesis by (auto simp: main_def)
qed

section \<open>Properties\<close>

text \<open>
  C6: a server that has started, whatever errors the database may report, works on one set of collections,
  whatever part reads or writes them; its configuration has the main and the test net of both currencies; its
  tokens are signed with the configured key; and for each configured chain of Bitcoin and Ethereum, in the order
  of the configuration, it has a client and has sent to it exactly the addresses of the users' wallets on the
  chain, each with the user and the indexes of a wallet that holds it, and on Ethereum the contracts of the
  users' multisigs on it. So no other network of the two currencies is configured; chains of other currencies
  may be, and are sent nothing.
\<close>

theorem started_server:
  assumes "mongo_srv M" "Init W k M N conf d = Inr (Inr mu)"
  shows "same_collections (mu_userStore mu) (fst (mu_BTC mu)) (fst (mu_ETH mu)) \<and>
    supported conf Bitcoin Main_net \<and> supported conf Bitcoin Test_net \<and> supported conf Ether ETHMain \<and> supported conf Ether ETHTest \<and>
    rc_Secretkey (mu_restClient mu) = co_Secretkey conf \<and>
    list_all2 (told d) (filter (\<lambda>ct. ct_CurrencyID ct \<in> {Bitcoin, Ether}) (co_SupportedNodes conf)) (st_sent (mu_started mu))"
proof -
  obtain us btc eth st where i: "InitUserStore W (co_Database conf) = Inr us"
    "btc_InitHandlers W (co_Database conf) (co_SupportedNodes conf) (co_NSQAddress conf) = Inr btc"
    "eth_InitHandlers W (co_Database conf) (co_SupportedNodes conf) (co_NSQAddress conf) = Inr eth"
    "SetUserData M N (co_SupportedNodes conf) d = Inr st" "st_error st = None"
    and mu: "mu_userStore mu = us" "mu_BTC mu = btc" "mu_ETH mu = eth" "mu_started mu = st"
    using assms(2) by (rule Init_Inr)
  obtain bp c ep c' where p: "btc = (bp, c)" "eth = (ep, c')" by (cases btc; cases eth)
  note b = btc_InitHandlers_Inr [OF i(2) [unfolded p]] and e = eth_InitHandlers_Inr [OF i(3) [unfolded p]]
  have "supported conf cur net" if "find (\<lambda>ct. ct_CurrencyID ct = cur \<and> ct_NetworkID ct = net) (co_SupportedNodes conf) = Some ct"
    for cur net ct using find_SomeD [OF that] by (auto simp: supported_def list_ex_iff)
  with b e have "supported conf Bitcoin Main_net \<and> supported conf Bitcoin Test_net \<and> supported conf Ether ETHMain \<and> supported conf Ether ETHTest"
    by blast
  moreover have "same_collections us bp ep" using b e same_collections_conf [OF i(1)] by simp
  moreover note mongo_srv.startup_sends [OF assms(1) i(4,5)]
  moreover have "rc_Secretkey (mu_restClient mu) = co_Secretkey conf"
    using Init_restClient [OF assms(2)] initHttpRoutes_Inr(1) by blast
  ultimately show ?thesis by (simp add: mu p)
qed

definition ex_world :: world where
  "ex_world = \<lparr>w_mongo = (\<lambda>_. None), w_producer = (\<lambda>_. None), w_grpc = (\<lambda>_. None), w_file = (\<lambda>_. Inr []),
     w_consumer = (\<lambda>_. None), w_nsqd = (\<lambda>_. None), w_push = (\<lambda>_. None), w_socket = (\<lambda>_ _. True),
     w_refused = [], w_random = (\<lambda>_. 0)\<rparr>"

definition ex_node :: "int \<Rightarrow> int \<Rightarrow> CoinType" where
  "ex_node cur net = \<lparr>ct_CurrencyID = cur, ct_NetworkID = net, ct_AccuracyRange = 10, ct_GRPCUrl = ''node''\<rparr>"

definition ex_conf :: Conf where
  "ex_conf = \<lparr>cf_Address = ''db'', cf_DBUsers = ''users'', cf_DBFeeRates = ''rates'', cf_DBTx = ''tx'',
     cf_DBStockExchangeRate = ''stocks'', cf_TableTxsDataBTCMain = ''b'', cf_TableSpendableOutputsBTCMain = ''bs'',
     cf_TableSpentOutputsBTCMain = ''bd'', cf_TableMempoolRatesBTCTest = ''tm'', cf_TableTxsDataBTCTest = ''t'',
     cf_TableSpendableOutputsBTCTest = ''ts'', cf_TableSpentOutputsBTCTest = ''td'', cf_TableMultisigTxsMain = ''em'',
     cf_TableTxsDataETHMain = ''e'', cf_TableMultisigTxsTest = ''fm'', cf_TableTxsDataETHTest = ''f'',
     cf_DBRestoreState = ''state'', cf_TableState = ''s'', cf_Username = ''u'', cf_Password = ''p''\<rparr>"

definition ex_configuration :: Configuration where
  "ex_configuration = globalOpt\<lparr>co_Database := ex_conf, co_NSQAddress := ''q'',
     co_SupportedNodes := [ex_node Bitcoin Main_net, ex_node Bitcoin Test_net, ex_node Ether ETHMain, ex_node Ether ETHTest],
     co_Exchangers := ex_configs\<rparr>"

theorem started_server_witness:
  "\<exists>mu. Init ex_world 0 ref_mongo ex_services ex_configuration ex_db = Inr (Inr mu) \<and>
     same_collections (mu_userStore mu) (fst (mu_BTC mu)) (fst (mu_ETH mu)) \<and> supported ex_configuration Ether ETHTest \<and>
     list_all2 (told ex_db) (co_SupportedNodes ex_configuration) (st_sent (mu_started mu))"
proof -
  let ?nodes = "co_SupportedNodes ex_configuration"
  have "\<exists>st. SetUserData ref_mongo ex_services ?nodes ex_db = Inr st \<and> st_error st = None"
    by (simp add: SetUserData_def set_chain_def introduce_def ex_services_def ex_node_def ex_configuration_def FindUserDataChain_def
        FindUsersContractsChain_def ref_mongo_def ref_simps Bitcoin_def Ether_def eth_chan_def ETHMain_def ETHTest_def
        btc_chan_def Main_net_def Test_net_def)
  then obtain st where st: "SetUserData ref_mongo ex_services ?nodes ex_db = Inr st" "st_error st = None" by blast
  have "\<exists>btc eth us. btc_InitHandlers ex_world ex_conf ?nodes ''q'' = Inr btc \<and> eth_InitHandlers ex_world ex_conf ?nodes ''q'' = Inr eth \<and>
      InitUserStore ex_world ex_conf = Inr us"
    by (simp add: btc_InitHandlers_def eth_InitHandlers_def InitUserStore_def ex_world_def producer_and_session_def configured_def
        FetchCoinType_def ex_configuration_def ex_node_def Bitcoin_def Ether_def Main_net_def Test_net_def ETHMain_def ETHTest_def
        initGrpcClient_def)
  moreover have "\<exists>fe. ConfigureExchangers ex_configs \<lparr>fe_Exchangers = [], fe_Config = []\<rparr> = Inr fe"
    by (simp add: ConfigureExchangers_def GetExchanger_def SetExchangersConfig_def ExchangeChangellyCanonicalName_def
        changelly_Init_def getConfigByExchangerName_def ex_configs_def string_field_def)
  moreover have "\<exists>conns. initHttpRoutes ex_world 0 ex_configuration = Inr conns"
    by (simp add: initHttpRoutes_def SetSocketIOHandlers_def chart_conns_def newGdaxAPI_def newPoloniexAPI_def InitFirebaseConn_def
        ex_world_def)
  moreover have "co_Database ex_configuration = ex_conf" "co_NSQAddress ex_configuration = ''q''"
    "co_Exchangers ex_configuration = ex_configs" by (simp_all add: ex_configuration_def)
  ultimately obtain mu where mu: "Init ex_world 0 ref_mongo ex_services ex_configuration ex_db = Inr (Inr mu)"
    using st by (auto simp: Init_def)
  have "filter (\<lambda>ct. ct_CurrencyID ct \<in> {Bitcoin, Ether}) ?nodes = ?nodes"
    by (simp add: ex_configuration_def ex_node_def)
  with started_server [OF refm.mongo_srv_axioms mu] mu show ?thesis by auto
qed

text \<open>When the first dial of the second stock fails, its client ends up at the first stock.\<close>

lemma poloniex_at_gdax:
  assumes "\<not> w_socket W poloniexAPIAddr 0"
  shows "newPoloniexAPI W n \<noteq> Inr poloniexAPIAddr"
  using assms by (auto simp: newPoloniexAPI_def reconnected_def poloniexAPIAddr_def gdaxAPIAddr_def split: option.splits)

end
