(* ===== verification/Feeds.thy ===== *)
theory Feeds
  imports Wiring
begin

text \<open>
  The rate feeds as processes (\<open>run\<close>, \<open>listen\<close> and \<open>subscribe\<close> of
  \<open>client/chart.go\<close> and \<open>client/exchange-api.go\<close>): two listening loops that own a
  connection each, and the routine that subscribes once and then stores the rates for ever. Their steps
  interleave in any order. What a stock may send on a connection is the parameter \<open>sends\<close>, on the
  address and the texts written to the connection.
\<close>

record feed_conn =
  fn_addr :: string
  fn_sent :: "string list"

text \<open>What the routine \<open>run\<close> does next.\<close>

datatype run_pc = SubscribeGdax | SubscribePoloniex | Saves

record feeds =
  fd_gdaxConn :: feed_conn
  fd_gdaxListens :: bool
  fd_poloniexConn :: feed_conn
  fd_poloniexListens :: bool
  fd_run :: run_pc
  fd_chart :: exchangeChart
  fd_db :: db

definition new_conn :: "string \<Rightarrow> feed_conn" where
  "new_conn addr = \<lparr>fn_addr = addr, fn_sent = []\<rparr>"

definition WriteMessage :: "string \<Rightarrow> feed_conn \<Rightarrow> feed_conn" where
  "WriteMessage text conn = conn\<lparr>fn_sent := fn_sent conn @ [text]\<rparr>"

section \<open>Subscriptions\<close>

definition gdax_subscribe :: "feed_conn \<Rightarrow> feed_conn" where
  "gdax_subscribe =
     WriteMessage ''{\"type\":\"subscribe\",\"channels\":[{\"name\":\"ticker_1000\",\"product_ids\":[\"BTC-USD\",\"BTC-EUR\",\"ETH-BTC\",\"ETH-USD\",\"ETH-EUR\"]}]}''"

definition poloniex_subscribe :: "feed_conn \<Rightarrow> feed_conn" where
  "poloniex_subscribe conn =
     WriteMessage ''{\"method\":\"subscribeTicker\",\"params\":{\"symbol\":\"ETHUSD\"},\"id\": 10000}''
       (WriteMessage ''{\"method\":\"subscribeTicker\",\"params\":{\"symbol\":\"ETHBTC\"},\"id\": 10000}''
         (WriteMessage ''{\"method\":\"subscribeTicker\",\"params\":{\"symbol\": \"BTCUSD\"},\"id\": 10000}'' conn))"

section \<open>The loops\<close>

text \<open>A receive: a message, decoded if it can be, or an error, with how the reconnection will go.\<close>

datatype reading = Message "SocketEvent option" | ReadError "nat \<Rightarrow> bool" "nat \<Rightarrow> int"

definition gdax_round :: "floats \<Rightarrow> reading \<Rightarrow> feeds \<Rightarrow> feeds" where
  "gdax_round F r s =
     (case r of
        Message m \<Rightarrow> s\<lparr>fd_chart := gdax_listen F m (fd_chart s)\<rparr>
      | ReadError dial rnd \<Rightarrow>
          (case reconnectWebSocketConn 9 dial rnd of
             Some (Some k, waited) \<Rightarrow> s\<lparr>fd_gdaxConn := new_conn gdaxAPIAddr\<rparr>
           | _ \<Rightarrow> s\<lparr>fd_gdaxListens := False\<rparr>))"

definition poloniex_round :: "floats \<Rightarrow> reading \<Rightarrow> feeds \<Rightarrow> feeds" where
  "poloniex_round F r s =
     (case r of
        Message m \<Rightarrow> s\<lparr>fd_chart := poloniex_listen F m (fd_chart s)\<rparr>
      | ReadError dial rnd \<Rightarrow>
          (case reconnectWebSocketConn 9 dial rnd of
             Some (Some k, waited) \<Rightarrow> s\<lparr>fd_poloniexConn := new_conn poloniexAPIAddr\<rparr>
           | _ \<Rightarrow> s\<lparr>fd_poloniexListens := False\<rparr>))"

definition run :: "mongo \<Rightarrow> int \<Rightarrow> feeds \<Rightarrow> feeds" where
  "run M now s =
     (case fd_run s of
        SubscribeGdax \<Rightarrow> s\<lparr>fd_gdaxConn := gdax_subscribe (fd_gdaxConn s), fd_run := SubscribePoloniex\<rparr>
      | SubscribePoloniex \<Rightarrow> s\<lparr>fd_poloniexConn := poloniex_subscribe (fd_poloniexConn s), fd_run := Saves\<rparr>
      | Saves \<Rightarrow> s\<lparr>fd_db := saveToDB M now (fd_chart s) (fd_db s)\<rparr>)"

text \<open>The feeds when \<open>newExchangeChart\<close> starts them.\<close>

definition start_feeds :: "string \<times> string \<Rightarrow> db \<Rightarrow> feeds" where
  "start_feeds conns d =
     \<lparr>fd_gdaxConn = new_conn (fst conns), fd_gdaxListens = True, fd_poloniexConn = new_conn (snd conns),
      fd_poloniexListens = True, fd_run = SubscribeGdax, fd_chart = newExchangeChart, fd_db = d\<rparr>"

section \<open>Interleavings\<close>

type_synonym sender = "string \<Rightarrow> string list \<Rightarrow> SocketEvent option \<Rightarrow> bool"

fun arrives :: "sender \<Rightarrow> feed_conn \<Rightarrow> reading \<Rightarrow> bool" where
  "arrives sends conn (Message m) = sends (fn_addr conn) (fn_sent conn) m"
| "arrives sends conn (ReadError dial rnd) = True"

text \<open>A step of the routine \<open>run\<close> is labelled with its time.\<close>

inductive feeds_step :: "sender \<Rightarrow> floats \<Rightarrow> mongo \<Rightarrow> int option \<Rightarrow> feeds \<Rightarrow> feeds \<Rightarrow> bool"
  for sends :: sender and F :: floats and M :: mongo where
  gdax: "fd_gdaxListens s \<Longrightarrow> arrives sends (fd_gdaxConn s) r \<Longrightarrow> feeds_step sends F M None s (gdax_round F r s)"
| poloniex: "fd_poloniexListens s \<Longrightarrow> arrives sends (fd_poloniexConn s) r \<Longrightarrow> feeds_step sends F M None s (poloniex_round F r s)"
| run: "feeds_step sends F M (Some now) s (run M now s)"

text \<open>Any number of steps, with the times of those of \<open>run\<close> in order.\<close>

inductive feeds_trace :: "sender \<Rightarrow> floats \<Rightarrow> mongo \<Rightarrow> feeds \<Rightarrow> int list \<Rightarrow> feeds \<Rightarrow> bool"
  for sends :: sender and F :: floats and M :: mongo and s :: feeds where
  Stays: "feeds_trace sends F M s [] s"
| Listens: "feeds_trace sends F M s ts t \<Longrightarrow> feeds_step sends F M None t u \<Longrightarrow> feeds_trace sends F M s ts u"
| Runs: "feeds_trace sends F M s ts t \<Longrightarrow> feeds_step sends F M (Some now) t u \<Longrightarrow> feeds_trace sends F M s (ts @ [now]) u"

end
