(* ===== verification/Feeds_Facts.thy ===== *)
theory Feeds_Facts
  imports Feeds Wiring_Facts "HOL-Library.Sublist"
begin

text \<open>What is left of a rate feed after its connection broke once.\<close>

section \<open>Stocks\<close>

text \<open>A stock sends nothing on a connection on which nothing was asked for.\<close>

locale stock =
  fixes sends :: sender
  assumes silent: "\<not> sends addr [] m"
begin

lemma arrives_silent: "arrives sends conn r \<Longrightarrow> fn_sent conn = [] \<Longrightarrow> \<exists>dial rnd. r = ReadError dial rnd"
  by (cases r) (auto simp: silent)

end

definition ref_sends :: sender where
  "ref_sends addr sent m \<longleftrightarrow> sent \<noteq> []"

interpretation refs: stock ref_sends
  by unfold_locales (simp add: ref_sends_def)

section \<open>Frozen rates\<close>

text \<open>The subscriptions are done and the connection of the first stock is a new one since.\<close>

definition unsubscribed :: "feeds \<Rightarrow> bool" where
  "unsubscribed s \<longleftrightarrow> fd_run s = Saves \<and> fn_sent (fd_gdaxConn s) = []"

text \<open>The records of the first stock, and the record of given rates at a time.\<close>

definition gdax_records :: "db \<Rightarrow> ExchangeRatesRecord list" where
  "gdax_records d = filter (\<lambda>r. err_StockExchange r = exchangeDdax) (db_rates d)"

definition gdax_record :: "ExchangeRates \<Rightarrow> int \<Rightarrow> ExchangeRatesRecord" where
  "gdax_record rates now = \<lparr>err_Exchanges = rates, err_Timestamp = now, err_StockExchange = exchangeDdax\<rparr>"

lemma gdax_record_other [simp]: "exchangePoloniex \<noteq> exchangeDdax"
  by (simp add: exchangeDdax_def exchangePoloniex_def)

context mongo_srv
begin

lemma gdax_records_save:
  "\<exists>n. n \<le> 1 \<and> gdax_records (saveToDB M now ch d) = gdax_records d @ replicate n (gdax_record (ch_exchangeGdax ch) now)"
proof -
  have p: "gdax_records (fst (InsertExchangeRate M now ex exchangePoloniex d)) = gdax_records d" for ex d
    using rates.insert_cases [of "\<lparr>err_Exchanges = ex, err_Timestamp = now, err_StockExchange = exchangePoloniex\<rparr>" "db_rates d"]
    by (auto simp: InsertExchangeRate_def case_prod_beta gdax_records_def)
  have g: "gdax_records (fst (InsertExchangeRate M now (ch_exchangeGdax ch) exchangeDdax d)) = gdax_records d \<or>
      gdax_records (fst (InsertExchangeRate M now (ch_exchangeGdax ch) exchangeDdax d)) = gdax_records d @ [gdax_record (ch_exchangeGdax ch) now]" for d
    using rates.insert_cases [of "gdax_record (ch_exchangeGdax ch) now" "db_rates d"]
    by (auto simp: InsertExchangeRate_def case_prod_beta gdax_records_def gdax_record_def)
  then have "gdax_records (saveToDB M now ch d) = gdax_records d @ replicate 0 (gdax_record (ch_exchangeGdax ch) now) \<or>
      gdax_records (saveToDB M now ch d) = gdax_records d @ replicate 1 (gdax_record (ch_exchangeGdax ch) now)"
    using p g by (simp add: saveToDB_def)
  then show ?thesis by (meson le_numeral_extra(4) zero_le)
qed

lemma unsubscribed_step:
  assumes "stock sends" "feeds_step sends F M l s t" "unsubscribed s"
  shows "unsubscribed t \<and> ch_exchangeGdax (fd_chart t) = ch_exchangeGdax (fd_chart s) \<and>
    (case l of None \<Rightarrow> fd_db t = fd_db s | Some now \<Rightarrow> fd_db t = saveToDB M now (fd_chart s) (fd_db s))"
  using assms(2)
proof (cases rule: feeds_step.cases)
  case (gdax r)
  from gdax(4) assms(3) obtain dial rnd where "r = ReadError dial rnd"
    by (auto simp: unsubscribed_def dest!: stock.arrives_silent [OF assms(1)])
  with gdax(1,2) assms(3) show ?thesis
    by (auto simp: unsubscribed_def gdax_round_def new_conn_def split: option.split)
next
  case (poloniex r)
  with assms(3) show ?thesis
    by (cases r) (auto simp: unsubscribed_def poloniex_round_def poloniex_listen_def split: option.split)
next
  case (run now)
  with assms(3) show ?thesis by (auto simp: unsubscribed_def run_def)
qed

lemma frozen_trace:
  assumes "stock sends" "feeds_trace sends F M s ts t" "unsubscribed s"
  shows "unsubscribed t \<and> ch_exchangeGdax (fd_chart t) = ch_exchangeGdax (fd_chart s) \<and>
    (\<exists>ns. subseq ns ts \<and> gdax_records (fd_db t) = gdax_records (fd_db s) @ map (gdax_record (ch_exchangeGdax (fd_chart s))) ns)"
  using assms(2)
proof (induction rule: feeds_trace.induct)
  case Stays
  from assms(3) show ?case by simp
next
  case (Listens ts t u)
  with unsubscribed_step [OF assms(1) Listens(2)] show ?case by simp
next
  case (Runs ts t now u)
  then obtain ns where ns: "subseq ns ts" "gdax_records (fd_db t) = gdax_records (fd_db s) @ map (gdax_record (ch_exchangeGdax (fd_chart s))) ns"
    by blast
  note u = unsubscribed_step [OF assms(1) Runs(2), of]
  obtain n where n: "n \<le> 1" "gdax_records (saveToDB M now (fd_chart t) (fd_db t)) =
      gdax_records (fd_db t) @ replicate n (gdax_record (ch_exchangeGdax (fd_chart t)) now)"
    using gdax_records_save by blast
  have "subseq (ns @ replicate n now) (ts @ [now])"
    using ns(1) n(1) by (cases n) (auto intro: list_emb_append_mono subseq_order.trans)
  with ns n u Runs.IH show ?case by (intro conjI exI [of _ "ns @ replicate n now"]) auto
qed

end

context mongo_live
begin

lemma frozen_trace_live:
  assumes "stock sends" "feeds_trace sends F M s ts t" "unsubscribed s"
  shows "gdax_records (fd_db t) = gdax_records (fd_db s) @ map (gdax_record (ch_exchangeGdax (fd_chart s))) ts"
  using assms(2)
proof (induction rule: feeds_trace.induct)
  case Stays
  show ?case by simp
next
  case (Listens ts t u)
  with unsubscribed_step [OF assms(1) Listens(2)] frozen_trace [OF assms(1) Listens(1) assms(3)] show ?case by simp
next
  case (Runs ts t now u)
  have "gdax_records (saveToDB M now ch d) = gdax_records d @ [gdax_record (ch_exchangeGdax ch) now]" for ch d
    by (simp add: saveToDB_def InsertExchangeRate_def live_simps gdax_records_def gdax_record_def)
  with Runs unsubscribed_step [OF assms(1) Runs(2)] frozen_trace [OF assms(1) Runs(1) assms(3)] show ?case by simp
qed

end

section \<open>Properties\<close>

text \<open>
  C33: no reconnection subscribes again: once the first stock's connection has been replaced, the rates of that
  stock never change, in whatever order the loops go on, and what is stored for it from then on are these old
  rates, one record for each run of the saving routine with the time of that run, in order; on a database with
  errors some of these records may be missing.
\<close>

theorem reconnected_feed_is_frozen:
  assumes "stock sends" "mongo_srv M" "fd_run s0 = Saves" "reconnectWebSocketConn 9 dial rnd = Some (Some k, w)"
    and "s = gdax_round F (ReadError dial rnd) s0" "feeds_trace sends F M s ts t"
  shows "ch_exchangeGdax (fd_chart t) = ch_exchangeGdax (fd_chart s0) \<and>
    (\<exists>ns. subseq ns ts \<and> (mongo_live M \<longrightarrow> ns = ts) \<and>
       filter (\<lambda>r. err_StockExchange r = exchangeDdax) (db_rates (fd_db t)) =
         filter (\<lambda>r. err_StockExchange r = exchangeDdax) (db_rates (fd_db s0)) @
         map (\<lambda>now. \<lparr>err_Exchanges = ch_exchangeGdax (fd_chart s0), err_Timestamp = now, err_StockExchange = exchangeDdax\<rparr>) ns)"
proof -
  have s: "unsubscribed s" "fd_chart s = fd_chart s0" "fd_db s = fd_db s0"
    using assms(3-5) by (simp_all add: gdax_round_def unsubscribed_def new_conn_def)
  note f = mongo_srv.frozen_trace [OF assms(2,1,6) s(1), unfolded s(2,3)]
  have "gdax_records (fd_db t) = gdax_records (fd_db s0) @ map (gdax_record (ch_exchangeGdax (fd_chart s0))) ts" if "mongo_live M"
    using mongo_live.frozen_trace_live [OF that assms(1,6) s(1)] by (simp add: s)
  with f show ?thesis
    unfolding gdax_records_def gdax_record_def by (cases "mongo_live M") auto
qed

definition ex_feeds :: feeds where
  "ex_feeds = run ref_mongo 0 (run ref_mongo 0 (start_feeds (gdaxAPIAddr, poloniexAPIAddr) empty_db))"

definition ex_floats :: floats where
  "ex_floats = \<lparr>fl_parse = (\<lambda>s. None), fl_inverse = (\<lambda>x. x)\<rparr>"

theorem reconnected_feed_is_frozen_witness:
  "filter (\<lambda>r. err_StockExchange r = exchangeDdax)
     (db_rates (fd_db (run ref_mongo 10 (gdax_round ex_floats (ReadError (\<lambda>k. True) (\<lambda>k. 0)) ex_feeds)))) =
   [\<lparr>err_Exchanges = no_rates, err_Timestamp = 10, err_StockExchange = exchangeDdax\<rparr>]"
proof -
  let ?s = "gdax_round ex_floats (ReadError (\<lambda>k. True) (\<lambda>k. 0)) ex_feeds"
  have r: "reconnectWebSocketConn 9 (\<lambda>k. True) (\<lambda>k. 0) = Some (Some 0, 0)"
    by (simp add: reconnectWebSocketConn_def numeral_eq_Suc)
  have t: "feeds_trace ref_sends ex_floats ref_mongo ?s ([] @ [10]) (run ref_mongo 10 ?s)"
    by (rule feeds_trace.Runs, rule feeds_trace.Stays, rule feeds_step.run)
  have e: "fd_run ex_feeds = Saves" "ch_exchangeGdax (fd_chart ex_feeds) = no_rates" "db_rates (fd_db ex_feeds) = []"
    by (simp_all add: ex_feeds_def run_def start_feeds_def newExchangeChart_def empty_db_def)
  from reconnected_feed_is_frozen [OF refs.stock_axioms refm.mongo_srv_axioms e(1) r refl t] refm.mongo_live_axioms
  show ?thesis by (auto simp: e)
qed

end
