(* ===== verification/Fees.thy ===== *)
theory Fees
  imports Rest
begin

text \<open>
  Fee estimation (\<open>client/rest.go\<close>: \<open>getFeeRate\<close>, \<open>fetchMempool\<close>,
  \<open>average\<close>, \<open>fetchQuantile\<close>). A mempool is the list of its values, in the order the
  iteration over the \<open>sync.Map\<close> visits them; both estimates sort it first. Index and division
  panics are values. A slice bound beyond the length is a panic here: Go allows bounds up to the capacity, and
  the lemmas show that no bound exceeds the length.
\<close>

section \<open>Single-precision products\<close>

text \<open>
  \<open>float32(n) * c\<close> for a natural number \<open>n\<close> below \<open>2 ^ 24\<close> (exact as
  \<open>float32\<close>) and a constant \<open>c = m / 2 ^ e\<close>: the exact product is rounded to 24
  significant bits, ties to even, and \<open>int(...)\<close> truncates it. \<open>0.1\<close> and
  \<open>0.225\<close> are \<open>13421773 / 2 ^ 27\<close> and \<open>15099494 / 2 ^ 26\<close> as
  \<open>float32\<close>.
\<close>

fun bits :: "nat \<Rightarrow> nat" where
  "bits n = (if n = 0 then 0 else Suc (bits (n div 2)))"

declare bits.simps [simp del]

definition round24 :: "nat \<Rightarrow> nat" where
  "round24 m =
     (if m < 2 ^ 24 then m
      else let k = bits m - 24; q = m div 2 ^ k; r = m mod 2 ^ k in
           (if r > 2 ^ (k - 1) \<or> (r = 2 ^ (k - 1) \<and> odd q) then q + 1 else q) * 2 ^ k)"

definition mul_trunc :: "nat \<Rightarrow> nat \<Rightarrow> nat \<Rightarrow> nat" where
  "mul_trunc n m e = round24 (n * m) div 2 ^ e"

section \<open>Averages of slices\<close>

record EstimationSpeeds =
  es_VerySlow :: int
  es_Slow :: int
  es_Medium :: int
  es_Fast :: int
  es_VeryFast :: int

definition zero_speeds :: EstimationSpeeds where
  "zero_speeds = \<lparr>es_VerySlow = 0, es_Slow = 0, es_Medium = 0, es_Fast = 0, es_VeryFast = 0\<rparr>"

definition slice :: "'a list \<Rightarrow> nat \<Rightarrow> nat \<Rightarrow> panic + 'a list" where
  "slice xs a b = (if a \<le> b \<and> b \<le> length xs then Inr (take (b - a) (drop a xs)) else Inl IndexOutOfRange)"

definition average :: "int list \<Rightarrow> panic + int" where
  "average fees =
     (let total = fold (\<lambda>value total. wrap64 (total + value)) fees 0 in
      if fees = [] then Inl DivideByZero else Inr (go_quot total (int (length fees))))"

definition average_of :: "int list \<Rightarrow> nat \<Rightarrow> nat \<Rightarrow> panic + int" where
  "average_of fees a b = bind_p (slice fees a b) average"

definition fetchQuantile :: "nat \<Rightarrow> nat list" where
  "fetchQuantile n =
     (let firstQuantile = mul_trunc n 13421773 27; quantile = mul_trunc n 15099494 26 in
      [firstQuantile, quantile, quantile + quantile,
       (quantile + quantile) + (quantile + quantile), n - 1])"

definition speeds_at :: "int list \<Rightarrow> nat \<Rightarrow> nat \<Rightarrow> nat \<Rightarrow> nat \<Rightarrow> nat \<Rightarrow> panic + EstimationSpeeds" where
  "speeds_at fees a b c d e =
     bind_p (average_of fees 0 a) (\<lambda>veryFast.
     bind_p (average_of fees a b) (\<lambda>fast.
     bind_p (average_of fees b c) (\<lambda>medium.
     bind_p (average_of fees c d) (\<lambda>slow.
     bind_p (average_of fees d e) (\<lambda>verySlow.
       Inr \<lparr>es_VerySlow = verySlow, es_Slow = slow, es_Medium = medium, es_Fast = fast, es_VeryFast = veryFast\<rparr>)))))"

definition fetchMempool :: "int list \<Rightarrow> panic + EstimationSpeeds" where
  "fetchMempool mempool =
     (let fees = rev (sort mempool) in
      if length fees > 1400 then speeds_at fees 100 400 700 1000 1300
      else if length fees < 1400 \<and> length fees > 100 then
        (let quantile = fetchQuantile (length fees) in
         speeds_at fees (quantile ! 0) (quantile ! 1) (quantile ! 2) (quantile ! 3) (length fees))
      else Inr \<lparr>es_VerySlow = 9 * 1000000000, es_Slow = 10 * 1000000000, es_Medium = 14 * 1000000000,
                es_Fast = 20 * 1000000000, es_VeryFast = 25 * 1000000000\<rparr>)"

section \<open>Bitcoin\<close>

definition at_least_2 :: "int \<Rightarrow> int" where
  "at_least_2 v = (if v < 2 then 2 else v)"

text \<open>The values the three cases choose: slowest, slow, medium, fast, fastest.\<close>

definition btc_positions :: "int list \<Rightarrow> panic + (int \<times> int \<times> int \<times> int \<times> int)" where
  "btc_positions mp =
     (let memPoolSize = int (length mp) in
      if memPoolSize \<le> 2000 \<and> memPoolSize > 0 then
        bind_p (index mp (memPoolSize div 100 * 80)) (\<lambda>slow.
        bind_p (index mp (memPoolSize div 100 * 50)) (\<lambda>medium.
        bind_p (index mp (memPoolSize div 100 * 30)) (\<lambda>fast.
        bind_p (index mp (memPoolSize div 100 * 5)) (\<lambda>fastest.
          Inr (2, at_least_2 slow, medium, fast, fastest)))))
      else if memPoolSize = 0 then Inr (2, 2, 3, 5, 10)
      else
        bind_p (index mp (memPoolSize div 100 * 90)) (\<lambda>slowest.
        bind_p (index mp (memPoolSize div 100 * 70)) (\<lambda>slow.
        bind_p (index mp 2000) (\<lambda>medium.
        bind_p (index mp 500) (\<lambda>fast.
        bind_p (index mp 100) (\<lambda>fastest.
          Inr (at_least_2 slowest, at_least_2 slow, medium, fast, fastest)))))))"

definition btc_adjust :: "int \<times> int \<times> int \<times> int \<times> int \<Rightarrow> EstimationSpeeds" where
  "btc_adjust vs =
     (case vs of (slowest, slow, medium, fast, fastest) \<Rightarrow>
      let fastest = (if fast > fastest then fast else fastest);
          fast = (if medium > fast then medium else fast);
          medium = (if slow > medium then slow else medium);
          slow = (if slowest > slow then slowest else slow)
      in \<lparr>es_VerySlow = slowest, es_Slow = slow, es_Medium = medium, es_Fast = fast, es_VeryFast = fastest\<rparr>)"

definition btc_speeds :: "int list \<Rightarrow> panic + EstimationSpeeds" where
  "btc_speeds mempool = bind_p (btc_positions (rev (sort mempool))) (\<lambda>vs. Inr (btc_adjust vs))"

section \<open>The handler\<close>

text \<open>
  \<open>None\<close> is a return without a reply. Both Bitcoin networks read the main mempool, and so do
  both Ethereum networks.
\<close>

definition getFeeRate ::
  "string \<Rightarrow> string \<Rightarrow> int list \<Rightarrow> int list \<Rightarrow> panic + EstimationSpeeds http_reply option" where
  "getFeeRate currencyid networkid btcMempool ethMempool =
     (case Atoi currencyid of
        (_, Some e) \<Rightarrow>
          Inr (Some (reply_with StatusBadRequest StatusBadRequest msgErrDecodeCurIndexErr zero_speeds))
      | (currencyID, None) \<Rightarrow>
          (case Atoi networkid of
             (_, Some e) \<Rightarrow> Inr (Some (bad_reply msgErrDecodenetworkidErr))
           | (networkID, None) \<Rightarrow>
               if currencyID = Bitcoin then
                 bind_p (btc_speeds btcMempool) (\<lambda>sp. Inr (Some (reply_with StatusOK StatusOK ''OK'' sp)))
               else if currencyID = Ether then
                 if networkID = ETHMain \<or> networkID = ETHTest then
                   bind_p (fetchMempool ethMempool) (\<lambda>sp. Inr (Some (reply_with StatusOK StatusOK ''OK'' sp)))
                 else Inr None
               else Inr None))"

end
