(* ===== verification/Fees_Facts.thy ===== *)
theory Fees_Facts
  imports Fees
begin

text \<open>
  Fee estimates: the single-precision quantiles stay inside the list and increase, averages of
  consecutive blocks of a descending list descend, and so neither estimate panics and the five
  speeds are ordered, for Bitcoin exactly when the fast rate is at least 2.
\<close>

section \<open>Rounding\<close>

lemma bits_bounds: "0 < n \<Longrightarrow> 2 ^ (bits n - 1) \<le> n \<and> n < 2 ^ bits n \<and> 0 < bits n"
proof (induction n rule: bits.induct)
  case (1 n)
  show ?case
  proof (cases "n div 2 = 0")
    case True
    with 1(2) have "n = 1" by linarith
    then show ?thesis by (simp add: bits.simps)
  next
    case False
    with 1 have ih: "2 ^ (bits (n div 2) - 1) \<le> n div 2" "n div 2 < 2 ^ bits (n div 2)" "0 < bits (n div 2)" by auto
    have s: "bits n = Suc (bits (n div 2))" using 1(2) by (simp add: bits.simps)
    from ih(3) obtain b where b: "bits (n div 2) = Suc b" using gr0_conv_Suc by blast
    from ih have "2 ^ b \<le> n div 2" "n div 2 < 2 * 2 ^ b" by (simp_all add: b)
    then show ?thesis by (simp add: s b) linarith
  qed
qed

lemma round24_bounds: "m * (2 ^ 24 - 1) \<le> round24 m * 2 ^ 24" "round24 m * 2 ^ 24 \<le> m * (2 ^ 24 + 1)"
proof -
  have "m * (2 ^ 24 - 1) \<le> round24 m * 2 ^ 24 \<and> round24 m * 2 ^ 24 \<le> m * (2 ^ 24 + 1)"
  proof (cases "m < 2 ^ 24")
    case True
    then show ?thesis by (simp add: round24_def)
  next
    case False
    then have m: "2 ^ 24 \<le> m" by simp
    have b: "2 ^ (bits m - 1) \<le> m" "m < 2 ^ bits m" using bits_bounds [of m] m by auto
    have "24 < bits m"
    proof (rule ccontr)
      assume "\<not> 24 < bits m"
      then have "(2::nat) ^ bits m \<le> 2 ^ 24" by (intro power_increasing) simp_all
      with b m show False by linarith
    qed
    then obtain j where j: "bits m = Suc (24 + j)" using less_imp_Suc_add by blast
    have k: "bits m - 24 = Suc j" using j by simp
    have low: "2 ^ 24 * 2 ^ j \<le> m" using b(1) by (simp add: j power_add)
    obtain t q r where d: "t = (2::nat) ^ j" "q = m div (2 * t)" "r = m mod (2 * t)" by blast
    have m': "m = q * (2 * t) + r" unfolding d(2,3) by (rule div_mult_mod_eq [symmetric])
    have r: "r < 2 * t" by (simp add: d)
    have round: "round24 m = (if r > t \<or> (r = t \<and> odd q) then q + 1 else q) * (2 * t)"
      using False by (simp add: round24_def Let_def k d)
    have "m \<le> round24 m + t" unfolding round using m' r by (simp add: algebra_simps)
    moreover have "round24 m \<le> m + t" unfolding round using m' r by (simp add: algebra_simps)
    moreover have "2 ^ 24 * t \<le> m" using low by (simp add: d)
    ultimately show ?thesis by (simp add: algebra_simps)
  qed
  then show "m * (2 ^ 24 - 1) \<le> round24 m * 2 ^ 24" "round24 m * 2 ^ 24 \<le> m * (2 ^ 24 + 1)" by simp_all
qed

lemma mul_trunc_bounds: "mul_trunc n m e * 2 ^ e * 2 ^ 24 \<le> n * m * (2 ^ 24 + 1)"
  "n * m * (2 ^ 24 - 1) < (mul_trunc n m e + 1) * 2 ^ e * 2 ^ 24"
proof -
  let ?r = "round24 (n * m)"
  have "mul_trunc n m e * 2 ^ e \<le> ?r" by (simp add: mul_trunc_def)
  then have "mul_trunc n m e * 2 ^ e * 2 ^ 24 \<le> ?r * 2 ^ 24" by (rule mult_right_mono) simp
  also note round24_bounds(2) [of "n * m"]
  finally show "mul_trunc n m e * 2 ^ e * 2 ^ 24 \<le> n * m * (2 ^ 24 + 1)" .
  have "?r < (mul_trunc n m e + 1) * 2 ^ e"
    using dividend_less_div_times [of "2 ^ e" ?r] by (simp add: mul_trunc_def algebra_simps)
  then have "?r * 2 ^ 24 < (mul_trunc n m e + 1) * 2 ^ e * 2 ^ 24" by simp
  with round24_bounds(1) [of "n * m"] show "n * m * (2 ^ 24 - 1) < (mul_trunc n m e + 1) * 2 ^ e * 2 ^ 24"
    by linarith
qed

lemma fetchQuantile_increasing:
  assumes "100 < n"
  shows "0 < fetchQuantile n ! 0" "fetchQuantile n ! 0 < fetchQuantile n ! 1"
    "fetchQuantile n ! 1 < fetchQuantile n ! 2" "fetchQuantile n ! 2 < fetchQuantile n ! 3" "fetchQuantile n ! 3 < n"
proof -
  define f q where "f = mul_trunc n 13421773 27" and "q = mul_trunc n 15099494 26"
  have b: "f * 134217728 * 16777216 \<le> n * 13421773 * 16777217" "n * 13421773 * 16777215 < (f + 1) * 134217728 * 16777216"
    "q * 67108864 * 16777216 \<le> n * 15099494 * 16777217" "n * 15099494 * 16777215 < (q + 1) * 67108864 * 16777216"
    using mul_trunc_bounds [of n 13421773 27] mul_trunc_bounds [of n 15099494 26] by (simp_all add: f_def q_def)
  have "0 < f" using b(2) assms by (cases "f = 0") auto
  moreover have "f < q" using b(1,4) assms by (simp add: algebra_simps)
  moreover have "4 * q < n" using b(3) assms by (simp add: algebra_simps)
  ultimately show "0 < fetchQuantile n ! 0" "fetchQuantile n ! 0 < fetchQuantile n ! 1"
    "fetchQuantile n ! 1 < fetchQuantile n ! 2" "fetchQuantile n ! 2 < fetchQuantile n ! 3" "fetchQuantile n ! 3 < n"
    by (simp_all add: fetchQuantile_def Let_def f_def [symmetric] q_def [symmetric])
qed

section \<open>Averages\<close>

lemma sum_list_bounds:
  assumes "\<And>x. x \<in> set xs \<Longrightarrow> lo \<le> x \<and> x \<le> (hi :: int)"
  shows "int (length xs) * lo \<le> sum_list xs \<and> sum_list xs \<le> int (length xs) * hi"
  using assms by (induction xs) (auto simp: algebra_simps, (smt (verit))+)

lemma average_between:
  assumes "xs \<noteq> []" "\<And>x. x \<in> set xs \<Longrightarrow> lo \<le> x \<and> x \<le> hi" "0 \<le> lo" "int (length xs) * hi < 2 ^ 63"
  shows "\<exists>v. average xs = Inr v \<and> lo \<le> v \<and> v \<le> hi"
proof -
  let ?s = "sum_list xs" and ?n = "int (length xs)"
  have s: "?n * lo \<le> ?s" "?s \<le> ?n * hi" using sum_list_bounds [of xs lo hi] assms(2) by auto
  have n: "0 < ?n" using assms(1) by simp
  have s0: "0 \<le> ?s" using s(1) assms(3) n by (smt (verit) mult_nonneg_nonneg)
  have "fold (\<lambda>value total. wrap64 (total + value)) xs 0 = wrap64 ?s"
    using fold_wrap64 [of "\<lambda>x. x" xs 0] by (simp add: int64_range_def)
  also have "\<dots> = ?s" using s s0 assms(4) by (intro wrap64_id) (simp add: int64_range_def)
  finally have "average xs = Inr (?s div ?n)"
    using assms(1) n s0 by (simp add: average_def Let_def go_quot_nonneg)
  moreover have "lo \<le> ?s div ?n" using zdiv_mono1 [OF s(1) n] n by simp
  moreover have "?s div ?n \<le> hi" using zdiv_mono1 [OF s(2) n] n by simp
  ultimately show ?thesis by blast
qed

lemma average_of_between:
  assumes xs: "sorted (rev xs)" "\<And>x. x \<in> set xs \<Longrightarrow> 0 \<le> x \<and> x < 2 ^ 52"
    and ab: "b < 2 ^ 11" "a < b" "b \<le> length xs"
  shows "\<exists>v. average_of xs a b = Inr v \<and> xs ! (b - 1) \<le> v \<and> v \<le> xs ! a"
proof -
  let ?ys = "take (b - a) (drop a xs)"
  have len: "length ?ys = b - a" using ab by simp
  have mem: "xs ! (b - 1) \<le> y \<and> y \<le> xs ! a" if "y \<in> set ?ys" for y
  proof -
    from that obtain i where i: "i < b - a" "y = xs ! (a + i)" using ab by (auto simp: in_set_conv_nth)
    then show ?thesis
      using sorted_rev_nth_mono [OF xs(1), of "a + i" "b - 1"] sorted_rev_nth_mono [OF xs(1), of a "a + i"] ab by simp
  qed
  have "\<exists>v. average ?ys = Inr v \<and> xs ! (b - 1) \<le> v \<and> v \<le> xs ! a"
  proof (rule average_between)
    show "?ys \<noteq> []" using ab by auto
    show "0 \<le> xs ! (b - 1)" using xs(2) [of "xs ! (b - 1)"] ab by simp
    have a: "0 \<le> xs ! a" "xs ! a < 2 ^ 52" using xs(2) [of "xs ! a"] ab by simp_all
    have "int (length ?ys) * xs ! a \<le> 2 ^ 11 * xs ! a" using a(1) ab len by (intro mult_right_mono) simp_all
    also have "\<dots> < 2 ^ 63" using a(2) by simp
    finally show "int (length ?ys) * xs ! a < 2 ^ 63" .
  qed (use mem in blast)
  then show ?thesis using ab by (simp add: average_of_def slice_def)
qed

lemma speeds_at_ordered:
  assumes xs: "sorted (rev xs)" "\<And>x. x \<in> set xs \<Longrightarrow> 0 \<le> x \<and> x < 2 ^ 52"
    and o': "e < 2 ^ 11" "0 < a" "a < b" "b < c" "c < d" "d < e" "e \<le> length xs"
  shows "\<exists>sp. speeds_at xs a b c d e = Inr sp \<and> es_VerySlow sp \<le> es_Slow sp \<and> es_Slow sp \<le> es_Medium sp \<and>
           es_Medium sp \<le> es_Fast sp \<and> es_Fast sp \<le> es_VeryFast sp"
proof -
  have avg: "\<exists>v. average_of xs p q = Inr v \<and> xs ! (q - 1) \<le> v \<and> v \<le> xs ! p"
    if "q < 2 ^ 11" "p < q" "q \<le> length xs" for p q
    by (rule average_of_between [OF xs(1) _ that]) (rule xs(2))
  have ub: "a < 2 ^ 11" "b < 2 ^ 11" "c < 2 ^ 11" "d < 2 ^ 11" using o' by simp_all
  have ul: "a \<le> length xs" "b \<le> length xs" "c \<le> length xs" "d \<le> length xs" using o' by simp_all
  obtain v1 where v1: "average_of xs 0 a = Inr v1" "xs ! (a - 1) \<le> v1" using avg [OF ub(1) o'(2) ul(1)] by blast
  obtain v2 where v2: "average_of xs a b = Inr v2" "xs ! (b - 1) \<le> v2" "v2 \<le> xs ! a" using avg [OF ub(2) o'(3) ul(2)] by blast
  obtain v3 where v3: "average_of xs b c = Inr v3" "xs ! (c - 1) \<le> v3" "v3 \<le> xs ! b" using avg [OF ub(3) o'(4) ul(3)] by blast
  obtain v4 where v4: "average_of xs c d = Inr v4" "xs ! (d - 1) \<le> v4" "v4 \<le> xs ! c" using avg [OF ub(4) o'(5) ul(4)] by blast
  obtain v5 where v5: "average_of xs d e = Inr v5" "v5 \<le> xs ! d" using avg [OF o'(1,6,7)] by blast
  have step: "xs ! i \<le> xs ! (i - 1)" if "i < length xs" for i
    using sorted_rev_nth_mono [OF xs(1), of "i - 1" i] that by simp
  show ?thesis
    using v1 v2 v3 v4 v5 step [of a] step [of b] step [of c] step [of d] o'(2-) by (simp add: speeds_at_def)
qed

section \<open>Properties\<close>

text \<open>
  C25: the Ethereum fee estimate is total and ordered: for any number of mempool transactions with
  gas prices below \<open>2 ^ 52\<close> no slice is out of range and no average divides by zero, and the
  faster speed never has the lower price.
\<close>

theorem fetchMempool_ordered:
  assumes "\<And>fee. fee \<in> set mempool \<Longrightarrow> 0 \<le> fee \<and> fee < 2 ^ 52"
  shows "\<exists>sp. fetchMempool mempool = Inr sp \<and> es_VerySlow sp \<le> es_Slow sp \<and> es_Slow sp \<le> es_Medium sp \<and>
           es_Medium sp \<le> es_Fast sp \<and> es_Fast sp \<le> es_VeryFast sp"
proof -
  have ordered: "\<exists>sp. speeds_at (rev (sort mempool)) a b c d e = Inr sp \<and> es_VerySlow sp \<le> es_Slow sp \<and>
      es_Slow sp \<le> es_Medium sp \<and> es_Medium sp \<le> es_Fast sp \<and> es_Fast sp \<le> es_VeryFast sp"
    if "e < 2 ^ 11" "0 < a" "a < b" "b < c" "c < d" "d < e" "e \<le> length mempool" for a b c d e
    by (rule speeds_at_ordered [OF _ _ that(1-6)]) (use assms that(7) in simp_all)
  note q = fetchQuantile_increasing [of "length mempool"]
  consider "length mempool > 1400" | "length mempool < 1400" "length mempool > 100"
    | "\<not> length mempool > 1400" "\<not> (length mempool < 1400 \<and> length mempool > 100)" by blast
  then show ?thesis
  proof cases
    case 1
    with ordered [of 1300 100 400 700 1000] show ?thesis by (simp add: fetchMempool_def Let_def)
  next
    case 2
    with ordered [OF _ q order.refl] show ?thesis by (simp add: fetchMempool_def Let_def)
  next
    case 3
    show ?thesis unfolding fetchMempool_def Let_def length_rev length_sort if_not_P [OF 3(1)] if_not_P [OF 3(2)] by simp
  qed
qed

theorem fetchMempool_ordered_witness:
  "\<exists>sp. fetchMempool (replicate 200 7) = Inr sp \<and> es_Slow sp \<le> es_Medium sp"
  using fetchMempool_ordered [of "replicate 200 7"] by auto

lemma getFeeRate_btc_positions:
  assumes "sorted (rev mp)"
  shows "\<exists>a b c d e. btc_positions mp = Inr (a, b, c, d, e) \<and> 2 \<le> a \<and> a \<le> b \<and> c \<le> d \<and> d \<le> e \<and> (b \<le> d \<longleftrightarrow> 2 \<le> d)"
proof -
  let ?n = "length mp"
  note mono = sorted_rev_nth_mono [OF assms]
  consider "?n = 0" | "0 < ?n" "?n \<le> 2000" | "2000 < ?n" by linarith
  then show ?thesis
  proof cases
    case 1
    then show ?thesis by (simp add: btc_positions_def)
  next
    case 2
    have p: "nat (int ?n div 100 * k) = ?n div 100 * nat k" if "0 \<le> k" for k
      using that by (simp add: nat_mult_distrib nat_div_distrib)
    have l: "int ?n div 100 * 80 < int ?n" "int ?n div 100 * 50 < int ?n" "int ?n div 100 * 30 < int ?n"
      "int ?n div 100 * 5 < int ?n" "?n div 100 * 80 < ?n" using 2 by linarith+
    have "mp ! (?n div 100 * 80) \<le> mp ! (?n div 100 * 50)" "mp ! (?n div 100 * 50) \<le> mp ! (?n div 100 * 30)"
      "mp ! (?n div 100 * 30) \<le> mp ! (?n div 100 * 5)" using l(5) by (auto intro!: mono)
    then show ?thesis using 2 l by (auto simp: btc_positions_def Let_def p at_least_2_def)
  next
    case 3
    have p: "nat (int ?n div 100 * k) = ?n div 100 * nat k" if "0 \<le> k" for k
      using that by (simp add: nat_mult_distrib nat_div_distrib)
    have l: "int ?n div 100 * 90 < int ?n" "int ?n div 100 * 70 < int ?n" "?n div 100 * 90 < ?n"
      "500 \<le> ?n div 100 * 70" using 3 by linarith+
    have "mp ! (?n div 100 * 90) \<le> mp ! (?n div 100 * 70)" "mp ! (?n div 100 * 70) \<le> mp ! 500"
      "mp ! 2000 \<le> mp ! 500" "mp ! 500 \<le> mp ! 100" using l 3 by (auto intro!: mono)
    then show ?thesis using 3 l by (auto simp: btc_positions_def Let_def p at_least_2_def)
  qed
qed

text \<open>
  C26: the Bitcoin fee estimate never panics; the slowest speed is at least 2, the slow and medium
  ones follow in order and so do the fast and the fastest, but the medium speed is below the
  fast one exactly when the fast one is at least 2.
\<close>

theorem btc_fees_ordered:
  "\<exists>sp. btc_speeds mempool = Inr sp \<and> 2 \<le> es_VerySlow sp \<and> es_VerySlow sp \<le> es_Slow sp \<and>
      es_Slow sp \<le> es_Medium sp \<and> es_Fast sp \<le> es_VeryFast sp \<and>
      (es_Medium sp \<le> es_Fast sp \<longleftrightarrow> 2 \<le> es_Fast sp)"
  using getFeeRate_btc_positions [of "rev (sort mempool)"]
  by (auto simp: btc_speeds_def btc_adjust_def Let_def)

text \<open>
  Below 100 transactions the Bitcoin estimate does not grade: the division by 100 comes
  before the multiplication, so every speed but the slowest is the highest fee of the mempool.
\<close>

theorem small_mempool_flat:
  assumes "0 < length mempool" "length mempool < 100" "2 \<le> Max (set mempool)"
  shows "btc_speeds mempool = Inr \<lparr>es_VerySlow = 2, es_Slow = Max (set mempool), es_Medium = Max (set mempool),
     es_Fast = Max (set mempool), es_VeryFast = Max (set mempool)\<rparr>"
proof -
  let ?mp = "rev (sort mempool)"
  have top: "?mp ! 0 \<in> set mempool" using assms(1) nth_mem [of 0 ?mp] by simp
  have "x \<le> ?mp ! 0" if "x \<in> set mempool" for x
  proof -
    from that have "x \<in> set ?mp" by simp
    then obtain i where "i < length ?mp" "x = ?mp ! i" unfolding in_set_conv_nth by blast
    then show ?thesis using sorted_rev_nth_mono [of ?mp 0 i] by simp
  qed
  with top have e: "?mp ! 0 = Max (set mempool)" by (intro Max_eqI [symmetric]) simp_all
  define m where "m = Max (set mempool)"
  then show ?thesis
    using assms e unfolding m_def [symmetric] by (simp add: btc_speeds_def btc_positions_def Let_def btc_adjust_def at_least_2_def)
qed

theorem small_mempool_flat_witness:
  "btc_speeds [3, 50, 7] = Inr \<lparr>es_VerySlow = 2, es_Slow = 50, es_Medium = 50, es_Fast = 50, es_VeryFast = 50\<rparr>"
  using small_mempool_flat [of "[3, 50, 7]"] by simp

end
