(* ===== verification/Views.thy ===== *)
theory Views
  imports Wallet_Ops
begin

text \<open>
  The verbose views of wallets (\<open>client/rest.go\<close>: \<open>getWalletVerbose\<close>,
  \<open>getAllWalletsVerbose\<close>, \<open>findTopIndexes\<close>, \<open>fetchUndeletedWallets\<close>,
  \<open>GetUserByContext\<close>). Views read the database and ask the Ethereum nodes for nonces, balances and
  token balances; the answers are a parameter, with the zero value where a failed call leaves a nil pointer
  whose getters are used, and \<open>None\<close> where the pointer itself is dereferenced.
\<close>

section \<open>Views\<close>

record AddressVerbose =
  av_LastActionTime :: int
  av_Address :: string
  av_AddressIndex :: int
  av_Amount :: int
  av_SpendableOuts :: "SpendableOutputs list"
  av_Nonce :: int
  av_IsSyncing :: bool

record WalletVerbose =
  wv_CurrencyID :: int
  wv_NetworkID :: int
  wv_WalletIndex :: int
  wv_WalletName :: string
  wv_LastActionTime :: int
  wv_DateOfCreation :: int
  wv_VerboseAddress :: "AddressVerbose list"
  wv_Pending :: bool
  wv_Syncing :: bool

type_synonym token_balances = "(string \<times> string) list"

record ETHAddressVerbose =
  ev_LastActionTime :: int
  ev_Address :: string
  ev_AddressIndex :: int
  ev_Amount :: string
  ev_Nonce :: int
  ev_ERC20Balances :: token_balances

record MultisigVerbose =
  mv_Owners :: "AddressExtended list"
  mv_Confirmations :: int
  mv_DeployStatus :: int
  mv_FactoryAddress :: string
  mv_TxOfCreation :: string
  mv_InviteCode :: string
  mv_OwnersCount :: int
  mv_HavePaymentReqests :: bool

record WalletVerboseETH =
  we_CurrencyID :: int
  we_NetworkID :: int
  we_WalletIndex :: int
  we_WalletName :: string
  we_LastActionTime :: int
  we_DateOfCreation :: int
  we_Nonce :: int
  we_PendingBalance :: string
  we_Balance :: string
  we_VerboseAddress :: "ETHAddressVerbose list"
  we_Pending :: bool
  we_Syncing :: bool
  we_Broken :: int
  we_Multisig :: "MultisigVerbose option"

datatype wallet_view = BtcView WalletVerbose | EthView WalletVerboseETH

record eth_node =
  en_nonce :: "watch_chan \<Rightarrow> string \<Rightarrow> int"
  en_balance :: "watch_chan \<Rightarrow> string \<Rightarrow> string"
  en_pending :: "watch_chan \<Rightarrow> string \<Rightarrow> string"
  en_tokens :: "watch_chan \<Rightarrow> string \<Rightarrow> token_balances option"

definition msgErrDecodeNetworkIDErr :: string where "msgErrDecodeNetworkIDErr = ''wrong network id''"
definition msgErrMethodNotImplennted :: string where "msgErrMethodNotImplennted = ''method is not implemented''"

section \<open>Ethereum balances\<close>

text \<open>\<open>Atoi\<close> is used without its error: balances beyond 64 bits read as the largest integer.\<close>

definition balance_differs :: "string \<Rightarrow> string \<Rightarrow> bool" where
  "balance_differs pending balance \<longleftrightarrow> fst (Atoi pending) \<noteq> fst (Atoi balance)"

record eth_acc =
  ac_views :: "ETHAddressVerbose list"
  ac_pending :: bool
  ac_total :: string
  ac_pendingBalance :: string
  ac_nonce :: int

definition no_acc :: eth_acc where
  "no_acc = \<lparr>ac_views = [], ac_pending = False, ac_total = [], ac_pendingBalance = [], ac_nonce = 0\<rparr>"

text \<open>
  One address: the totals of the wallet are those of its last address. \<open>touch\<close> is the time put on an
  address whose balance is pending, if the view does that.
\<close>

definition eth_address_view ::
  "eth_node \<Rightarrow> int option \<Rightarrow> token_balances \<Rightarrow> watch_chan \<Rightarrow> Address \<Rightarrow> eth_acc \<Rightarrow> eth_acc" where
  "eth_address_view E touch tokens ch address acc =
     (let total = en_balance E ch (adr_Address address);
          pendingBalance = en_pending E ch (adr_Address address);
          differs = balance_differs pendingBalance total;
          nonce = en_nonce E ch (adr_Address address)
      in \<lparr>ac_views = ac_views acc @
            [\<lparr>ev_LastActionTime = (if differs then (case touch of None \<Rightarrow> adr_LastActionTime address | Some now \<Rightarrow> now)
                                   else adr_LastActionTime address),
              ev_Address = adr_Address address, ev_AddressIndex = adr_AddressIndex address, ev_Amount = total,
              ev_Nonce = nonce, ev_ERC20Balances = tokens\<rparr>],
          ac_pending = (ac_pending acc \<or> differs), ac_total = total,
          ac_pendingBalance = (if differs then pendingBalance else ''0''), ac_nonce = nonce\<rparr>)"

text \<open>The view of one wallet dereferences the answer about tokens.\<close>

fun eth_views_strict ::
  "eth_node \<Rightarrow> int \<Rightarrow> watch_chan \<Rightarrow> Address list \<Rightarrow> eth_acc \<Rightarrow> panic + eth_acc" where
  "eth_views_strict E now ch [] acc = Inr acc"
| "eth_views_strict E now ch (address # addresses) acc =
     (case en_tokens E ch (adr_Address address) of
        None \<Rightarrow> Inl NilDereference
      | Some tokens \<Rightarrow>
          eth_views_strict E now ch addresses (eth_address_view E (Some now) tokens ch address acc))"

definition eth_views :: "eth_node \<Rightarrow> watch_chan \<Rightarrow> Address list \<Rightarrow> eth_acc" where
  "eth_views E ch addresses =
     fold (\<lambda>address. eth_address_view E None
             (case en_tokens E ch (adr_Address address) of None \<Rightarrow> [] | Some tokens \<Rightarrow> tokens) ch address)
       addresses no_acc"

definition eth_wallet_view :: "Wallet \<Rightarrow> eth_acc \<Rightarrow> WalletVerboseETH" where
  "eth_wallet_view wallet acc =
     \<lparr>we_CurrencyID = wal_CurrencyID wallet, we_NetworkID = wal_NetworkID wallet,
      we_WalletIndex = wal_WalletIndex wallet, we_WalletName = wal_WalletName wallet,
      we_LastActionTime = wal_LastActionTime wallet, we_DateOfCreation = wal_DateOfCreation wallet,
      we_Nonce = ac_nonce acc, we_PendingBalance = ac_pendingBalance acc, we_Balance = ac_total acc,
      we_VerboseAddress = ac_views acc, we_Pending = ac_pending acc, we_Syncing = False, we_Broken = wal_BrokenStatus wallet,
      we_Multisig = None\<rparr>"

definition multisig_verbose :: "Multisig \<Rightarrow> bool \<Rightarrow> MultisigVerbose" where
  "multisig_verbose multisig havePaymentReqest =
     \<lparr>mv_Owners = ms_Owners multisig, mv_Confirmations = ms_Confirmations multisig,
      mv_DeployStatus = ms_DeployStatus multisig, mv_FactoryAddress = ms_FactoryAddress multisig,
      mv_TxOfCreation = ms_TxOfCreation multisig, mv_InviteCode = ms_InviteCode multisig,
      mv_OwnersCount = ms_OwnersCount multisig, mv_HavePaymentReqests = havePaymentReqest\<rparr>"

text \<open>A multisig that is not deployed has no contract to ask about.\<close>

definition eth_multisig_view :: "eth_node \<Rightarrow> int \<Rightarrow> watch_chan option \<Rightarrow> Multisig \<Rightarrow> bool \<Rightarrow> WalletVerboseETH" where
  "eth_multisig_view E now ch multisig havePaymentReqest =
     (let (total, pendingBalance, differs, nonce) =
            (case (ms_ContractAddress multisig = [], ch) of
               (False, Some ch) \<Rightarrow>
                 (let b = en_balance E ch (ms_ContractAddress multisig);
                      p = en_pending E ch (ms_ContractAddress multisig)
                  in (b, if balance_differs p b then p else ''0'', balance_differs p b,
                      en_nonce E ch (ms_ContractAddress multisig)))
             | _ \<Rightarrow> (''0'', ''0'', False, 0));
          time = (if differs then now else ms_LastActionTime multisig)
      in \<lparr>we_CurrencyID = ms_CurrencyID multisig, we_NetworkID = ms_NetworkID multisig, we_WalletIndex = 0,
          we_WalletName = ms_WalletName multisig, we_LastActionTime = time,
          we_DateOfCreation = ms_DateOfCreation multisig, we_Nonce = nonce, we_PendingBalance = pendingBalance,
          we_Balance = total,
          we_VerboseAddress = [\<lparr>ev_LastActionTime = time, ev_Address = ms_ContractAddress multisig,
            ev_AddressIndex = 0, ev_Amount = total, ev_Nonce = nonce, ev_ERC20Balances = []\<rparr>],
          we_Pending = differs, we_Syncing = False, we_Broken = 0, we_Multisig = Some (multisig_verbose multisig havePaymentReqest)\<rparr>)"

section \<open>Bitcoin wallets\<close>

definition getBTCAddressSpendableOutputs :: "mongo \<Rightarrow> string \<Rightarrow> int \<Rightarrow> int \<Rightarrow> db \<Rightarrow> SpendableOutputs list" where
  "getBTCAddressSpendableOutputs M address currencyID networkID d =
     fst (GetAddressSpendableOutputs M address currencyID networkID d)"

definition btc_address_view :: "mongo \<Rightarrow> int \<Rightarrow> int \<Rightarrow> rest_state \<Rightarrow> Address \<Rightarrow> AddressVerbose" where
  "btc_address_view M currencyID networkID s address =
     \<lparr>av_LastActionTime = adr_LastActionTime address, av_Address = adr_Address address,
      av_AddressIndex = adr_AddressIndex address,
      av_Amount = checkBTCAddressbalance M (adr_Address address) currencyID networkID (rs_db s),
      av_SpendableOuts = getBTCAddressSpendableOutputs M (adr_Address address) currencyID networkID (rs_db s),
      av_Nonce = 0, av_IsSyncing = (adr_Address address \<in> set (rs_resync s))\<rparr>"

definition btc_wallet_view :: "mongo \<Rightarrow> int \<Rightarrow> int \<Rightarrow> rest_state \<Rightarrow> Wallet \<Rightarrow> bool \<Rightarrow> bool \<Rightarrow> WalletVerbose" where
  "btc_wallet_view M currencyID networkID s wallet pending syncing =
     \<lparr>wv_CurrencyID = wal_CurrencyID wallet, wv_NetworkID = wal_NetworkID wallet,
      wv_WalletIndex = wal_WalletIndex wallet, wv_WalletName = wal_WalletName wallet,
      wv_LastActionTime = wal_LastActionTime wallet, wv_DateOfCreation = wal_DateOfCreation wallet,
      wv_VerboseAddress = map (btc_address_view M currencyID networkID s) (wal_Adresses wallet),
      wv_Pending = pending, wv_Syncing = syncing\<rparr>"

section \<open>The view of one wallet\<close>

type_synonym view_reply = "wallet_view list http_reply"

definition wallet_reply :: "int \<Rightarrow> int \<Rightarrow> string \<Rightarrow> wallet_view list \<Rightarrow> view_reply" where
  "wallet_reply status code message wv = reply_with status code message wv"

definition find_wallet :: "int \<Rightarrow> int \<Rightarrow> int \<Rightarrow> User \<Rightarrow> Wallet" where
  "find_wallet currencyID networkID walletIndex user =
     (case find (wallet_key currencyID networkID walletIndex) (usr_Wallets user) of Some w \<Rightarrow> w | None \<Rightarrow> zero_wallet)"

definition find_imported :: "int \<Rightarrow> int \<Rightarrow> string \<Rightarrow> User \<Rightarrow> Wallet" where
  "find_imported currencyID networkID address user =
     (case find (\<lambda>w. same_chain currencyID networkID w \<and> first_address_is address w \<and> wal_IsImported w)
        (usr_Wallets user) of Some w \<Rightarrow> w | None \<Rightarrow> zero_wallet)"

definition find_own_multisig :: "int \<Rightarrow> int \<Rightarrow> string \<Rightarrow> User \<Rightarrow> Multisig" where
  "find_own_multisig currencyID networkID code user =
     (case find (\<lambda>m. ms_NetworkID m = networkID \<and> ms_CurrencyID m = currencyID \<and> ms_InviteCode m = code)
        (usr_Multisigs user) of Some m \<Rightarrow> m | None \<Rightarrow> zero_multisig)"

definition btc_verbose :: "mongo \<Rightarrow> User \<Rightarrow> int \<Rightarrow> int \<Rightarrow> int \<Rightarrow> rest_state \<Rightarrow> view_reply" where
  "btc_verbose M user currencyId networkId walletIndex s =
     (let wallet = find_wallet currencyId networkId walletIndex user;
          outs = concat (map (\<lambda>a. getBTCAddressSpendableOutputs M (adr_Address a) currencyId networkId (rs_db s))
                   (wal_Adresses wallet));
          pending = list_ex (\<lambda>spOut. so_TxStatus spOut = TxStatusAppearedInMempoolIncoming) outs
      in if wal_Adresses wallet = [] then wallet_reply StatusUnauthorized StatusUnauthorized msgErrUserNotFound []
         else wallet_reply StatusOK StatusOK ''OK''
                [BtcView (btc_wallet_view M currencyId networkId s wallet pending False)])"

definition eth_verbose :: "eth_node \<Rightarrow> int \<Rightarrow> int \<Rightarrow> Wallet \<Rightarrow> panic + view_reply" where
  "eth_verbose E now networkId wallet =
     (if wal_Adresses wallet = [] then Inr (wallet_reply StatusOK StatusBadRequest msgErrNoWallet [])
      else case eth_chan networkId of
             None \<Rightarrow> Inr (wallet_reply StatusOK StatusBadRequest msgErrMethodNotImplennted [])
           | Some ch \<Rightarrow>
               bind_p (eth_views_strict E now ch (wal_Adresses wallet) no_acc)
                 (\<lambda>acc. Inr (wallet_reply StatusOK StatusOK ''OK'' [EthView (eth_wallet_view wallet acc)])))"

definition multisig_view :: "eth_node \<Rightarrow> int \<Rightarrow> int \<Rightarrow> Multisig \<Rightarrow> view_reply" where
  "multisig_view E now networkId multisig =
     (if ms_Owners multisig = [] then wallet_reply StatusOK StatusBadRequest msgErrNoWallet []
      else if ms_ContractAddress multisig \<noteq> [] \<and> eth_chan networkId = None
      then wallet_reply StatusOK StatusBadRequest msgErrMethodNotImplennted []
      else wallet_reply StatusOK StatusOK ''OK''
             [EthView (eth_multisig_view E now (eth_chan networkId) multisig False)])"

text \<open>A user that is not found is only logged; the view goes on with a user without wallets.\<close>

definition user_or_zero :: "mongo \<Rightarrow> string \<Rightarrow> db \<Rightarrow> User" where
  "user_or_zero M token d = (case FindUser M (by_jwt token) d of Inl e \<Rightarrow> zero_user | Inr user \<Rightarrow> user)"

definition getWalletVerbose ::
  "mongo \<Rightarrow> eth_node \<Rightarrow> int \<Rightarrow> string \<Rightarrow> string \<Rightarrow> string \<Rightarrow> string \<Rightarrow> string \<Rightarrow> rest_state \<Rightarrow> panic + view_reply" where
  "getWalletVerbose M E now header walletindex currencyid networkid typ s =
     (case getToken header of
        Inl e \<Rightarrow> Inr (bad_reply e)
      | Inr token \<Rightarrow>
      (let (walletIndex, derivationPath) = wallet_param walletindex in
       case int_param msgErrDecodeCurIndexErr currencyid of
         Inl e \<Rightarrow> Inr (bad_reply e)
       | Inr currencyId \<Rightarrow>
      (case int_param msgErrDecodeNetworkIDErr networkid of
         Inl e \<Rightarrow> Inr (wallet_reply StatusBadRequest StatusBadRequest e [])
       | Inr networkId \<Rightarrow>
      (case type_param typ of
         Inl e \<Rightarrow> Inr (wallet_reply StatusBadRequest StatusBadRequest e [])
       | Inr assetType \<Rightarrow>
           (let user = user_or_zero M token (rs_db s) in
            if currencyId = Bitcoin then Inr (btc_verbose M user currencyId networkId walletIndex s)
            else if currencyId = Ether then
              if assetType = AssetTypeImportedAddress \<and> derivationPath \<noteq> []
              then eth_verbose E now networkId (find_imported currencyId networkId derivationPath user)
              else if assetType = AssetTypeMultisig \<and> derivationPath \<noteq> []
              then Inr (multisig_view E now networkId (find_own_multisig currencyId networkId derivationPath user))
              else if assetType = AssetTypeMultyAddress
              then eth_verbose E now networkId (find_wallet currencyId networkId walletIndex user)
              else Inr (wallet_reply StatusOK StatusOK ''OK'' [])
            else Inr (bad_reply msgErrChainIsNotImplemented))))))"

section \<open>The view of all wallets\<close>

record TopIndex =
  ti_CurrencyID :: int
  ti_NetworkID :: int
  ti_TopIndex :: int

text \<open>\<open>ord\<close> is the order in which the run goes through the map of chains.\<close>

definition chain_counts :: "Wallet list \<Rightarrow> ((int \<times> int) \<times> int) list" where
  "chain_counts wallets =
     fold (\<lambda>w top. AList.update (wal_CurrencyID w, wal_NetworkID w)
             ((case map_of top (wal_CurrencyID w, wal_NetworkID w) of None \<Rightarrow> 0 | Some n \<Rightarrow> n) + 1) top)
       wallets []"

definition findTopIndexes ::
  "(((int \<times> int) \<times> int) list \<Rightarrow> ((int \<times> int) \<times> int) list) \<Rightarrow> Wallet list \<Rightarrow> TopIndex list" where
  "findTopIndexes ord wallets =
     map (\<lambda>((c, n), maxIndex). \<lparr>ti_CurrencyID = c, ti_NetworkID = n, ti_TopIndex = maxIndex\<rparr>) (ord (chain_counts wallets))"

definition fetchUndeletedWallets :: "Wallet list \<Rightarrow> Wallet list" where
  "fetchUndeletedWallets wallets = filter (\<lambda>w. wal_Status w = WalletStatusOK) wallets"

record all_wallets =
  aw_wallets :: "wallet_view list"
  aw_topindexes :: "TopIndex list"

definition mempool_tx_of :: "string \<Rightarrow> MultyTX \<Rightarrow> bool" where
  "mempool_tx_of address tx \<longleftrightarrow>
     (case mtx_TxAddress tx of [] \<Rightarrow> False | a # _ \<Rightarrow> a = address) \<and>
     (mtx_TxStatus tx = TxStatusAppearedInMempoolIncoming \<or> mtx_TxStatus tx = TxStatusAppearedInMempoolOutcoming)"

text \<open>The transactions are read anew for every address; an error of that is dropped.\<close>

definition btc_pending :: "mongo \<Rightarrow> string \<Rightarrow> int \<Rightarrow> int \<Rightarrow> db \<Rightarrow> Address list \<Rightarrow> bool" where
  "btc_pending M userid c n d addresses \<longleftrightarrow>
     list_ex (\<lambda>address. list_ex (mempool_tx_of (adr_Address address)) (fst (GetAllWalletTransactions M userid c n d)))
       addresses"

text \<open>\<open>Inl\<close> is a reply written before the end of the loop.\<close>

fun wallet_views ::
  "mongo \<Rightarrow> eth_node \<Rightarrow> string \<Rightarrow> rest_state \<Rightarrow> Wallet list \<Rightarrow> wallet_view list \<Rightarrow>
   wallet_view list + wallet_view list" where
  "wallet_views M E userid s [] wv = Inr wv"
| "wallet_views M E userid s (wallet # wallets) wv =
     (if wal_CurrencyID wallet = Bitcoin then
        wallet_views M E userid s wallets (wv @
          [BtcView (btc_wallet_view M (wal_CurrencyID wallet) (wal_NetworkID wallet) s wallet
             (btc_pending M userid (wal_CurrencyID wallet) (wal_NetworkID wallet) (rs_db s) (wal_Adresses wallet))
             (list_ex (\<lambda>a. adr_Address a \<in> set (rs_resync s)) (wal_Adresses wallet)))])
      else if wal_CurrencyID wallet = Ether then
        (case (wal_Adresses wallet = [], eth_chan (wal_NetworkID wallet)) of
           (True, _) \<Rightarrow> wallet_views M E userid s wallets (wv @ [EthView (eth_wallet_view wallet no_acc)])
         | (False, None) \<Rightarrow> Inl wv
         | (False, Some ch) \<Rightarrow>
             wallet_views M E userid s wallets
               (wv @ [EthView (eth_wallet_view wallet (eth_views E ch (wal_Adresses wallet)))]))
      else wallet_views M E userid s wallets wv)"

text \<open>A stored transaction without a multisig part is dereferenced.\<close>

fun have_request :: "int \<Rightarrow> TransactionETH list \<Rightarrow> panic + bool" where
  "have_request confirmations [] = Inr False"
| "have_request confirmations (tx # txs) =
     (case etx_Multisig tx of
        None \<Rightarrow> Inl NilDereference
      | Some m \<Rightarrow>
          if mst_MethodInvoked m = SubmitTransaction \<and> \<not> mst_Confirmed m \<and>
             int (length (filter (\<lambda>oh. oh_ConfirmationStatus oh = MultisigOwnerStatusConfirmed) (mst_Owners m)))
               < confirmations
          then Inr True else have_request confirmations txs)"

fun multisig_views ::
  "mongo \<Rightarrow> eth_node \<Rightarrow> int \<Rightarrow> db \<Rightarrow> Multisig list \<Rightarrow> wallet_view list \<Rightarrow>
   panic + (wallet_view list + wallet_view list)" where
  "multisig_views M E now d [] wv = Inr (Inr wv)"
| "multisig_views M E now d (multisig # multisigs) wv =
     (if ms_ContractAddress multisig \<noteq> [] \<and> eth_chan (ms_NetworkID multisig) = None then Inr (Inl wv)
      else bind_p (have_request (ms_Confirmations multisig)
             (fst (GetAllMultisigEthTransactions M (ms_ContractAddress multisig) (ms_CurrencyID multisig)
                     (ms_NetworkID multisig) d)))
        (\<lambda>request. multisig_views M E now d multisigs
           (wv @ [EthView (eth_multisig_view E now (eth_chan (ms_NetworkID multisig)) multisig request)])))"

definition not_implemented_reply :: "wallet_view list \<Rightarrow> all_wallets http_reply" where
  "not_implemented_reply wv =
     reply_with StatusBadRequest StatusBadRequest msgErrMethodNotImplennted \<lparr>aw_wallets = wv, aw_topindexes = []\<rparr>"

text \<open>
  The replies written, and the user unless the handler stops: the error of the look-up is held in a
  variable of the inner block, and the one returned is that of the token.
\<close>

definition GetUserByContext :: "mongo \<Rightarrow> string \<Rightarrow> db \<Rightarrow> all_wallets http_reply list \<times> User option" where
  "GetUserByContext M header d =
     (case getToken header of
        Inl e \<Rightarrow> ([bad_reply e], None)
      | Inr token \<Rightarrow>
          (case FindUser M (by_jwt token) d of
             Inl e \<Rightarrow>
               ([reply_with StatusUnauthorized StatusUnauthorized msgErrUserNotFound \<lparr>aw_wallets = [], aw_topindexes = []\<rparr>],
                Some zero_user)
           | Inr user \<Rightarrow> ([], Some user)))"

definition getAllWalletsVerbose ::
  "mongo \<Rightarrow> eth_node \<Rightarrow> (((int \<times> int) \<times> int) list \<Rightarrow> ((int \<times> int) \<times> int) list) \<Rightarrow> int \<Rightarrow> string \<Rightarrow> rest_state \<Rightarrow>
   panic + all_wallets http_reply list" where
  "getAllWalletsVerbose M E ord now header s =
     (case GetUserByContext M header (rs_db s) of
        (written, None) \<Rightarrow> Inr written
      | (written, Some user) \<Rightarrow>
          (case wallet_views M E (usr_UserID user) s (fetchUndeletedWallets (usr_Wallets user)) [] of
             Inl wv \<Rightarrow> Inr (written @ [not_implemented_reply wv])
           | Inr wv \<Rightarrow>
               bind_p (multisig_views M E now (rs_db s) (usr_Multisigs user) wv)
                 (\<lambda>r. Inr (written @
                    [case r of
                       Inl wv \<Rightarrow> not_implemented_reply wv
                     | Inr wv \<Rightarrow> reply_with StatusOK StatusOK ''OK''
                         \<lparr>aw_wallets = wv, aw_topindexes = findTopIndexes ord (usr_Wallets user)\<rparr>]))))"

end
