(* ===== verification/History.thy ===== *)
theory History
  imports Views
begin

text \<open>
  Transaction histories (\<open>client/rest.go\<close>, \<open>getWalletTransactionsHistory\<close>).
  \<open>height\<close> is the answer of a node about its block height, \<open>None\<close> when the call fails.
  Confirmations are computed in 64-bit arithmetic.
\<close>

datatype history = BtcHistory "MultyTX list" | EthHistory "TransactionETH list"

definition history_ok :: "history \<Rightarrow> history http_reply" where
  "history_ok h = reply_with StatusOK StatusOK ''OK'' h"

definition history_failed :: "history http_reply" where
  "history_failed = reply_with StatusBadRequest StatusBadRequest msgErrTxHistory (BtcHistory [])"

definition height_failed :: "history http_reply" where
  "height_failed = reply StatusInternalServerError StatusInternalServerError ''Internal Server Error''"

definition depth :: "int \<Rightarrow> int \<Rightarrow> int" where
  "depth blockHeight txHeight = wrap64 (wrap64 (blockHeight - txHeight) + 1)"

section \<open>Bitcoin\<close>

text \<open>The addresses of every wallet with the index, on any chain.\<close>

definition wallet_addresses :: "int \<Rightarrow> User \<Rightarrow> string list" where
  "wallet_addresses walletIndex user =
     concat (map (\<lambda>w. if wal_WalletIndex w = walletIndex then map adr_Address (wal_Adresses w) else [])
       (usr_Wallets user))"

definition of_wallet :: "int \<Rightarrow> MultyTX \<Rightarrow> bool" where
  "of_wallet walletIndex tx \<longleftrightarrow>
     list_ex (\<lambda>i. wft_WalletIndex i = walletIndex) (mtx_WalletsInput tx) \<or>
     list_ex (\<lambda>out. wft_WalletIndex out = walletIndex) (mtx_WalletsOutput tx)"

definition first_tx_address :: "string \<Rightarrow> MultyTX \<Rightarrow> bool" where
  "first_tx_address address tx \<longleftrightarrow> (case mtx_TxAddress tx of [] \<Rightarrow> False | a # _ \<Rightarrow> a = address)"

definition btc_wallet_txs :: "int \<Rightarrow> User \<Rightarrow> MultyTX list \<Rightarrow> MultyTX list" where
  "btc_wallet_txs walletIndex user userTxs =
     concat (map (\<lambda>address. filter (\<lambda>tx. first_tx_address address tx \<and> of_wallet walletIndex tx) userTxs)
       (wallet_addresses walletIndex user))"

definition btc_confirmed :: "int \<Rightarrow> MultyTX \<Rightarrow> MultyTX" where
  "btc_confirmed blockHeight tx =
     tx\<lparr>mtx_Confirmations := (if mtx_BlockHeight tx = - 1 then 0 else depth blockHeight (mtx_BlockHeight tx))\<rparr>"

definition btc_history ::
  "mongo \<Rightarrow> (watch_chan \<Rightarrow> int option) \<Rightarrow> User \<Rightarrow> int \<Rightarrow> int \<Rightarrow> int \<Rightarrow> db \<Rightarrow> history http_reply" where
  "btc_history M height user currencyId networkid walletIndex d =
     (case (if networkid = Test_net then height BtcTest else if networkid = Main_net then height BtcMain else Some 0) of
        None \<Rightarrow> height_failed
      | Some blockHeight \<Rightarrow>
          (case GetAllWalletTransactions M (usr_UserID user) currencyId networkid d of
             (_, Some e) \<Rightarrow> history_failed
           | (userTxs, None) \<Rightarrow>
               history_ok (BtcHistory (map (btc_confirmed blockHeight) (btc_wallet_txs walletIndex user userTxs)))))"

section \<open>Ethereum\<close>

definition confirmed_by_time :: "int \<Rightarrow> TransactionETH \<Rightarrow> TransactionETH" where
  "confirmed_by_time blockHeight tx =
     tx\<lparr>etx_Confirmations := (if etx_BlockTime tx = 0 then 0 else depth blockHeight (etx_BlockHeight tx))\<rparr>"

definition confirmed_by_height :: "int \<Rightarrow> TransactionETH \<Rightarrow> TransactionETH" where
  "confirmed_by_height blockHeight tx =
     tx\<lparr>etx_Confirmations := (if etx_BlockHeight tx = - 1 then 0 else depth blockHeight (etx_BlockHeight tx))\<rparr>"

definition without_multisig :: "TransactionETH \<Rightarrow> TransactionETH" where
  "without_multisig tx = tx\<lparr>etx_Multisig := None\<rparr>"

definition own_history :: "int \<Rightarrow> int \<Rightarrow> TransactionETH list \<Rightarrow> TransactionETH list" where
  "own_history blockHeight walletIndex userTxs =
     filter (\<lambda>tx. etx_WalletIndex tx = walletIndex) (map (without_multisig \<circ> confirmed_by_time blockHeight) userTxs)"

definition imported_history :: "int \<Rightarrow> TransactionETH list \<Rightarrow> TransactionETH list" where
  "imported_history blockHeight userTxs = map (without_multisig \<circ> confirmed_by_height blockHeight) userTxs"

definition multisig_entry :: "string \<Rightarrow> TransactionETH \<Rightarrow> MultisigTx \<Rightarrow> TransactionETH list" where
  "multisig_entry address tx m =
     (if mst_MethodInvoked m = ''0xc6427474'' \<and> mst_Contract m = address
      then (if etx_IsInternal tx then [without_multisig tx] else [tx]) else []) @
     (if mst_MethodInvoked m = ''0x'' then [without_multisig tx] else [])"

fun multisig_history :: "int \<Rightarrow> string \<Rightarrow> TransactionETH list \<Rightarrow> panic + TransactionETH list" where
  "multisig_history blockHeight address [] = Inr []"
| "multisig_history blockHeight address (tx # txs) =
     (case etx_Multisig tx of
        None \<Rightarrow> Inl NilDereference
      | Some m \<Rightarrow>
          bind_p (multisig_history blockHeight address txs) (\<lambda>h.
            Inr (multisig_entry address (confirmed_by_time blockHeight tx) m @ h)))"

text \<open>\<open>None\<close>: none of the cases applies and nothing is written.\<close>

definition eth_history ::
  "mongo \<Rightarrow> (watch_chan \<Rightarrow> int option) \<Rightarrow> User \<Rightarrow> int \<Rightarrow> int \<Rightarrow> int \<Rightarrow> int \<Rightarrow> string \<Rightarrow> db \<Rightarrow>
   panic + history http_reply option" where
  "eth_history M height user assetType currencyId networkid walletIndex derivationPath d =
     (case (case eth_chan networkid of Some ch \<Rightarrow> height ch | None \<Rightarrow> Some 0) of
        None \<Rightarrow> Inr (Some height_failed)
      | Some blockHeight \<Rightarrow>
          if assetType = AssetTypeMultyAddress then
            (case GetAllWalletEthTransactions M (usr_UserID user) currencyId networkid d of
               (_, Some e) \<Rightarrow> Inr (Some history_failed)
             | (userTxs, None) \<Rightarrow> Inr (Some (history_ok (EthHistory (own_history blockHeight walletIndex userTxs)))))
          else if assetType = AssetTypeImportedAddress \<and> derivationPath \<noteq> [] then
            (case GetAllAddressTransactions M derivationPath currencyId networkid d of
               (_, Some e) \<Rightarrow> Inr (Some history_failed)
             | (userTxs, None) \<Rightarrow> Inr (Some (history_ok (EthHistory (imported_history blockHeight userTxs)))))
          else if assetType = AssetTypeMultisig \<and> derivationPath \<noteq> [] then
            (case GetAllMultisigEthTransactions M derivationPath currencyId networkid d of
               (_, Some e) \<Rightarrow> Inr (Some history_failed)
             | (userTxs, None) \<Rightarrow>
                 bind_p (multisig_history blockHeight derivationPath userTxs)
                   (\<lambda>h. Inr (Some (history_ok (EthHistory h)))))
          else Inr None)"

section \<open>The handler\<close>

definition getWalletTransactionsHistory ::
  "mongo \<Rightarrow> (watch_chan \<Rightarrow> int option) \<Rightarrow> string \<Rightarrow> string \<Rightarrow> string \<Rightarrow> string \<Rightarrow> string \<Rightarrow> db \<Rightarrow>
   panic + history http_reply option" where
  "getWalletTransactionsHistory M height header walletindex currencyid networkid typ d =
     (case getToken header of
        Inl e \<Rightarrow> Inr (Some (bad_reply e))
      | Inr token \<Rightarrow>
      (let (walletIndex, derivationPath) = wallet_param walletindex in
       case int_param msgErrDecodeCurIndexErr currencyid of
         Inl e \<Rightarrow> Inr (Some (bad_reply e))
       | Inr currencyId \<Rightarrow>
      (case int_param msgErrDecodenetworkidErr networkid of
         Inl e \<Rightarrow> Inr (Some (bad_reply e))
       | Inr networkid \<Rightarrow>
      (case type_param typ of
         Inl e \<Rightarrow> Inr (Some (bad_reply e))
       | Inr assetType \<Rightarrow>
      (case FindUser M (by_jwt token) d of
         Inl e \<Rightarrow> Inr (Some (reply_with StatusUnauthorized StatusUnauthorized msgErrUserNotFound (BtcHistory [])))
       | Inr user \<Rightarrow>
           if currencyId = Bitcoin then Inr (Some (btc_history M height user currencyId networkid walletIndex d))
           else if currencyId = Ether then
             eth_history M height user assetType currencyId networkid walletIndex derivationPath d
           else Inr (Some (reply_with StatusBadRequest StatusBadRequest msgErrChainIsNotImplemented (BtcHistory []))))))))"

end
