(* ===== verification/Views_Facts.thy ===== *)
theory Views_Facts
  imports History Wallet_Facts Btc_Facts "HOL-Library.Multiset"
begin

text \<open>
  What the views and the histories show: the counts of \<open>findTopIndexes\<close>, the replies for an unknown
  token, whose transactions a history holds.
\<close>

section \<open>The counts of wallets\<close>

definition chain_of :: "Wallet \<Rightarrow> int \<times> int" where
  "chain_of w = (wal_CurrencyID w, wal_NetworkID w)"

definition on_chain :: "int \<times> int \<Rightarrow> Wallet list \<Rightarrow> int" where
  "on_chain c ws = int (length (filter (\<lambda>w. chain_of w = c) ws))"

lemma chain_counts_snoc:
  "chain_counts (ws @ [w]) = AList.update (chain_of w)
     ((case map_of (chain_counts ws) (chain_of w) of None \<Rightarrow> 0 | Some n \<Rightarrow> n) + 1) (chain_counts ws)"
  by (simp add: chain_counts_def chain_of_def)

lemma chain_counts_map:
  "map_of (chain_counts ws) c = (if c \<in> chain_of ` set ws then Some (on_chain c ws) else None)"
proof (induction ws arbitrary: c rule: rev_induct)
  case Nil
  then show ?case by (simp add: chain_counts_def)
next
  case (snoc w ws)
  have "on_chain c ws = 0" if "c \<notin> chain_of ` set ws"
    using that by (auto simp: on_chain_def filter_empty_conv)
  then show ?case
    by (cases "c = chain_of w") (auto simp: chain_counts_snoc update_conv snoc.IH on_chain_def)
qed

lemma chain_counts_distinct: "distinct (map fst (chain_counts ws))"
  by (induction ws rule: rev_induct) (simp_all add: chain_counts_snoc distinct_update, simp add: chain_counts_def)

lemma chain_counts_set: "set (chain_counts ws) = (\<lambda>c. (c, on_chain c ws)) ` chain_of ` set ws"
proof -
  have "(c, n) \<in> set (chain_counts ws) \<longleftrightarrow> c \<in> chain_of ` set ws \<and> n = on_chain c ws" for c n
    using chain_counts_map [of ws c] by (auto simp flip: map_of_eq_Some_iff [OF chain_counts_distinct])
  then show ?thesis by (auto simp: image_iff)
qed

text \<open>
  In whatever order the run goes through the map, the top indexes hold one entry for each chain
  the user has a wallet on, with the number of the wallets on it, the deleted ones included.
\<close>

theorem findTopIndexes_counts:
  assumes "\<And>l. mset (ord l) = mset l"
  shows "mset (findTopIndexes ord ws) =
    image_mset (\<lambda>c. \<lparr>ti_CurrencyID = fst c, ti_NetworkID = snd c, ti_TopIndex = on_chain c ws\<rparr>)
      (mset_set (chain_of ` set ws))"
proof -
  have "mset (chain_counts ws) = mset_set ((\<lambda>c. (c, on_chain c ws)) ` chain_of ` set ws)"
    using mset_set_set [of "chain_counts ws"] chain_counts_distinct [of ws] by (simp add: chain_counts_set distinct_map)
  also have "\<dots> = image_mset (\<lambda>c. (c, on_chain c ws)) (mset_set (chain_of ` set ws))"
    by (rule image_mset_mset_set [symmetric]) (auto intro: inj_onI)
  finally show ?thesis
    by (simp add: findTopIndexes_def assms image_mset.compositionality comp_def case_prod_beta)
qed

theorem findTopIndexes_counts_witness:
  "findTopIndexes rev [ex_wallet 0 0 1 ''a'', ex_wallet 60 4 0 ''b'', ex_wallet 0 0 2 ''c''] =
     [\<lparr>ti_CurrencyID = 60, ti_NetworkID = 4, ti_TopIndex = 1\<rparr>, \<lparr>ti_CurrencyID = 0, ti_NetworkID = 0, ti_TopIndex = 2\<rparr>] \<and>
   size (mset (findTopIndexes rev [ex_wallet 0 0 1 ''a'', ex_wallet 60 4 0 ''b'', ex_wallet 0 0 2 ''c''])) = 2"
  unfolding findTopIndexes_counts [of rev, OF mset_rev]
  by (simp add: findTopIndexes_def chain_counts_def ex_wallet_def chain_of_def card_insert_if)

section \<open>Whose transactions a history holds\<close>

fun history_of :: "string \<Rightarrow> int \<Rightarrow> history \<Rightarrow> bool" where
  "history_of userid walletIndex (BtcHistory txs) =
     list_all (\<lambda>tx. mtx_UserId tx = userid \<and> of_wallet walletIndex tx) txs"
| "history_of userid walletIndex (EthHistory txs) =
     list_all (\<lambda>tx. etx_UserID tx = userid \<and> etx_WalletIndex tx = walletIndex \<and> etx_Multisig tx = None) txs"

context faulty_coll
begin

lemma all_res_sound: "all_res ops q c = (xs, None) \<Longrightarrow> x \<in> set xs \<Longrightarrow> x \<in> set c \<and> q x"
  using all_law [of q c] by (auto simp: all_res_def is_db_error_def split: sum.splits)

end

context mongo_srv
begin

lemma wallet_txs_own:
  "GetAllWalletTransactions M uid c n d = (xs, None) \<Longrightarrow> tx \<in> set xs \<Longrightarrow> mtx_UserId tx = uid"
  by (auto simp: GetAllWalletTransactions_def split: if_splits dest: btc.all_res_sound)

lemma eth_txs_own:
  "GetAllWalletEthTransactions M uid c n d = (xs, None) \<Longrightarrow> tx \<in> set xs \<Longrightarrow> etx_UserID tx = uid"
  by (auto simp: GetAllWalletEthTransactions_def split: if_splits dest: eth.all_res_sound)

lemma btc_history_own:
  assumes "hr_data (btc_history M height user c n walletIndex d) = Some h"
  shows "history_of (usr_UserID user) walletIndex h"
proof -
  have "history_of (usr_UserID user) walletIndex (BtcHistory (map (btc_confirmed bh) (btc_wallet_txs walletIndex user xs)))"
    if "GetAllWalletTransactions M (usr_UserID user) c n d = (xs, None)" for xs bh
    using wallet_txs_own [OF that]
    by (auto simp: btc_wallet_txs_def list_all_iff btc_confirmed_def of_wallet_def)
  with assms show ?thesis
    by (auto simp: btc_history_def height_failed_def history_failed_def history_ok_def reply_defs
        split: option.splits prod.splits)
qed

lemma eth_history_own:
  assumes "eth_history M height user AssetTypeMultyAddress c n walletIndex p d = Inr (Some r)" "hr_data r = Some h"
  shows "history_of (usr_UserID user) walletIndex h"
proof -
  have "history_of (usr_UserID user) walletIndex (EthHistory (own_history bh walletIndex xs))"
    if "GetAllWalletEthTransactions M (usr_UserID user) c n d = (xs, None)" for xs bh
    using eth_txs_own [OF that]
    by (auto simp: own_history_def list_all_iff confirmed_by_time_def without_multisig_def)
  with assms show ?thesis
    by (auto simp: eth_history_def height_failed_def history_failed_def history_ok_def reply_defs
        split: option.splits prod.splits)
qed

end

text \<open>
  C31: the history of a user's own wallet holds transactions of that user only, each with the wallet
  index asked for, and no multisig details, whatever the database and the nodes answer.
\<close>

theorem own_history_only:
  assumes "mongo_srv M" "getToken header = Inr token" "FindUser M (by_jwt token) d = Inr user"
    and "type_param typ = Inr AssetTypeMultyAddress" "wallet_param w = (walletIndex, p)"
    and "getWalletTransactionsHistory M height header w c n typ d = Inr (Some r)" "hr_data r = Some h"
  shows "history_of (usr_UserID user) walletIndex h"
  using assms mongo_srv.btc_history_own [OF assms(1)] mongo_srv.eth_history_own [OF assms(1)]
  by (auto simp: getWalletTransactionsHistory_def bad_reply_def reply_defs split: sum.splits if_splits)

lemma ex_atoi: "Atoi ''0'' = (0, None)" "Atoi ''1'' = (1, None)" "Atoi ''60'' = (60, None)"
  by (simp_all add: go_simps)

definition ex_history_db :: db where
  "ex_history_db = ex_db\<lparr>db_btcTest := [ex_tx, ex_tx\<lparr>mtx_UserId := ''u2''\<rparr>]\<rparr>"

theorem own_history_only_witness:
  "history_of ''u1'' 1 (BtcHistory [ex_tx\<lparr>mtx_Confirmations := 11\<rparr>])"
proof -
  have u: "FindUser ref_mongo (by_jwt ''jwt'') ex_history_db = Inr ex_user"
    by (simp add: FindUser_def ref_simps doc_one_def ex_history_db_def ex_defs by_jwt_def)
  have p: "wallet_param ''1'' = (1, [])" "type_param [] = Inr AssetTypeMultyAddress"
    by (simp_all add: wallet_param_def type_param_def ex_atoi)
  have "getWalletTransactionsHistory ref_mongo (\<lambda>ch. Some 10) ''Bearer jwt'' ''1'' ''0'' ''1'' [] ex_history_db =
      Inr (Some (history_ok (BtcHistory [ex_tx\<lparr>mtx_Confirmations := 11\<rparr>])))"
    using u p ex_token
    by (simp add: getWalletTransactionsHistory_def int_param_def ex_atoi Bitcoin_def Test_net_def Main_net_def
        btc_history_def GetAllWalletTransactions_def all_res_def ref_simps ex_history_db_def ex_tx_def
        btc_wallet_txs_def wallet_addresses_def ex_user_def ex_wallet_def first_tx_address_def of_wallet_def
        btc_confirmed_def depth_def wrap64_def)
  from own_history_only [OF refm.mongo_srv_axioms ex_token u p(2,1) this] show ?thesis
    by (simp add: history_ok_def reply_defs ex_user_def)
qed

text \<open>
  The history of an imported address or of a multisig contract does not depend on who asks: any
  logged-in user is given the transactions of any address and of any contract, multisig details included.
\<close>

theorem history_for_anyone:
  assumes "getToken h1 = Inr t1" "FindUser M (by_jwt t1) d = Inr u1"
    and "getToken h2 = Inr t2" "FindUser M (by_jwt t2) d = Inr u2"
    and "Atoi currencyid = (Ether, None)" "type_param typ = Inr assetType" "assetType \<noteq> AssetTypeMultyAddress"
  shows "getWalletTransactionsHistory M height h1 w currencyid n typ d = getWalletTransactionsHistory M height h2 w currencyid n typ d"
proof -
  have "eth_history M height u1 assetType Ether i k p d = eth_history M height u2 assetType Ether i k p d" for i k p
    using assms(7) by (simp add: eth_history_def cong: option.case_cong)
  then show ?thesis
    using assms(1-6) by (cases "wallet_param w"; cases "int_param msgErrDecodenetworkidErr n")
      (simp_all add: getWalletTransactionsHistory_def int_param_def [of msgErrDecodeCurIndexErr] Ether_def Bitcoin_def)
qed

definition ex_user3 :: User where
  "ex_user3 = ex_user2\<lparr>usr_UserID := ''u3'', usr_Multisigs := [], usr_Devices := [createDevice 0 ''d3'' [] ''jwt3'' [] [] 1]\<rparr>"

theorem history_for_anyone_witness:
  "getWalletTransactionsHistory ref_mongo (\<lambda>ch. Some 10) ''Bearer jwt3'' ''contract'' ''60'' ''1'' ''/1''
     (ex_db\<lparr>db_users := [ex_user, ex_user3]\<rparr>) = Inr (Some (history_ok (EthHistory [ex_multisig_tx])))"
proof -
  let ?d = "ex_db\<lparr>db_users := [ex_user, ex_user3]\<rparr>"
  have u: "FindUser ref_mongo (by_jwt ''jwt'') ?d = Inr ex_user" "FindUser ref_mongo (by_jwt ''jwt3'') ?d = Inr ex_user3"
    by (simp_all add: FindUser_def ref_simps doc_one_def ex_defs ex_user3_def createDevice_def by_jwt_def)
  have t: "getToken ''Bearer jwt3'' = Inr ''jwt3''" by (simp add: getToken_def)
  have p: "wallet_param ''contract'' = (0, ''contract'')" "type_param ''/1'' = Inr AssetTypeMultisig"
    by (simp_all add: wallet_param_def type_param_def go_simps asset_type_defs)
  have e: "Atoi ''60'' = (Ether, None)" by (simp add: ex_atoi Ether_def)
  have "getWalletTransactionsHistory ref_mongo (\<lambda>ch. Some 10) ''Bearer jwt'' ''contract'' ''60'' ''1'' ''/1'' ?d =
      Inr (Some (history_ok (EthHistory [ex_multisig_tx])))"
    using u(1) p ex_token
    by (simp add: getWalletTransactionsHistory_def int_param_def e ex_atoi, simp add: eth_history_def asset_type_defs
        GetAllMultisigEthTransactions_def all_res_def ref_simps ex_db_def empty_db_def ex_multisig_tx_def eth_chan_def
        ETHMain_def ETHTest_def Ether_def Bitcoin_def to_or_from_def SubmitTransaction_def confirmed_by_time_def multisig_entry_def)
  with history_for_anyone [OF ex_token u(1) t u(2) e p(2)] show ?thesis by (simp add: asset_type_defs)
qed

end
