(* ===== verification/Sockets.thy ===== *)
theory Sockets
  imports Multisig_Ws
begin

text \<open>
  The connections of the socket server (\<open>client/socketio-client.go\<close> and the first part of
  \<open>client/socket-io.go\<close>): the pool with its lock, one routine per user that closes connections, and the
  wireless receivers. A pointer to a user is its position in the list of the users made so far; the
  channel \<open>closeCh\<close> is unbuffered, so a sender holds the pool's lock until the routine of the user
  receives. Closing a connection runs the handler of a disconnection, which needs the lock of the pool, unless
  the connection is closed already (\<open>closeChannel\<close> of the socket library); meanwhile the library holds a
  lock of the connection, for which every other \<open>Close\<close> waits. What is emitted on a connection does
  not block. The steps of the routines and of the handlers interleave; the map of connections of a user is
  changed by both without a lock, one operation at a time.
\<close>

section \<open>Users of the pool\<close>

datatype routine = Looping | Closing string | Removing | Finished

record SocketIOUser =
  su_userID :: string
  su_deviceType :: string
  su_jwtToken :: string
  su_conns :: "string list"
  su_routine :: routine

text \<open>
  A connection of the library: open; being closed, its handler waiting for the lock of the pool; its handler
  sending to the routine of the user; closed.
\<close>

datatype channel = Alive | Ending | Sending | Dead

record SocketIOConnectedPool =
  po_users :: "string \<Rightarrow> nat option"
  po_closeChByConnID :: "string \<Rightarrow> nat option"
  po_made :: "SocketIOUser list"
  po_m :: "(string \<times> nat) option"
  po_chan :: "string \<Rightarrow> channel"

definition InitConnectedPool :: SocketIOConnectedPool where
  "InitConnectedPool = \<lparr>po_users = (\<lambda>u. None), po_closeChByConnID = (\<lambda>c. None), po_made = [], po_m = None,
     po_chan = (\<lambda>c. Alive)\<rparr>"

definition getHeaderDataSocketIO :: "(string \<Rightarrow> string) \<Rightarrow> string + SocketIOUser" where
  "getHeaderDataSocketIO headers =
     (if headers ''userID'' = [] then Inl ''wrong userID header''
      else if headers ''deviceType'' = [] then Inl ''wrong deviceType header''
      else if headers ''jwtToken'' = [] then Inl ''wrong jwtToken header''
      else Inr \<lparr>su_userID = headers ''userID'', su_deviceType = headers ''deviceType'',
             su_jwtToken = headers ''jwtToken'', su_conns = [], su_routine = Looping\<rparr>)"

definition newSocketIOUser :: "string \<Rightarrow> SocketIOUser \<Rightarrow> SocketIOUser" where
  "newSocketIOUser connID newUser = newUser\<lparr>su_conns := [connID], su_routine := Looping\<rparr>"

definition at_user :: "nat \<Rightarrow> (SocketIOUser \<Rightarrow> SocketIOUser) \<Rightarrow> SocketIOConnectedPool \<Rightarrow> SocketIOConnectedPool" where
  "at_user n f p = p\<lparr>po_made := (po_made p)[n := f (po_made p ! n)]\<rparr>"

definition add_conn :: "string \<Rightarrow> SocketIOUser \<Rightarrow> SocketIOUser" where
  "add_conn c u = u\<lparr>su_conns := List.insert c (su_conns u)\<rparr>"

text \<open>The handler of a new connection, with the lock of the pool.\<close>

definition OnConnection :: "(string \<Rightarrow> string) \<Rightarrow> string \<Rightarrow> SocketIOConnectedPool \<Rightarrow> SocketIOConnectedPool" where
  "OnConnection headers c p =
     (case getHeaderDataSocketIO headers of
        Inl err \<Rightarrow> p
      | Inr user \<Rightarrow>
          (case po_users p (su_userID user) of
             None \<Rightarrow>
               p\<lparr>po_made := po_made p @ [newSocketIOUser c user],
                 po_users := (po_users p)(su_userID user \<mapsto> length (po_made p)),
                 po_closeChByConnID := (po_closeChByConnID p)(c \<mapsto> length (po_made p))\<rparr>
           | Some n \<Rightarrow>
               at_user n (add_conn c) p\<lparr>po_closeChByConnID := (po_closeChByConnID p)(c \<mapsto> n)\<rparr>))"

text \<open>\<open>removeUserConn\<close> up to the send, which waits with the lock held.\<close>

definition removeUserConn :: "string \<Rightarrow> SocketIOConnectedPool \<Rightarrow> SocketIOConnectedPool" where
  "removeUserConn connID p =
     (case po_closeChByConnID p connID of
        None \<Rightarrow> p
      | Some n \<Rightarrow> p\<lparr>po_closeChByConnID := (po_closeChByConnID p)(connID := None), po_m := Some (connID, n)\<rparr>)"

text \<open>
  Closing a connection: nothing happens to one that is closed or being closed, and otherwise the handler of
  the disconnection is to run. It ends at once if there is nothing to send, and else when the routine has received.
\<close>

definition closeChannel :: "string \<Rightarrow> SocketIOConnectedPool \<Rightarrow> SocketIOConnectedPool" where
  "closeChannel c p = (if po_chan p c = Alive then p\<lparr>po_chan := (po_chan p)(c := Ending)\<rparr> else p)"

definition end_channel :: "string \<Rightarrow> SocketIOConnectedPool \<Rightarrow> SocketIOConnectedPool" where
  "end_channel c p =
     (let q = removeUserConn c p
      in q\<lparr>po_chan := (po_chan q)(c := if po_m q = None then Dead else Sending)\<rparr>)"

definition receive :: "string \<Rightarrow> nat \<Rightarrow> SocketIOConnectedPool \<Rightarrow> SocketIOConnectedPool" where
  "receive c n p = at_user n (\<lambda>u. u\<lparr>su_routine := Closing c\<rparr>) p
     \<lparr>po_m := None, po_chan := if po_chan p c = Sending then (po_chan p)(c := Dead) else po_chan p\<rparr>"

definition removeUserFromPool :: "string \<Rightarrow> SocketIOConnectedPool \<Rightarrow> SocketIOConnectedPool" where
  "removeUserFromPool userID p = p\<lparr>po_users := (po_users p)(userID := None)\<rparr>"

text \<open>The routine after it has received a connection to close, and \<open>conn.Close()\<close> has returned.\<close>

definition close_conn :: "string \<Rightarrow> SocketIOUser \<Rightarrow> SocketIOUser" where
  "close_conn connID u =
     (if connID \<notin> set (su_conns u) then u\<lparr>su_routine := Looping\<rparr>
      else let conns = remove1 connID (su_conns u)
           in u\<lparr>su_conns := conns, su_routine := (if conns = [] then Removing else Looping)\<rparr>)"

definition finish :: "SocketIOUser \<Rightarrow> SocketIOUser" where
  "finish u = u\<lparr>su_routine := Finished\<rparr>"

definition leave :: "nat \<Rightarrow> SocketIOConnectedPool \<Rightarrow> SocketIOConnectedPool" where
  "leave n p = removeUserFromPool (su_userID (po_made p ! n)) (at_user n finish p)"

text \<open>
  What clients do: to connect, or to send the event of a connection on one that is open; and to send the
  event of a disconnection themselves, which runs the handler while the connection stays open.
\<close>

datatype client_event = Connection "string \<Rightarrow> string" string | Disconnection string

text \<open>
  One step of the pool: an event of a client; the end of a connection, noticed by the library, and its handler;
  and the steps of a user's routine (\<open>runUpdateExchange\<close>): to receive a connection, to call
  \<open>conn.Close()\<close>, to go on when the connection is closed, and to leave the pool.
  \<open>clients\<close> says which events the clients cause; the server takes every one.
\<close>

inductive pool_step ::
  "(client_event \<Rightarrow> SocketIOConnectedPool \<Rightarrow> bool) \<Rightarrow>
   SocketIOConnectedPool \<Rightarrow> SocketIOConnectedPool \<Rightarrow> bool" for clients where
  Connect: "po_m p = None \<Longrightarrow> clients (Connection headers c) p \<Longrightarrow> pool_step clients p (OnConnection headers c p)"
| Emitted: "po_m p = None \<Longrightarrow> clients (Disconnection c) p \<Longrightarrow> pool_step clients p (removeUserConn c p)"
| Hangup: "pool_step clients p (closeChannel c p)"
| Disconnect: "po_m p = None \<Longrightarrow> po_chan p c = Ending \<Longrightarrow> pool_step clients p (end_channel c p)"
| Receive: "po_m p = Some (c, n) \<Longrightarrow> n < length (po_made p) \<Longrightarrow> su_routine (po_made p ! n) = Looping \<Longrightarrow>
    pool_step clients p (receive c n p)"
| Shut: "n < length (po_made p) \<Longrightarrow> su_routine (po_made p ! n) = Closing c \<Longrightarrow> c \<in> set (su_conns (po_made p ! n)) \<Longrightarrow>
    pool_step clients p (closeChannel c p)"
| Close: "n < length (po_made p) \<Longrightarrow> su_routine (po_made p ! n) = Closing c \<Longrightarrow>
    c \<notin> set (su_conns (po_made p ! n)) \<or> po_chan p c = Dead \<Longrightarrow> pool_step clients p (at_user n (close_conn c) p)"
| Leave: "po_m p = None \<Longrightarrow> n < length (po_made p) \<Longrightarrow> su_routine (po_made p ! n) = Removing \<Longrightarrow>
    pool_step clients p (leave n p)"

text \<open>The connections of a user a transaction is notified on, with the lock of the pool.\<close>

definition sendTransactionNotify :: "string \<Rightarrow> SocketIOConnectedPool \<Rightarrow> string list" where
  "sendTransactionNotify userID p =
     (case po_users p userID of None \<Rightarrow> [] | Some n \<Rightarrow> su_conns (po_made p ! n))"

text \<open>The consumer of the queue: whether the message is done with, and the connections notified.\<close>

definition newConsumerBTCTransaction ::
  "(string \<Rightarrow> TransactionWithUserID option) \<Rightarrow> string \<Rightarrow> SocketIOConnectedPool \<Rightarrow> bool \<times> string list" where
  "newConsumerBTCTransaction unmarshal body p =
     (case unmarshal body of
        None \<Rightarrow> (False, [])
      | Some newTransactionWithUserID \<Rightarrow> (True, sendTransactionNotify (twu_UserID newTransactionWithUserID) p))"

definition topicExchangeGdax :: string where "topicExchangeGdax = ''exchangeGdax''"
definition topicExchangePoloniex :: string where "topicExchangePoloniex = ''exchangePoloniex''"

definition sendExchange :: "'r \<Rightarrow> 'r \<Rightarrow> string \<Rightarrow> (string \<times> string \<times> 'r) list" where
  "sendExchange gdaxRate poloniexRate conn = [(conn, topicExchangeGdax, gdaxRate), (conn, topicExchangePoloniex, poloniexRate)]"

text \<open>What the routine emits when its ticker fires.\<close>

definition tick :: "'r \<Rightarrow> 'r \<Rightarrow> SocketIOUser \<Rightarrow> (string \<times> string \<times> 'r) list" where
  "tick gdaxRate poloniexRate u = concat (map (sendExchange gdaxRate poloniexRate) (su_conns u))"

section \<open>Wireless receivers\<close>

record Receiver =
  rc_ID :: string
  rc_UserCode :: string
  rc_CurrencyID :: int
  rc_NetworkID :: int
  rc_Address :: string
  rc_Amount :: string
  rc_Socket :: string

text \<open>Both maps by user code. The list of senders of the code is never extended.\<close>

record wireless =
  wl_receivers :: "string \<Rightarrow> Receiver option"
  wl_startup :: "string \<Rightarrow> (string \<times> string) option"

definition no_receivers :: wireless where
  "no_receivers = \<lparr>wl_receivers = (\<lambda>c. None), wl_startup = (\<lambda>c. None)\<rparr>"

definition ReceiverOn :: "string \<Rightarrow> Receiver \<Rightarrow> wireless \<Rightarrow> wireless \<times> string" where
  "ReceiverOn c data w =
     (w\<lparr>wl_receivers := (wl_receivers w)(rc_UserCode data \<mapsto> data\<lparr>rc_Socket := c\<rparr>)\<rparr>, ''ok'')"

definition SenderCheck :: "string list \<Rightarrow> wireless \<Rightarrow> Receiver list" where
  "SenderCheck ids w = List.map_filter (wl_receivers w) ids"

definition StartupReceiverOn :: "string \<Rightarrow> string \<Rightarrow> string \<Rightarrow> wireless \<Rightarrow> wireless \<times> string" where
  "StartupReceiverOn c userID userCode w = (w\<lparr>wl_startup := (wl_startup w)(userCode \<mapsto> (userID, c))\<rparr>, ''ok'')"

definition StartupReceiversAvailable :: "mongo \<Rightarrow> string list \<Rightarrow> wireless \<Rightarrow> db \<Rightarrow> StartupReceiver list" where
  "StartupReceiversAvailable M ids w d =
     (let userIds = map fst (List.map_filter (wl_startup w) ids) in
      if userIds = [] then [] else fst (GetUsersReceiverAddressesByUserIds M userIds d))"

definition drop_socket :: "string \<Rightarrow> wireless \<Rightarrow> wireless" where
  "drop_socket c w =
     \<lparr>wl_receivers = (\<lambda>code. case wl_receivers w code of
        Some r \<Rightarrow> if rc_Socket r = c then None else Some r | None \<Rightarrow> None),
      wl_startup = (\<lambda>code. case wl_startup w code of
        Some (i, s) \<Rightarrow> if s = c then None else Some (i, s) | None \<Rightarrow> None)\<rparr>"

definition stopReceive :: "string \<Rightarrow> wireless \<Rightarrow> wireless \<times> string" where
  "stopReceive c w = (drop_socket c w, ''receiver:stop:ok'')"

definition stopSend :: string where "stopSend = ''sender:stop:ok''"

text \<open>The handler of a disconnection.\<close>

definition OnDisconnection ::
  "string \<Rightarrow> SocketIOConnectedPool \<times> wireless \<Rightarrow> SocketIOConnectedPool \<times> wireless" where
  "OnDisconnection c s = (removeUserConn c (fst s), drop_socket c (snd s))"

end
