(* ===== verification/Sockets_Facts.thy ===== *)
theory Sockets_Facts
  imports Sockets Store_Facts
begin

text \<open>
  The pool of connections: when its lock can always be released, and the two ways to lose it for good; what the
  wireless maps hold after a disconnection.
\<close>

section \<open>The lock of the pool\<close>

lemma at_user_simps [simp]:
  "po_m (at_user n f p) = po_m p" "po_users (at_user n f p) = po_users p"
  "po_closeChByConnID (at_user n f p) = po_closeChByConnID p" "length (po_made (at_user n f p)) = length (po_made p)"
  "po_chan (at_user n f p) = po_chan p"
  by (simp_all add: at_user_def)

lemma made_at_user: "n < length (po_made p) \<Longrightarrow> po_made (at_user n f p) ! k = (if k = n then f (po_made p ! n) else po_made p ! k)"
  by (simp add: at_user_def nth_list_update)

lemma leave_simps [simp]:
  "po_m (leave n p) = po_m p" "po_made (leave n p) = po_made (at_user n finish p)"
  "po_closeChByConnID (leave n p) = po_closeChByConnID p" "po_chan (leave n p) = po_chan p"
  "po_users (leave n p) = (po_users p)(su_userID (po_made p ! n) := None)"
  by (simp_all add: leave_def removeUserFromPool_def)

lemma closeChannel_simps [simp]:
  "po_m (closeChannel c p) = po_m p" "po_made (closeChannel c p) = po_made p"
  "po_closeChByConnID (closeChannel c p) = po_closeChByConnID p" "po_users (closeChannel c p) = po_users p"
  "po_chan (closeChannel c p) c' = (if c' = c \<and> po_chan p c = Alive then Ending else po_chan p c')"
  by (simp_all add: closeChannel_def)

lemma end_channel_simps [simp]:
  "po_m (end_channel c p) = po_m (removeUserConn c p)" "po_made (end_channel c p) = po_made p"
  "po_closeChByConnID (end_channel c p) = po_closeChByConnID (removeUserConn c p)" "po_users (end_channel c p) = po_users p"
  "po_chan (end_channel c p) c' = (if c' = c then if po_m (removeUserConn c p) = None then Dead else Sending else po_chan p c')"
  by (simp_all add: end_channel_def removeUserConn_def Let_def split: option.split)

lemma receive_simps [simp]:
  "po_m (receive c n p) = None" "po_closeChByConnID (receive c n p) = po_closeChByConnID p"
  "po_made (receive c n p) = po_made (at_user n (\<lambda>u. u\<lparr>su_routine := Closing c\<rparr>) p)" "po_users (receive c n p) = po_users p"
  "po_chan (receive c n p) c' = (if c' = c \<and> po_chan p c = Sending then Dead else po_chan p c')"
  by (simp_all add: receive_def)

text \<open>
  The lock is held for a send to a routine that has ended, or that waits for a connection whose handler needs
  the lock itself.
\<close>

definition blocked :: "string \<Rightarrow> nat \<Rightarrow> SocketIOConnectedPool \<Rightarrow> bool" where
  "blocked c n p \<longleftrightarrow> po_m p = Some (c, n) \<and> n < length (po_made p) \<and>
     (case su_routine (po_made p ! n) of
        Finished \<Rightarrow> True
      | Closing c' \<Rightarrow> c' \<in> set (su_conns (po_made p ! n)) \<and> po_chan p c' \<in> {Alive, Ending}
      | _ \<Rightarrow> False)"

inductive_cases pool_stepE: "pool_step clients p p'"

lemma blocked_step: "pool_step clients p p' \<Longrightarrow> blocked c n p \<Longrightarrow> blocked c n p'"
  by (erule pool_stepE) (auto simp: blocked_def made_at_user split: routine.splits)

lemma blocked_forever: "(pool_step clients)\<^sup>*\<^sup>* p p' \<Longrightarrow> blocked c n p \<Longrightarrow> po_m p' = Some (c, n)"
  using rtranclp_induct [of "pool_step clients" p p' "blocked c n"] blocked_step by (auto simp: blocked_def)

section \<open>Without a reconnection at the wrong moment\<close>

text \<open>
  Clients that do not send the event of a disconnection themselves, whose connection identities are not used
  twice, and users who do not connect again between the closing of their last connection and the moment the
  routine has left the pool.
\<close>

fun calm :: "client_event \<Rightarrow> SocketIOConnectedPool \<Rightarrow> bool" where
  "calm (Disconnection c) p \<longleftrightarrow> False"
| "calm (Connection headers c) p \<longleftrightarrow>
     list_all (\<lambda>u. c \<notin> set (su_conns u) \<and> su_routine u \<noteq> Closing c) (po_made p) \<and>
     (case po_users p (headers ''userID'') of None \<Rightarrow> True | Some n \<Rightarrow> su_routine (po_made p ! n) \<notin> {Removing, Finished})"

text \<open>The connection can still be sent to its routine.\<close>

definition waiting :: "SocketIOConnectedPool \<Rightarrow> string \<Rightarrow> nat \<Rightarrow> bool" where
  "waiting p c n \<longleftrightarrow> n < length (po_made p) \<and> c \<in> set (su_conns (po_made p ! n)) \<and>
     su_routine (po_made p ! n) \<notin> {Removing, Finished, Closing c}"

definition pool_inv :: "SocketIOConnectedPool \<Rightarrow> bool" where
  "pool_inv p \<longleftrightarrow>
     (\<forall>c n. po_closeChByConnID p c = Some n \<longrightarrow> waiting p c n) \<and>
     (\<forall>c n. po_m p = Some (c, n) \<longrightarrow> waiting p c n \<and> po_closeChByConnID p c = None \<and> po_chan p c = Sending) \<and>
     (\<forall>u n. po_users p u = Some n \<longrightarrow> n < length (po_made p)) \<and>
     (\<forall>n < length (po_made p). distinct (su_conns (po_made p ! n)) \<and>
        (\<forall>c. su_routine (po_made p ! n) = Closing c \<longrightarrow> po_chan p c = Dead))"

lemma pool_invD:
  assumes "pool_inv p"
  shows "po_closeChByConnID p c = Some n \<Longrightarrow> waiting p c n"
    and "po_m p = Some (c, n) \<Longrightarrow> waiting p c n" "po_m p = Some (c, n) \<Longrightarrow> po_closeChByConnID p c = None"
    and "po_m p = Some (c, n) \<Longrightarrow> po_chan p c = Sending"
    and "po_users p u = Some n \<Longrightarrow> n < length (po_made p)"
    and "n < length (po_made p) \<Longrightarrow> distinct (su_conns (po_made p ! n))"
    and "n < length (po_made p) \<Longrightarrow> su_routine (po_made p ! n) = Closing c \<Longrightarrow> po_chan p c = Dead"
  using assms by (simp_all add: pool_inv_def)

lemma pool_invI:
  assumes "\<And>c n. po_closeChByConnID p c = Some n \<Longrightarrow> waiting p c n"
    and "\<And>c n. po_m p = Some (c, n) \<Longrightarrow> waiting p c n \<and> po_closeChByConnID p c = None \<and> po_chan p c = Sending"
    and "\<And>u n. po_users p u = Some n \<Longrightarrow> n < length (po_made p)"
    and "\<And>n. n < length (po_made p) \<Longrightarrow> distinct (su_conns (po_made p ! n))"
    and "\<And>n c. n < length (po_made p) \<Longrightarrow> su_routine (po_made p ! n) = Closing c \<Longrightarrow> po_chan p c = Dead"
  shows "pool_inv p"
  using assms by (simp add: pool_inv_def)

lemma inv_connect:
  assumes inv: "pool_inv p" and m: "po_m p = None" and calm: "calm (Connection headers c) p"
  shows "pool_inv (OnConnection headers c p)"
proof (cases "getHeaderDataSocketIO headers")
  case (Inl e)
  with inv show ?thesis by (simp add: OnConnection_def)
next
  case (Inr user)
  then have uid: "su_userID user = headers ''userID''" by (auto simp: getHeaderDataSocketIO_def split: if_splits)
  note d = pool_invD [OF inv]
  show ?thesis
  proof (cases "po_users p (su_userID user)")
    case None
    let ?q = "OnConnection headers c p"
    have q: "po_m ?q = None" "po_closeChByConnID ?q = (po_closeChByConnID p)(c \<mapsto> length (po_made p))"
      "po_users ?q = (po_users p)(su_userID user \<mapsto> length (po_made p))" "po_chan ?q = po_chan p"
      "po_made ?q = po_made p @ [newSocketIOUser c user]"
      using Inr None m by (simp_all add: OnConnection_def)
    have w: "waiting ?q c' n" if "waiting p c' n" for c' n
      using that by (simp add: waiting_def q nth_append)
    have "waiting ?q c (length (po_made p))" by (simp add: waiting_def q newSocketIOUser_def)
    then show ?thesis
      by (intro pool_invI) (auto simp: q newSocketIOUser_def nth_append less_Suc_eq dest: d split: if_splits intro: w)
  next
    case (Some k)
    let ?q = "OnConnection headers c p"
    have k: "k < length (po_made p)" using d(5) [OF Some] .
    have r: "su_routine (po_made p ! k) \<notin> {Removing, Finished, Closing c}"
      using calm Some k by (auto simp: uid list_all_length)
    have q: "po_m ?q = None" "po_closeChByConnID ?q = (po_closeChByConnID p)(c \<mapsto> k)"
      "po_users ?q = po_users p" "po_chan ?q = po_chan p" "po_made ?q = po_made (at_user k (add_conn c) p)"
      using Inr Some m by (simp_all add: OnConnection_def at_user_def)
    have w: "waiting ?q c' n" if "waiting p c' n" for c' n
      using that k by (auto simp: waiting_def q made_at_user add_conn_def)
    have "waiting ?q c k" using k r by (simp add: waiting_def q made_at_user add_conn_def)
    then show ?thesis
      using k by (intro pool_invI) (auto simp: q made_at_user add_conn_def dest: d split: if_splits intro: w)
  qed
qed

lemma inv_closeChannel: "pool_inv p \<Longrightarrow> pool_inv (closeChannel c p)"
  by (auto simp: pool_inv_def waiting_def)

lemma inv_disconnect: "pool_inv p \<Longrightarrow> po_m p = None \<Longrightarrow> po_chan p c = Ending \<Longrightarrow> pool_inv (end_channel c p)"
  by (auto simp: pool_inv_def removeUserConn_def waiting_def split: option.split)

lemma inv_receive:
  assumes inv: "pool_inv p" and l: "po_m p = Some (c, n)"
  shows "pool_inv (receive c n p)"
proof -
  note d = pool_invD [OF inv]
  have n: "n < length (po_made p)" using d(2) [OF l] by (simp add: waiting_def)
  have "c' \<noteq> c" if "po_closeChByConnID p c' = Some k" for c' k using d(3) [OF l] that by auto
  moreover have "po_chan p c = Sending" using d(4) [OF l] .
  ultimately show ?thesis
    using n d(1,5,6,7) by (auto simp: pool_inv_def waiting_def made_at_user split: if_splits)
qed

lemma inv_close:
  assumes "pool_inv p" "n < length (po_made p)" "su_routine (po_made p ! n) = Closing c"
  shows "pool_inv (at_user n (close_conn c) p)"
proof -
  note d = pool_invD [OF assms(1)]
  have w: "waiting (at_user n (close_conn c) p) c' k" if w: "waiting p c' k" for c' k
  proof (cases "k = n")
    case True
    with w assms(3) have "c' \<noteq> c" by (auto simp: waiting_def)
    with w True have "c' \<in> set (remove1 c (su_conns (po_made p ! n)))" by (simp add: waiting_def)
    with w True assms(2,3) show ?thesis by (auto simp: waiting_def made_at_user close_conn_def Let_def)
  next
    case False
    with w assms(2) show ?thesis by (simp add: waiting_def made_at_user)
  qed
  have "distinct (su_conns (close_conn c (po_made p ! n)))" "su_routine (close_conn c (po_made p ! n)) \<noteq> Closing c'" for c'
    using d(6) [OF assms(2)] by (simp_all add: close_conn_def Let_def)
  with assms(2) show ?thesis by (intro pool_invI) (auto simp: made_at_user dest: d split: if_splits intro: w)
qed

lemma inv_leave:
  assumes "pool_inv p" "n < length (po_made p)" "su_routine (po_made p ! n) = Removing"
  shows "pool_inv (leave n p)"
proof -
  note d = pool_invD [OF assms(1)]
  have w: "waiting (leave n p) c' k" if "waiting p c' k" for c' k
    using that assms(2,3) by (auto simp: waiting_def made_at_user)
  with assms(2) show ?thesis
    by (intro pool_invI) (auto simp: made_at_user finish_def dest: d split: if_splits intro: w)
qed

lemma inv_step: "pool_step calm p p' \<Longrightarrow> pool_inv p \<Longrightarrow> pool_inv p'"
  by (erule pool_stepE) (auto intro: inv_connect inv_closeChannel inv_disconnect inv_receive inv_close inv_leave)

lemma inv_reachable: "(pool_step calm)\<^sup>*\<^sup>* InitConnectedPool p \<Longrightarrow> pool_inv p"
  by (erule steps_keep) (simp add: InitConnectedPool_def pool_inv_def, rule inv_step)

section \<open>Properties\<close>

text \<open>
  C35: the lock of the pool can always be released again, as long as no client sends the event of a
  disconnection itself, no connection identity is used twice, and no user reconnects between the closing of the
  last connection and the end of the routine. Whatever else happened, one or two steps of the routine that the
  holder of the lock sends to are enough: it is alive, and the connection it may be closing is closed.
\<close>

theorem pool_lock_released:
  assumes "(pool_step calm)\<^sup>*\<^sup>* InitConnectedPool p"
  shows "\<exists>p'. (pool_step calm)\<^sup>*\<^sup>* p p' \<and> po_m p' = None"
proof (cases "po_m p")
  case None
  then show ?thesis by blast
next
  case (Some l)
  obtain c n where l: "po_m p = Some (c, n)" using Some by (cases l) simp
  note inv = inv_reachable [OF assms]
  have received: "\<exists>p'. (pool_step calm)\<^sup>*\<^sup>* q p' \<and> po_m p' = None"
    if "po_m q = Some (c, n)" "n < length (po_made q)" "su_routine (po_made q ! n) = Looping" for q
    by (intro exI conjI, rule r_into_rtranclp, rule pool_step.Receive [OF that]) simp
  from pool_invD(2) [OF inv l] have n: "n < length (po_made p)"
    and r: "su_routine (po_made p ! n) \<notin> {Removing, Finished, Closing c}" by (auto simp: waiting_def)
  show ?thesis
  proof (cases "su_routine (po_made p ! n)")
    case Looping
    with received [OF l n] show ?thesis .
  next
    case (Closing c')
    let ?q = "at_user n (close_conn c') p"
    have step: "pool_step calm p ?q"
      using n Closing pool_invD(7) [OF inv n Closing] by (intro pool_step.Close) simp_all
    have "waiting ?q c n" using pool_invD(2) [OF inv_step [OF step inv]] l by simp
    then have "su_routine (po_made ?q ! n) = Looping"
      using n by (auto simp: waiting_def made_at_user close_conn_def Let_def split: if_splits)
    with received [of ?q] n l obtain p' where "(pool_step calm)\<^sup>*\<^sup>* ?q p'" "po_m p' = None" by auto
    with step show ?thesis by (blast intro: converse_rtranclp_into_rtranclp)
  qed (use r in simp_all)
qed

definition ex_headers :: "string \<Rightarrow> string" where
  "ex_headers k = ''u''"

definition ex_user :: "string list \<Rightarrow> routine \<Rightarrow> SocketIOUser" where
  "ex_user conns r = \<lparr>su_userID = ''u'', su_deviceType = ''u'', su_jwtToken = ''u'', su_conns = conns, su_routine = r\<rparr>"

text \<open>The pool of one user, with what the connections \<open>c1\<close> and \<open>c2\<close> are mapped to.\<close>

definition ex_pool ::
  "string list \<Rightarrow> routine \<Rightarrow> string list \<Rightarrow> string option \<Rightarrow> (string \<Rightarrow> channel) \<Rightarrow> SocketIOConnectedPool" where
  "ex_pool conns r channels lock chan =
     \<lparr>po_users = [''u'' \<mapsto> 0], po_closeChByConnID = (\<lambda>c. if c \<in> set channels then Some 0 else None),
      po_made = [ex_user conns r], po_m = map_option (\<lambda>c. (c, 0)) lock, po_chan = chan\<rparr>"

lemma ex_pool_simps [simp]:
  "po_m (ex_pool conns r channels lock chan) = map_option (\<lambda>c. (c, 0)) lock"
  "po_made (ex_pool conns r channels lock chan) = [ex_user conns r]"
  "po_users (ex_pool conns r channels lock chan) = [''u'' \<mapsto> 0]"
  "po_chan (ex_pool conns r channels lock chan) = chan"
  "su_routine (ex_user conns r) = r" "su_conns (ex_user conns r) = conns"
  by (simp_all add: ex_pool_def ex_user_def)

lemma ex_headers_user [simp]: "getHeaderDataSocketIO ex_headers = Inr (ex_user [] Looping)"
  by (simp add: getHeaderDataSocketIO_def ex_headers_def ex_user_def)

lemma ex_steps:
  "clients (Connection ex_headers c) InitConnectedPool \<Longrightarrow>
     pool_step clients InitConnectedPool (ex_pool [c] Looping [c] None (\<lambda>c. Alive))"
  "chan c = Alive \<Longrightarrow> pool_step clients (ex_pool conns r channels lock chan) (ex_pool conns r channels lock (chan(c := Ending)))"
  "chan c = Ending \<Longrightarrow> c \<notin> set channels \<Longrightarrow>
     pool_step clients (ex_pool conns r (c # channels) None chan) (ex_pool conns r channels (Some c) (chan(c := Sending)))"
  "chan c = Sending \<Longrightarrow>
     pool_step clients (ex_pool conns Looping channels (Some c) chan) (ex_pool conns (Closing c) channels None (chan(c := Dead)))"
  "chan c = Dead \<Longrightarrow> pool_step clients (ex_pool [c] (Closing c) channels None chan) (ex_pool [] Removing channels None chan)"
proof -
  assume "clients (Connection ex_headers c) InitConnectedPool"
  moreover have "OnConnection ex_headers c InitConnectedPool = ex_pool [c] Looping [c] None (\<lambda>c. Alive)"
    by (simp add: OnConnection_def InitConnectedPool_def newSocketIOUser_def ex_pool_def ex_user_def fun_eq_iff)
  ultimately show "pool_step clients InitConnectedPool (ex_pool [c] Looping [c] None (\<lambda>c. Alive))"
    using pool_step.Connect [of InitConnectedPool clients ex_headers c] by (simp add: InitConnectedPool_def)
next
  assume "chan c = Alive"
  then show "pool_step clients (ex_pool conns r channels lock chan) (ex_pool conns r channels lock (chan(c := Ending)))"
    using pool_step.Hangup [of clients "ex_pool conns r channels lock chan" c] by (simp add: closeChannel_def) (simp add: ex_pool_def)
next
  assume "chan c = Ending" "c \<notin> set channels"
  moreover from this have "end_channel c (ex_pool conns r (c # channels) None chan) = ex_pool conns r channels (Some c) (chan(c := Sending))"
    by (auto simp: end_channel_def removeUserConn_def ex_pool_def fun_eq_iff)
  ultimately show "pool_step clients (ex_pool conns r (c # channels) None chan) (ex_pool conns r channels (Some c) (chan(c := Sending)))"
    using pool_step.Disconnect [of "ex_pool conns r (c # channels) None chan" c clients] by simp
next
  assume "chan c = Sending"
  then show "pool_step clients (ex_pool conns Looping channels (Some c) chan) (ex_pool conns (Closing c) channels None (chan(c := Dead)))"
    using pool_step.Receive [of "ex_pool conns Looping channels (Some c) chan" c 0 clients]
    by simp (simp add: receive_def ex_pool_def at_user_def ex_user_def)
next
  assume "chan c = Dead"
  then show "pool_step clients (ex_pool [c] (Closing c) channels None chan) (ex_pool [] Removing channels None chan)"
    using pool_step.Close [of 0 "ex_pool [c] (Closing c) channels None chan" c clients]
    by simp (simp add: ex_pool_def at_user_def ex_user_def close_conn_def)
qed

lemma ex_run:
  assumes "clients (Connection ex_headers ''c1'') InitConnectedPool"
  shows "(pool_step clients)\<^sup>*\<^sup>* InitConnectedPool (ex_pool [''c1''] Looping [] (Some ''c1'') ((\<lambda>c. Alive)(''c1'' := Sending)))"
    and "(pool_step clients)\<^sup>*\<^sup>* InitConnectedPool (ex_pool [] Removing [] None ((\<lambda>c. Alive)(''c1'' := Dead)))"
proof -
  note go = rtranclp.rtrancl_into_rtrancl
  note steps = ex_steps [where clients = clients and c = "''c1''"]
  show sent: "(pool_step clients)\<^sup>*\<^sup>* InitConnectedPool (ex_pool [''c1''] Looping [] (Some ''c1'') ((\<lambda>c. Alive)(''c1'' := Sending)))"
    using steps(1) [OF assms] steps(2) [of "\<lambda>c. Alive" "[''c1'']" Looping "[''c1'']" None]
      steps(3) [of "(\<lambda>c. Alive)(''c1'' := Ending)" "[]" "[''c1'']" Looping]
    by (auto intro: go [OF go [OF r_into_rtranclp]])
  show "(pool_step clients)\<^sup>*\<^sup>* InitConnectedPool (ex_pool [] Removing [] None ((\<lambda>c. Alive)(''c1'' := Dead)))"
    using sent steps(4) [of "(\<lambda>c. Alive)(''c1'' := Sending)" "[''c1'']" "[]"] steps(5) [of "(\<lambda>c. Alive)(''c1'' := Dead)" "[]"]
    by (auto intro: go [OF go])
qed

theorem pool_lock_released_witness:
  "\<exists>p'. (pool_step calm)\<^sup>*\<^sup>* (ex_pool [''c1''] Looping [] (Some ''c1'') ((\<lambda>c. Alive)(''c1'' := Sending))) p' \<and> po_m p' = None"
  by (rule pool_lock_released, rule ex_run) (simp add: InitConnectedPool_def)

text \<open>
  C36: a user who reconnects while the routine is about to leave the pool stops the server. The new connection is
  given to that routine, which then leaves; when the new connection ends, its disconnection waits for the ended
  routine with the lock of the pool held, and no connection, disconnection or notification of any user gets the
  lock again.
\<close>

theorem pool_blocked_for_good:
  assumes "po_m p = None" "n < length (po_made p)" "su_routine (po_made p ! n) = Removing"
    and "getHeaderDataSocketIO headers = Inr user" "po_users p (su_userID user) = Some n" "po_chan p c = Alive"
  shows "\<exists>p1 p2 p3. p1 = OnConnection headers c p \<and> p2 = leave n p1 \<and> p3 = end_channel c (closeChannel c p2) \<and>
     (pool_step (\<lambda>e q. True))\<^sup>*\<^sup>* p p3 \<and> {q. (pool_step (\<lambda>e q. True))\<^sup>*\<^sup>* p3 q} \<subseteq> {q. po_m q = Some (c, n)}"
proof -
  let ?p1 = "OnConnection headers c p" and ?p2 = "leave n (OnConnection headers c p)"
  let ?p3 = "end_channel c (closeChannel c ?p2)"
  have p1: "?p1 = at_user n (add_conn c) p\<lparr>po_closeChByConnID := (po_closeChByConnID p)(c \<mapsto> n)\<rparr>"
    using assms(4,5) by (simp add: OnConnection_def)
  then have made: "n < length (po_made ?p1)" "su_routine (po_made ?p1 ! n) = Removing" and m: "po_m ?p1 = None"
    and chan: "po_chan ?p1 c = Alive" and close: "po_closeChByConnID ?p1 c = Some n"
    using assms by (simp_all add: made_at_user add_conn_def)
  have "blocked c n ?p3"
    using made(1) close by (simp add: blocked_def made_at_user finish_def removeUserConn_def)
  then have "{q. (pool_step (\<lambda>e q. True))\<^sup>*\<^sup>* ?p3 q} \<subseteq> {q. po_m q = Some (c, n)}"
    using blocked_forever by blast
  moreover have "(pool_step (\<lambda>e q. True))\<^sup>*\<^sup>* p ?p3"
  proof -
    have "pool_step (\<lambda>e q. True) p ?p1" using assms(1) by (simp add: pool_step.Connect)
    moreover have "pool_step (\<lambda>e q. True) ?p1 ?p2" using m made by (simp add: pool_step.Leave)
    moreover have "pool_step (\<lambda>e q. True) ?p2 (closeChannel c ?p2)" by (rule pool_step.Hangup)
    moreover have "pool_step (\<lambda>e q. True) (closeChannel c ?p2) ?p3" using m chan by (simp add: pool_step.Disconnect)
    ultimately show ?thesis by (meson rtranclp.intros)
  qed
  ultimately show ?thesis by blast
qed

theorem pool_blocked_for_good_witness:
  "\<exists>p. (pool_step (\<lambda>e q. True))\<^sup>*\<^sup>* InitConnectedPool p \<and> p = ex_pool [] Removing [] None ((\<lambda>c. Alive)(''c1'' := Dead)) \<and>
     (\<exists>p1 p2 p3. p1 = OnConnection ex_headers ''c2'' p \<and> p2 = leave 0 p1 \<and> p3 = end_channel ''c2'' (closeChannel ''c2'' p2) \<and>
       (pool_step (\<lambda>e q. True))\<^sup>*\<^sup>* p p3 \<and> {q. (pool_step (\<lambda>e q. True))\<^sup>*\<^sup>* p3 q} \<subseteq> {q. po_m q = Some (''c2'', 0)})"
proof -
  let ?p = "ex_pool [] Removing [] None ((\<lambda>c. Alive)(''c1'' := Dead))"
  have "(pool_step (\<lambda>e q. True))\<^sup>*\<^sup>* InitConnectedPool ?p" by (rule ex_run(2)) simp
  moreover have "po_m ?p = None" "0 < length (po_made ?p)" "su_routine (po_made ?p ! 0) = Removing"
    "po_users ?p (su_userID (ex_user [] Looping)) = Some 0" "po_chan ?p ''c2'' = Alive"
    by (simp_all add: ex_user_def)
  note pool_blocked_for_good [OF this(1-3) ex_headers_user this(4,5)]
  ultimately show ?thesis by blast
qed

text \<open>
  There is another way to lose the lock, without a reconnection: a client sends the event of a disconnection on
  an open connection, and while the routine of the user is about to close it, another connection of the user
  ends.
\<close>

lemma emitted_disconnection_blocks:
  assumes "po_m p = None" "n < length (po_made p)" "su_routine (po_made p ! n) = Looping" "c1 \<noteq> c2"
    and "c1 \<in> set (su_conns (po_made p ! n))" "po_chan p c1 = Alive" "po_chan p c2 = Alive"
    and "po_closeChByConnID p c1 = Some n" "po_closeChByConnID p c2 = Some n"
  shows "\<exists>p'. p' = end_channel c2 (closeChannel c2 (receive c1 n (removeUserConn c1 p))) \<and>
     (pool_step (\<lambda>e q. True))\<^sup>*\<^sup>* p p' \<and> {q. (pool_step (\<lambda>e q. True))\<^sup>*\<^sup>* p' q} \<subseteq> {q. po_m q = Some (c2, n)}"
proof -
  let ?p1 = "removeUserConn c1 p" and ?p2 = "receive c1 n (removeUserConn c1 p)"
  let ?p3 = "end_channel c2 (closeChannel c2 ?p2)"
  have p1: "?p1 = p\<lparr>po_closeChByConnID := (po_closeChByConnID p)(c1 := None), po_m := Some (c1, n)\<rparr>"
    using assms(8) by (simp add: removeUserConn_def)
  have "pool_step (\<lambda>e q. True) p ?p1" using assms(1) by (simp add: pool_step.Emitted)
  moreover have "pool_step (\<lambda>e q. True) ?p1 ?p2" using assms(2,3) by (intro pool_step.Receive) (simp_all add: p1)
  moreover have "pool_step (\<lambda>e q. True) ?p2 (closeChannel c2 ?p2)" by (rule pool_step.Hangup)
  moreover have "pool_step (\<lambda>e q. True) (closeChannel c2 ?p2) ?p3"
    using assms(4,7) by (intro pool_step.Disconnect) (simp_all add: p1)
  ultimately have "(pool_step (\<lambda>e q. True))\<^sup>*\<^sup>* p ?p3" by (meson rtranclp.intros)
  moreover have "blocked c2 n ?p3"
    using assms by (simp add: blocked_def p1 removeUserConn_def [of c2] made_at_user)
  ultimately show ?thesis using blocked_forever by blast
qed

section \<open>Wireless receivers\<close>

lemma map_filter_simps:
  "List.map_filter f [] = []"
  "List.map_filter f (x # xs) = (case f x of None \<Rightarrow> List.map_filter f xs | Some y \<Rightarrow> y # List.map_filter f xs)"
  by (simp_all add: List.map_filter_def split: option.split)

text \<open>
  C37: after a disconnection a sender is shown exactly the receivers it was shown before, in the same order,
  without those of the connection that ended.
\<close>

theorem disconnection_drops_receivers:
  "SenderCheck ids (snd (OnDisconnection c s)) = filter (\<lambda>r. rc_Socket r \<noteq> c) (SenderCheck ids (snd s))"
  by (induction ids)
    (auto simp: SenderCheck_def OnDisconnection_def drop_socket_def map_filter_simps split: option.split)

end
