(* ===== verification/Push.thy ===== *)
theory Push
  imports Schemas Currencies
begin

text \<open>
  Push notifications (\<open>client/firebase.go\<close>) and the text of an amount in them
  (\<open>client/utils.go\<close>). The quotient of an amount and a divider as a \<open>big.Float\<close> with
  15 decimals is a parameter, \<open>None\<close> for a text that is no number; the clock of the message is its
  text.
\<close>

section \<open>Text of an amount\<close>

text \<open>The swaps of the loop, on a text whose runes are its characters.\<close>

definition swap :: "nat \<Rightarrow> nat \<Rightarrow> 'a list \<Rightarrow> 'a list" where
  "swap i j r = r[i := r ! j, j := r ! i]"

definition Reverse :: "'a list \<Rightarrow> 'a list" where
  "Reverse s = fold (\<lambda>i r. swap i (length r - 1 - i) r) [0..<length s div 2] s"

fun human_loop :: "bool \<Rightarrow> string \<Rightarrow> string" where
  "human_loop flag [] = []"
| "human_loop flag (ch # s) =
     (let flag = (flag \<or> ch \<noteq> CHR ''0'' \<and> ch \<noteq> CHR ''.'')
      in (if flag then [ch] else []) @ human_loop flag s)"

definition convertToHuman :: "(string \<Rightarrow> int \<Rightarrow> string option) \<Rightarrow> string \<Rightarrow> int \<Rightarrow> panic + string" where
  "convertToHuman Q amount d =
     (case Q amount d of
        None \<Rightarrow> Inl NilDereference
      | Some text \<Rightarrow> Inr (Reverse (human_loop False (Reverse text))))"

section \<open>The handler of the queue\<close>

record push_message =
  pm_Data :: "(string \<times> string) list"
  pm_LocKey :: string
  pm_LocArgs :: "string list"
  pm_Topic :: string

definition TopicTransaction :: string where "TopicTransaction = ''TransactionUpdate''"
definition TopicNewIncoming :: string where "TopicNewIncoming = ''NewIncoming''"

definition divider_of :: "int \<Rightarrow> int" where
  "divider_of c = (case Dividers c of None \<Rightarrow> 0 | Some d \<Rightarrow> d)"

text \<open>\<open>None\<close>: the transaction is not announced.\<close>

definition push_transaction ::
  "(string \<Rightarrow> int \<Rightarrow> string option) \<Rightarrow> string \<Rightarrow> TransactionWithUserID \<Rightarrow> panic + push_message option" where
  "push_transaction Q kitchen msg =
     (let n = twu_NotificationMsg msg in
      if wtn_TransactionType n = TxStatusAppearedInMempoolIncoming then
        bind_p (convertToHuman Q (wtn_Amount n) (divider_of (wtn_CurrencyID n))) (\<lambda>amount.
          Inr (Some
            \<lparr>pm_Data = [(''score'', ''1''), (''time'', kitchen), (''amount'', wtn_Amount n),
               (''transactionType'', Itoa (wtn_TransactionType n)), (''currencyid'', Itoa (wtn_CurrencyID n)),
               (''networkid'', Itoa (wtn_NetworkID n)), (''walletindex'', Itoa (wtn_WalletIndex n)),
               (''txid'', wtn_TxID n)],
             pm_LocKey = TopicNewIncoming, pm_LocArgs = [amount, String_of (wtn_CurrencyID n)],
             pm_Topic = TopicTransaction @ ''-'' @ twu_UserID msg\<rparr>))
      else Inr None)"

text \<open>
  The handler: whether the message of the queue is done with (one that cannot be decoded comes back), and
  what is sent. A messaging client that could not be made is nil, and is used.
\<close>

definition firebase_handler ::
  "(string \<Rightarrow> TransactionWithUserID option) \<Rightarrow> (string \<Rightarrow> int \<Rightarrow> string option) \<Rightarrow> bool \<Rightarrow> string \<Rightarrow> string \<Rightarrow>
   panic + (bool \<times> push_message list)" where
  "firebase_handler unmarshal Q has_client kitchen msgRaw =
     (case unmarshal msgRaw of
        None \<Rightarrow> Inr (False, [])
      | Some msg \<Rightarrow>
          bind_p (push_transaction Q kitchen msg) (\<lambda>messageToSend.
            case messageToSend of
              None \<Rightarrow> Inr (True, [])
            | Some m \<Rightarrow> if has_client then Inr (True, [m]) else Inl NilDereference))"

section \<open>What the text of an amount loses\<close>

lemma length_swap [simp]: "length (swap i j r) = length r"
  by (simp add: swap_def)

lemma Reverse_partial:
  assumes "m \<le> length s div 2"
  shows "length (fold (\<lambda>i r. swap i (length r - 1 - i) r) [0..<m] s) = length s \<and>
    (\<forall>k < length s. fold (\<lambda>i r. swap i (length r - 1 - i) r) [0..<m] s ! k =
      (if k < m \<or> length s - m \<le> k then s ! (length s - 1 - k) else s ! k))"
  using assms
proof (induction m)
  case 0
  then show ?case by simp
next
  case (Suc m)
  let ?r = "fold (\<lambda>i r. swap i (length r - 1 - i) r) [0..<m] s"
  have l: "length ?r = length s" and e: "\<And>k. k < length s \<Longrightarrow> ?r ! k =
      (if k < m \<or> length s - m \<le> k then s ! (length s - 1 - k) else s ! k)"
    using Suc by simp_all
  have m: "m < length s - 1 - m" "length s - 1 - m < length s" using Suc.prems by simp_all
  have "swap m (length s - 1 - m) ?r ! k =
      (if k < Suc m \<or> length s - Suc m \<le> k then s ! (length s - 1 - k) else s ! k)" if "k < length s" for k
    using m l e [OF that] e [of m] e [of "length s - 1 - m"] that
    by (auto simp: swap_def nth_list_update)
  then show ?case using l by simp
qed

lemma Reverse_rev: "Reverse s = rev s"
proof (rule nth_equalityI)
  have p: "length (Reverse s) = length s \<and> (\<forall>k < length s. Reverse s ! k =
      (if k < length s div 2 \<or> length s - length s div 2 \<le> k then s ! (length s - 1 - k) else s ! k))"
    unfolding Reverse_def by (rule Reverse_partial) simp
  then show "length (Reverse s) = length (rev s)" by simp
  show "Reverse s ! k = rev s ! k" if "k < length (Reverse s)" for k
  proof (cases "k < length s div 2 \<or> length s - length s div 2 \<le> k")
    case True
    with p that show ?thesis by (simp add: rev_nth)
  next
    case False
    with p that have "length s - 1 - k = k" by presburger
    with p that False show ?thesis by (simp add: rev_nth)
  qed
qed

lemma human_loop_True: "human_loop True s = s"
  by (induction s) simp_all

lemma human_loop_dropWhile: "human_loop False s = dropWhile (\<lambda>c. c = CHR ''0'' \<or> c = CHR ''.'') s"
  by (induction s) (simp_all add: human_loop_True)

text \<open>
  In the text of an amount the zeros before the decimal point are lost with those after it: the
  amounts with the digits w and with the digits w and any number of zeros are shown as the same text.
\<close>

theorem human_amount_ambiguous:
  assumes "Q a d = Some (w @ ''.'' @ replicate 15 (CHR ''0''))"
    and "Q b d = Some (w @ replicate k (CHR ''0'') @ ''.'' @ replicate 15 (CHR ''0''))"
  shows "convertToHuman Q a d = convertToHuman Q b d"
proof -
  have "dropWhile (\<lambda>c. c = CHR ''0'' \<or> c = CHR ''.'') (replicate n (CHR ''0'') @ s) =
      dropWhile (\<lambda>c. c = CHR ''0'' \<or> c = CHR ''.'') s" for n s
    by (induction n) simp_all
  then show ?thesis by (simp add: convertToHuman_def assms Reverse_rev human_loop_dropWhile)
qed

theorem human_amount_ambiguous_witness:
  "convertToHuman (\<lambda>a d. Some (a @ ''.'' @ replicate 15 (CHR ''0''))) ''1'' 1 =
   convertToHuman (\<lambda>a d. Some (a @ ''.'' @ replicate 15 (CHR ''0''))) ''100'' 1"
  by (rule human_amount_ambiguous [where w = "''1''" and k = 2]) (simp_all add: numeral_2_eq_2)

end
