(* ===== verification/Schemas_Facts.thy ===== *)
theory Schemas_Facts
  imports Schemas
begin

text \<open>
  Filling a message by reflection: entries of the right types are all stored, each in its field, and nothing
  else is.
\<close>

definition well_typed :: "string \<times> go_value \<Rightarrow> bool" where
  "well_typed e \<longleftrightarrow> field_of (fst e) \<noteq> None \<and> value_type (snd e) = field_of (fst e)"

abbreviation set_entry :: "string \<times> go_value \<Rightarrow> MultisigMsg \<Rightarrow> MultisigMsg" where
  "set_entry e s \<equiv> set_value s (fst e) (snd e)"

lemma SetField_typed: "well_typed (k, v) \<Longrightarrow> SetField s k v = Inr (Inr (set_value s k v))"
  by (cases v) (auto simp: well_typed_def SetField_def simp del: set_value.simps split: option.split)

lemma SetField_untyped: "\<not> well_typed (k, v) \<Longrightarrow> SetField s k v \<noteq> Inr (Inr s')"
  by (cases v) (auto simp: well_typed_def SetField_def simp del: set_value.simps split: option.split)

lemma FillStruct_fold: "list_all well_typed kvs \<Longrightarrow> FillStruct s kvs = Inr (fold set_entry kvs s, None)"
  by (induction kvs arbitrary: s) (auto simp: SetField_typed)

lemma FillStruct_ok: "FillStruct s kvs = Inr (s', None) \<longleftrightarrow> list_all well_typed kvs \<and> s' = fold set_entry kvs s"
proof (induction kvs arbitrary: s)
  case Nil
  then show ?case by auto
next
  case (Cons e kvs)
  obtain k v where e: "e = (k, v)" by (cases e)
  show ?case
  proof (cases "well_typed (k, v)")
    case True
    then show ?thesis using Cons.IH by (simp add: e SetField_typed)
  next
    case False
    then show ?thesis using SetField_untyped [OF False, of s] by (auto simp: e split: sum.splits)
  qed
qed

text \<open>The message with the values of a map in the fields that it names.\<close>

definition text_at :: "(string \<rightharpoonup> go_value) \<Rightarrow> string \<Rightarrow> string \<Rightarrow> string" where
  "text_at m k old = (case m k of Some (VString v) \<Rightarrow> v | _ \<Rightarrow> old)"

definition number_at :: "(string \<rightharpoonup> go_value) \<Rightarrow> string \<Rightarrow> int \<Rightarrow> int" where
  "number_at m k old = (case m k of Some (VInt v) \<Rightarrow> v | _ \<Rightarrow> old)"

definition filled :: "MultisigMsg \<Rightarrow> (string \<rightharpoonup> go_value) \<Rightarrow> MultisigMsg" where
  "filled s m =
     \<lparr>mm_UserID = text_at m ''UserID'' (mm_UserID s), mm_Address = text_at m ''Address'' (mm_Address s),
      mm_InviteCode = text_at m ''InviteCode'' (mm_InviteCode s), mm_AddressToKick = text_at m ''AddressToKick'' (mm_AddressToKick s),
      mm_WalletIndex = number_at m ''WalletIndex'' (mm_WalletIndex s), mm_CurrencyID = number_at m ''CurrencyID'' (mm_CurrencyID s),
      mm_NetworkID = number_at m ''NetworkID'' (mm_NetworkID s), mm_TxID = text_at m ''TxID'' (mm_TxID s)\<rparr>"

lemma at_simps [simp]:
  "text_at (m(k \<mapsto> VString v)) k old = v" "k \<noteq> k' \<Longrightarrow> text_at (m(k \<mapsto> v')) k' old = text_at m k' old"
  "number_at (m(k \<mapsto> VInt i)) k n = i" "k \<noteq> k' \<Longrightarrow> number_at (m(k \<mapsto> v')) k' n = number_at m k' n"
  "m k = None \<Longrightarrow> text_at m k old = old" "m k = None \<Longrightarrow> number_at m k n = n"
  by (simp_all add: text_at_def number_at_def)

lemma filled_set_value:
  assumes "well_typed (k, v)" "m k = None"
  shows "filled (set_value s k v) m = filled s (m(k \<mapsto> v))"
proof -
  consider (str) x where "v = VString x" "k \<in> {''UserID'', ''Address'', ''InviteCode'', ''AddressToKick'', ''TxID''}"
    | (num) i where "v = VInt i" "k \<in> {''WalletIndex'', ''CurrencyID'', ''NetworkID''}"
    using assms(1) by (cases v) (auto simp: well_typed_def field_of_def split: if_splits)
  then show ?thesis
  proof cases
    case str
    from str(2) assms(2) show ?thesis
      by (elim insertE emptyE) (simp_all add: str(1) filled_def)
  next
    case num
    from num(2) assms(2) show ?thesis
      by (elim insertE emptyE) (simp_all add: num(1) filled_def)
  qed
qed

lemma filled_empty [simp]: "filled s Map.empty = s"
  by (simp add: filled_def)

lemma fold_filled:
  "list_all well_typed kvs \<Longrightarrow> distinct (map fst kvs) \<Longrightarrow> fold set_entry kvs s = filled s (map_of kvs)"
proof (induction kvs arbitrary: s)
  case (Cons e kvs)
  obtain k v where e: "e = (k, v)" by (cases e)
  from Cons.prems have "map_of kvs k = None" by (simp add: e map_of_eq_None_iff)
  moreover have "map_of (e # kvs) = (map_of kvs)(k \<mapsto> v)" by (simp add: e fun_eq_iff)
  moreover have "well_typed (k, v)" using Cons.prems by (simp add: e)
  ultimately have "filled s (map_of (e # kvs)) = filled (set_entry e s) (map_of kvs)"
    by (simp only: e fst_conv snd_conv filled_set_value)
  with Cons show ?case by (simp del: map_of.simps)
qed simp

text \<open>
  C40: a message is filled from a map without an error exactly when every entry names a field and its value has
  the field's type, and then each field has the value that the map gives for its name, or is as before if the
  map has none. So the order in which the entries are visited does not matter.
\<close>

theorem FillStruct_typed:
  assumes "distinct (map fst kvs)"
  shows "FillStruct s kvs = Inr (s', None) \<longleftrightarrow>
     (\<forall>(k, v) \<in> set kvs. field_of k \<noteq> None \<and> value_type v = field_of k) \<and> s' = filled s (map_of kvs)"
proof -
  have "list_all well_typed kvs \<longleftrightarrow> (\<forall>(k, v) \<in> set kvs. field_of k \<noteq> None \<and> value_type v = field_of k)"
    by (auto simp: list_all_iff well_typed_def)
  with fold_filled [OF _ assms, of s] show ?thesis by (auto simp: FillStruct_ok)
qed

theorem FillStruct_typed_witness:
  "FillStruct \<lparr>mm_UserID = [], mm_Address = [], mm_InviteCode = [], mm_AddressToKick = [], mm_WalletIndex = 0,
      mm_CurrencyID = 0, mm_NetworkID = 0, mm_TxID = []\<rparr> [(''WalletIndex'', VInt 3), (''UserID'', VString ''u'')] =
    Inr (\<lparr>mm_UserID = ''u'', mm_Address = [], mm_InviteCode = [], mm_AddressToKick = [], mm_WalletIndex = 3,
      mm_CurrencyID = 0, mm_NetworkID = 0, mm_TxID = []\<rparr>, None)"
  by (subst FillStruct_typed) (simp_all add: field_of_def filled_def)

end
