(* ===== verification/Spec2Isabelle.thy ===== *)
theory Spec2Isabelle
  imports Outputs Logins Routes_Facts Streams_Facts Wiring_Facts Feeds_Facts Fees_Facts Views_Facts Sockets_Facts Rates_Facts Push Startup_Facts Exchanger_Facts Schemas_Facts
begin

text \<open>
  The Multy back end, a wallet server for Bitcoin and Ethereum written in Go, as definitions of HOL with
  the theorems that make its parts correct. Names of files are those under \<open>src/\<close>.

  \<^bold>\<open>The program.\<close> A MongoDB database holds the users (each with devices, wallets and multisig contracts), the
  transactions of both currencies on two networks each, the spendable and spent outputs of Bitcoin, the
  exchange rates and the height of the last block of every chain. Around it work: the REST API
  (\<open>client/rest.go\<close>) behind a JWT middleware, the socket API (\<open>client/socket-io.go\<close>) through which owners of
  a multisig coordinate, the streams from the node services (\<open>btc/\<close>, \<open>eth/\<close>), the rate feeds
  (\<open>client/chart.go\<close>), the exchange service (\<open>exchanger/\<close>), the push notifications (\<open>client/firebase.go\<close>)
  and the start-up that connects them (\<open>multy-back.go\<close>). They interact through the database, through
  the channels of addresses to watch, through the broadcasts of the socket server and through the message
  queue.

  \<^bold>\<open>How the code is translated.\<close> A struct is a record with its fields in order, \<open>int\<close> is kept in 64 bits
  by \<open>wrap64\<close> wherever the code computes (\<open>wrap32\<close> for the messages of the node services), a nil pointer is
  \<open>None\<close>, a run-time panic is a value of the datatype \<open>panic\<close>, and an error is the value the code
  returns. A handler is one definition with its guards in the order of the code: it takes the path
  parameters, headers and decoded body and returns the new state with the reply, so an early return is a
  branch. State is passed explicitly; where parts of the program run at the same time, they are step relations
  whose steps interleave. Time is an argument.

  \<^bold>\<open>Theories of the model.\<close>
  \<^item> \<open>Prelude\<close>: the part of Go's standard library that is used, panics as values, generic lemmas on lists and
    on sequences of steps. \<open>Sha512\<close>: the digest, the keyed digest and hexadecimal text.
  \<^item> \<open>Currencies\<close>: \<open>currencies/\<close>. \<open>Schemas\<close>: the documents and messages of \<open>store/schemas.go\<close>.
  \<^item> \<open>Mongo\<close>: the interface to a collection and its laws. \<open>Store\<close>: the database (\<open>db\<close>) and every operation of
    \<open>store/store.go\<close> on it.
  \<^item> \<open>Btc\<close>, \<open>Btc_Handlers\<close>: \<open>btc/utils.go\<close> and one message of each stream of \<open>btc/handlers.go\<close>, the
    step relation \<open>btc_step\<close>. \<open>Eth\<close>, \<open>Eth_Multisig\<close>, \<open>Eth_Handlers\<close>: the same for \<open>eth/\<close>, with the
    contract calls of \<open>ParseMultisigInput\<close>, whose transaction and multisig are shared objects, and the step
    relation \<open>eth_step\<close>. \<open>Streams\<close>: the loops around these handlers, with the end and the errors of a
    stream.
  \<^item> \<open>Rest\<close>, \<open>Wallets\<close>, \<open>Wallet_Ops\<close>, \<open>Fees\<close>, \<open>Views\<close>, \<open>History\<close>: the handlers of \<open>client/rest.go\<close>.
    \<open>Auth\<close>: \<open>client/auth_jwt.go\<close> and \<open>client/rest-auth.go\<close>; \<open>LoginHandler\<close> is \<open>login_reads\<close> followed by
    \<open>login_writes\<close>, with a \<open>pending_login\<close> between them. \<open>Routes\<close>: the table of the routes.
  \<^item> \<open>Multisig_Ws\<close>: the multisig messages of \<open>client/socket-io.go\<close>. \<open>Sockets\<close>: the pool of connections
    (\<open>client/socketio-client.go\<close>) with its lock, its routines and the closing of a connection by the vendored
    socket library (\<open>closeChannel\<close>), the step relation \<open>pool_step\<close>.
  \<^item> \<open>Rates\<close>, \<open>Feeds\<close>: the rates of the two stocks and their loops, the step relation \<open>feeds_step\<close>.
    \<open>Push\<close>: push notifications. \<open>Exchanger\<close>: \<open>exchanger/\<close> and \<open>client/rest-exchangers.go\<close>.
  \<^item> \<open>Startup\<close>, \<open>Wiring\<close>: \<open>multy-back.go\<close>, \<open>config.go\<close>, \<open>cmd/main.go\<close> and the \<open>InitHandlers\<close> of both packages.
  \<^item> \<open>Server\<close>: all parts together. \<open>server_step\<close> is a login, a request, a socket message, a message of a
    stream or an operation of the store, on the one database. \<open>Logins\<close>: the same with the reading and the
    writing of a login as separate steps, \<open>login_step\<close>. \<open>Outputs\<close>: the same with the look-up and the
    writing of an addition of a spendable output as separate steps, \<open>output_step\<close>.

  \<^bold>\<open>Interfaces.\<close> What the code calls and the repository does not hold is a parameter; what is relied on is a
  locale, and every locale is interpreted.
  \<^item> \<open>faulty_coll\<close> and \<open>live_coll\<close> (\<open>Mongo\<close>), \<open>mongo_srv\<close> and \<open>mongo_live\<close> (\<open>Store\<close>): a call on the
    database does what the driver documents or reports an error, after which a write was applied or was not; a
    live database reports none. Whatever is proved under \<open>mongo_srv\<close> holds under every database error.
  \<^item> \<open>db_view\<close>, \<open>account_view\<close>, \<open>user_part\<close>, \<open>account_part\<close> (\<open>Rest_Parts\<close>): what a view of the database must
    ignore for the handlers to keep it. The identities of the wallets, the devices, the holdings of a user
    and the outputs of a network are such views.
  \<^item> \<open>jwt_lib\<close> (\<open>Auth_Facts\<close>): a token is accepted only if it was signed with the key that the server gives
    for its algorithm and is in time. \<open>auth_server\<close> extends it by a database.
  \<^item> \<open>router_law\<close> (\<open>Routes_Facts\<close>): the router picks a registered route of the method. \<open>stock\<close>
    (\<open>Feeds_Facts\<close>): a stock sends rates on a connection only after a subscription.
  \<^item> Without laws: the answers of the node services and of the exchange, the floating-point operations, the
    order in which a Go map is visited, what dialling gives.

  \<^bold>\<open>What the lemmas show.\<close>
  \<^item> \<open>Store_Facts\<close>: every operation of the store keeps the accounts; the exact effect of deleting a wallet or a
    multisig, of leaving after joining, and of the addresses collected for a chain.
  \<^item> \<open>Btc_Facts\<close>, \<open>Outputs\<close>: no output is listed both as spent and as spendable over the messages of a network; a
    deleted output stays away over the steps of the server until its spent records are erased, and comes back
    by an addition that is under way (\<open>late_addition\<close>); saving a transaction twice is saving it once; what a
    new block rejects.
  \<^item> \<open>Eth_Facts\<close>: the input of a contract call is read back, one stored document per owner and hash, which
    documents a block rejects and how, which histories a pending confirmation writes, the invite code a
    deployment is matched with, and that the message of a revocation changes no history.
  \<^item> \<open>Multisig_Ws_Facts\<close>: who may join, kick and delete, that a refused message changes nothing, and that the
    copies of a multisig which its users hold agree after a join.
  \<^item> \<open>Wallet_Facts\<close>, \<open>Server\<close>: a wallet index is given out once, only an empty wallet is deleted, a request is
    served for the user its token was signed for. \<open>Logins\<close>: with interleaved logins no account or wallet is
    lost unless a login on a new device writes back an account whose wallets have changed, that such a login
    undoes whatever happened in between, and that the token of a login gives access until it expires.
    \<open>Views_Facts\<close>: a history shows the transactions of its own wallet. \<open>Fees_Facts\<close>: no estimate panics on
    a mempool in range, and the five speeds are ordered.
  \<^item> \<open>Auth_Facts\<close>, \<open>Routes_Facts\<close>: a login refines an update of a map from user and device to the session, and
    no handler of the API but the three open ones runs without a signed token.
  \<^item> \<open>Sockets_Facts\<close>: the lock of the pool can always be released as long as no user reconnects at the wrong
    moment, no client sends the event of a disconnection itself and connection identities are not used twice;
    it is lost for good after such a reconnection, and after such an event (\<open>emitted_disconnection_blocks\<close>).
    \<open>Feeds_Facts\<close>, \<open>Rates_Facts\<close>: after a reconnection the rates of a stock are frozen and stored under the
    time of each saving (\<open>feeds_trace\<close>); the reconnection ends.
  \<^item> \<open>Streams_Facts\<close>, \<open>Startup_Facts\<close>, \<open>Wiring_Facts\<close>: what the failure of a stream does to the next start,
    and what a server that has started can rely on. \<open>Exchanger_Facts\<close>, \<open>Schemas_Facts\<close>: there is one
    exchanger; filling a message by reflection succeeds for entries of the right types and stores each in its field.

  Several theorems state what the code does although it does not mean to: a reader who changes such code
  will have to change the theorem.

  \<^bold>\<open>Loops and fuel.\<close> The loop that deletes an output makes at most four attempts (\<open>delete_loop 4\<close>, the
  bound of the code). The reconnection makes at most nine (\<open>reconnection_ends\<close>). The wait after sending a test
  net transaction stops with any fuel above 0, since \<open>CheckTx\<close> holds (\<open>sendRawHDTransaction_fuel\<close>). A
  stream's loop takes as many messages as its fuel, and any number may come: the statements about it hold
  for every fuel. All other recursions are structural or have a measure.

  \<^bold>\<open>Not modelled.\<close> Pauses and dialling; the encoding of JSON and of the message queue (a message sent is an entry of
  a list); web-socket frames and the delivery of a push message; the texts of log lines and of times; what
  a configuration file overrides (the read configuration is an argument). A goroutine started by a handler
  runs to its end within it, apart from the routines of the connection pool and the rate feeds, which
  interleave. A handler of a request or of a message is one step, apart from logins in \<open>Logins\<close> and additions of
  spendable outputs in \<open>Outputs\<close>; what handlers read and write in between each other's look-ups and updates
  elsewhere is not covered. A send on the channel of watched addresses (\<open>WatchAddress\<close>), which is
  unbuffered, is an entry of a list and cannot block, and neither can a call of a node service. Of the socket
  library the closing of a connection is modelled; a client that names its own connection identity in an
  open message is one whose identities may be used twice, and the library's own locks are not modelled. A REST handler that panics returns the panic without the
  writes before it. A read of several documents fails before the first of them, and an update at a position
  past the end of a list, which two accounts of the same identity can lead to, does nothing. Structs that
  no code computes on (replies of stocks and of Etherscan) are left out, as are the two look-ups of the
  store on the collection \<open>ethTxHistory\<close>, which is never set and which nothing calls, and \<open>Close\<close>.
\<close>

end
